(* ===== verification/JS_Prelude.thy ===== *)
theory JS_Prelude
  imports Main "HOL-Library.AList"
begin

text \<open>
  The part of JavaScript the broker's sources use, shared by every component theory:
  \<^item> strings (lists of characters; a character is one UTF-16 code unit below 256) with
    the string methods of the language (\<open>split\<close>, \<open>indexOf\<close>, \<open>trim\<close>, \<open>parseInt\<close>, ...);
  \<^item> JSON-like values: a plain object is an association list in key order, \<open>undefined\<close> is
    \<open>None\<close>, and the numbers are integers (the sources compute with no fraction);
  \<^item> lodash's \<open>_.get\<close>, \<open>_.set\<close>, \<open>_.merge\<close>, \<open>_.pick\<close>, \<open>_.omit\<close>, \<open>_.isEmpty\<close> on these values;
  \<^item> promises: a promise is a function of the world that settles with a value or a
    rejection and the next world. \<open>catch_on (then_do p f) c h\<close> is the source's
    \<open>p.then(f).catch(c, h)\<close>. An assertion that fails synchronously is modelled as a
    rejection. \<open>Pending\<close> is the outcome of a polling loop that used up its fuel.
\<close>

declare scomp_apply [simp del]

named_theorems promise_simps \<open>rules that run a promise chain\<close>
named_theorems json_simps \<open>rules that evaluate property access\<close>

section \<open>Strings\<close>

abbreviation chr_code :: "char \<Rightarrow> nat" where
  "chr_code c \<equiv> of_char c"

definition is_digit :: "char \<Rightarrow> bool" where
  "is_digit c \<longleftrightarrow> 48 \<le> chr_code c \<and> chr_code c \<le> 57"

definition is_lower :: "char \<Rightarrow> bool" where
  "is_lower c \<longleftrightarrow> 97 \<le> chr_code c \<and> chr_code c \<le> 122"

definition is_upper :: "char \<Rightarrow> bool" where
  "is_upper c \<longleftrightarrow> 65 \<le> chr_code c \<and> chr_code c \<le> 90"

definition is_space :: "char \<Rightarrow> bool" where
  "is_space c \<longleftrightarrow> chr_code c \<in> {9, 10, 11, 12, 13, 32, 160}"

definition trim_left :: "string \<Rightarrow> string" where
  "trim_left s = dropWhile is_space s"

definition js_trim :: "string \<Rightarrow> string" where
  "js_trim s = rev (trim_left (rev (trim_left s)))"

fun split_on :: "char \<Rightarrow> string \<Rightarrow> string list" where
  "split_on c [] = [[]]"
| "split_on c (x # xs) =
     (if x = c then [] # split_on c xs
      else (case split_on c xs of [] \<Rightarrow> [[x]] | p # ps \<Rightarrow> (x # p) # ps))"

fun js_join :: "string \<Rightarrow> string list \<Rightarrow> string" where
  "js_join sep [] = []"
| "js_join sep [p] = p"
| "js_join sep (p # q # ps) = p @ sep @ js_join sep (q # ps)"

fun is_prefix :: "string \<Rightarrow> string \<Rightarrow> bool" where
  "is_prefix [] s = True"
| "is_prefix (c # cs) [] = False"
| "is_prefix (c # cs) (x # xs) = (c = x \<and> is_prefix cs xs)"

definition ends_with :: "string \<Rightarrow> string \<Rightarrow> bool" where
  "ends_with s suf = is_prefix (rev suf) (rev s)"

text \<open>\<open>s.indexOf(sub)\<close>: \<open>None\<close> for the \<open>-1\<close> of a string that does not contain \<open>sub\<close>.\<close>

fun index_of :: "string \<Rightarrow> string \<Rightarrow> nat option" where
  "index_of sub [] = (if sub = [] then Some 0 else None)"
| "index_of sub (x # xs) =
     (if is_prefix sub (x # xs) then Some 0 else map_option Suc (index_of sub xs))"

definition js_includes :: "string \<Rightarrow> string \<Rightarrow> bool" where
  "js_includes s sub = (index_of sub s \<noteq> None)"

definition digit_char :: "nat \<Rightarrow> char" where
  "digit_char d = char_of (48 + d)"

fun show_nat :: "nat \<Rightarrow> string" where
  "show_nat n = (if n < 10 then [digit_char n] else show_nat (n div 10) @ [digit_char (n mod 10)])"

declare show_nat.simps [simp del]

definition show_int :: "int \<Rightarrow> string" where
  "show_int i = (if i < 0 then ''-'' @ show_nat (nat (- i)) else show_nat (nat i))"

definition digit_val :: "char \<Rightarrow> nat" where
  "digit_val c = chr_code c - 48"

definition dec_val :: "string \<Rightarrow> nat" where
  "dec_val = foldl (\<lambda>acc c. acc * 10 + digit_val c) 0"

definition is_hex :: "char \<Rightarrow> bool" where
  "is_hex c \<longleftrightarrow> is_digit c \<or> 97 \<le> chr_code c \<and> chr_code c \<le> 102 \<or> 65 \<le> chr_code c \<and> chr_code c \<le> 70"

definition hex_digit_val :: "char \<Rightarrow> nat" where
  "hex_digit_val c = (if is_digit c then chr_code c - 48
     else if 97 \<le> chr_code c then chr_code c - 87 else chr_code c - 55)"

definition hex_val :: "string \<Rightarrow> nat" where
  "hex_val = foldl (\<lambda>acc c. acc * 16 + hex_digit_val c) 0"

text \<open>\<open>parseInt(s)\<close>: leading white space, a sign, a \<open>0x\<close> prefix, then the longest run of
  digits; \<open>None\<close> is \<open>NaN\<close>.\<close>

definition parse_unsigned :: "string \<Rightarrow> nat option" where
  "parse_unsigned s =
     (if is_prefix ''0x'' s \<or> is_prefix ''0X'' s
      then (let ds = takeWhile is_hex (drop 2 s) in if ds = [] then None else Some (hex_val ds))
      else (let ds = takeWhile is_digit s in if ds = [] then None else Some (dec_val ds)))"

definition parse_int :: "string \<Rightarrow> int option" where
  "parse_int s =
     (case trim_left s of
        [] \<Rightarrow> None
      | c # cs \<Rightarrow>
          if c = CHR ''-'' then map_option (\<lambda>n. - int n) (parse_unsigned cs)
          else if c = CHR ''+'' then map_option int (parse_unsigned cs)
          else map_option int (parse_unsigned (c # cs)))"

definition squote :: "string \<Rightarrow> string" where
  "squote s = [CHR 0x27] @ s @ [CHR 0x27]"

definition pad_start :: "nat \<Rightarrow> char \<Rightarrow> string \<Rightarrow> string" where
  "pad_start n c s = replicate (n - length s) c @ s"

lemma digit_char_is_digit [simp]: "d < 10 \<Longrightarrow> is_digit (digit_char d)"
  by (simp add: is_digit_def digit_char_def)

lemma digit_val_digit_char [simp]: "d < 10 \<Longrightarrow> digit_val (digit_char d) = d"
  by (simp add: digit_val_def digit_char_def)

lemma show_nat_digits: "\<forall>c \<in> set (show_nat n). is_digit c"
proof (induction n rule: show_nat.induct)
  case (1 n)
  then show ?case by (subst show_nat.simps) auto
qed

lemma show_nat_not_Nil [simp]: "show_nat n \<noteq> []"
  by (subst show_nat.simps) simp

text \<open>The same on integers: kernel evaluation keeps them in binary.\<close>

function show_pos :: "int \<Rightarrow> string" where
  "show_pos i = (if i < 10 then [digit_char (nat i)] else show_pos (i div 10) @ [digit_char (nat (i mod 10))])"
  by pat_completeness auto
termination
  by (relation "measure nat") auto

declare show_pos.simps [simp del]

lemma show_pos_nat: "0 \<le> i \<Longrightarrow> show_pos i = show_nat (nat i)"
proof (induction i rule: show_pos.induct)
  case (1 i)
  then show ?case
    by (subst show_pos.simps, subst show_nat.simps) (auto simp: nat_div_distrib nat_mod_distrib)
qed

lemma show_int_code [code]: "show_int i = (if i < 0 then ''-'' @ show_pos (- i) else show_pos i)"
  by (simp add: show_int_def show_pos_nat)

lemma dec_val_snoc: "dec_val (s @ [c]) = dec_val s * 10 + digit_val c"
  by (simp add: dec_val_def)

lemma dec_val_show_nat [simp]: "dec_val (show_nat n) = n"
proof (induction n rule: show_nat.induct)
  case (1 n)
  show ?case
  proof (cases "n < 10")
    case True
    then show ?thesis by (subst show_nat.simps) (simp add: dec_val_def)
  next
    case False
    with 1 show ?thesis by (subst show_nat.simps) (simp add: dec_val_snoc)
  qed
qed

lemma dec_val_zeros [simp]: "dec_val (replicate k (CHR ''0'') @ s) = dec_val s"
proof (induction k)
  case 0
  then show ?case by simp
next
  case (Suc k)
  have "dec_val (CHR ''0'' # replicate k (CHR ''0'') @ s) = dec_val (replicate k (CHR ''0'') @ s)"
    by (simp add: dec_val_def digit_val_def)
  with Suc show ?case by simp
qed

lemma is_prefix_append [simp]: "is_prefix p (p @ s)"
  by (induction p) auto

lemma is_prefix_take: "is_prefix p s \<longleftrightarrow> take (length p) s = p"
  by (induction p s rule: is_prefix.induct) auto

lemma ends_with_iff: "ends_with s suf \<longleftrightarrow> (\<exists>p. s = p @ suf)"
proof
  assume "ends_with s suf"
  then have "take (length suf) (rev s) = rev suf"
    by (simp add: ends_with_def is_prefix_take)
  then have "rev s = rev suf @ drop (length suf) (rev s)"
    by (metis append_take_drop_id)
  then have "s = rev (drop (length suf) (rev s)) @ suf"
    by (metis rev_append rev_rev_ident)
  then show "\<exists>p. s = p @ suf" ..
next
  assume "\<exists>p. s = p @ suf"
  then show "ends_with s suf" by (auto simp: ends_with_def)
qed

lemma split_on_not_Nil [simp]: "split_on c s \<noteq> []"
  by (induction s) (auto split: list.splits)

lemma split_on_single: "c \<notin> set s \<Longrightarrow> split_on c s = [s]"
  by (induction s) auto

lemma split_on_append: "c \<notin> set p \<Longrightarrow> split_on c (p @ c # s) = p # split_on c s"
  by (induction p) auto

lemma js_join_split_on: "js_join [c] (split_on c s) = s"
proof (induction s)
  case Nil
  then show ?case by simp
next
  case (Cons x s)
  then show ?case
    by (cases "split_on c s"; cases "tl (split_on c s)") auto
qed

lemma split_on_join:
  "ps \<noteq> [] \<Longrightarrow> list_all (\<lambda>p. c \<notin> set p) ps \<Longrightarrow> split_on c (js_join [c] ps) = ps"
  by (induction "[c]" ps rule: js_join.induct) (simp_all add: split_on_single split_on_append)

lemma parse_digits:
  assumes "list_all is_digit s" "s \<noteq> []"
  shows "parse_int s = Some (int (dec_val s))"
proof -
  obtain c cs where s: "s = c # cs" using assms(2) by (cases s) auto
  have c: "is_digit c" using assms(1) s by simp
  then have "\<not> is_space c" "c \<noteq> CHR ''-''" "c \<noteq> CHR ''+''" by (auto simp: is_digit_def is_space_def)
  moreover have tw: "takeWhile is_digit s = s" using assms(1) by (simp add: list_all_iff takeWhile_eq_all_conv)
  moreover have "\<not> is_prefix ''0x'' s \<and> \<not> is_prefix ''0X'' s"
    using assms(1) s by (cases cs) (auto simp: is_digit_def)
  ultimately have "parse_unsigned s = Some (dec_val s)" using assms(2)
    by (simp add: parse_unsigned_def Let_def tw del: takeWhile_eq_all_conv)
  with s \<open>\<not> is_space c\<close> \<open>c \<noteq> CHR ''-''\<close> \<open>c \<noteq> CHR ''+''\<close> show ?thesis
    by (simp add: parse_int_def trim_left_def)
qed

section \<open>Values\<close>

datatype json =
    JNull
  | JBool bool
  | JNum int
  | JStr string
  | JArr "json list"
  | JObj "(string \<times> json) list"

type_synonym fields = "(string \<times> json) list"
type_synonym jsval = "json option"

fun truthy :: "jsval \<Rightarrow> bool" where
  "truthy None = False"
| "truthy (Some JNull) = False"
| "truthy (Some (JBool b)) = b"
| "truthy (Some (JNum n)) = (n \<noteq> 0)"
| "truthy (Some (JStr s)) = (s \<noteq> [])"
| "truthy (Some (JArr _)) = True"
| "truthy (Some (JObj _)) = True"

text \<open>\<open>_.isEmpty\<close>: a number or a boolean is empty, too.\<close>

fun is_empty :: "jsval \<Rightarrow> bool" where
  "is_empty (Some (JStr s)) = (s = [])"
| "is_empty (Some (JArr xs)) = (xs = [])"
| "is_empty (Some (JObj fs)) = (fs = [])"
| "is_empty _ = True"

text \<open>\<open>a || b\<close> on values.\<close>

definition or_else :: "jsval \<Rightarrow> jsval \<Rightarrow> jsval" where
  "or_else a b = (if truthy a then a else b)"

fun is_object :: "json \<Rightarrow> bool" where
  "is_object (JArr _) = True"
| "is_object (JObj _) = True"
| "is_object _ = False"

fun fields_of :: "jsval \<Rightarrow> fields" where
  "fields_of (Some (JObj fs)) = fs"
| "fields_of _ = []"

fun elems_of :: "jsval \<Rightarrow> json list" where
  "elems_of (Some (JArr xs)) = xs"
| "elems_of _ = []"

fun jprop :: "json \<Rightarrow> string \<Rightarrow> jsval" where
  "jprop (JObj fs) k = map_of fs k"
| "jprop _ k = None"

text \<open>\<open>_.get(v, path)\<close>; \<open>jget_default\<close> is its form with a default, taken for \<open>undefined\<close> only.\<close>

fun jget :: "jsval \<Rightarrow> string list \<Rightarrow> jsval" where
  "jget v [] = v"
| "jget None (k # ks) = None"
| "jget (Some j) (k # ks) = jget (jprop j k) ks"

definition jget_default :: "jsval \<Rightarrow> string list \<Rightarrow> json \<Rightarrow> json" where
  "jget_default v path d = (case jget v path of None \<Rightarrow> d | Some x \<Rightarrow> x)"

text \<open>An object literal; a property whose value is \<open>undefined\<close> is left out.\<close>

definition obj :: "(string \<times> jsval) list \<Rightarrow> json" where
  "obj kvs = JObj (List.map_filter (\<lambda>(k, v). map_option (Pair k) v) kvs)"

text \<open>\<open>o.k = v\<close> and \<open>_.set(o, path, v)\<close>.\<close>

fun jput :: "string \<Rightarrow> json \<Rightarrow> json \<Rightarrow> json" where
  "jput k v (JObj fs) = JObj (AList.update k v fs)"
| "jput k v j = JObj [(k, v)]"

fun jset :: "string list \<Rightarrow> json \<Rightarrow> json \<Rightarrow> json" where
  "jset [] v j = v"
| "jset (k # ks) v j = jput k (jset ks v (case jprop j k of None \<Rightarrow> JObj [] | Some x \<Rightarrow> x)) j"

definition jpick :: "string list \<Rightarrow> json \<Rightarrow> json" where
  "jpick ks j = JObj (filter (\<lambda>(k, _). k \<in> set ks) (fields_of (Some j)))"

definition jomit :: "string list \<Rightarrow> json \<Rightarrow> json" where
  "jomit ks j = JObj (filter (\<lambda>(k, _). k \<notin> set ks) (fields_of (Some j)))"

text \<open>\<open>_.merge(a, b)\<close>: objects and arrays deeply, any other source value replaces.\<close>

function jmerge :: "json \<Rightarrow> json \<Rightarrow> json"
  and merge_fields :: "fields \<Rightarrow> fields \<Rightarrow> fields"
  and merge_elems :: "json list \<Rightarrow> json list \<Rightarrow> json list" where
  "jmerge a b =
     (case (a, b) of
        (JObj fs, JObj gs) \<Rightarrow> JObj (merge_fields fs gs)
      | (JArr xs, JArr ys) \<Rightarrow> JArr (merge_elems xs ys)
      | _ \<Rightarrow> b)"
| "merge_fields fs [] = fs"
| "merge_fields fs ((k, v) # gs) =
     merge_fields (AList.update k (case map_of fs k of None \<Rightarrow> v | Some u \<Rightarrow> jmerge u v) fs) gs"
| "merge_elems xs [] = xs"
| "merge_elems [] (y # ys) = y # merge_elems [] ys"
| "merge_elems (x # xs) (y # ys) = jmerge x y # merge_elems xs ys"
  by pat_completeness auto
termination
  by (relation "measure (\<lambda>x. case x of Inl (a, b) \<Rightarrow> Suc (2 * size b)
        | Inr (Inl (fs, gs)) \<Rightarrow> 2 * size_list (size_prod (\<lambda>_. 0) size) gs
        | Inr (Inr (xs, ys)) \<Rightarrow> 2 * size_list size ys)") auto

declare jmerge.simps [simp del]

definition jmerge_opt :: "jsval \<Rightarrow> json \<Rightarrow> json" where
  "jmerge_opt a b = (case a of None \<Rightarrow> b | Some u \<Rightarrow> jmerge u b)"

lemma prop_obj_Cons [json_simps]:
  "jprop (obj ((k, v) # kvs)) k' = (if k = k' \<and> v \<noteq> None then v else jprop (obj kvs) k')"
  by (cases v) (auto simp: obj_def List.map_filter_simps)

lemma prop_obj_Nil [json_simps]: "jprop (obj []) k = None"
  by (simp add: obj_def List.map_filter_simps)

lemma prop_jput [json_simps]: "jprop (jput k v j) k' = (if k' = k then Some v else jprop j k')"
  by (cases j) (auto simp: update_conv)

lemma map_of_filter_key: "map_of (filter (\<lambda>(k, _). P k) fs) k = (if P k then map_of fs k else None)"
  by (induction fs) auto

lemma prop_jpick [json_simps]:
  "jprop (jpick ks (JObj fs)) k = (if k \<in> set ks then map_of fs k else None)"
  by (simp add: jpick_def map_of_filter_key [of "\<lambda>k. k \<in> set ks"])

lemma prop_jomit [json_simps]:
  "jprop (jomit ks (JObj fs)) k = (if k \<in> set ks then None else map_of fs k)"
  by (simp add: jomit_def map_of_filter_key [of "\<lambda>k. k \<notin> set ks"])

lemma jget_append: "jget v (ks @ ls) = jget (jget v ks) ls"
proof (induction v ks rule: jget.induct)
  case (2 k ks)
  then show ?case by (cases ls) auto
qed auto

lemma jget_None [simp]: "jget None ks = None"
  by (cases ks) auto

lemma jget_jset: "jget (Some (jset ks v j)) ks = Some v"
proof (induction ks arbitrary: j)
  case Nil
  then show ?case by simp
next
  case (Cons k ks)
  then show ?case by (cases j) (auto simp: update_conv)
qed

lemma merge_fields_other:
  "k \<notin> fst ` set gs \<Longrightarrow> map_of (merge_fields fs gs) k = map_of fs k"
proof (induction gs arbitrary: fs)
  case Nil
  then show ?case by simp
next
  case (Cons g gs)
  obtain k' v where g: "g = (k', v)" by (cases g)
  with Cons.prems have "k \<noteq> k'" "k \<notin> fst ` set gs" by auto
  then show ?case by (simp add: g Cons.IH update_conv)
qed

lemma merge_fields_primitive:
  assumes "distinct (map fst gs)" and "map_of gs k = Some v" and "\<not> is_object v"
  shows "map_of (merge_fields fs gs) k = Some v"
  using assms
proof (induction gs arbitrary: fs)
  case Nil
  then show ?case by simp
next
  case (Cons g gs)
  obtain k' u where g: "g = (k', u)" by (cases g)
  show ?case
  proof (cases "k' = k")
    case True
    with Cons.prems g have "u = v" "k \<notin> fst ` set gs" by auto
    moreover have "jmerge x v = v" for x
      using Cons.prems(3) by (cases v; cases x) (simp_all add: jmerge.simps)
    ultimately show ?thesis
      by (auto simp: g True merge_fields_other update_conv split: option.splits)
  next
    case False
    with Cons g show ?thesis by auto
  qed
qed

section \<open>Promises\<close>

datatype ('e, 'a) outcome = Resolved 'a | Rejected 'e | Pending

type_synonym ('w, 'e, 'a) promise = "'w \<Rightarrow> ('e, 'a) outcome \<times> 'w"

definition resolve :: "'a \<Rightarrow> ('w, 'e, 'a) promise" where
  "resolve x w = (Resolved x, w)"

definition reject :: "'e \<Rightarrow> ('w, 'e, 'a) promise" where
  "reject e w = (Rejected e, w)"

definition pending :: "('w, 'e, 'a) promise" where
  "pending w = (Pending, w)"

fun and_then :: "('a \<Rightarrow> ('w, 'e, 'b) promise) \<Rightarrow> ('e, 'a) outcome \<Rightarrow> ('w, 'e, 'b) promise" where
  "and_then f (Resolved x) = f x"
| "and_then f (Rejected e) = reject e"
| "and_then f Pending = pending"

fun catch :: "('e \<Rightarrow> bool) \<Rightarrow> ('e \<Rightarrow> ('w, 'e, 'a) promise) \<Rightarrow> ('e, 'a) outcome \<Rightarrow> ('w, 'e, 'a) promise" where
  "catch c h (Resolved x) = resolve x"
| "catch c h (Rejected e) = (if c e then h e else reject e)"
| "catch c h Pending = pending"

text \<open>The methods of a promise with the receiver first: \<open>p.then(f)\<close>, \<open>p.catch(c, h)\<close>, \<open>p.tap(f)\<close> and
  \<open>p.finally(m)\<close>.\<close>

abbreviation then_do :: "('w, 'e, 'a) promise \<Rightarrow> ('a \<Rightarrow> ('w, 'e, 'b) promise) \<Rightarrow> ('w, 'e, 'b) promise" where
  "then_do p f \<equiv> scomp p (and_then f)"

abbreviation catch_on :: "('w, 'e, 'a) promise \<Rightarrow> ('e \<Rightarrow> bool) \<Rightarrow> ('e \<Rightarrow> ('w, 'e, 'a) promise) \<Rightarrow> ('w, 'e, 'a) promise" where
  "catch_on p c h \<equiv> scomp p (catch c h)"

definition tap :: "('a \<Rightarrow> ('w, 'e, 'b) promise) \<Rightarrow> ('e, 'a) outcome \<Rightarrow> ('w, 'e, 'a) promise" where
  "tap f = and_then (\<lambda>x. then_do (f x) (\<lambda>_. resolve x))"

fun and_finally :: "('w, 'e, 'b) promise \<Rightarrow> ('e, 'a) outcome \<Rightarrow> ('w, 'e, 'a) promise" where
  "and_finally m Pending = pending"
| "and_finally m (Resolved x) = then_do m (\<lambda>_. resolve x)"
| "and_finally m (Rejected e) = then_do m (\<lambda>_. reject e)"

abbreviation tap_do :: "('w, 'e, 'a) promise \<Rightarrow> ('a \<Rightarrow> ('w, 'e, 'b) promise) \<Rightarrow> ('w, 'e, 'a) promise" where
  "tap_do p f \<equiv> scomp p (tap f)"

abbreviation finally_do :: "('w, 'e, 'a) promise \<Rightarrow> ('w, 'e, 'b) promise \<Rightarrow> ('w, 'e, 'a) promise" where
  "finally_do p m \<equiv> scomp p (and_finally m)"

definition any_error :: "'e \<Rightarrow> bool" where
  "any_error e = True"

definition assert_ok :: "bool \<Rightarrow> 'e \<Rightarrow> ('w, 'e, unit) promise" where
  "assert_ok b e = (if b then resolve () else reject e)"

text \<open>Reading the world: a synchronous read such as \<open>new Date()\<close> at that point of the chain.\<close>

definition ask :: "('w \<Rightarrow> 'a) \<Rightarrow> ('w, 'e, 'a) promise" where
  "ask f w = (Resolved (f w), w)"

definition effect :: "('w \<Rightarrow> 'w) \<Rightarrow> ('w, 'e, unit) promise" where
  "effect f w = (Resolved (), f w)"

lemma scomp_run [promise_simps]: "(scomp p k) w = (case p w of (r, w') \<Rightarrow> k r w')"
  by (simp add: scomp_unfold split: prod.split)

lemma resolve_run [promise_simps]: "resolve x w = (Resolved x, w)"
  by (simp add: resolve_def)

lemma reject_run [promise_simps]: "reject e w = (Rejected e, w)"
  by (simp add: reject_def)

lemma pending_run [promise_simps]: "pending w = (Pending, w)"
  by (simp add: pending_def)

lemma ask_run [promise_simps]: "ask f w = (Resolved (f w), w)"
  by (simp add: ask_def)

lemma effect_run [promise_simps]: "effect f w = (Resolved (), f w)"
  by (simp add: effect_def)

lemma tap_run [promise_simps]:
  "tap f (Resolved x) = then_do (f x) (\<lambda>_. resolve x)"
  "tap f (Rejected e) = reject e"
  "tap f Pending = pending"
  by (simp_all add: tap_def fun_eq_iff scomp_run)

lemma any_error_True [promise_simps, simp]: "any_error e"
  by (simp add: any_error_def)

lemma and_then_resolve: "then_do p resolve = p"
proof
  fix w
  show "(then_do p resolve) w = p w"
    by (cases "p w"; cases "fst (p w)") (auto simp: promise_simps)
qed

lemma and_then_assoc: "then_do (then_do p f) g = then_do p (\<lambda>x. then_do (f x) g)"
proof
  fix w
  show "(then_do (then_do p f) g) w = (then_do p (\<lambda>x. then_do (f x) g)) w"
    by (cases "p w"; cases "fst (p w)") (auto simp: promise_simps)
qed

text \<open>The outcome of a chain traced back to the outcomes of its parts.\<close>

named_theorems promise_iffs \<open>inversion of promise chains\<close>

lemma resolve_iffs [promise_iffs]:
  "resolve x w = (Resolved y, w') \<longleftrightarrow> y = x \<and> w' = w"
  "resolve x w = (Rejected e, w') \<longleftrightarrow> False"
  "resolve x w = (Pending, w') \<longleftrightarrow> False"
  by (auto simp: resolve_def)

lemma reject_iffs [promise_iffs]:
  "reject e w = (Resolved y, w') \<longleftrightarrow> False"
  "reject e w = (Rejected e', w') \<longleftrightarrow> e' = e \<and> w' = w"
  "reject e w = (Pending, w') \<longleftrightarrow> False"
  by (auto simp: reject_def)

lemma pending_iffs [promise_iffs]:
  "pending w = (Resolved y, w') \<longleftrightarrow> False"
  "pending w = (Rejected e, w') \<longleftrightarrow> False"
  "pending w = (Pending, w') \<longleftrightarrow> w' = w"
  by (auto simp: pending_def)

lemma and_then_Resolved_iff [promise_iffs]:
  "(then_do p f) w = (Resolved y, w') \<longleftrightarrow> (\<exists>x w1. p w = (Resolved x, w1) \<and> f x w1 = (Resolved y, w'))"
  by (cases "p w"; cases "fst (p w)") (auto simp: promise_simps)

lemma and_then_Rejected_iff [promise_iffs]:
  "(then_do p f) w = (Rejected e, w') \<longleftrightarrow>
     p w = (Rejected e, w') \<or> (\<exists>x w1. p w = (Resolved x, w1) \<and> f x w1 = (Rejected e, w'))"
  by (cases "p w"; cases "fst (p w)") (auto simp: promise_simps)

lemma and_then_Pending_iff [promise_iffs]:
  "(then_do p f) w = (Pending, w') \<longleftrightarrow>
     p w = (Pending, w') \<or> (\<exists>x w1. p w = (Resolved x, w1) \<and> f x w1 = (Pending, w'))"
  by (cases "p w"; cases "fst (p w)") (auto simp: promise_simps)

lemma catch_Resolved_iff [promise_iffs]:
  "(catch_on p c h) w = (Resolved y, w') \<longleftrightarrow>
     p w = (Resolved y, w') \<or> (\<exists>e w1. p w = (Rejected e, w1) \<and> c e \<and> h e w1 = (Resolved y, w'))"
  by (cases "p w"; cases "fst (p w)") (auto simp: promise_simps)

lemma catch_Rejected_iff [promise_iffs]:
  "(catch_on p c h) w = (Rejected e', w') \<longleftrightarrow>
     (\<exists>e w1. p w = (Rejected e, w1) \<and> (if c e then h e w1 = (Rejected e', w') else e' = e \<and> w' = w1))"
  by (cases "p w"; cases "fst (p w)") (auto simp: promise_simps)

lemma catch_Pending_iff [promise_iffs]:
  "(catch_on p c h) w = (Pending, w') \<longleftrightarrow>
     p w = (Pending, w') \<or> (\<exists>e w1. p w = (Rejected e, w1) \<and> c e \<and> h e w1 = (Pending, w'))"
  by (cases "p w"; cases "fst (p w)") (auto simp: promise_simps)

lemma ask_iffs [promise_iffs]:
  "ask f w = (Resolved y, w') \<longleftrightarrow> y = f w \<and> w' = w"
  "ask f w = (Rejected e, w') \<longleftrightarrow> False"
  "ask f w = (Pending, w') \<longleftrightarrow> False"
  by (auto simp: ask_def)

lemma effect_iffs [promise_iffs]:
  "effect g w = (Resolved u, w') \<longleftrightarrow> w' = g w"
  "effect g w = (Rejected e, w') \<longleftrightarrow> False"
  "effect g w = (Pending, w') \<longleftrightarrow> False"
  by (auto simp: effect_def)

lemma assert_ok_iffs [promise_iffs]:
  "assert_ok b e w = (Resolved u, w') \<longleftrightarrow> b \<and> w' = w"
  "assert_ok b e w = (Rejected e', w') \<longleftrightarrow> \<not> b \<and> e' = e \<and> w' = w"
  "assert_ok b e w = (Pending, w') \<longleftrightarrow> False"
  by (auto simp: assert_ok_def promise_iffs)

text \<open>An operation of a component that keeps state of its own beside the world.\<close>

definition on_world :: "('w, 'e, 'a) promise \<Rightarrow> ('w \<times> 's, 'e, 'a) promise" where
  "on_world p ws = (case ws of (w, s) \<Rightarrow> (case p w of (r, w') \<Rightarrow> (r, (w', s))))"

definition on_state :: "('s \<Rightarrow> 's) \<Rightarrow> ('w \<times> 's, 'e, unit) promise" where
  "on_state f = effect (\<lambda>(w, s). (w, f s))"

lemma on_world_iff [promise_iffs]: "on_world p (w, s) = (r, (w', s')) \<longleftrightarrow> p w = (r, w') \<and> s' = s"
  by (auto simp: on_world_def split: prod.splits)

lemma on_world_run [promise_simps]: "on_world p (w, s) = (fst (p w), (snd (p w), s))"
  by (simp add: on_world_def split: prod.splits)

lemma on_state_run [promise_simps]: "on_state f (w, s) = (Resolved (), (w, f s))"
  by (simp add: on_state_def promise_simps)

end
