(* ===== verification/JSON_Text.thy ===== *)
theory JSON_Text
  imports JS_Prelude
begin

text \<open>
  The text formats the broker exchanges values in, which are part of the language's
  run-time: \<open>JSON.stringify\<close> and \<open>JSON.parse\<close>, UTF-8 and base64 as \<open>Buffer\<close> does them, and
  the two functions of \<open>commonFunctions.js\<close> built from them, \<open>encodeBase64\<close> and \<open>decodeBase64\<close>.
  The main results are the round trips \<open>parse_stringify\<close> and \<open>decode_encode\<close>.
  The parser takes fuel; one unit per character is enough (\<open>parse_val_stringify\<close>).
  Number texts with a fraction or an exponent and code units above 255 are outside the model.
\<close>

section \<open>Printing\<close>

definition hex_char :: "nat \<Rightarrow> char" where
  "hex_char d = (if d < 10 then char_of (48 + d) else char_of (87 + d))"

definition escape_char :: "char \<Rightarrow> string" where
  "escape_char c =
     (let n = chr_code c in
      if n = 34 then [CHR 0x5C, CHR 0x22]
      else if n = 92 then [CHR 0x5C, CHR 0x5C]
      else if n = 8 then [CHR 0x5C, CHR ''b'']
      else if n = 9 then [CHR 0x5C, CHR ''t'']
      else if n = 10 then [CHR 0x5C, CHR ''n'']
      else if n = 12 then [CHR 0x5C, CHR ''f'']
      else if n = 13 then [CHR 0x5C, CHR ''r'']
      else if n < 32 then [CHR 0x5C, CHR ''u'', CHR ''0'', CHR ''0'', hex_char (n div 16), hex_char (n mod 16)]
      else [c])"

definition quote :: "string \<Rightarrow> string" where
  "quote s = [CHR 0x22] @ concat (map escape_char s) @ [CHR 0x22]"

fun stringify :: "json \<Rightarrow> string" where
  "stringify JNull = ''null''"
| "stringify (JBool b) = (if b then ''true'' else ''false'')"
| "stringify (JNum n) = show_int n"
| "stringify (JStr s) = quote s"
| "stringify (JArr xs) = ''['' @ js_join '','' (map stringify xs) @ '']''"
| "stringify (JObj fs) = ''{'' @ js_join '','' (map (\<lambda>(k, v). quote k @ '':'' @ stringify v) fs) @ ''}''"

section \<open>Parsing\<close>

definition json_space :: "char \<Rightarrow> bool" where
  "json_space c \<longleftrightarrow> chr_code c \<in> {9, 10, 13, 32}"

definition skip_ws :: "string \<Rightarrow> string" where
  "skip_ws s = dropWhile json_space s"

definition unescape :: "char \<Rightarrow> char option" where
  "unescape e =
     (if e = CHR 0x22 \<or> e = CHR 0x5C \<or> e = CHR ''/'' then Some e
      else if e = CHR ''b'' then Some (CHR 0x08)
      else if e = CHR ''t'' then Some (CHR 0x09)
      else if e = CHR ''n'' then Some (CHR 0x0A)
      else if e = CHR ''f'' then Some (CHR 0x0C)
      else if e = CHR ''r'' then Some (CHR 0x0D)
      else None)"

text \<open>The rest of a string literal after its opening quote.\<close>

fun parse_str :: "string \<Rightarrow> (string \<times> string) option" where
  "parse_str [] = None"
| "parse_str (c # cs) =
     (if c = CHR 0x22 then Some ([], cs)
      else if c = CHR 0x5C then
        (case cs of
           [] \<Rightarrow> None
         | e # r \<Rightarrow>
             (case unescape e of
                Some d \<Rightarrow> map_option (\<lambda>(s, r'). (d # s, r')) (parse_str r)
              | None \<Rightarrow>
                  if e = CHR ''u'' \<and> 4 \<le> length r \<and> list_all is_hex (take 4 r) \<and> hex_val (take 4 r) < 256
                  then map_option (\<lambda>(s, r'). (char_of (hex_val (take 4 r)) # s, r')) (parse_str (drop 4 r))
                  else None))
      else if chr_code c < 32 then None
      else map_option (\<lambda>(s, r). (c # s, r)) (parse_str cs))"

definition parse_digits :: "string \<Rightarrow> (nat \<times> string) option" where
  "parse_digits s =
     (let ds = takeWhile is_digit s; r = dropWhile is_digit s in
      if ds = [] \<or> (hd ds = CHR ''0'' \<and> tl ds \<noteq> [])
         \<or> (r \<noteq> [] \<and> hd r \<in> {CHR ''.'', CHR ''e'', CHR ''E''})
      then None else Some (dec_val ds, r))"

fun parse_lit :: "(string \<times> json) list \<Rightarrow> string \<Rightarrow> (json \<times> string) option" where
  "parse_lit [] s = None"
| "parse_lit ((t, v) # ls) s = (if is_prefix t s then Some (v, drop (length t) s) else parse_lit ls s)"

text \<open>A repeated key keeps its first position and its last value.\<close>

definition obj_of_members :: "(string \<times> json) list \<Rightarrow> json" where
  "obj_of_members kvs = JObj (foldl (\<lambda>fs (k, v). AList.update k v fs) [] kvs)"

fun parse_val :: "nat \<Rightarrow> string \<Rightarrow> (json \<times> string) option"
  and parse_elems :: "nat \<Rightarrow> string \<Rightarrow> (json list \<times> string) option"
  and parse_members :: "nat \<Rightarrow> string \<Rightarrow> ((string \<times> json) list \<times> string) option" where
  "parse_val 0 s = None"
| "parse_val (Suc n) s =
     (case skip_ws s of
        [] \<Rightarrow> None
      | c # cs \<Rightarrow>
          if c = CHR 0x22 then map_option (\<lambda>(t, r). (JStr t, r)) (parse_str cs)
          else if c = CHR ''['' then
            (if skip_ws cs \<noteq> [] \<and> hd (skip_ws cs) = CHR '']'' then Some (JArr [], tl (skip_ws cs))
             else map_option (\<lambda>(vs, r). (JArr vs, r)) (parse_elems n cs))
          else if c = CHR ''{'' then
            (if skip_ws cs \<noteq> [] \<and> hd (skip_ws cs) = CHR ''}'' then Some (JObj [], tl (skip_ws cs))
             else map_option (\<lambda>(kvs, r). (obj_of_members kvs, r)) (parse_members n cs))
          else if c = CHR ''-'' then map_option (\<lambda>(k, r). (JNum (- int k), r)) (parse_digits cs)
          else if is_digit c then map_option (\<lambda>(k, r). (JNum (int k), r)) (parse_digits (c # cs))
          else parse_lit [(''null'', JNull), (''true'', JBool True), (''false'', JBool False)] (c # cs))"
| "parse_elems 0 s = None"
| "parse_elems (Suc n) s =
     (case parse_val n s of
        None \<Rightarrow> None
      | Some (v, r) \<Rightarrow>
          (case skip_ws r of
             [] \<Rightarrow> None
           | c # r' \<Rightarrow>
               if c = CHR '','' then map_option (\<lambda>(vs, q). (v # vs, q)) (parse_elems n r')
               else if c = CHR '']'' then Some ([v], r') else None))"
| "parse_members 0 s = None"
| "parse_members (Suc n) s =
     (case skip_ws s of
        [] \<Rightarrow> None
      | q # cs \<Rightarrow>
          if q \<noteq> CHR 0x22 then None
          else (case parse_str cs of
             None \<Rightarrow> None
           | Some (k, r) \<Rightarrow>
               (case skip_ws r of
                  [] \<Rightarrow> None
                | c # r' \<Rightarrow>
                    if c \<noteq> CHR '':'' then None
                    else (case parse_val n r' of
                       None \<Rightarrow> None
                     | Some (v, r2) \<Rightarrow>
                         (case skip_ws r2 of
                            [] \<Rightarrow> None
                          | d # r3 \<Rightarrow>
                              if d = CHR '','' then map_option (\<lambda>(kvs, q). ((k, v) # kvs, q)) (parse_members n r3)
                              else if d = CHR ''}'' then Some ([(k, v)], r3) else None)))))"

definition json_parse :: "string \<Rightarrow> json option" where
  "json_parse s =
     (case parse_val (Suc (length s)) s of
        Some (v, r) \<Rightarrow> if skip_ws r = [] then Some v else None
      | None \<Rightarrow> None)"

text \<open>The conversion to a string that \<open>JSON.parse\<close> applies to an argument that is none.\<close>

fun to_js_string :: "json \<Rightarrow> string" where
  "to_js_string JNull = ''null''"
| "to_js_string (JBool b) = (if b then ''true'' else ''false'')"
| "to_js_string (JNum n) = show_int n"
| "to_js_string (JStr s) = s"
| "to_js_string (JArr xs) = js_join '','' (map (\<lambda>x. if x = JNull then [] else to_js_string x) xs)"
| "to_js_string (JObj fs) = ''[object Object]''"

definition parse_arg :: "json \<Rightarrow> json option" where
  "parse_arg v = json_parse (to_js_string v)"

section \<open>Base64\<close>

definition b64_alphabet :: string where
  "b64_alphabet = ''ABCDEFGHIJKLMNOPQRSTUVWXYZabcdefghijklmnopqrstuvwxyz0123456789+/''"

definition b64_char :: "nat \<Rightarrow> char" where
  "b64_char i = b64_alphabet ! i"

text \<open>\<open>Buffer\<close> reads the URL-safe alphabet as well and skips other characters.\<close>

definition b64_val :: "char \<Rightarrow> nat option" where
  "b64_val c =
     (if is_upper c then Some (chr_code c - 65)
      else if is_lower c then Some (chr_code c - 71)
      else if is_digit c then Some (chr_code c + 4)
      else if c = CHR ''+'' \<or> c = CHR ''-'' then Some 62
      else if c = CHR ''/'' \<or> c = CHR ''_'' then Some 63
      else None)"

fun b64_encode :: "nat list \<Rightarrow> string" where
  "b64_encode [] = []"
| "b64_encode [a] = [b64_char (a div 4), b64_char (a mod 4 * 16), CHR ''='', CHR ''='']"
| "b64_encode [a, b] =
     [b64_char (a div 4), b64_char (a mod 4 * 16 + b div 16), b64_char (b mod 16 * 4), CHR ''='']"
| "b64_encode (a # b # c # bs) =
     [b64_char (a div 4), b64_char (a mod 4 * 16 + b div 16), b64_char (b mod 16 * 4 + c div 64),
      b64_char (c mod 64)] @ b64_encode bs"

fun b64_bytes :: "nat list \<Rightarrow> nat list" where
  "b64_bytes (p # q # r # s # ss) =
     [p * 4 + q div 16, q mod 16 * 16 + r div 4, r mod 4 * 64 + s] @ b64_bytes ss"
| "b64_bytes [p, q, r] = [p * 4 + q div 16, q mod 16 * 16 + r div 4]"
| "b64_bytes [p, q] = [p * 4 + q div 16]"
| "b64_bytes _ = []"

definition b64_decode :: "string \<Rightarrow> nat list" where
  "b64_decode s = b64_bytes (List.map_filter b64_val (takeWhile (\<lambda>c. c \<noteq> CHR ''='') s))"

definition utf8_encode :: "string \<Rightarrow> nat list" where
  "utf8_encode s = concat (map (\<lambda>c. let n = chr_code c in
     if n < 128 then [n] else [192 + n div 64, 128 + n mod 64]) s)"

fun utf8_decode :: "nat list \<Rightarrow> string option" where
  "utf8_decode [] = Some []"
| "utf8_decode (b # bs) =
     (if b < 128 then map_option (Cons (char_of b)) (utf8_decode bs)
      else (case bs of
         [] \<Rightarrow> None
       | b' # bs' \<Rightarrow>
           if (b = 194 \<or> b = 195) \<and> 128 \<le> b' \<and> b' < 192
           then map_option (Cons (char_of ((b - 192) * 64 + (b' - 128)))) (utf8_decode bs')
           else None))"

definition encodeBase64 :: "json \<Rightarrow> string" where
  "encodeBase64 v = b64_encode (utf8_encode (stringify v))"

text \<open>\<open>None\<close> is the \<open>SyntaxError\<close> that \<open>JSON.parse\<close> throws.\<close>

definition decodeBase64 :: "string \<Rightarrow> json option" where
  "decodeBase64 s = (case utf8_decode (b64_decode s) of None \<Rightarrow> None | Some t \<Rightarrow> json_parse t)"

section \<open>Round trips\<close>

text \<open>A value an object of the language can have: no key twice.\<close>

fun json_wf :: "json \<Rightarrow> bool" where
  "json_wf (JArr xs) = (\<forall>x \<in> set xs. json_wf x)"
| "json_wf (JObj fs) = (distinct (map fst fs) \<and> (\<forall>p \<in> set fs. json_wf (snd p)))"
| "json_wf _ = True"

lemma hex_digit_val_hex_char [simp]: "d < 16 \<Longrightarrow> hex_digit_val (hex_char d) = d"
  by (auto simp: hex_digit_val_def hex_char_def is_digit_def)

lemma is_hex_hex_char [simp]: "d < 16 \<Longrightarrow> is_hex (hex_char d)"
  by (auto simp: is_hex_def hex_char_def is_digit_def)

lemma hex_val_00: "a < 16 \<Longrightarrow> b < 16 \<Longrightarrow> hex_val [CHR ''0'', CHR ''0'', hex_char a, hex_char b] = a * 16 + b"
  by (simp add: hex_val_def hex_digit_val_def [of "CHR ''0''"] is_digit_def)

lemma unescape_u: "unescape (CHR ''u'') = None"
  by (simp add: unescape_def)

lemma chr_code_eq: "chr_code c = n \<Longrightarrow> c = char_of n"
  by auto

lemma escaped_chars:
  "char_of (34::nat) = CHR 0x22" "char_of (92::nat) = CHR 0x5C" "char_of (8::nat) = CHR 0x08"
  "char_of (9::nat) = CHR 0x09" "char_of (10::nat) = CHR 0x0A" "char_of (12::nat) = CHR 0x0C"
  "char_of (13::nat) = CHR 0x0D"
  by code_simp+

lemma parse_str_escape_u:
  assumes "n < 32"
  shows "parse_str ([CHR 0x5C, CHR ''u'', CHR ''0'', CHR ''0'', hex_char (n div 16), hex_char (n mod 16)] @ s)
     = map_option (\<lambda>(t, r). (char_of n # t, r)) (parse_str s)"
proof -
  have "n div 16 < 16" "n mod 16 < 16" using assms by auto
  then show ?thesis using assms
    by (simp add: unescape_u hex_val_00 is_hex_def [of "CHR ''0''"] is_digit_def)
qed

lemma parse_str_escape:
  "parse_str (escape_char c @ s) = map_option (\<lambda>(t, r). (c # t, r)) (parse_str s)"
proof -
  consider "chr_code c \<in> {34, 92, 8, 9, 10, 12, 13}" | "chr_code c < 32" "chr_code c \<notin> {34, 92, 8, 9, 10, 12, 13}"
    | "32 \<le> chr_code c" "chr_code c \<notin> {34, 92}" by fastforce
  then show ?thesis
  proof cases
    case 1
    then show ?thesis
      by (auto dest!: chr_code_eq simp: escape_char_def unescape_def escaped_chars)
  next
    case 2
    then have "escape_char c =
      [CHR 0x5C, CHR ''u'', CHR ''0'', CHR ''0'', hex_char (chr_code c div 16), hex_char (chr_code c mod 16)]"
      by (simp add: escape_char_def Let_def)
    with parse_str_escape_u [OF 2(1)] show ?thesis by simp
  next
    case 3
    then have e: "escape_char c = [c]" by (auto simp: escape_char_def Let_def)
    from 3 have "c \<noteq> CHR 0x22" "c \<noteq> CHR 0x5C" "\<not> chr_code c < 32" by auto
    with e show ?thesis by simp
  qed
qed

lemma parse_str_quote: "parse_str (concat (map escape_char s) @ [CHR 0x22] @ r) = Some (s, r)"
proof (induction s)
  case Nil
  then show ?case by simp
next
  case (Cons c s)
  then show ?case by (simp add: parse_str_escape del: parse_str.simps)
qed

lemma show_nat_hd: "hd (show_nat n) = CHR ''0'' \<Longrightarrow> n = 0"
proof (induction n rule: show_nat.induct)
  case (1 n)
  show ?case
  proof (cases "n < 10")
    case True
    with 1(2) have "digit_char n = CHR ''0''" by (simp add: show_nat.simps)
    then have "digit_val (digit_char n) = digit_val (CHR ''0'')" by simp
    with True show ?thesis by (simp add: digit_val_def [of "CHR ''0''"] del: One_nat_def)
  next
    case False
    with 1(2) have "hd (show_nat (n div 10)) = CHR ''0''" by (simp add: show_nat.simps [of n])
    with 1(1) [OF False] False show ?thesis by simp
  qed
qed

definition follow :: "string \<Rightarrow> bool" where
  "follow r \<longleftrightarrow> r = [] \<or> hd r \<in> {CHR '','', CHR '']'', CHR ''}''}"

lemma takeWhile_show_nat:
  assumes "follow r"
  shows "takeWhile is_digit (show_nat n @ r) = show_nat n" "dropWhile is_digit (show_nat n @ r) = r"
proof -
  have "r = [] \<or> \<not> is_digit (hd r)" using assms by (auto simp: follow_def is_digit_def)
  then have "takeWhile is_digit r = []" "dropWhile is_digit r = r" by (cases r; auto)+
  with show_nat_digits show "takeWhile is_digit (show_nat n @ r) = show_nat n"
    "dropWhile is_digit (show_nat n @ r) = r" by (simp_all add: takeWhile_append dropWhile_append)
qed

lemma parse_digits_show_nat:
  assumes "follow r"
  shows "parse_digits (show_nat n @ r) = Some (n, r)"
proof -
  have "tl (show_nat n) = []" if "hd (show_nat n) = CHR ''0''"
    using show_nat_hd [OF that] by (simp add: show_nat.simps)
  moreover have "\<not> (r \<noteq> [] \<and> hd r \<in> {CHR ''.'', CHR ''e'', CHR ''E''})"
    using assms by (auto simp: follow_def)
  ultimately show ?thesis by (auto simp: parse_digits_def Let_def takeWhile_show_nat [OF assms])
qed

definition starts_ok :: "string \<Rightarrow> bool" where
  "starts_ok s \<longleftrightarrow> s \<noteq> [] \<and> \<not> json_space (hd s) \<and> hd s \<notin> {CHR '']'', CHR ''}'', CHR '','', CHR '':''}"

lemma starts_ok_stringify: "starts_ok (stringify j)"
proof (cases j)
  case (JNum n)
  have "is_digit (hd (show_nat k))" for k
    using show_nat_digits [of k] by (cases "show_nat k") auto
  then have "hd (show_nat k) \<notin> {CHR '']'', CHR ''}'', CHR '','', CHR '':''}"
    "\<not> json_space (hd (show_nat k))" for k
    using show_nat_digits [of k] by (cases "show_nat k"; force simp: is_digit_def json_space_def)+
  then show ?thesis by (auto simp: JNum starts_ok_def show_int_def json_space_def)
qed (auto simp: starts_ok_def json_space_def quote_def)

lemma skip_ws_start: "starts_ok s \<Longrightarrow> skip_ws (s @ r) = s @ r"
  by (cases s) (auto simp: starts_ok_def skip_ws_def)

lemma skip_ws_Cons: "\<not> json_space c \<Longrightarrow> skip_ws (c # s) = c # s"
  by (simp add: skip_ws_def)

lemma punct_not_space [simp]:
  "\<not> json_space (CHR '','')" "\<not> json_space (CHR '']'')" "\<not> json_space (CHR ''}'')"
  "\<not> json_space (CHR '':'')" "\<not> json_space (CHR 0x22)" "\<not> json_space (CHR ''['')" "\<not> json_space (CHR ''{'')"
  by (simp_all add: json_space_def)

definition parses :: "json \<Rightarrow> bool" where
  "parses j \<longleftrightarrow> (\<forall>n r. length (stringify j) \<le> n \<longrightarrow> follow r \<longrightarrow> parse_val n (stringify j @ r) = Some (j, r))"

lemma parsesD: "parses j \<Longrightarrow> length (stringify j) \<le> n \<Longrightarrow> follow r \<Longrightarrow> parse_val n (stringify j @ r) = Some (j, r)"
  by (simp add: parses_def)

lemma stringify_pos: "0 < length (stringify j)"
  using starts_ok_stringify [of j] by (auto simp: starts_ok_def)

lemma follow_Cons [simp]: "follow (c # s) \<longleftrightarrow> c \<in> {CHR '','', CHR '']'', CHR ''}''}"
  by (simp add: follow_def)

lemma parse_elems_stringify:
  assumes "xs \<noteq> []" and "\<forall>x \<in> set xs. parses x"
    and "length (js_join '','' (map stringify xs)) < n"
  shows "parse_elems n (js_join '','' (map stringify xs) @ CHR '']'' # r) = Some (xs, r)"
  using assms
proof (induction xs arbitrary: n rule: induct_list012)
  case 1
  then show ?case by simp
next
  case (2 x)
  then obtain m where n: "n = Suc m" "length (stringify x) \<le> m" by (cases n) auto
  with 2 have "parse_val m (stringify x @ CHR '']'' # r) = Some (x, CHR '']'' # r)"
    by (intro parsesD) auto
  then show ?case by (simp add: n skip_ws_Cons)
next
  case (3 x y xs)
  let ?t = "js_join '','' (map stringify (y # xs))"
  from 3(4,5) obtain m where n: "n = Suc m" "length (stringify x) + length ?t < m"
    using stringify_pos [of x] by (cases n) auto
  have "parse_val m (stringify x @ CHR '','' # ?t @ CHR '']'' # r)
      = Some (x, CHR '','' # ?t @ CHR '']'' # r)"
    using 3 n by (intro parsesD) auto
  moreover have "parse_elems m (?t @ CHR '']'' # r) = Some (y # xs, r)"
    using 3(4) n by (intro 3(2)) auto
  ultimately show ?case by (simp add: n skip_ws_Cons)
qed

abbreviation member_text :: "string \<times> json \<Rightarrow> string" where
  "member_text p \<equiv> (case p of (k, v) \<Rightarrow> quote k @ '':'' @ stringify v)"

lemma parse_member:
  assumes "parses v" and "length (member_text (k, v)) \<le> m" and "follow (d # r)"
  shows "parse_members (Suc m) (member_text (k, v) @ d # r) =
    (if d = CHR '','' then map_option (\<lambda>(kvs, q). ((k, v) # kvs, q)) (parse_members m r)
     else if d = CHR ''}'' then Some ([(k, v)], r) else None)"
proof -
  have "parse_str (concat (map escape_char k) @ [CHR 0x22] @ CHR '':'' # stringify v @ d # r)
     = Some (k, CHR '':'' # stringify v @ d # r)"
    by (rule parse_str_quote)
  moreover have "parse_val m (stringify v @ d # r) = Some (v, d # r)"
    using assms by (intro parsesD) (auto simp: quote_def)
  moreover have "\<not> json_space d" using assms(3) by auto
  ultimately show ?thesis by (simp add: quote_def skip_ws_Cons)
qed

lemma parse_members_stringify:
  assumes "fs \<noteq> []" and "\<forall>p \<in> set fs. parses (snd p)"
    and "length (js_join '','' (map member_text fs)) < n"
  shows "parse_members n (js_join '','' (map member_text fs) @ CHR ''}'' # r) = Some (fs, r)"
  using assms
proof (induction fs arbitrary: n rule: induct_list012)
  case 1
  then show ?case by simp
next
  case (2 p)
  obtain k v where p: "p = (k, v)" by (cases p)
  with 2 obtain m where n: "n = Suc m" "length (member_text (k, v)) \<le> m" by (cases n) auto
  show ?case using 2 n parse_member [of v k m "CHR ''}''" r] by (simp add: p del: parse_members.simps)
next
  case (3 p q fs)
  let ?t = "js_join '','' (map member_text (q # fs))"
  obtain k v where p: "p = (k, v)" by (cases p)
  from 3(4,5) p obtain m where n: "n = Suc m" "length (member_text (k, v)) + length ?t < m"
    by (cases n) (auto simp: quote_def)
  have "parse_members m (?t @ CHR ''}'' # r) = Some (q # fs, r)"
    using 3(4) n by (intro 3(2)) auto
  moreover have "parses v" using 3(4) p by auto
  ultimately show ?case using n parse_member [of v k m "CHR '',''" "?t @ CHR ''}'' # r"]
    by (simp add: p del: parse_members.simps)
qed

lemma foldl_update_fresh:
  "distinct (map fst (gs @ fs)) \<Longrightarrow> foldl (\<lambda>fs (k, v). AList.update k v fs) gs fs = gs @ fs"
proof (induction fs arbitrary: gs)
  case Nil
  then show ?case by simp
next
  case (Cons p fs)
  obtain k v where p: "p = (k, v)" by (cases p)
  with Cons.prems have "k \<notin> fst ` set gs" by auto
  then have "AList.update k v gs = gs @ [(k, v)]"
    by (induction gs) auto
  with Cons p show ?case by simp
qed

lemma obj_of_members_distinct: "distinct (map fst fs) \<Longrightarrow> obj_of_members fs = JObj fs"
  using foldl_update_fresh [of "[]" fs] by (simp add: obj_of_members_def)

lemma js_join_start:
  "xs \<noteq> [] \<Longrightarrow> starts_ok (hd xs) \<Longrightarrow> starts_ok (js_join sep xs)"
  by (cases xs; cases "tl xs") (auto simp: starts_ok_def)

lemma parses_JArr: "\<forall>x \<in> set xs. parses x \<Longrightarrow> parses (JArr xs)"
  unfolding parses_def [of "JArr xs"]
proof (intro allI impI)
  fix n r
  assume xs: "\<forall>x \<in> set xs. parses x" and len: "length (stringify (JArr xs)) \<le> n" and r: "follow r"
  then obtain m where n: "n = Suc m" by (cases n) auto
  show "parse_val n (stringify (JArr xs) @ r) = Some (JArr xs, r)"
  proof (cases "xs = []")
    case True
    then show ?thesis by (simp add: n skip_ws_Cons)
  next
    case False
    let ?t = "js_join '','' (map stringify xs)"
    have st: "starts_ok ?t"
      using False by (intro js_join_start) (auto simp: hd_map starts_ok_stringify)
    then have "skip_ws (?t @ CHR '']'' # r) = ?t @ CHR '']'' # r" "?t \<noteq> []" "hd ?t \<noteq> CHR '']''"
      by (auto simp: skip_ws_start starts_ok_def)
    moreover have "parse_elems m (?t @ CHR '']'' # r) = Some (xs, r)"
      using False xs len n by (intro parse_elems_stringify) auto
    ultimately show ?thesis by (simp add: n skip_ws_Cons)
  qed
qed

lemma parses_JObj:
  assumes fs: "\<forall>p \<in> set fs. parses (snd p)" and d: "distinct (map fst fs)"
  shows "parses (JObj fs)"
  unfolding parses_def
proof (intro allI impI)
  fix n r
  assume len: "length (stringify (JObj fs)) \<le> n" and r: "follow r"
  then obtain m where n: "n = Suc m" by (cases n) auto
  show "parse_val n (stringify (JObj fs) @ r) = Some (JObj fs, r)"
  proof (cases "fs = []")
    case True
    then show ?thesis by (simp add: n skip_ws_Cons)
  next
    case False
    let ?t = "js_join '','' (map member_text fs)"
    have st: "starts_ok ?t"
      using False by (intro js_join_start) (auto simp: hd_map starts_ok_def quote_def split: prod.split)
    then have "skip_ws (?t @ CHR ''}'' # r) = ?t @ CHR ''}'' # r" "?t \<noteq> []" "hd ?t \<noteq> CHR ''}''"
      by (auto simp: skip_ws_start starts_ok_def)
    moreover have "parse_members m (?t @ CHR ''}'' # r) = Some (fs, r)"
      using False fs len n by (intro parse_members_stringify) auto
    ultimately show ?thesis by (simp add: n skip_ws_Cons obj_of_members_distinct [OF d])
  qed
qed

lemma parses_JNum: "parses (JNum i)"
  unfolding parses_def
proof (intro allI impI)
  fix n r
  assume len: "length (stringify (JNum i)) \<le> n" and r: "follow r"
  then obtain m where n: "n = Suc m"
    using stringify_pos [of "JNum i"] by (cases n) auto
  obtain c cs where c: "show_nat (nat i) = c # cs" by (cases "show_nat (nat i)") auto
  then have dig: "is_digit c" using show_nat_digits [of "nat i"] by auto
  then have "c \<notin> {CHR 0x22, CHR ''['', CHR ''{'', CHR ''-''}" "\<not> json_space c"
    by (auto simp: is_digit_def json_space_def)
  with dig parse_digits_show_nat [OF r, of "nat i"] parse_digits_show_nat [OF r, of "nat (- i)"] c
  show "parse_val n (stringify (JNum i) @ r) = Some (JNum i, r)"
    by (auto simp: n show_int_def skip_ws_Cons json_space_def)
qed

lemma parse_val_stringify: "json_wf j \<Longrightarrow> parses j"
proof (induction j)
  case (JStr s)
  show ?case unfolding parses_def
  proof (intro allI impI)
    fix n r
    assume "length (stringify (JStr s)) \<le> n"
    then obtain m where n: "n = Suc m" by (cases n) (auto simp: quote_def)
    show "parse_val n (stringify (JStr s) @ r) = Some (JStr s, r)"
      using parse_str_quote [of s r] by (simp add: n quote_def skip_ws_Cons)
  qed
next
  case (JArr xs)
  then show ?case by (intro parses_JArr) auto
next
  case (JObj fs)
  then show ?case by (intro parses_JObj) (force simp: Basic_BNFs.snds.simps)+
next
  case (JNum i)
  show ?case by (rule parses_JNum)
next
  case JNull
  show ?case unfolding parses_def
    by (auto simp: skip_ws_Cons json_space_def is_digit_def dest!: Suc_le_D)
next
  case (JBool b)
  show ?case unfolding parses_def
    by (cases b) (auto simp: skip_ws_Cons json_space_def is_digit_def dest!: Suc_le_D)
qed

lemma parse_stringify: "json_wf j \<Longrightarrow> json_parse (stringify j) = Some j"
  using parsesD [OF parse_val_stringify, of j "Suc (length (stringify j))" "[]"]
  by (simp add: json_parse_def follow_def skip_ws_def)

lemma all_update: "\<forall>p \<in> set fs. P (snd p) \<Longrightarrow> P v \<Longrightarrow> \<forall>p \<in> set (AList.update k v fs). P (snd p)"
  by (induction fs) auto

lemma json_wf_jput: "json_wf j \<Longrightarrow> json_wf v \<Longrightarrow> json_wf (jput k v j)"
proof (cases j)
  case (JObj fs)
  assume "json_wf j" "json_wf v"
  with JObj have "distinct (map fst fs)" "\<forall>p \<in> set (AList.update k v fs). json_wf (snd p)"
    using all_update [of fs json_wf v k] by auto
  then show ?thesis by (simp add: JObj distinct_update)
qed simp_all

lemma json_wf_prop: "json_wf j \<Longrightarrow> jprop j k = Some v \<Longrightarrow> json_wf v"
  by (cases j) (auto dest!: map_of_SomeD)

lemma json_wf_jget: "json_wf j \<Longrightarrow> jget (Some j) ks = Some v \<Longrightarrow> json_wf v"
proof (induction ks arbitrary: j)
  case (Cons k ks)
  then show ?case by (cases "jprop j k") (auto intro: json_wf_prop)
qed simp

text \<open>What is parsed is well-formed: the keys of an object are distinct.\<close>

lemma members_wf:
  assumes "distinct (map fst fs)" and "\<forall>p \<in> set fs. json_wf (snd p)" and "\<forall>p \<in> set kvs. json_wf (snd p)"
  shows "json_wf (JObj (foldl (\<lambda>fs (k, v). AList.update k v fs) fs kvs))"
  using assms
proof (induction kvs arbitrary: fs)
  case (Cons p kvs)
  obtain k v where p: "p = (k, v)" by (cases p)
  have "\<forall>p \<in> set (AList.update k v fs). json_wf (snd p)"
    using Cons.prems p by (intro all_update) auto
  then show ?case using Cons.IH [of "AList.update k v fs"] Cons.prems by (simp add: p distinct_update)
qed simp

lemma parse_lit_wf: "parse_lit ls s = Some (v, r) \<Longrightarrow> \<forall>(t, v) \<in> set ls. json_wf v \<Longrightarrow> json_wf v"
  by (induction ls) (auto split: if_splits)

lemma map_option_eq: "map_option f x = Some y \<longleftrightarrow> (\<exists>z. x = Some z \<and> y = f z)"
  by auto

lemma if_SomeE: "(if b then x else y) = Some z \<Longrightarrow> (x = Some z \<Longrightarrow> R) \<Longrightarrow> (y = Some z \<Longrightarrow> R) \<Longrightarrow> R"
  by (cases b) auto

lemma parse_wf:
  "(\<forall>s v r. parse_val n s = Some (v, r) \<longrightarrow> json_wf v) \<and>
   (\<forall>s vs r. parse_elems n s = Some (vs, r) \<longrightarrow> (\<forall>v \<in> set vs. json_wf v)) \<and>
   (\<forall>s kvs r. parse_members n s = Some (kvs, r) \<longrightarrow> (\<forall>p \<in> set kvs. json_wf (snd p)))"
proof (induction n)
  case (Suc n)
  then have IH: "parse_val n s = Some (v, r) \<Longrightarrow> json_wf v" "parse_elems n s = Some (vs, r) \<Longrightarrow> v \<in> set vs \<Longrightarrow> json_wf v"
    "parse_members n s = Some (kvs, r) \<Longrightarrow> p \<in> set kvs \<Longrightarrow> json_wf (snd p)" for s v r vs kvs p by blast+
  have "json_wf v" if "parse_val (Suc n) s = Some (v, r)" for s v r
  proof (cases "skip_ws s")
    case (Cons c cs)
    have o: "json_wf (obj_of_members kvs)" if "parse_members n t = Some (kvs, q)" for t kvs q
      unfolding obj_of_members_def using IH(3) [OF that] by (intro members_wf) auto
    have l: "json_wf x" if "parse_lit [(''null'', JNull), (''true'', JBool True), (''false'', JBool False)] t = Some (x, q)" for t x q
      using parse_lit_wf [OF that] by simp
    from that show ?thesis
      unfolding parse_val.simps Cons list.case
      by (elim if_SomeE) (auto simp: map_option_eq simp del: parse_lit.simps dest: IH o l)
  qed (use that in simp)
  moreover have "\<forall>v \<in> set vs. json_wf v" if "parse_elems (Suc n) s = Some (vs, r)" for s vs r
    using that IH(1,2) by (fastforce split: option.splits prod.splits list.splits if_splits)
  moreover have "\<forall>p \<in> set kvs. json_wf (snd p)" if "parse_members (Suc n) s = Some (kvs, r)" for s kvs r
    using that IH(1,3) by (fastforce split: option.splits prod.splits list.splits if_splits)
  ultimately show ?case by blast
qed simp

lemma json_parse_wf:
  assumes "json_parse s = Some j"
  shows "json_wf j"
proof -
  from assms obtain r where "parse_val (Suc (length s)) s = Some (j, r)"
    unfolding json_parse_def by (simp del: parse_val.simps split: option.splits prod.splits if_splits)
  then show ?thesis using parse_wf by blast
qed

definition byte_list :: "nat list \<Rightarrow> bool" where
  "byte_list bs \<longleftrightarrow> list_all (\<lambda>b. b < 256) bs"

lemma b64_table:
  "list_all (\<lambda>i. b64_val (b64_char i) = Some i \<and> b64_char i \<noteq> CHR ''='') [0..<64]"
  by code_simp

lemma b64_val_char [simp]: "i < 64 \<Longrightarrow> b64_val (b64_char i) = Some i"
  and b64_char_not_pad [simp]: "i < 64 \<Longrightarrow> b64_char i \<noteq> CHR ''=''"
  using b64_table by (auto simp: list_all_iff)

lemma b64_decode_quad:
  assumes "p < 64" "q < 64" "r < 64" "s < 64"
  shows "b64_decode ([b64_char p, b64_char q, b64_char r, b64_char s] @ t)
     = [p * 4 + q div 16, q mod 16 * 16 + r div 4, r mod 4 * 64 + s] @ b64_decode t"
  using assms by (simp add: b64_decode_def List.map_filter_simps)

lemma b64_sextets:
  fixes a b c :: nat
  assumes "a < 256" "b < 256" "c < 256"
  shows "a div 4 < 64" "a mod 4 * 16 + b div 16 < 64" "b mod 16 * 4 + c div 64 < 64" "c mod 64 < 64"
    "a mod 4 * 16 < 64" "b mod 16 * 4 < 64"
proof -
  have "a mod 4 < 4" "b mod 16 < 16" "b div 16 < 16" "c div 64 < 4" "a div 4 < 64"
    using assms by (simp_all add: div_less_iff_less_mult)
  then show "a div 4 < 64" "a mod 4 * 16 + b div 16 < 64" "b mod 16 * 4 + c div 64 < 64" "c mod 64 < 64"
    "a mod 4 * 16 < 64" "b mod 16 * 4 < 64" by simp_all
qed

lemma b64_octets:
  fixes a b c :: nat
  assumes "a < 256" "b < 256" "c < 256"
  shows "a div 4 * 4 + (a mod 4 * 16 + b div 16) div 16 = a"
    "(a mod 4 * 16 + b div 16) mod 16 * 16 + (b mod 16 * 4 + c div 64) div 4 = b"
    "(b mod 16 * 4 + c div 64) mod 4 * 64 + c mod 64 = c"
proof -
  have "b div 16 < 16" "c div 64 < 4" using assms by (simp_all add: div_less_iff_less_mult)
  then show "a div 4 * 4 + (a mod 4 * 16 + b div 16) div 16 = a"
    "(a mod 4 * 16 + b div 16) mod 16 * 16 + (b mod 16 * 4 + c div 64) div 4 = b"
    "(b mod 16 * 4 + c div 64) mod 4 * 64 + c mod 64 = c" by simp_all
qed

lemma b64_decode_encode: "byte_list bs \<Longrightarrow> b64_decode (b64_encode bs) = bs"
proof (induction bs rule: b64_encode.induct)
  case 1
  then show ?case by (simp add: b64_decode_def List.map_filter_simps)
next
  case (2 a)
  then have "a < 256" by (simp add: byte_list_def)
  with b64_sextets [of a 0 0] b64_octets [of a 0 0] show ?case
    by (simp add: b64_decode_def List.map_filter_simps)
next
  case (3 a b)
  then have "a < 256" "b < 256" by (simp_all add: byte_list_def)
  with b64_sextets [of a b 0] b64_octets [of a b 0] show ?case
    by (simp add: b64_decode_def List.map_filter_simps)
next
  case (4 a b c bs)
  then have "a < 256" "b < 256" "c < 256" "byte_list bs" by (simp_all add: byte_list_def)
  with b64_sextets [of a b c] b64_octets [of a b c] 4(1) show ?case
    by (simp only: b64_encode.simps b64_decode_quad) simp
qed

lemma utf8_encode_Cons:
  "utf8_encode (c # s) = (if chr_code c < 128 then [chr_code c] else [192 + chr_code c div 64, 128 + chr_code c mod 64]) @ utf8_encode s"
  by (simp add: utf8_encode_def Let_def)

lemma chr_code_lt: "chr_code c < 256"
  by (cases c) (simp add: of_char_def)

lemma utf8_encode_bytes: "byte_list (utf8_encode s)"
proof (induction s)
  case Nil
  then show ?case by (simp add: utf8_encode_def byte_list_def)
next
  case (Cons c s)
  have "chr_code c div 64 < 4" using chr_code_lt [of c] by (simp add: div_less_iff_less_mult)
  moreover have "chr_code c mod 64 < 128" using mod_less_divisor [of 64 "chr_code c"] by linarith
  ultimately show ?case using Cons by (simp add: utf8_encode_Cons byte_list_def)
qed

lemma utf8_decode_encode: "utf8_decode (utf8_encode s) = Some s"
proof (induction s)
  case Nil
  then show ?case by (simp add: utf8_encode_def)
next
  case (Cons c s)
  show ?case
  proof (cases "chr_code c < 128")
    case False
    then have "2 \<le> chr_code c div 64" "chr_code c div 64 < 4"
      using chr_code_lt [of c] by (simp_all add: div_less_iff_less_mult less_eq_div_iff_mult_less_eq)
    then have "chr_code c div 64 = 2 \<or> chr_code c div 64 = 3" by linarith
    moreover have "chr_code c div 64 * 64 + chr_code c mod 64 = chr_code c" by simp
    ultimately show ?thesis using Cons False by (auto simp: utf8_encode_Cons)
  qed (simp add: utf8_encode_Cons Cons)
qed

lemma decode_encode: "json_wf j \<Longrightarrow> decodeBase64 (encodeBase64 j) = Some j"
  by (simp add: decodeBase64_def encodeBase64_def b64_decode_encode utf8_encode_bytes
      utf8_decode_encode parse_stringify)

end
