(* ===== verification/Errors.thy ===== *)
theory Errors
  imports JSON_Text
begin

text \<open>
  The error classes of \<open>core/utils/src/errors.js\<close>. An error is its class and its properties;
  the class decides which \<open>catch\<close> clause takes it (\<open>instanceof\<close> follows the \<open>extends\<close> clauses).
  The first group of classes are the language's own and those of errors that third-party code throws.
  Each class of the source is one definition with the arguments of its constructor; an argument that
  may be missing is a \<open>jsval\<close>. The constants of \<open>commonVariables.js\<close> that the errors use stand first.
\<close>

section \<open>Status codes\<close>

abbreviation "HTTP_OK \<equiv> 200 :: int"
abbreviation "HTTP_CREATED \<equiv> 201 :: int"
abbreviation "HTTP_ACCEPTED \<equiv> 202 :: int"
abbreviation "HTTP_NO_CONTENT \<equiv> 204 :: int"
abbreviation "HTTP_FOUND \<equiv> 302 :: int"
abbreviation "HTTP_BAD_REQUEST \<equiv> 400 :: int"
abbreviation "HTTP_UNAUTHORIZED \<equiv> 401 :: int"
abbreviation "HTTP_FORBIDDEN \<equiv> 403 :: int"
abbreviation "HTTP_NOT_FOUND \<equiv> 404 :: int"
abbreviation "HTTP_METHOD_NOT_ALLOWED \<equiv> 405 :: int"
abbreviation "HTTP_NOT_ACCEPTABLE \<equiv> 406 :: int"
abbreviation "HTTP_CONFLICT \<equiv> 409 :: int"
abbreviation "HTTP_GONE \<equiv> 410 :: int"
abbreviation "HTTP_PRECONDITION_FAILED \<equiv> 412 :: int"
abbreviation "HTTP_UNPROCESSABLE_ENTITY \<equiv> 422 :: int"
abbreviation "HTTP_TOO_MANY_REQUESTS \<equiv> 429 :: int"
abbreviation "HTTP_INTERNAL_SERVER_ERROR \<equiv> 500 :: int"
abbreviation "HTTP_TIMEOUT \<equiv> 504 :: int"

abbreviation "BROKER_DEFAULT \<equiv> 10001 :: int"
abbreviation "BOSH_DIRECTOR_UNAVAILABLE \<equiv> 20003 :: int"
abbreviation "BOSH_DEPLOYMENT_NOT_FOUND \<equiv> 20004 :: int"
abbreviation "BOSH_DEPLOYMENT_ALREADY_EXISTS \<equiv> 20009 :: int"
abbreviation "DOCKER_DOCKER_UNAVAILABLE \<equiv> 30003 :: int"
abbreviation "SF_IN_MAINTENANCE \<equiv> 101 :: int"
abbreviation "OPERATION_TYPE_LOCK \<equiv> ''__Locked__''"
abbreviation "FABRIK_OPERATION_STAGGERED \<equiv> ''staggered''"
abbreviation "FABRIK_OPERATION_COUNT_EXCEEDED \<equiv> ''operation count exceeded''"

section \<open>Classes\<close>

datatype err_class =
    CError | CTypeError | CSyntaxError | CAssertionError
  | CBaseError | CSshConnectionFailed | CDeploymentDelayed | CContinueWithNext | CTimeout
  | CServiceInMaintenance | CNotImplementedBySubclass | CInstanceSharingNotAllowed
  | CCrossOrganizationSharingNotAllowed
  | CHttpError | CHttpClientError | CBadRequest | CInvalidServiceParameters | CUnauthorized
  | CForbidden | CNotFound | CPageNotFound | CMethodNotAllowed | CNotAcceptable | CConflict | CGone
  | CPreconditionFailed | CUnprocessableEntity | CDeploymentAlreadyLocked | CDeploymentAttemptRejected
  | CServiceNotFound | CServicePlanNotFound | CServiceInstanceNotOperational | CServiceInstanceNotFound
  | CServiceInstanceAlreadyExists | CServiceBindingNotFound | CServiceBindingAlreadyExists
  | CSecurityGroupNotFound | CServiceBrokerNotFound | CAsyncRequired
  | CHttpServerError | CInternalServerError | CContainerStartError | CSecurityGroupNotCreated
  | CNotImplemented | CBadGateway | CFeatureNotSupportedByAnyAgent | CServiceUnavailable
  | CDirectorServiceUnavailable | CDockerServiceUnavailable | CDBUnavailable

fun superclass :: "err_class \<Rightarrow> err_class option" where
  "superclass CError = None"
| "superclass CTypeError = Some CError"
| "superclass CSyntaxError = Some CError"
| "superclass CAssertionError = Some CError"
| "superclass CBaseError = Some CError"
| "superclass CHttpError = Some CBaseError"
| "superclass CHttpClientError = Some CHttpError"
| "superclass CHttpServerError = Some CHttpError"
| "superclass CBadRequest = Some CHttpClientError"
| "superclass CInvalidServiceParameters = Some CBadRequest"
| "superclass CServiceInstanceAlreadyExists = Some CBadRequest"
| "superclass CServiceBindingAlreadyExists = Some CBadRequest"
| "superclass CUnauthorized = Some CHttpClientError"
| "superclass CForbidden = Some CHttpClientError"
| "superclass CNotFound = Some CHttpClientError"
| "superclass CPageNotFound = Some CNotFound"
| "superclass CServiceNotFound = Some CNotFound"
| "superclass CServicePlanNotFound = Some CNotFound"
| "superclass CServiceInstanceNotFound = Some CNotFound"
| "superclass CServiceBindingNotFound = Some CNotFound"
| "superclass CSecurityGroupNotFound = Some CNotFound"
| "superclass CServiceBrokerNotFound = Some CNotFound"
| "superclass CMethodNotAllowed = Some CHttpClientError"
| "superclass CNotAcceptable = Some CHttpClientError"
| "superclass CConflict = Some CHttpClientError"
| "superclass CGone = Some CHttpClientError"
| "superclass CPreconditionFailed = Some CHttpClientError"
| "superclass CUnprocessableEntity = Some CHttpClientError"
| "superclass CDeploymentAlreadyLocked = Some CUnprocessableEntity"
| "superclass CDeploymentAttemptRejected = Some CUnprocessableEntity"
| "superclass CServiceInstanceNotOperational = Some CUnprocessableEntity"
| "superclass CAsyncRequired = Some CUnprocessableEntity"
| "superclass CInternalServerError = Some CHttpServerError"
| "superclass CContainerStartError = Some CInternalServerError"
| "superclass CSecurityGroupNotCreated = Some CInternalServerError"
| "superclass CNotImplemented = Some CHttpServerError"
| "superclass CBadGateway = Some CHttpServerError"
| "superclass CFeatureNotSupportedByAnyAgent = Some CBadGateway"
| "superclass CServiceUnavailable = Some CHttpServerError"
| "superclass CDirectorServiceUnavailable = Some CServiceUnavailable"
| "superclass CDockerServiceUnavailable = Some CServiceUnavailable"
| "superclass CDBUnavailable = Some CHttpServerError"
| "superclass _ = Some CBaseError"

text \<open>The class and its ancestors; the deepest class has five ancestors.\<close>

fun ancestors :: "nat \<Rightarrow> err_class \<Rightarrow> err_class list" where
  "ancestors 0 c = [c]"
| "ancestors (Suc n) c = c # (case superclass c of None \<Rightarrow> [] | Some d \<Rightarrow> ancestors n d)"

definition is_subclass :: "err_class \<Rightarrow> err_class \<Rightarrow> bool" where
  "is_subclass c d \<longleftrightarrow> d \<in> set (ancestors 6 c)"

datatype exn = Exn (class_of: err_class) (props_of: json)

definition instanceof :: "err_class \<Rightarrow> exn \<Rightarrow> bool" where
  "instanceof d e = is_subclass (class_of e) d"

definition err_prop :: "exn \<Rightarrow> string \<Rightarrow> jsval" where
  "err_prop e k = jprop (props_of e) k"

text \<open>The text a value has inside a template literal.\<close>

definition str_of :: "jsval \<Rightarrow> string" where
  "str_of v = (case v of None \<Rightarrow> ''undefined'' | Some j \<Rightarrow> to_js_string j)"

definition message_of :: "exn \<Rightarrow> string" where
  "message_of e = (case err_prop e ''message'' of None \<Rightarrow> [] | Some v \<Rightarrow> to_js_string v)"

section \<open>Constructors\<close>

text \<open>\<open>BaseError\<close>: the message is kept as a string, a missing status code is the broker's default.\<close>

definition baseError :: "err_class \<Rightarrow> jsval \<Rightarrow> jsval \<Rightarrow> fields \<Rightarrow> exn" where
  "baseError c message statusCode more =
     Exn c (JObj ([(''message'', JStr (case message of None \<Rightarrow> [] | Some m \<Rightarrow> to_js_string m)),
                   (''statusCode'', case or_else statusCode (Some (JNum BROKER_DEFAULT)) of
                                      Some s \<Rightarrow> s | None \<Rightarrow> JNull)] @ more))"

definition description_of :: "exn \<Rightarrow> jsval" where
  "description_of e = or_else (err_prop e ''description'') (err_prop e ''message'')"

definition SshConnectionFailed :: "string \<Rightarrow> exn" where
  "SshConnectionFailed message =
     baseError CSshConnectionFailed (Some (JStr message)) None [(''code'', JStr ''ETIMEDOUT'')]"

definition DeploymentDelayed :: "string \<Rightarrow> exn" where
  "DeploymentDelayed deploymentName =
     baseError CDeploymentDelayed (Some (JStr deploymentName)) None [(''code'', JStr ''ECONTINUE'')]"

definition ContinueWithNext :: exn where
  "ContinueWithNext = baseError CContinueWithNext (Some (JStr ''Continue with next handler'')) None
     [(''code'', JStr ''ECONTINUE'')]"

text \<open>The wrapped error of a \<open>Timeout\<close> is kept as its properties.\<close>

definition Timeout :: "string \<Rightarrow> exn option \<Rightarrow> exn" where
  "Timeout message error = baseError CTimeout (Some (JStr message)) None
     ([(''code'', JStr ''ETIMEDOUT'')] @
      (case error of None \<Rightarrow> [] | Some e \<Rightarrow> [(''error'', props_of e)]))"

definition agent_error_text :: "exn \<Rightarrow> string" where
  "agent_error_text err = (if truthy (description_of err)
     then '' Error from Service Agent - '' @ str_of (description_of err) else [])"

definition operation_text :: "string option \<Rightarrow> string" where
  "operation_text operation = (case operation of None \<Rightarrow> [] | Some o' \<Rightarrow> if o' = [] then [] else o' @ '' '')"

definition timedOut :: "int \<Rightarrow> exn \<Rightarrow> string option \<Rightarrow> exn" where
  "timedOut time err operation =
     Timeout (''Operation '' @ operation_text operation @ ''timed out after '' @ show_int time @ '' ms''
       @ agent_error_text err) (Some err)"

definition toManyAttempts :: "nat \<Rightarrow> exn \<Rightarrow> string option \<Rightarrow> exn" where
  "toManyAttempts attempts err operation =
     Timeout (''Operation '' @ operation_text operation @ ''failed after '' @ show_nat attempts @ '' attempts''
       @ agent_error_text err) (Some err)"

text \<open>The maintenance information is a plain object: neither an \<open>Error\<close> nor a string, so that no
  \<open>error\<close> property is set.\<close>

definition ServiceInMaintenance :: "jsval \<Rightarrow> exn" where
  "ServiceInMaintenance maintenanceInfo =
     baseError CServiceInMaintenance
       (Some (JStr (if truthy maintenanceInfo
          then ''Service Fabrik is currently under maintenance. Version upgrade from ''
            @ str_of (jget maintenanceInfo [''fromVersion'']) @ '' to ''
            @ str_of (jget maintenanceInfo [''toVersion'']) @ '' started at ''
            @ str_of (jget maintenanceInfo [''createdAt''])
          else ''Service Fabrik is currently under maintenance''))) None
       [(''code'', JNum SF_IN_MAINTENANCE)]"

definition NotImplementedBySubclass :: "string \<Rightarrow> exn" where
  "NotImplementedBySubclass method' = baseError CNotImplementedBySubclass
     (Some (JStr (''Method '' @ squote method' @ '' must be implemented by is_subclass''))) None []"

definition InstanceSharingNotAllowed :: exn where
  "InstanceSharingNotAllowed = baseError CInstanceSharingNotAllowed
     (Some (JStr ''Service instance sharing not enabled'')) None []"

definition CrossOrganizationSharingNotAllowed :: exn where
  "CrossOrganizationSharingNotAllowed = baseError CCrossOrganizationSharingNotAllowed
     (Some (JStr ''Service instance cannot be shared across Cloud Foundry organizations'')) None []"

definition httpError :: "err_class \<Rightarrow> int \<Rightarrow> string \<Rightarrow> jsval \<Rightarrow> jsval \<Rightarrow> fields \<Rightarrow> exn" where
  "httpError c status reason message statusCode more =
     baseError c message statusCode ([(''status'', JNum status), (''reason'', JStr reason)] @ more)"

definition badRequest :: "err_class \<Rightarrow> jsval \<Rightarrow> jsval \<Rightarrow> exn" where
  "badRequest c message statusCode = httpError c HTTP_BAD_REQUEST ''Bad Request'' message statusCode []"

definition BadRequest :: "jsval \<Rightarrow> exn" where
  "BadRequest message = badRequest CBadRequest message None"

definition InvalidServiceParameters :: "jsval \<Rightarrow> exn" where
  "InvalidServiceParameters message = badRequest CInvalidServiceParameters message None"

definition Unauthorized :: "jsval \<Rightarrow> exn" where
  "Unauthorized message = httpError CUnauthorized HTTP_UNAUTHORIZED ''Unauthorized''
     (or_else message (Some (JStr ''The request requires user authentication''))) None []"

definition Forbidden :: "jsval \<Rightarrow> exn" where
  "Forbidden message = httpError CForbidden HTTP_FORBIDDEN ''Forbidden'' message None []"

definition notFound :: "err_class \<Rightarrow> jsval \<Rightarrow> jsval \<Rightarrow> exn" where
  "notFound c message statusCode = httpError c HTTP_NOT_FOUND ''Not Found'' message statusCode []"

definition NotFound :: "jsval \<Rightarrow> exn" where
  "NotFound message = notFound CNotFound message None"

text \<open>The constructor of \<open>PageNotFound\<close> passes four arguments to the two parameters of \<open>NotFound\<close>.\<close>

definition PageNotFound :: "jsval \<Rightarrow> exn" where
  "PageNotFound message = notFound CPageNotFound (Some (JNum HTTP_NOT_FOUND)) (Some (JStr ''Page Not Found''))"

definition MethodNotAllowed :: "string \<Rightarrow> jsval \<Rightarrow> exn" where
  "MethodNotAllowed method' allow = httpError CMethodNotAllowed HTTP_METHOD_NOT_ALLOWED ''Method Not Allowed''
     (Some (JStr (''The method '' @ method' @ '' is not allowed for the resource identified by the URI''))) None
     (case allow of None \<Rightarrow> [] | Some a \<Rightarrow> [(''allow'', a)])"

definition NotAcceptable :: "jsval \<Rightarrow> exn" where
  "NotAcceptable message = httpError CNotAcceptable HTTP_NOT_ACCEPTABLE ''NotAcceptable'' message None []"

definition Conflict :: "jsval \<Rightarrow> exn" where
  "Conflict message = httpError CConflict HTTP_CONFLICT ''Conflict'' message None []"

definition Gone :: "jsval \<Rightarrow> exn" where
  "Gone message = httpError CGone HTTP_GONE ''Gone'' message None []"

definition PreconditionFailed :: "jsval \<Rightarrow> exn" where
  "PreconditionFailed message =
     httpError CPreconditionFailed HTTP_PRECONDITION_FAILED ''Precondition Failed'' message None []"

definition unprocessableEntity :: "err_class \<Rightarrow> jsval \<Rightarrow> string \<Rightarrow> exn" where
  "unprocessableEntity c message reason =
     httpError c HTTP_UNPROCESSABLE_ENTITY (if reason = [] then ''Unprocessable Entity'' else reason) message None []"

definition UnprocessableEntity :: "jsval \<Rightarrow> string \<Rightarrow> exn" where
  "UnprocessableEntity message reason = unprocessableEntity CUnprocessableEntity message reason"

definition DeploymentAlreadyLocked :: "string \<Rightarrow> jsval \<Rightarrow> jsval \<Rightarrow> exn" where
  "DeploymentAlreadyLocked instanceId lockInfo lockMessage =
     (let message = ''Service Instance '' @ instanceId @ '' '' @ OPERATION_TYPE_LOCK in
      unprocessableEntity CDeploymentAlreadyLocked
        (if truthy lockInfo
         then Some (JStr (message @ '' at '' @ str_of (jget lockInfo [''createdAt''])
                          @ '' for '' @ str_of (jget lockInfo [''lockForOperation''])))
         else if lockMessage \<noteq> None then lockMessage else Some (JStr message)) [])"

definition DeploymentAttemptRejected :: "string \<Rightarrow> exn" where
  "DeploymentAttemptRejected deploymentName = unprocessableEntity CDeploymentAttemptRejected
     (Some (JStr (''Deployment '' @ deploymentName @ '' '' @ FABRIK_OPERATION_STAGGERED @ '', Reason: ''
       @ FABRIK_OPERATION_COUNT_EXCEEDED))) []"

definition ServiceNotFound :: "string \<Rightarrow> exn" where
  "ServiceNotFound i = notFound CServiceNotFound (Some (JStr (''Could not find Service with ID '' @ i))) None"

definition ServicePlanNotFound :: "string \<Rightarrow> exn" where
  "ServicePlanNotFound i =
     notFound CServicePlanNotFound (Some (JStr (''Could not find Service Plan with ID '' @ i))) None"

definition ServiceInstanceNotOperational :: "string \<Rightarrow> exn" where
  "ServiceInstanceNotOperational i = unprocessableEntity CServiceInstanceNotOperational
     (Some (JStr (''Service Instance with ID '' @ i @ '' is not operational''))) []"

definition ServiceInstanceNotFound :: "string \<Rightarrow> exn" where
  "ServiceInstanceNotFound i = notFound CServiceInstanceNotFound
     (Some (JStr (''Could not find Service Instance with ID '' @ i))) (Some (JNum BOSH_DEPLOYMENT_NOT_FOUND))"

definition ServiceInstanceAlreadyExists :: "string \<Rightarrow> exn" where
  "ServiceInstanceAlreadyExists i = badRequest CServiceInstanceAlreadyExists
     (Some (JStr (''Service Instance with ID '' @ i @ '' already exists''))) (Some (JNum BOSH_DEPLOYMENT_ALREADY_EXISTS))"

definition ServiceBindingNotFound :: "string \<Rightarrow> exn" where
  "ServiceBindingNotFound i =
     notFound CServiceBindingNotFound (Some (JStr (''Could not find Service Binding with ID '' @ i))) None"

definition ServiceBindingAlreadyExists :: "string \<Rightarrow> exn" where
  "ServiceBindingAlreadyExists i = badRequest CServiceBindingAlreadyExists
     (Some (JStr (''Service Binding with ID '' @ i @ '' already exists''))) None"

definition SecurityGroupNotFound :: "string \<Rightarrow> exn" where
  "SecurityGroupNotFound name =
     notFound CSecurityGroupNotFound (Some (JStr (''Could not find Security Group with name '' @ name))) None"

definition ServiceBrokerNotFound :: "string \<Rightarrow> exn" where
  "ServiceBrokerNotFound name =
     notFound CServiceBrokerNotFound (Some (JStr (''Could not find Service Broker with name '' @ name))) None"

definition AsyncRequired :: exn where
  "AsyncRequired = unprocessableEntity CAsyncRequired
     (Some (JStr ''Service Plan requires support for asynchronous operations'')) []"

definition internalServerError :: "err_class \<Rightarrow> jsval \<Rightarrow> exn" where
  "internalServerError c message = httpError c 500 ''Internal Server Error'' message None []"

definition InternalServerError :: "jsval \<Rightarrow> exn" where
  "InternalServerError message = internalServerError CInternalServerError message"

definition ContainerStartError :: "jsval \<Rightarrow> exn" where
  "ContainerStartError message = internalServerError CContainerStartError message"

definition SecurityGroupNotCreated :: "string \<Rightarrow> exn" where
  "SecurityGroupNotCreated name = internalServerError CSecurityGroupNotCreated
     (Some (JStr (''Failed to create security group '' @ squote name)))"

definition NotImplemented :: "jsval \<Rightarrow> exn" where
  "NotImplemented message = httpError CNotImplemented 501 ''Not Implemented'' message None []"

definition badGateway :: "err_class \<Rightarrow> jsval \<Rightarrow> exn" where
  "badGateway c message = httpError c 502 ''Bad Gateway'' message None []"

definition FeatureNotSupportedByAnyAgent :: "string \<Rightarrow> exn" where
  "FeatureNotSupportedByAnyAgent feature = badGateway CFeatureNotSupportedByAnyAgent
     (Some (JStr (''Could not find any Agent supporting feature '' @ squote feature)))"

definition serviceUnavailable :: "err_class \<Rightarrow> jsval \<Rightarrow> jsval \<Rightarrow> exn" where
  "serviceUnavailable c message statusCode = httpError c 503 ''Service Unavailable'' message statusCode []"

definition DirectorServiceUnavailable :: "jsval \<Rightarrow> exn" where
  "DirectorServiceUnavailable message =
     serviceUnavailable CDirectorServiceUnavailable message (Some (JNum BOSH_DIRECTOR_UNAVAILABLE))"

definition DockerServiceUnavailable :: "jsval \<Rightarrow> exn" where
  "DockerServiceUnavailable message =
     serviceUnavailable CDockerServiceUnavailable message (Some (JNum DOCKER_DOCKER_UNAVAILABLE))"

definition DBUnavailable :: "jsval \<Rightarrow> exn" where
  "DBUnavailable message = httpError CDBUnavailable 503 ''DB Unavailable'' message None []"

text \<open>Errors of the language: a failed \<open>assert\<close>, a property of \<open>undefined\<close>.\<close>

definition AssertionError :: "string \<Rightarrow> exn" where
  "AssertionError message = Exn CAssertionError (JObj [(''message'', JStr message), (''code'', JStr ''ERR_ASSERTION'')])"

definition TypeError :: exn where
  "TypeError = Exn CTypeError (JObj [(''message'', JStr ''Cannot read property of undefined'')])"

definition SyntaxError :: exn where
  "SyntaxError = Exn CSyntaxError (JObj [(''message'', JStr ''Unexpected token in JSON'')])"

section \<open>Facts shared by the components\<close>

lemmas error_defs =
  baseError_def httpError_def badRequest_def notFound_def unprocessableEntity_def internalServerError_def
  badGateway_def serviceUnavailable_def

lemmas error_ctors =
  BadRequest_def NotFound_def PageNotFound_def Conflict_def Forbidden_def Gone_def InternalServerError_def
  DeploymentAlreadyLocked_def ServiceInstanceNotFound_def ServiceBindingNotFound_def
  ServiceInstanceAlreadyExists_def ServiceBindingAlreadyExists_def UnprocessableEntity_def AsyncRequired_def
  AssertionError_def TypeError_def SyntaxError_def Timeout_def timedOut_def toManyAttempts_def
  PreconditionFailed_def ContinueWithNext_def Unauthorized_def NotImplemented_def
  ServiceNotFound_def ServicePlanNotFound_def ServiceInMaintenance_def

named_theorems class_simps \<open>the class of each constructor's result\<close>

lemma is_subclass_refl [simp]: "is_subclass c c"
  by (simp add: is_subclass_def numeral_eq_Suc)

lemma class_baseError [class_simps]: "class_of (baseError c m s fs) = c"
  by (simp add: baseError_def)

lemma class_httpError [class_simps]: "class_of (httpError c st r m s fs) = c"
  by (simp add: httpError_def class_simps)

lemma class_family [class_simps]:
  "class_of (badRequest c m s) = c" "class_of (notFound c m s) = c"
  "class_of (unprocessableEntity c m r) = c" "class_of (internalServerError c m) = c"
  "class_of (badGateway c m) = c" "class_of (serviceUnavailable c m s) = c"
  by (simp_all add: error_defs)

lemma class_ctors [class_simps]:
  "class_of (BadRequest m) = CBadRequest" "class_of (NotFound m) = CNotFound"
  "class_of (PageNotFound m) = CPageNotFound" "class_of (Conflict m) = CConflict"
  "class_of (Forbidden m) = CForbidden" "class_of (Gone m) = CGone"
  "class_of (InternalServerError m) = CInternalServerError"
  "class_of (DeploymentAlreadyLocked i l lm) = CDeploymentAlreadyLocked"
  "class_of (AssertionError t) = CAssertionError" "class_of TypeError = CTypeError"
  "class_of SyntaxError = CSyntaxError" "class_of (Timeout t e) = CTimeout"
  "class_of (timedOut z x q) = CTimeout" "class_of (toManyAttempts n x q) = CTimeout"
  "class_of (UnprocessableEntity m r) = CUnprocessableEntity"
  "class_of (PreconditionFailed m) = CPreconditionFailed"
  "class_of AsyncRequired = CAsyncRequired" "class_of ContinueWithNext = CContinueWithNext"
  "class_of (ServiceInstanceNotFound i) = CServiceInstanceNotFound"
  "class_of (ServiceInstanceAlreadyExists i) = CServiceInstanceAlreadyExists"
  "class_of (ServiceBindingNotFound i) = CServiceBindingNotFound"
  "class_of (ServiceBindingAlreadyExists i) = CServiceBindingAlreadyExists"
  by (simp_all add: error_ctors class_simps Let_def)

lemma ancestors_sound: "d \<in> set (ancestors n c) \<Longrightarrow> (\<lambda>a b. superclass a = Some b)\<^sup>*\<^sup>* c d"
proof (induction n arbitrary: c)
  case (Suc n)
  then show ?case by (cases "superclass c") (auto intro: converse_rtranclp_into_rtranclp)
qed simp

lemma ancestors_depth: "superclass c = Some b \<Longrightarrow> ancestors 5 b = ancestors 6 b"
  by (cases c) (auto simp: numeral_eq_Suc)

text \<open>The bound on the depth is enough: \<open>is_subclass\<close> is the reflexive transitive closure of \<open>extends\<close>.\<close>

lemma is_subclass_closure: "is_subclass c d \<longleftrightarrow> (\<lambda>a b. superclass a = Some b)\<^sup>*\<^sup>* c d"
proof
  assume "is_subclass c d"
  then show "(\<lambda>a b. superclass a = Some b)\<^sup>*\<^sup>* c d" by (auto simp: is_subclass_def ancestors_sound)
next
  assume "(\<lambda>a b. superclass a = Some b)\<^sup>*\<^sup>* c d"
  then show "is_subclass c d"
  proof (induction rule: converse_rtranclp_induct)
    case (step c b)
    have "ancestors (Suc 5) c = c # ancestors 5 b" by (simp only: ancestors.simps step.hyps(1) option.case)
    then have "ancestors 6 c = c # ancestors 5 b" by (simp add: numeral_eq_Suc)
    with step ancestors_depth [OF step.hyps(1)] show ?case by (simp add: is_subclass_def)
  qed simp
qed

lemma instanceof_iff: "instanceof d e \<longleftrightarrow> is_subclass (class_of e) d"
  by (simp add: instanceof_def)

text \<open>The \<open>status\<close> property of an HTTP error, which the error handlers answer with.\<close>

lemma status_httpError: "err_prop (httpError c st r m s fs) ''status'' = Some (JNum st)"
  by (simp add: err_prop_def httpError_def baseError_def)

end
