(* ===== verification/ApiServer.thy ===== *)
theory ApiServer
  imports Errors
begin

text \<open>
  \<open>data-access-layer/eventmesh/src/ApiServerClient.js\<close>: every resource of the broker (service
  instances, bindings, locks, backups, flows) is a custom resource of the Kubernetes API server, and
  this client is the only way to it. The record \<open>env\<close> holds what the sources take from outside:
  the configuration, the clock, the timer, the Kubernetes client and the text conversions of other
  packages. Options are objects as in the source; a resource is the object the API server returns.
  The polling loops take fuel; \<open>Pending\<close> is a loop that has used it up.
\<close>

section \<open>The environment\<close>

text \<open>The world \<open>'w\<close> is opaque: only the environment's operations read and change it.\<close>

record 'w env =
  config :: json
  now :: "'w \<Rightarrow> int"
  wait :: "int \<Rightarrow> 'w \<Rightarrow> 'w"
  yaml_safeLoad :: "nat list \<Rightarrow> jsval"
  lowerCase :: "string \<Rightarrow> string"
  camelcaseKeys :: "json \<Rightarrow> json"
  decamelizeKeysDeep :: "json \<Rightarrow> json"
  createNamespacedCustomObject :: "string \<Rightarrow> string \<Rightarrow> string \<Rightarrow> string \<Rightarrow> json \<Rightarrow> ('w, exn, json) promise"
  patchNamespacedCustomObject :: "string \<Rightarrow> string \<Rightarrow> string \<Rightarrow> string \<Rightarrow> string \<Rightarrow> json \<Rightarrow> ('w, exn, json) promise"
  getNamespacedCustomObject :: "string \<Rightarrow> string \<Rightarrow> string \<Rightarrow> string \<Rightarrow> string \<Rightarrow> ('w, exn, json) promise"
  deleteNamespacedCustomObject :: "string \<Rightarrow> string \<Rightarrow> string \<Rightarrow> string \<Rightarrow> string \<Rightarrow> ('w, exn, json) promise"
  listNamespacedCustomObject :: "string \<Rightarrow> string \<Rightarrow> string \<Rightarrow> string \<Rightarrow> jsval \<Rightarrow> ('w, exn, json) promise"
  listClusterCustomObject :: "string \<Rightarrow> string \<Rightarrow> string \<Rightarrow> jsval \<Rightarrow> ('w, exn, json) promise"
  k8s_createNamespace :: "json \<Rightarrow> ('w, exn, json) promise"
  k8s_deleteNamespace :: "string \<Rightarrow> ('w, exn, json) promise"
  readNamespacedSecret :: "string \<Rightarrow> string \<Rightarrow> ('w, exn, json) promise"
  createNamespacedConfigMap :: "string \<Rightarrow> json \<Rightarrow> ('w, exn, json) promise"
  readNamespacedConfigMap :: "string \<Rightarrow> string \<Rightarrow> ('w, exn, json) promise"
  patchNamespacedConfigMap :: "string \<Rightarrow> string \<Rightarrow> json \<Rightarrow> ('w, exn, json) promise"
  createCustomResourceDefinition :: "json \<Rightarrow> ('w, exn, json) promise"
  readCustomResourceDefinition :: "string \<Rightarrow> ('w, exn, json) promise"
  patchCustomResourceDefinition :: "string \<Rightarrow> json \<Rightarrow> ('w, exn, json) promise"

definition conf :: "'w env \<Rightarrow> string list \<Rightarrow> jsval" where
  "conf env path = jget (Some (config env)) path"

definition delay :: "'w env \<Rightarrow> int \<Rightarrow> ('w, exn, unit) promise" where
  "delay env ms = effect (wait env ms)"

section \<open>Constants\<close>

abbreviation "API_VERSION \<equiv> ''v1alpha1''"
abbreviation "DEFAULT_NAMESPACE \<equiv> ''default''"
abbreviation "EVENTMESH_POLLER_DELAY \<equiv> 200 :: int"
abbreviation "CLUSTER_SCHEDULER_DELAY \<equiv> 100 :: int"
abbreviation "CLUSTER_SCHEDULE_TIMEOUT_IN_SEC \<equiv> 50 :: int"
abbreviation "OPERATION_TIMEOUT_IN_SECS \<equiv> 175 :: int"
abbreviation "GROUP_INTEROPERATOR \<equiv> ''osb.servicefabrik.io''"
abbreviation "GROUP_LOCK \<equiv> ''lock.servicefabrik.io''"
abbreviation "GROUP_DEPLOYMENT \<equiv> ''deployment.servicefabrik.io''"
abbreviation "GROUP_BIND \<equiv> ''bind.servicefabrik.io''"
abbreviation "GROUP_BACKUP \<equiv> ''backup.servicefabrik.io''"
abbreviation "GROUP_SERVICE_FLOW \<equiv> ''serviceflow.servicefabrik.io''"
abbreviation "TYPE_SERVICEINSTANCES \<equiv> ''sfserviceinstances''"
abbreviation "TYPE_SERVICEBINDINGS \<equiv> ''sfservicebindings''"
abbreviation "TYPE_SERVICES \<equiv> ''sfservices''"
abbreviation "TYPE_PLANS \<equiv> ''sfplans''"
abbreviation "TYPE_DEPLOYMENT_LOCKS \<equiv> ''deploymentlocks''"
abbreviation "STATE_IN_QUEUE \<equiv> ''in_queue''"
abbreviation "STATE_IN_PROGRESS \<equiv> ''in_progress''"
abbreviation "STATE_WAITING \<equiv> ''waiting''"
abbreviation "STATE_POST_PROCESSING \<equiv> ''post_processing''"
abbreviation "STATE_DELETE \<equiv> ''delete''"
abbreviation "STATE_SUCCEEDED \<equiv> ''succeeded''"
abbreviation "STATE_FAILED \<equiv> ''failed''"
abbreviation "STATE_DELETE_FAILED \<equiv> ''delete_failed''"
abbreviation "STATE_ABORT \<equiv> ''abort''"
abbreviation "STATE_ABORTING \<equiv> ''aborting''"
abbreviation "STATE_ABORTED \<equiv> ''aborted''"
abbreviation "STATE_UPDATE \<equiv> ''update''"
abbreviation "STATE_LOCKED \<equiv> ''locked''"
abbreviation "STATE_UNLOCKED \<equiv> ''unlocked''"

section \<open>Errors and responses\<close>

text \<open>The code an error is classified by: an HTTP \<open>statusCode\<close> first, then \<open>status\<close>. The comparison
  with 600 is numeric, so that a text that is no number does not pass it.\<close>

fun js_number :: "json \<Rightarrow> int option" where
  "js_number (JNum n) = Some n"
| "js_number JNull = Some 0"
| "js_number (JBool b) = Some (if b then 1 else 0)"
| "js_number (JStr s) = (let t = js_trim s in
     if t = [] then Some 0 else if list_all is_digit t then Some (int (dec_val t)) else None)"
| "js_number _ = None"

definition http_code :: "json \<Rightarrow> jsval" where
  "http_code err =
     (case jprop err ''statusCode'' of
        Some c \<Rightarrow> if truthy (Some c) \<and> (case js_number c of Some n \<Rightarrow> n < 600 | None \<Rightarrow> False) then Some c
                  else (if truthy (jprop err ''status'') then jprop err ''status'' else None)
      | None \<Rightarrow> if truthy (jprop err ''status'') then jprop err ''status'' else None)"

definition http_message :: "json \<Rightarrow> jsval" where
  "http_message err =
     (if truthy (jget (Some err) [''body'', ''message'']) then jget (Some err) [''body'', ''message'']
      else if truthy (jprop err ''message'') then jprop err ''message'' else Some (JStr []))"

definition convertToHttpError :: "json \<Rightarrow> exn" where
  "convertToHttpError err =
     (let message = http_message err; code = http_code err in
      if code = Some (JNum HTTP_BAD_REQUEST) then BadRequest message
      else if code = Some (JNum HTTP_NOT_FOUND) then
        (if js_includes (str_of message) ''page not found'' then PageNotFound message else NotFound message)
      else if code = Some (JNum HTTP_CONFLICT) then Conflict message
      else if code = Some (JNum HTTP_FORBIDDEN) then Forbidden message
      else if code = Some (JNum HTTP_GONE) then Gone message
      else InternalServerError message)"

definition convertToHttpErrorAndThrow :: "exn \<Rightarrow> ('w, exn, 'a) promise" where
  "convertToHttpErrorAndThrow err = reject (convertToHttpError (props_of err))"

fun all_falsy :: "json \<Rightarrow> bool" where
  "all_falsy (JArr xs) = list_all (\<lambda>x. \<not> truthy (Some x)) xs"
| "all_falsy _ = False"

definition omitUndefinedFields :: "jsval \<Rightarrow> json" where
  "omitUndefinedFields body =
     JObj (filter (\<lambda>(_, v). \<not> is_empty (Some v) \<and> \<not> all_falsy v) (fields_of body))"

definition transformResponse :: "json \<Rightarrow> json" where
  "transformResponse res =
     (let res1 = (if truthy (jprop res ''statusCode'') then res
                  else (case jget (Some res) [''response'', ''statusCode''] of
                          Some c \<Rightarrow> jput ''statusCode'' c res
                        | None \<Rightarrow> jomit [''statusCode''] res)) in
      jomit [''response''] (jput ''body'' (omitUndefinedFields (jprop res1 ''body'')) res1))"

fun require_props :: "string \<Rightarrow> json \<Rightarrow> string list \<Rightarrow> ('w, exn, unit) promise" where
  "require_props what opts [] = resolve ()"
| "require_props what opts (k # ks) =
     (if truthy (jprop opts k) then require_props what opts ks
      else reject (AssertionError (''Property '' @ squote k @ '' is required to '' @ what)))"

definition require_any :: "string \<Rightarrow> json \<Rightarrow> string list \<Rightarrow> ('w, exn, unit) promise" where
  "require_any message opts ks =
     (if list_ex (\<lambda>k. truthy (jprop opts k)) ks then resolve () else reject (AssertionError message))"

text \<open>\<open>a.b.c\<close>: a property of \<open>undefined\<close> or \<open>null\<close> is a \<open>TypeError\<close>.\<close>

fun path_of :: "jsval \<Rightarrow> string list \<Rightarrow> jsval option" where
  "path_of v [] = Some v"
| "path_of None (k # ks) = None"
| "path_of (Some j) (k # ks) = (if j = JNull then None else path_of (jprop j k) ks)"

definition deref :: "jsval \<Rightarrow> string list \<Rightarrow> ('w, exn, jsval) promise" where
  "deref v ks = (case path_of v ks of Some x \<Rightarrow> resolve x | None \<Rightarrow> reject TypeError)"

text \<open>A time stamp: a \<open>Date\<close> is represented by its time in milliseconds, also where the source writes it
  into a resource as text and reads it back with \<open>new Date(...)\<close>; \<open>None\<close> is an invalid date.\<close>

fun date_ms :: "jsval \<Rightarrow> int option" where
  "date_ms (Some (JNum n)) = Some n"
| "date_ms (Some JNull) = Some 0"
| "date_ms _ = None"

text \<open>The number a value is converted to in an arithmetic expression; \<open>None\<close> is \<open>NaN\<close>.\<close>

section \<open>Names of resources\<close>

definition getCrdJson :: "'w env \<Rightarrow> string \<Rightarrow> string \<Rightarrow> jsval" where
  "getCrdJson env resourceGroup resourceType =
     (case conf env [''apiserver'', ''crds'', resourceGroup @ ''_'' @ API_VERSION @ ''_'' @ resourceType @ ''.yaml''] of
        Some (JStr t) \<Rightarrow> if t = [] then None else yaml_safeLoad env (b64_decode t)
      | _ \<Rightarrow> None)"

definition first_version :: "jsval \<Rightarrow> jsval" where
  "first_version crdJson =
     (case jget crdJson [''spec'', ''versions''] of
        Some (JArr (v # _)) \<Rightarrow> jprop v ''name''
      | _ \<Rightarrow> None)"

definition getCrdVersion :: "jsval \<Rightarrow> string" where
  "getCrdVersion crdJson =
     (case jget crdJson [''spec'', ''version''] of
        Some v \<Rightarrow> to_js_string v
      | None \<Rightarrow> (case first_version crdJson of Some v \<Rightarrow> to_js_string v | None \<Rightarrow> API_VERSION))"

definition sf_namespace :: "'w env \<Rightarrow> string" where
  "sf_namespace env = to_js_string (jget_default (Some (config env)) [''sf_namespace''] (JStr DEFAULT_NAMESPACE))"

definition getNamespaceId :: "'w env \<Rightarrow> string \<Rightarrow> string" where
  "getNamespaceId env resourceId =
     (if truthy (conf env [''apiserver'', ''enable_namespaced_separation'']) then ''sf-'' @ resourceId
      else if truthy (conf env [''apiserver'', ''services_namespace''])
      then str_of (conf env [''apiserver'', ''services_namespace''])
      else sf_namespace env)"

text \<open>\<open>group\<close>, \<open>version\<close> and \<open>plural\<close> as every operation computes them from its options.\<close>

definition coords :: "'w env \<Rightarrow> string \<Rightarrow> string \<Rightarrow> (string \<times> string \<times> string) option" where
  "coords env resourceGroup resourceType =
     (let crdJson = getCrdJson env resourceGroup resourceType;
          version = getCrdVersion crdJson in
      if truthy crdJson
      then (case (path_of crdJson [''spec'', ''group''], path_of crdJson [''spec'', ''names'', ''plural'']) of
              (Some grp, Some plural) \<Rightarrow> Some (str_of grp, version, str_of plural)
            | _ \<Rightarrow> None)
      else Some (resourceGroup, version, lowerCase env resourceType))"

definition resource_coords :: "'w env \<Rightarrow> json \<Rightarrow> ('w, exn, string \<times> string \<times> string) promise" where
  "resource_coords env opts =
     (case coords env (str_of (jprop opts ''resourceGroup'')) (str_of (jprop opts ''resourceType'')) of
        Some c \<Rightarrow> resolve c
      | None \<Rightarrow> reject TypeError)"

definition crd_of :: "'w env \<Rightarrow> json \<Rightarrow> jsval" where
  "crd_of env opts = getCrdJson env (str_of (jprop opts ''resourceGroup'')) (str_of (jprop opts ''resourceType''))"

definition parseResourceDetailsFromSelfLink :: "string \<Rightarrow> json" where
  "parseResourceDetailsFromSelfLink selfLink =
     (let linkParts = split_on (CHR ''/'') selfLink;
          part = (\<lambda>i. if i < length linkParts then Some (JStr (linkParts ! i)) else None) in
      obj [(''resourceGroup'', part 2), (''resourceType'', part 6), (''resourceId'', part 7)])"

section \<open>Namespaces, secrets and definitions\<close>

definition createNamespace :: "'w env \<Rightarrow> string \<Rightarrow> ('w, exn, jsval) promise" where
  "createNamespace env name =
     then_do (assert_ok (name \<noteq> []) (AssertionError (''Property '' @ squote ''name'' @ '' is required to create namespace'')))
       (\<lambda>_.
       if \<not> truthy (conf env [''apiserver'', ''enable_namespaced_separation'']) then resolve None
       else catch_on (then_do (k8s_createNamespace env
              (obj [(''kind'', Some (JStr ''Namespace'')), (''apiVersion'', Some (JStr ''v1'')),
                    (''metadata'', Some (obj [(''name'', Some (JStr name))]))]))
              (\<lambda>res. resolve (Some (transformResponse res))))
              any_error convertToHttpErrorAndThrow)"

definition deleteNamespace :: "'w env \<Rightarrow> string \<Rightarrow> ('w, exn, json) promise" where
  "deleteNamespace env name =
     catch_on (then_do (k8s_deleteNamespace env name)
       (\<lambda>res. resolve (transformResponse res)))
       any_error convertToHttpErrorAndThrow"

definition getSecret :: "'w env \<Rightarrow> string \<Rightarrow> string \<Rightarrow> ('w, exn, jsval) promise" where
  "getSecret env secretId namespaceId =
     then_do (require_props ''get Secret''
       (obj [(''secretId'', Some (JStr secretId)), (''namespaceId'', Some (JStr namespaceId))])
       [''secretId'', ''namespaceId''])
       (\<lambda>_.
       catch_on (then_do (readNamespacedSecret env secretId namespaceId)
         (\<lambda>res. resolve (jprop (transformResponse res) ''body'')))
         any_error convertToHttpErrorAndThrow)"

definition registerCrds :: "'w env \<Rightarrow> string \<Rightarrow> string \<Rightarrow> ('w, exn, jsval) promise" where
  "registerCrds env resourceGroup resourceType =
     (case getCrdJson env resourceGroup resourceType of
        None \<Rightarrow> resolve None
      | Some crdJson \<Rightarrow>
          if \<not> truthy (Some crdJson) then resolve None
          else then_do (catch_on (catch_on (createCustomResourceDefinition env crdJson)
                 any_error convertToHttpErrorAndThrow)
                 (instanceof CConflict) (\<lambda>_.
                    catch_on (patchCustomResourceDefinition env (lowerCase env resourceType @ ''.'' @ resourceGroup) crdJson)
                      any_error convertToHttpErrorAndThrow))
                 (\<lambda>res. resolve (Some (transformResponse res))))"

definition getCustomResourceDefinition :: "'w env \<Rightarrow> string \<Rightarrow> ('w, exn, jsval) promise" where
  "getCustomResourceDefinition env customResourceName =
     catch_on (then_do (readCustomResourceDefinition env customResourceName)
       (\<lambda>response. resolve (jprop response ''body'')))
       any_error convertToHttpErrorAndThrow"

section \<open>Resources\<close>

definition status_json :: "json \<Rightarrow> json" where
  "status_json status = JObj (map (\<lambda>(k, v). (k, if is_object v then JStr (stringify v) else v)) (fields_of (Some status)))"

text \<open>The label that repeats \<open>status.state\<close>: the label selectors of the watchers and lists read it.\<close>

definition with_state_label :: "jsval \<Rightarrow> jsval \<Rightarrow> jsval" where
  "with_state_label labels status =
     (case jget status [''state''] of
        None \<Rightarrow> labels
      | Some v \<Rightarrow> Some (jmerge_opt labels (obj [(''state'', Some v)])))"

definition create_body :: "string \<Rightarrow> string \<Rightarrow> jsval \<Rightarrow> json \<Rightarrow> json" where
  "create_body grp version kind opts =
     (let labels = (if truthy (jprop opts ''labels'') then jprop opts ''labels'' else None);
          hasStatus = truthy (jprop opts ''status'');
          labels' = (if hasStatus then with_state_label labels (jprop opts ''status'') else labels) in
      obj [(''apiVersion'', Some (JStr (grp @ ''/'' @ version))),
           (''kind'', kind),
           (''metadata'', Some (obj [(''name'', jprop opts ''resourceId''), (''labels'', labels')])),
           (''spec'', Some (obj [(''options'', Some (JStr (stringify (the (jprop opts ''options'')))))])),
           (''status'', if hasStatus then map_option status_json (jprop opts ''status'') else None)])"

definition createResource :: "'w env \<Rightarrow> json \<Rightarrow> ('w, exn, json) promise" where
  "createResource env opts =
     then_do (require_props ''create resource'' opts [''resourceGroup'', ''resourceType'', ''resourceId'', ''options''])
       (\<lambda>_. then_do (resource_coords env opts)
       (\<lambda>(group, version, plural). then_do (deref (crd_of env opts) [''spec'', ''names'', ''kind''])
       (\<lambda>kind.
       catch_on (then_do (createNamespacedCustomObject env group version (getNamespaceId env (str_of (jprop opts ''resourceId''))) plural
         (create_body group version kind opts))
         (\<lambda>res. resolve (transformResponse res)))
         any_error convertToHttpErrorAndThrow)))"

definition patch_metadata :: "jsval \<Rightarrow> jsval \<Rightarrow> jsval" where
  "patch_metadata metadata status =
     (case jget status [''state''] of
        None \<Rightarrow> metadata
      | Some v \<Rightarrow> Some (jmerge_opt metadata (obj [(''labels'', Some (obj [(''state'', Some v)]))])))"

definition if_truthy :: "jsval \<Rightarrow> jsval" where
  "if_truthy v = (if truthy v then v else None)"

definition update_body :: "json \<Rightarrow> json" where
  "update_body opts =
     obj [(''metadata'', patch_metadata (if_truthy (jprop opts ''metadata'')) (if_truthy (jprop opts ''status''))),
          (''spec'', map_option (\<lambda>o'. obj [(''options'', Some (JStr (stringify o')))]) (if_truthy (jprop opts ''options''))),
          (''operatorMetadata'', if_truthy (jprop opts ''operatorMetadata'')),
          (''status'', map_option status_json (if_truthy (jprop opts ''status'')))]"

definition updateResource :: "'w env \<Rightarrow> json \<Rightarrow> ('w, exn, json) promise" where
  "updateResource env opts =
     then_do (require_props ''update resource'' opts [''resourceGroup'', ''resourceType'', ''resourceId''])
       (\<lambda>_. then_do (require_any (''Property '' @ squote ''metadata'' @ '' or '' @ squote ''options'' @ '' or '' @ squote ''status'' @ '' or '' @ squote ''operatorMetadata'' @ ''  is required to update resource'')
            opts [''metadata'', ''options'', ''status'', ''operatorMetadata''])
       (\<lambda>_. then_do (resource_coords env opts)
       (\<lambda>(group, version, plural).
       let resourceId = str_of (jprop opts ''resourceId'') in
       catch_on (then_do (patchNamespacedCustomObject env group version (getNamespaceId env resourceId) plural resourceId (update_body opts))
         (\<lambda>res. resolve (transformResponse res)))
         any_error convertToHttpErrorAndThrow)))"

text \<open>\<open>JSON.parse\<close> of each field, which keeps the value that does not parse.\<close>

definition parse_fields :: "fields \<Rightarrow> fields" where
  "parse_fields fs = map (\<lambda>(k, v). (k, case parse_arg v of Some x \<Rightarrow> x | None \<Rightarrow> v)) fs"

definition parse_section :: "string \<Rightarrow> json \<Rightarrow> json" where
  "parse_section k body =
     (case jprop body k of
        Some (JObj fs) \<Rightarrow> jput k (JObj (parse_fields fs)) body
      | _ \<Rightarrow> body)"

definition parse_resource :: "json \<Rightarrow> json" where
  "parse_resource body = parse_section ''status'' (parse_section ''spec'' body)"

definition ns_or_default :: "'w env \<Rightarrow> json \<Rightarrow> string" where
  "ns_or_default env opts =
     (if truthy (jprop opts ''namespaceId'') then str_of (jprop opts ''namespaceId'')
      else getNamespaceId env (str_of (jprop opts ''resourceId'')))"

definition getResource :: "'w env \<Rightarrow> json \<Rightarrow> ('w, exn, json) promise" where
  "getResource env opts =
     then_do (require_props ''get resource'' opts [''resourceGroup'', ''resourceType'', ''resourceId''])
       (\<lambda>_. then_do (resource_coords env opts)
       (\<lambda>(group, version, plural).
       catch_on (then_do (getNamespacedCustomObject env group version (ns_or_default env opts) plural (str_of (jprop opts ''resourceId'')))
         (\<lambda>response.
            case jprop response ''body'' of
              None \<Rightarrow> reject TypeError
            | Some body \<Rightarrow> if body = JNull then reject TypeError else resolve (parse_resource body)))
         any_error convertToHttpErrorAndThrow))"

definition patch_opts :: "json \<Rightarrow> json \<Rightarrow> json" where
  "patch_opts resource opts =
     (let o1 = (if truthy (jget (Some opts) [''status'', ''response'']) \<and> truthy (jprop resource ''status'')
                then jset [''status'', ''response'']
                       (jmerge_opt (jget (Some resource) [''status'', ''response'']) (the (jget (Some opts) [''status'', ''response'']))) opts
                else opts);
          o2 = (if truthy (jprop o1 ''options'') \<and> truthy (jprop resource ''spec'')
                then jput ''options'' (jmerge_opt (jget (Some resource) [''spec'', ''options'']) (the (jprop o1 ''options''))) o1
                else o1) in
      if truthy (jprop o2 ''operatorMetadata'') \<and> truthy (jprop resource ''operatorMetadata'')
      then jput ''operatorMetadata'' (jmerge_opt (jprop resource ''operatorMetadata'') (the (jprop o2 ''operatorMetadata''))) o2
      else o2)"

definition patchResource :: "'w env \<Rightarrow> json \<Rightarrow> ('w, exn, json) promise" where
  "patchResource env opts =
     then_do (require_props ''patch options'' opts [''resourceGroup'', ''resourceType'', ''resourceId''])
       (\<lambda>_. then_do (require_any (''Property '' @ squote ''metadata'' @ '' or '' @ squote ''options'' @ '' or '' @ squote ''status'' @ '' or '' @ squote ''operatorMetadata'' @ '' is required to patch resource'')
            opts [''metadata'', ''options'', ''status'', ''operatorMetadata''])
       (\<lambda>_. then_do (getResource env opts)
       (\<lambda>resource. updateResource env (patch_opts resource opts))))"

definition deleteResource :: "'w env \<Rightarrow> json \<Rightarrow> ('w, exn, json) promise" where
  "deleteResource env opts =
     then_do (require_props ''delete resource'' opts [''resourceGroup'', ''resourceType'', ''resourceId''])
       (\<lambda>_. then_do (resource_coords env opts)
       (\<lambda>(group, version, plural).
       let namespaceId = ns_or_default env opts in
       catch_on (then_do (then_do (deleteNamespacedCustomObject env group version namespaceId plural (str_of (jprop opts ''resourceId'')))
         (\<lambda>res.
            if truthy (conf env [''apiserver'', ''enable_namespaced_separation'']) \<and>
               jprop opts ''resourceType'' = Some (JStr TYPE_SERVICEINSTANCES)
            then deleteNamespace env namespaceId
            else resolve res))
         (\<lambda>res. resolve (transformResponse res)))
         any_error convertToHttpErrorAndThrow))"

definition last_operation_label :: "json \<Rightarrow> string" where
  "last_operation_label opts =
     ''last_'' @ str_of (jprop opts ''operationName'') @ ''_'' @ str_of (jprop opts ''operationType'')"

definition updateLastOperationValue :: "'w env \<Rightarrow> json \<Rightarrow> ('w, exn, json) promise" where
  "updateLastOperationValue env opts =
     then_do (require_props ''update lastOperation'' opts
       [''resourceGroup'', ''resourceType'', ''resourceId'', ''operationName'', ''operationType'', ''value''])
       (\<lambda>_.
       updateResource env
         (jput ''metadata'' (obj [(''labels'', Some (obj [(last_operation_label opts, jprop opts ''value'')]))])
           (jomit [''value'', ''operationName'', ''operationType''] opts)))"

definition getResources :: "'w env \<Rightarrow> json \<Rightarrow> ('w, exn, json list) promise" where
  "getResources env opts =
     then_do (require_props ''get resource'' opts [''resourceGroup'', ''resourceType''])
       (\<lambda>_. then_do (resource_coords env opts)
       (\<lambda>(group, version, plural).
       catch_on (then_do (if \<not> truthy (Some (jget_default (Some opts) [''allNamespaces''] (JBool False)))
        then listNamespacedCustomObject env group version
               (if truthy (jprop opts ''namespaceId'') then str_of (jprop opts ''namespaceId'') else sf_namespace env)
               plural (jprop opts ''query'')
        else listClusterCustomObject env group version plural (jprop opts ''query''))
         (\<lambda>response. resolve (elems_of (Some (jget_default (Some response) [''body'', ''items''] (JArr []))))))
         any_error convertToHttpErrorAndThrow))"

text \<open>\<open>_.sortBy\<close> is stable; \<open>undefined\<close> comes last.\<close>

fun str_less :: "string \<Rightarrow> string \<Rightarrow> bool" where
  "str_less s [] = False"
| "str_less [] (c # cs) = True"
| "str_less (c # cs) (d # ds) = (chr_code c < chr_code d \<or> c = d \<and> str_less cs ds)"

definition key_less :: "jsval \<Rightarrow> jsval \<Rightarrow> bool" where
  "key_less a b =
     (case (a, b) of
        (None, _) \<Rightarrow> False
      | (Some _, None) \<Rightarrow> True
      | (Some x, Some y) \<Rightarrow> str_less (to_js_string x) (to_js_string y))"

fun insert_sorted :: "string list \<Rightarrow> json \<Rightarrow> json list \<Rightarrow> json list" where
  "insert_sorted path x [] = [x]"
| "insert_sorted path x (y # ys) =
     (if key_less (jget (Some y) path) (jget (Some x) path) then y # insert_sorted path x ys else x # y # ys)"

definition sortBy :: "string list \<Rightarrow> json list \<Rightarrow> json list" where
  "sortBy path xs = foldr (insert_sorted path) xs []"

definition getParsedResources :: "'w env \<Rightarrow> json \<Rightarrow> ('w, exn, json list) promise" where
  "getParsedResources env opts =
     then_do (getResources env opts)
       (\<lambda>resources.
       let parsed = map parse_resource resources in
       if 0 < length parsed then resolve (sortBy [''metadata'', ''creationTimeStamp''] parsed) else resolve [])"

definition getResourceListByState :: "'w env \<Rightarrow> json \<Rightarrow> ('w, exn, json list) promise" where
  "getResourceListByState env opts =
     then_do (require_props ''get resource list'' opts [''resourceGroup'', ''resourceType'', ''stateList''])
       (\<lambda>_.
       getParsedResources env
         (jput ''query'' (obj [(''labelSelector'',
            Some (JStr (''state in ('' @ js_join '','' (map to_js_string (elems_of (jprop opts ''stateList''))) @ '')'')))]) opts))"

section \<open>Reading parts of a resource\<close>

definition getLastOperationValue :: "'w env \<Rightarrow> json \<Rightarrow> ('w, exn, jsval) promise" where
  "getLastOperationValue env opts =
     then_do (require_props ''get lastOperation'' opts
       [''resourceGroup'', ''resourceType'', ''resourceId'', ''operationName'', ''operationType''])
       (\<lambda>_. then_do (getResource env (jomit [''operationName'', ''operationType''] opts))
       (\<lambda>json. resolve (jget (jprop json ''metadata'') [''labels'', last_operation_label opts])))"

definition getOptions :: "'w env \<Rightarrow> json \<Rightarrow> ('w, exn, jsval) promise" where
  "getOptions env opts =
     then_do (getResource env opts) (\<lambda>resource. resolve (jget (Some resource) [''spec'', ''options'']))"

definition getResponse :: "'w env \<Rightarrow> json \<Rightarrow> ('w, exn, jsval) promise" where
  "getResponse env opts =
     then_do (getResource env opts) (\<lambda>resource. resolve (jget (Some resource) [''status'', ''response'']))"

definition getResourceState :: "'w env \<Rightarrow> json \<Rightarrow> ('w, exn, jsval) promise" where
  "getResourceState env opts =
     then_do (getResource env opts) (\<lambda>resource. resolve (jget (Some resource) [''status'', ''state'']))"

definition getResourceStatus :: "'w env \<Rightarrow> json \<Rightarrow> ('w, exn, jsval) promise" where
  "getResourceStatus env opts =
     then_do (getResource env opts) (\<lambda>resource. resolve (jget (Some resource) [''status'']))"

definition getLastOperation :: "'w env \<Rightarrow> json \<Rightarrow> ('w, exn, jsval) promise" where
  "getLastOperation env opts =
     then_do (getResource env opts) (\<lambda>resource. resolve (jget (Some resource) [''status'']))"

definition getPlatformContext :: "'w env \<Rightarrow> json \<Rightarrow> ('w, exn, jsval) promise" where
  "getPlatformContext env opts =
     then_do (getResource env (jpick [''resourceGroup'', ''resourceType'', ''resourceId''] opts))
       (\<lambda>resource. resolve (jget (Some resource) [''spec'', ''options'', ''context'']))"

section \<open>Config maps\<close>

definition config_map_body :: "string \<Rightarrow> string \<Rightarrow> json \<Rightarrow> json" where
  "config_map_body configName key value =
     obj [(''apiVersion'', Some (JStr ''v1'')), (''kind'', Some (JStr ''ConfigMap'')),
          (''metadata'', Some (obj [(''name'', Some (JStr configName))])),
          (''data'', Some (jset (split_on (CHR ''.'') key) value (JObj [])))]"

definition createConfigMapResource :: "'w env \<Rightarrow> string \<Rightarrow> string \<Rightarrow> json \<Rightarrow> ('w, exn, json) promise" where
  "createConfigMapResource env configName key value =
     catch_on (then_do (createNamespacedConfigMap env (sf_namespace env) (config_map_body configName key value))
       (\<lambda>res. resolve (transformResponse res)))
       any_error convertToHttpErrorAndThrow"

definition getConfigMapResource :: "'w env \<Rightarrow> string \<Rightarrow> ('w, exn, jsval) promise" where
  "getConfigMapResource env configName =
     catch_on (then_do (readNamespacedConfigMap env configName (sf_namespace env))
       (\<lambda>resource. resolve (jprop resource ''body'')))
       any_error convertToHttpErrorAndThrow"

definition createUpdateConfigMapResource :: "'w env \<Rightarrow> string \<Rightarrow> string \<Rightarrow> json \<Rightarrow> ('w, exn, json) promise" where
  "createUpdateConfigMapResource env configName key value =
     (let resourceBody = config_map_body configName key value;
          data = the (jprop resourceBody ''data'') in
      then_do (catch_on (then_do (getConfigMapResource env configName)
        (\<lambda>old.
           then_do (deref old [''data'']) (\<lambda>oldData.
           then_do (deref old [''metadata'', ''resourceVersion'']) (\<lambda>resourceVersion.
             catch_on (patchNamespacedConfigMap env configName (sf_namespace env)
               (jput ''data'' (if truthy oldData then jmerge_opt oldData data else data)
                 (jput ''metadata'' (obj [(''name'', Some (JStr configName)), (''resourceVersion'', resourceVersion)]) resourceBody)))
               any_error convertToHttpErrorAndThrow))))
        (instanceof CNotFound) (\<lambda>_.
           catch_on (createConfigMapResource env configName key value)
             any_error convertToHttpErrorAndThrow))
        (\<lambda>res. resolve (transformResponse res)))"

definition getConfigMap :: "'w env \<Rightarrow> string \<Rightarrow> string \<Rightarrow> ('w, exn, jsval) promise" where
  "getConfigMap env configName key =
     catch_on (then_do (getConfigMapResource env configName)
       (\<lambda>body. then_do (deref body [''data''])
            (\<lambda>data. resolve (jget data (split_on (CHR ''.'') key)))))
       (instanceof CNotFound) (\<lambda>_. resolve None)"

section \<open>Resources of the interoperator\<close>

definition osb_namespace :: "'w env \<Rightarrow> json \<Rightarrow> string" where
  "osb_namespace env opts =
     getNamespaceId env
       (if jprop opts ''resourceType'' = Some (JStr TYPE_SERVICEBINDINGS)
        then str_of (jget (Some opts) [''spec'', ''instance_id'']) else str_of (jprop opts ''resourceId''))"

definition createOSBResource :: "'w env \<Rightarrow> json \<Rightarrow> ('w, exn, json) promise" where
  "createOSBResource env opts =
     then_do (require_props ''create resource'' opts [''resourceGroup'', ''resourceType'', ''resourceId'', ''spec''])
       (\<lambda>_. then_do (resource_coords env opts)
       (\<lambda>(group, version, plural). then_do (deref (crd_of env opts) [''spec'', ''group''])
       (\<lambda>crdGroup. then_do (deref (crd_of env opts) [''spec'', ''names'', ''kind''])
       (\<lambda>kind.
       let md0 = jmerge_opt (jprop opts ''metadata'') (obj [(''name'', jprop opts ''resourceId'')]);
           md1 = (if truthy (jprop opts ''labels'') then jput ''labels'' (the (jprop opts ''labels'')) md0 else md0);
           hasStatus = truthy (jprop opts ''status'');
           md2 = (if hasStatus then
                    (case with_state_label (jprop md1 ''labels'') (jprop opts ''status'') of
                       Some l \<Rightarrow> jput ''labels'' l md1 | None \<Rightarrow> md1)
                  else md1);
           resourceBody = obj [(''apiVersion'', Some (JStr (str_of crdGroup @ ''/'' @ version))),
             (''kind'', kind), (''metadata'', Some md2),
             (''spec'', map_option (camelcaseKeys env) (jprop opts ''spec'')),
             (''status'', if hasStatus then jprop opts ''status'' else None)] in
       catch_on (then_do (createNamespacedCustomObject env group version (osb_namespace env opts) plural resourceBody)
         (\<lambda>res. resolve (transformResponse res)))
         any_error convertToHttpErrorAndThrow))))"

definition osb_update_body :: "'w env \<Rightarrow> json \<Rightarrow> json" where
  "osb_update_body env opts =
     (let md = patch_metadata (if_truthy (jprop opts ''metadata'')) (if_truthy (jprop opts ''status''));
          md' = (if truthy (jprop opts ''labels'')
                 then Some (jmerge_opt md (obj [(''labels'', jprop opts ''labels'')])) else md) in
      obj [(''metadata'', md'),
           (''spec'', map_option (camelcaseKeys env) (if_truthy (jprop opts ''spec''))),
           (''status'', if_truthy (jprop opts ''status''))])"

definition updateOSBResource :: "'w env \<Rightarrow> json \<Rightarrow> ('w, exn, json) promise" where
  "updateOSBResource env opts =
     then_do (require_props ''update resource'' opts [''resourceGroup'', ''resourceType'', ''resourceId''])
       (\<lambda>_. then_do (require_any (''Property '' @ squote ''metadata'' @ '' or '' @ squote ''options'' @ '' or '' @ squote ''status'' @ ''  is required to update resource'')
            opts [''metadata'', ''spec'', ''status''])
       (\<lambda>_. then_do (resource_coords env opts)
       (\<lambda>(group, version, plural).
       let namespaceId = (if truthy (jprop opts ''namespaceId'') then str_of (jprop opts ''namespaceId'') else osb_namespace env opts) in
       catch_on (then_do (patchNamespacedCustomObject env group version namespaceId plural (str_of (jprop opts ''resourceId'')) (osb_update_body env opts))
         (\<lambda>res. resolve (transformResponse res)))
         any_error convertToHttpErrorAndThrow)))"

definition patchOSBResource :: "'w env \<Rightarrow> json \<Rightarrow> ('w, exn, json) promise" where
  "patchOSBResource env opts =
     then_do (require_props ''patch options'' opts [''resourceGroup'', ''resourceType'', ''resourceId''])
       (\<lambda>_. then_do (require_any (''Property '' @ squote ''metadata'' @ '' or '' @ squote ''options'' @ '' or '' @ squote ''status'' @ '' is required to patch resource'')
            opts [''metadata'', ''spec'', ''status''])
       (\<lambda>_.
       then_do (if jget (Some opts) [''status'', ''state''] = Some (JStr STATE_UPDATE)
        then updateOSBResource env
               (jput ''spec'' (obj [(''parameters'', Some JNull)])
                 (jpick [''resourceGroup'', ''resourceType'', ''resourceId'', ''labels''] opts))
        else resolve JNull)
       (\<lambda>_. updateOSBResource env opts)))"

definition removeFinalizers :: "'w env \<Rightarrow> json \<Rightarrow> ('w, exn, json) promise" where
  "removeFinalizers env opts =
     then_do (require_props ''remove finalizer'' opts
       [''resourceGroup'', ''resourceType'', ''resourceId'', ''finalizer'', ''namespaceId''])
       (\<lambda>_. then_do (getResource env opts)
       (\<lambda>resourceBody.
       updateOSBResource env
         (jput ''metadata''
           (obj [(''resourceVersion'', jget (Some resourceBody) [''metadata'', ''resourceVersion'']),
                 (''finalizers'', map_option (\<lambda>fs. JArr (filter (\<lambda>f. Some f \<noteq> jprop opts ''finalizer'') (elems_of (Some fs))))
                                    (jget (Some resourceBody) [''metadata'', ''finalizers'']))]) opts)))"

definition createOrUpdateServicePlan :: "'w env \<Rightarrow> json \<Rightarrow> ('w, exn, json) promise" where
  "createOrUpdateServicePlan env crd =
     (let resourceType = (if jprop crd ''kind'' = Some (JStr ''SFService'') then TYPE_SERVICES else TYPE_PLANS);
          apiVersion = split_on (CHR ''/'') (str_of (jprop crd ''apiVersion''));
          group = apiVersion ! 0;
          version = (if 1 < length apiVersion then apiVersion ! 1 else ''undefined'');
          plural = lowerCase env resourceType;
          name = str_of (jget (Some crd) [''metadata'', ''name'']) in
      then_do (catch_on (catch_on (createNamespacedCustomObject env group version (sf_namespace env) plural crd)
        any_error convertToHttpErrorAndThrow)
        (instanceof CConflict) (\<lambda>_.
           catch_on (patchNamespacedCustomObject env group version (sf_namespace env) plural name crd)
             any_error convertToHttpErrorAndThrow))
        (\<lambda>res. resolve (transformResponse res)))"

section \<open>Polling for the end of an operation\<close>

definition poll_result :: "jsval \<Rightarrow> jsval \<Rightarrow> json" where
  "poll_result finalState result =
     (if truthy (jget result [''state'']) then the result
      else obj [(''state'', finalState), (''response'', result)])"

definition not_processed :: "json \<Rightarrow> int \<Rightarrow> exn" where
  "not_processed opts ms =
     Timeout (str_of (jprop opts ''resourceGroup'') @ '' with guid '' @ str_of (jprop opts ''resourceId'')
       @ '' not yet processed after '' @ show_int (ms div 1000) @ ''s'') None"

text \<open>Milliseconds: \<open>duration > timeout\<close> is \<open>now - started_at > timeout * 1000\<close>.\<close>

definition timeout_ms :: "json \<Rightarrow> int" where
  "timeout_ms opts = (case jget_default (Some opts) [''timeout_in_sec''] (JNum OPERATION_TIMEOUT_IN_SECS) of
     JNum n \<Rightarrow> n * 1000 | _ \<Rightarrow> 0)"

definition started_at :: "json \<Rightarrow> int" where
  "started_at opts = (case jprop opts ''started_at'' of Some (JNum n) \<Rightarrow> n | _ \<Rightarrow> 0)"

fun getResourceOperationStatus :: "nat \<Rightarrow> 'w env \<Rightarrow> json \<Rightarrow> ('w, exn, json) promise" where
  "getResourceOperationStatus 0 env opts = pending"
| "getResourceOperationStatus (Suc fuel) env opts =
     then_do (then_do (delay env EVENTMESH_POLLER_DELAY)
       (\<lambda>_. getResource env (jpick [''resourceGroup'', ''resourceType'', ''resourceId'', ''namespaceId''] opts)))
       (\<lambda>resource.
       let state = jget (Some resource) [''status'', ''state''] in
       if state = jprop opts ''start_state''
       then then_do (ask (now env)) (\<lambda>t.
              if timeout_ms opts < t - started_at opts then reject (not_processed opts (t - started_at opts))
              else then_do (getResourceOperationStatus fuel env opts) (\<lambda>r. resolve (poll_result None (Some r))))
       else if state = Some (JStr STATE_FAILED) \<or> state = Some (JStr STATE_DELETE_FAILED)
       then (if truthy (jget (Some resource) [''status'', ''error''])
             then reject (convertToHttpError (the (jget (Some resource) [''status'', ''error''])))
             else resolve (poll_result state None))
       else resolve (poll_result state (jget (Some resource) [''status'', ''response''])))"

fun getOSBResourceOperationStatus :: "nat \<Rightarrow> 'w env \<Rightarrow> json \<Rightarrow> ('w, exn, json) promise" where
  "getOSBResourceOperationStatus 0 env opts = pending"
| "getOSBResourceOperationStatus (Suc fuel) env opts =
     then_do (then_do (delay env EVENTMESH_POLLER_DELAY)
       (\<lambda>_. getResource env (jpick [''resourceGroup'', ''resourceType'', ''resourceId'', ''namespaceId'', ''requestIdentity''] opts)))
       (\<lambda>resource.
       let state = jget (Some resource) [''status'', ''state''] in
       if state = Some (JStr STATE_SUCCEEDED)
       then resolve (poll_result state (jget (Some resource) [''status'', ''response'']))
       else if state = Some (JStr STATE_FAILED)
       then (if truthy (jget (Some resource) [''status'', ''error''])
             then reject (convertToHttpError (the (jget (Some resource) [''status'', ''error''])))
             else resolve (poll_result state (jget (Some resource) [''status'', ''response''])))
       else then_do (ask (now env)) (\<lambda>t.
              if timeout_ms opts < t - started_at opts then reject (not_processed opts (t - started_at opts))
              else then_do (getOSBResourceOperationStatus fuel env opts) (\<lambda>r. resolve (poll_result None (Some r)))))"

definition not_scheduled :: "string \<Rightarrow> int \<Rightarrow> exn" where
  "not_scheduled resourceId ms =
     Timeout (''clusterId is not set for '' @ resourceId @ '' after '' @ show_int (ms div 1000) @ ''s'') None"

text \<open>Every level of the recursion converts the error of the level below.\<close>

fun checkInstanceScheduleStatus :: "nat \<Rightarrow> 'w env \<Rightarrow> string \<Rightarrow> int \<Rightarrow> int \<Rightarrow> ('w, exn, json) promise" where
  "checkInstanceScheduleStatus 0 env resourceId startTime timeOutinSec = pending"
| "checkInstanceScheduleStatus (Suc fuel) env resourceId startTime timeOutinSec =
     catch_on (then_do (then_do (delay env CLUSTER_SCHEDULER_DELAY)
       (\<lambda>_. then_do (ask (now env)) (\<lambda>t.
          if timeOutinSec * 1000 < t - startTime then reject (not_scheduled resourceId (t - startTime))
          else getResource env
                 (obj [(''resourceGroup'', Some (JStr GROUP_INTEROPERATOR)),
                       (''resourceType'', Some (JStr TYPE_SERVICEINSTANCES)),
                       (''resourceId'', Some (JStr resourceId)),
                       (''namespaceId'', Some (JStr (getNamespaceId env resourceId)))]))))
       (\<lambda>sfserviceinstance.
          if truthy (jget (Some sfserviceinstance) [''spec'', ''clusterId'']) then resolve sfserviceinstance
          else checkInstanceScheduleStatus fuel env resourceId startTime timeOutinSec))
       any_error convertToHttpErrorAndThrow"

definition waitTillInstanceIsScheduled :: "nat \<Rightarrow> 'w env \<Rightarrow> string \<Rightarrow> int option \<Rightarrow> ('w, exn, json) promise" where
  "waitTillInstanceIsScheduled fuel env resourceId timeOutinSec =
     then_do (assert_ok (resourceId \<noteq> [])
       (AssertionError (''Argument '' @ squote ''resourceId'' @ '' is required to get scheduled cluster for instance'')))
       (\<lambda>_. then_do (ask (now env))
       (\<lambda>t. checkInstanceScheduleStatus fuel env resourceId t
           (case timeOutinSec of None \<Rightarrow> CLUSTER_SCHEDULE_TIMEOUT_IN_SEC | Some s \<Rightarrow> s)))"

section \<open>Facts about the client\<close>

lemma convert_iffs [promise_iffs]:
  "convertToHttpErrorAndThrow e w = (Resolved y, w') \<longleftrightarrow> False"
  "convertToHttpErrorAndThrow e w = (Rejected e', w') \<longleftrightarrow> e' = convertToHttpError (props_of e) \<and> w' = w"
  "convertToHttpErrorAndThrow e w = (Pending, w') \<longleftrightarrow> False"
  by (auto simp: convertToHttpErrorAndThrow_def promise_iffs)

lemma path_of_jget: "path_of v ks = Some x \<Longrightarrow> jget v ks = x"
  by (induction v ks rule: path_of.induct) (auto split: if_splits)

lemma deref_iffs [promise_iffs]:
  "deref v ks w = (Resolved y, w') \<longleftrightarrow> path_of v ks = Some y \<and> w' = w"
  "deref v ks w = (Rejected e, w') \<longleftrightarrow> path_of v ks = None \<and> e = TypeError \<and> w' = w"
  "deref v ks w = (Pending, w') \<longleftrightarrow> False"
  by (auto simp: deref_def promise_iffs split: option.splits)

lemma require_props_Resolved [promise_iffs]:
  "require_props what opts ks w = (Resolved u, w') \<longleftrightarrow> list_all (\<lambda>k. truthy (jprop opts k)) ks \<and> w' = w"
  by (induction ks) (auto simp: promise_iffs)

lemma require_props_Pending [promise_iffs]: "require_props what opts ks w = (Pending, w') \<longleftrightarrow> False"
  by (induction ks) (auto simp: promise_iffs)

lemma require_props_Rejected:
  "require_props what opts ks w = (Rejected e, w') \<Longrightarrow>
     w' = w \<and> class_of e = CAssertionError \<and> \<not> list_all (\<lambda>k. truthy (jprop opts k)) ks"
  by (induction ks) (auto simp: promise_iffs class_simps split: if_splits)

declare require_props.simps [simp del]

lemma require_any_iffs [promise_iffs]:
  "require_any m opts ks w = (Resolved u, w') \<longleftrightarrow> list_ex (\<lambda>k. truthy (jprop opts k)) ks \<and> w' = w"
  "require_any m opts ks w = (Rejected e, w') \<longleftrightarrow>
     \<not> list_ex (\<lambda>k. truthy (jprop opts k)) ks \<and> e = AssertionError m \<and> w' = w"
  "require_any m opts ks w = (Pending, w') \<longleftrightarrow> False"
  by (auto simp: require_any_def promise_iffs)

lemma resource_coords_iffs [promise_iffs]:
  "resource_coords env opts w = (Resolved c, w') \<longleftrightarrow>
     coords env (str_of (jprop opts ''resourceGroup'')) (str_of (jprop opts ''resourceType'')) = Some c \<and> w' = w"
  "resource_coords env opts w = (Rejected e, w') \<longleftrightarrow>
     coords env (str_of (jprop opts ''resourceGroup'')) (str_of (jprop opts ''resourceType'')) = None \<and>
     e = TypeError \<and> w' = w"
  "resource_coords env opts w = (Pending, w') \<longleftrightarrow> False"
  by (auto simp: resource_coords_def promise_iffs split: option.splits)

text \<open>The class of a converted error is determined by its code alone.\<close>

lemma class_convert:
  "class_of (convertToHttpError err) =
     (if http_code err = Some (JNum 400) then CBadRequest
      else if http_code err = Some (JNum 404) then
        (if js_includes (str_of (http_message err)) ''page not found'' then CPageNotFound else CNotFound)
      else if http_code err = Some (JNum 409) then CConflict
      else if http_code err = Some (JNum 403) then CForbidden
      else if http_code err = Some (JNum 410) then CGone
      else CInternalServerError)"
  by (simp add: convertToHttpError_def Let_def class_simps)

lemma convert_NotFound_iff: "instanceof CNotFound (convertToHttpError err) \<longleftrightarrow> http_code err = Some (JNum 404)"
  by (auto simp: instanceof_def is_subclass_def class_convert numeral_eq_Suc)

lemma convert_Conflict_iff: "instanceof CConflict (convertToHttpError err) \<longleftrightarrow> http_code err = Some (JNum 409)"
  by (auto simp: instanceof_def is_subclass_def class_convert numeral_eq_Suc)

lemma prop_transformResponse:
  assumes "jprop res ''body'' = Some b"
  shows "jprop (transformResponse res) ''body'' = Some (omitUndefinedFields (Some b))"
proof -
  obtain fs where res: "res = JObj fs" using assms by (cases res) auto
  show ?thesis using assms
    by (auto simp: transformResponse_def Let_def json_simps update_conv jomit_def map_of_filter_key res
        map_of_filter_key [of "\<lambda>k. k \<noteq> ''response''", simplified]
        map_of_filter_key [of "\<lambda>k. k \<noteq> ''statusCode''", simplified] split: option.splits)
qed

lemma map_of_filter_value:
  "distinct (map fst fs) \<Longrightarrow>
   map_of (filter (\<lambda>(_, v). P v) fs) k = (case map_of fs k of None \<Rightarrow> None | Some v \<Rightarrow> if P v then Some v else None)"
  by (induction fs) (auto split: option.splits simp: map_of_eq_None_iff image_iff)

end
