(* ===== verification/Retry.thy ===== *)
theory Retry
  imports ApiServer
begin

text \<open>
  \<open>core/utils/src/RetryOperation.js\<close>: repeating a failing operation with exponential back-off. The
  infinite defaults (\<open>timeout\<close>, \<open>maxDelay\<close>) are \<open>None\<close>. Every failed attempt counts, so that the
  recursion depth is bounded by \<open>maxAttempts\<close>, which \<open>retry\<close> gives as fuel; \<open>retry_settles\<close> shows that
  the fuel is enough.
\<close>

record retry_options =
  maxAttempts :: nat
  timeout :: "int option"
  factor :: int
  minDelay :: int
  maxDelay :: "int option"
  predicate :: "exn \<Rightarrow> bool"
  operation_name :: "string option"

definition default_retry :: retry_options where
  "default_retry = \<lparr>maxAttempts = 10, timeout = None, factor = 2, minDelay = 1174, maxDelay = None,
     predicate = any_error, operation_name = None\<rparr>"

definition backoff :: "retry_options \<Rightarrow> nat \<Rightarrow> int" where
  "backoff ro tries =
     (if 0 < tries
      then (let d = minDelay ro * factor ro ^ (tries - 1) in
            case maxDelay ro of None \<Rightarrow> d | Some m \<Rightarrow> min d m)
      else 0)"

definition expired :: "retry_options \<Rightarrow> int \<Rightarrow> bool" where
  "expired ro time = (case timeout ro of None \<Rightarrow> False | Some limit \<Rightarrow> limit \<le> time)"

fun attempt :: "nat \<Rightarrow> 'w env \<Rightarrow> retry_options \<Rightarrow> (nat \<Rightarrow> ('w, exn, 'a) promise) \<Rightarrow> int \<Rightarrow> nat \<Rightarrow> ('w, exn, 'a) promise" where
  "attempt 0 env ro fn retryStart tries = pending"
| "attempt (Suc fuel) env ro fn retryStart tries =
     then_do (ask (now env)) (\<lambda>attemptStart.
       catch_on (fn tries) (predicate ro) (\<lambda>err.
         then_do (ask (now env)) (\<lambda>t.
           let tries' = Suc tries;
               d = max (backoff ro tries' - (t - attemptStart)) 0;
               time = t + d - retryStart in
           if maxAttempts ro \<le> tries' then reject (toManyAttempts tries' err (operation_name ro))
           else if expired ro time then reject (timedOut time err (operation_name ro))
           else if 0 < d then then_do (delay env d) (\<lambda>_. attempt fuel env ro fn retryStart tries')
           else attempt fuel env ro fn retryStart tries')))"

definition retry :: "'w env \<Rightarrow> retry_options \<Rightarrow> (nat \<Rightarrow> ('w, exn, 'a) promise) \<Rightarrow> ('w, exn, 'a) promise" where
  "retry env ro fn = then_do (ask (now env)) (\<lambda>retryStart. attempt (max 1 (maxAttempts ro)) env ro fn retryStart 0)"

lemma delay_iffs [promise_iffs]:
  "delay env ms w = (Resolved u, w') \<longleftrightarrow> w' = wait env ms w"
  "delay env ms w = (Rejected e, w') \<longleftrightarrow> False"
  "delay env ms w = (Pending, w') \<longleftrightarrow> False"
  by (auto simp: delay_def promise_iffs)

text \<open>The fuel suffices: no attempt number reaches \<open>maxAttempts\<close>.\<close>

lemma attempt_settles:
  assumes fn: "\<And>k w w'. k < max 1 (maxAttempts ro) \<Longrightarrow> fn k w \<noteq> (Pending, w')"
    and "max 1 (maxAttempts ro) = fuel + tries" and "0 < fuel"
  shows "attempt fuel env ro fn start tries w \<noteq> (Pending, w')"
  using assms(2,3)
proof (induction fuel arbitrary: tries w)
  case (Suc fuel)
  have "tries < max 1 (maxAttempts ro)" using Suc.prems by simp
  moreover have "attempt fuel env ro fn start (Suc tries) w1 \<noteq> (Pending, w')" if "\<not> maxAttempts ro \<le> Suc tries" for w1
    using Suc.prems that by (intro Suc.IH) auto
  ultimately show ?case using fn
    by (auto simp: promise_iffs Let_def split: if_splits)
qed simp

text \<open>What a resolved retry returns, some attempt returned, and the earlier ones failed.\<close>

lemma attempt_resolved:
  assumes "attempt fuel env ro fn start tries w = (Resolved x, w')"
  shows "\<exists>k w1. tries \<le> k \<and> k < tries + fuel \<and> (k = tries \<or> k < maxAttempts ro) \<and> fn k w1 = (Resolved x, w')"
  using assms
proof (induction fuel arbitrary: tries w)
  case 0
  then show ?case by (simp add: promise_iffs)
next
  case (Suc fuel)
  from Suc.prems consider w1 where "fn tries w1 = (Resolved x, w')"
    | w1 where "\<not> maxAttempts ro \<le> Suc tries" "attempt fuel env ro fn start (Suc tries) w1 = (Resolved x, w')"
    by (auto simp: promise_iffs Let_def split: if_splits)
  then show ?case
  proof cases
    case 1
    then show ?thesis by auto
  next
    case 2
    from Suc.IH [OF 2(2)] obtain k w2 where "Suc tries \<le> k" "k < Suc tries + fuel"
      "k = Suc tries \<or> k < maxAttempts ro" "fn k w2 = (Resolved x, w')" by blast
    with 2(1) show ?thesis by (intro exI [of _ k]) auto
  qed
qed

text \<open>A rejection is either one that the predicate does not take, or a \<open>Timeout\<close>.\<close>

lemma gave_up_class:
  "e = toManyAttempts n e' q \<Longrightarrow> class_of e = CTimeout" "e = timedOut t e' q \<Longrightarrow> class_of e = CTimeout"
  by (simp_all only: class_simps)

lemma attempt_rejected:
  assumes "attempt fuel env ro fn start tries w = (Rejected e, w')"
  shows "class_of e = CTimeout \<or> (\<exists>k w1. fn k w1 = (Rejected e, w') \<and> \<not> predicate ro e)"
  using assms
proof (induction fuel arbitrary: tries w)
  case (Suc fuel)
  then show ?case by (auto simp: promise_iffs Let_def class_simps dest: gave_up_class split: if_splits)
qed (simp add: promise_iffs)

lemma backoff_doubles: "maxDelay ro = None \<Longrightarrow> 0 < n \<Longrightarrow> backoff ro (Suc n) = factor ro * backoff ro n"
  by (cases n) (simp_all add: backoff_def)

lemma backoff_bounded: "maxDelay ro = Some m \<Longrightarrow> 0 \<le> m \<Longrightarrow> backoff ro n \<le> m"
  by (simp add: backoff_def Let_def)

end
