(* ===== verification/K8s_Api.thy ===== *)
theory K8s_Api
  imports Retry
begin

text \<open>
  The contract of the Kubernetes API server, which is not part of the repository, and what the
  client of \<open>ApiServerClient.js\<close> makes of it. The locale \<open>k8s_api\<close> states documented behaviour only:
  an object is found under its group, version, namespace, plural and name; a read does not change the
  objects; a create succeeds only for a free name; a merge patch (RFC 7386) that carries a
  \<open>metadata.resourceVersion\<close> succeeds only when it is the stored one; every write gives the object a
  version that was never used before; a request may fail at any time. Nothing is said of the objects
  while a timer runs: other clients may write then.
\<close>

section \<open>Merge patches\<close>

function merge_patch :: "json \<Rightarrow> json \<Rightarrow> json"
  and patch_members :: "fields \<Rightarrow> fields \<Rightarrow> fields" where
  "merge_patch target patch =
     (case patch of
        JObj ps \<Rightarrow> JObj (patch_members (fields_of (Some target)) ps)
      | _ \<Rightarrow> patch)"
| "patch_members fs [] = fs"
| "patch_members fs ((k, v) # ps) =
     patch_members
       (if v = JNull then AList.delete k fs
        else AList.update k (merge_patch (case map_of fs k of None \<Rightarrow> JNull | Some u \<Rightarrow> u) v) fs) ps"
  by pat_completeness auto
termination
  by (relation "measure (\<lambda>x. case x of Inl (a, b) \<Rightarrow> Suc (2 * size b)
        | Inr (fs, ps) \<Rightarrow> 2 * size_list (size_prod (\<lambda>_. 0) size) ps)") auto

declare merge_patch.simps [simp del]

lemma merge_patch_obj [simp]: "merge_patch target (JObj ps) = JObj (patch_members (fields_of (Some target)) ps)"
  by (simp add: merge_patch.simps)

lemma merge_patch_primitive [simp]:
  "merge_patch target JNull = JNull" "merge_patch target (JBool b) = JBool b"
  "merge_patch target (JNum n) = JNum n" "merge_patch target (JStr t) = JStr t"
  "merge_patch target (JArr xs) = JArr xs"
  by (simp_all add: merge_patch.simps)

lemma patch_members_other: "k \<notin> fst ` set ps \<Longrightarrow> map_of (patch_members fs ps) k = map_of fs k"
proof (induction ps arbitrary: fs)
  case (Cons p ps)
  obtain k' v where p: "p = (k', v)" by (cases p)
  with Cons.prems have "k \<noteq> k'" "k \<notin> fst ` set ps" by auto
  then show ?case by (simp add: p Cons.IH update_conv delete_conv')
qed simp

lemma patch_members_hit:
  assumes "distinct (map fst ps)" and "map_of ps k = Some v"
  shows "map_of (patch_members fs ps) k =
    (if v = JNull then None else Some (merge_patch (case map_of fs k of None \<Rightarrow> JNull | Some u \<Rightarrow> u) v))"
  using assms
proof (induction ps arbitrary: fs)
  case (Cons p ps)
  obtain k' u where p: "p = (k', u)" by (cases p)
  show ?case
  proof (cases "k' = k")
    case True
    with Cons.prems p have "u = v" "k \<notin> fst ` set ps" by auto
    then show ?thesis by (auto simp: p True patch_members_other update_conv delete_conv')
  next
    case False
    with Cons.prems p have "distinct (map fst ps)" "map_of ps k = Some v" by auto
    with False show ?thesis by (auto simp: p Cons.IH update_conv delete_conv')
  qed
qed simp

section \<open>The contract\<close>

type_synonym k8s_key = "string \<times> string \<times> string \<times> string \<times> string"

definition resource_version :: "json \<Rightarrow> jsval" where
  "resource_version b = jget (Some b) [''metadata'', ''resourceVersion'']"

text \<open>The server keeps every part of an object but the metadata as it was sent; of the metadata it
  keeps the labels.\<close>

definition same_content :: "json \<Rightarrow> json \<Rightarrow> bool" where
  "same_content sent b \<longleftrightarrow>
     (\<exists>fs. b = JObj fs) \<and> (\<forall>k. k \<noteq> ''metadata'' \<longrightarrow> jprop b k = jprop sent k) \<and>
     jget (Some b) [''metadata'', ''labels''] = jget (Some sent) [''metadata'', ''labels'']"

text \<open>A patch with no resource version is applied to whatever is stored.\<close>

definition version_matches :: "json \<Rightarrow> json \<Rightarrow> bool" where
  "version_matches patch old \<longleftrightarrow> resource_version patch = None \<or> resource_version patch = resource_version old"

text \<open>Where an operation of the client looks for the resource its options name.\<close>

definition resource_key :: "'w env \<Rightarrow> json \<Rightarrow> string \<times> string \<times> string \<Rightarrow> k8s_key" where
  "resource_key env opts c = (case c of (g, v, p) \<Rightarrow> (g, v, ns_or_default env opts, p, str_of (jprop opts ''resourceId'')))"

locale k8s_api =
  fixes env :: "'w env"
    and store :: "'w \<Rightarrow> k8s_key \<Rightarrow> json option"
    and used :: "'w \<Rightarrow> json set"
  assumes versions_used:
      "store w key = Some b \<Longrightarrow> json_wf b \<and> (\<exists>rv. resource_version b = Some rv \<and> truthy (Some rv) \<and> rv \<in> used w)"
    and get_settles: "getNamespacedCustomObject env g v ns p n w \<noteq> (Pending, w')"
    and get_resolved: "getNamespacedCustomObject env g v ns p n w = (Resolved res, w') \<Longrightarrow>
      \<exists>b. store w (g, v, ns, p, n) = Some b \<and> jprop res ''body'' = Some b \<and> b \<noteq> JNull"
    and get_not_found: "getNamespacedCustomObject env g v ns p n w = (Rejected e, w') \<Longrightarrow>
      http_code (props_of e) = Some (JNum HTTP_NOT_FOUND) \<Longrightarrow> store w (g, v, ns, p, n) = None"
    and get_frame: "getNamespacedCustomObject env g v ns p n w = (r, w') \<Longrightarrow>
      store w' = store w \<and> used w' = used w \<and> now env w \<le> now env w'"
    and create_settles: "createNamespacedCustomObject env g v ns p body w \<noteq> (Pending, w')"
    and create_resolved: "createNamespacedCustomObject env g v ns p body w = (Resolved res, w') \<Longrightarrow>
      jget (Some body) [''metadata'', ''name''] = Some (JStr n) \<Longrightarrow>
      store w (g, v, ns, p, n) = None \<and>
      (\<exists>b rv. jprop res ''body'' = Some b \<and> store w' = (store w)((g, v, ns, p, n) \<mapsto> b) \<and>
         same_content body b \<and> resource_version b = Some rv \<and> rv \<notin> used w \<and> used w' = insert rv (used w))"
    and create_rejected: "createNamespacedCustomObject env g v ns p body w = (Rejected e, w') \<Longrightarrow>
      store w' = store w \<and> used w' = used w"
    and create_clock: "createNamespacedCustomObject env g v ns p body w = (r, w') \<Longrightarrow> now env w \<le> now env w'"
    and patch_settles: "patchNamespacedCustomObject env g v ns p n body w \<noteq> (Pending, w')"
    and patch_resolved: "patchNamespacedCustomObject env g v ns p n body w = (Resolved res, w') \<Longrightarrow>
      \<exists>old. store w (g, v, ns, p, n) = Some old \<and> version_matches body old \<and>
      (\<exists>b rv. jprop res ''body'' = Some b \<and> store w' = (store w)((g, v, ns, p, n) \<mapsto> b) \<and>
         same_content (merge_patch old body) b \<and> resource_version b = Some rv \<and> rv \<notin> used w \<and>
         used w' = insert rv (used w))"
    and patch_rejected: "patchNamespacedCustomObject env g v ns p n body w = (Rejected e, w') \<Longrightarrow>
      store w' = store w \<and> used w' = used w"
    and patch_clock: "patchNamespacedCustomObject env g v ns p n body w = (r, w') \<Longrightarrow> now env w \<le> now env w'"
    and wait_clock: "0 \<le> ms \<Longrightarrow> now env w + ms \<le> now env (wait env ms w)"

begin

lemma getResource_frame:
  "getResource env opts w = (r, w') \<Longrightarrow> store w' = store w \<and> used w' = used w \<and> now env w \<le> now env w'"
  by (cases r) (auto simp: getResource_def promise_iffs dest: get_frame require_props_Rejected
      split: option.splits if_splits)

lemma getResource_settles: "getResource env opts w \<noteq> (Pending, w')"
  using get_settles by (auto simp: getResource_def promise_iffs split: option.splits if_splits)

lemma getResource_resolved:
  assumes "getResource env opts w = (Resolved r, w')"
  obtains c b where "coords env (str_of (jprop opts ''resourceGroup'')) (str_of (jprop opts ''resourceType'')) = Some c"
    and "store w (resource_key env opts c) = Some b" and "r = parse_resource b"
  using assms
  by (fastforce simp: getResource_def promise_iffs resource_key_def dest!: get_resolved split: option.splits if_splits prod.splits)

lemma getResource_not_found:
  assumes "getResource env opts w = (Rejected e, w')" and "instanceof CNotFound e"
  obtains c where "coords env (str_of (jprop opts ''resourceGroup'')) (str_of (jprop opts ''resourceType'')) = Some c"
    and "store w (resource_key env opts c) = None"
proof -
  have no: "\<not> instanceof CNotFound TypeError" "class_of e' = CAssertionError \<Longrightarrow> \<not> instanceof CNotFound e'" for e'
    by (simp_all add: instanceof_def is_subclass_def class_simps numeral_eq_Suc)
  have te: "http_code (props_of TypeError) \<noteq> Some (JNum 404)"
    by (simp add: TypeError_def http_code_def)
  show thesis using assms no te
    by (fastforce simp: getResource_def promise_iffs resource_key_def convert_NotFound_iff
        dest: get_not_found require_props_Rejected intro: that split: option.splits if_splits prod.splits)
qed

lemma updateResource_settles: "updateResource env opts w \<noteq> (Pending, w')"
  using patch_settles by (auto simp: updateResource_def promise_iffs Let_def split: prod.splits)

lemma updateResource_clock: "updateResource env opts w = (r, w') \<Longrightarrow> now env w \<le> now env w'"
  by (cases r) (auto simp: updateResource_def promise_iffs Let_def dest: patch_clock require_props_Rejected split: prod.splits)

lemma updateResource_rejected:
  "updateResource env opts w = (Rejected e, w') \<Longrightarrow> store w' = store w \<and> used w' = used w"
  by (auto simp: updateResource_def promise_iffs Let_def dest: patch_rejected require_props_Rejected split: prod.splits)

lemma createResource_settles: "createResource env opts w \<noteq> (Pending, w')"
  using create_settles by (auto simp: createResource_def promise_iffs Let_def split: prod.splits)

lemma createResource_rejected:
  "createResource env opts w = (Rejected e, w') \<Longrightarrow> store w' = store w \<and> used w' = used w"
  by (auto simp: createResource_def promise_iffs Let_def dest: create_rejected require_props_Rejected split: prod.splits)

lemma createResource_clock: "createResource env opts w = (r, w') \<Longrightarrow> now env w \<le> now env w'"
  by (cases r) (auto simp: createResource_def promise_iffs Let_def dest: create_clock require_props_Rejected split: prod.splits)

text \<open>The version of the written object reaches the caller through \<open>transformResponse\<close>.\<close>

lemma version_through_response:
  assumes "jprop res ''body'' = Some b" and "json_wf b" and "resource_version b = Some rv"
  shows "jget (Some (transformResponse res)) [''body'', ''metadata'', ''resourceVersion''] = Some rv"
proof -
  obtain fs where b: "b = JObj fs" using assms(3) by (cases b) (auto simp: resource_version_def)
  obtain m where m: "map_of fs ''metadata'' = Some m" "jprop m ''resourceVersion'' = Some rv"
    using assms(3) by (auto simp: resource_version_def b split: option.splits) (metis jget.simps(2) option.distinct(1) not_None_eq jget.simps(3) jget.simps(1))
  have "\<not> is_empty (Some m)" "\<not> all_falsy m" using m(2) by (cases m; auto)+
  then have "jprop (omitUndefinedFields (Some b)) ''metadata'' = Some m"
    using assms(2) m(1) by (simp add: omitUndefinedFields_def b map_of_filter_value)
  then show ?thesis using prop_transformResponse [OF assms(1)] m(2) by simp
qed

lemma updateResource_resolved:
  assumes "updateResource env opts w = (Resolved r, w')" and "\<not> truthy (jprop opts ''namespaceId'')"
  obtains c old b rv where "coords env (str_of (jprop opts ''resourceGroup'')) (str_of (jprop opts ''resourceType'')) = Some c"
    and "store w (resource_key env opts c) = Some old" and "version_matches (update_body opts) old"
    and "store w' = (store w)(resource_key env opts c \<mapsto> b)" and "same_content (merge_patch old (update_body opts)) b"
    and "resource_version b = Some rv" and "rv \<notin> used w" and "used w' = insert rv (used w)"
    and "jget (Some r) [''body'', ''metadata'', ''resourceVersion''] = Some rv"
proof -
  from assms obtain g v p res where c: "coords env (str_of (jprop opts ''resourceGroup'')) (str_of (jprop opts ''resourceType'')) = Some (g, v, p)"
    and pt: "patchNamespacedCustomObject env g v (ns_or_default env opts) p (str_of (jprop opts ''resourceId'')) (update_body opts) w = (Resolved res, w')"
    and r: "r = transformResponse res"
    by (auto simp: updateResource_def promise_iffs Let_def ns_or_default_def split: prod.splits)
  from patch_resolved [OF pt] obtain old b rv where
    "store w (resource_key env opts (g, v, p)) = Some old" "version_matches (update_body opts) old"
    and b: "jprop res ''body'' = Some b" and st: "store w' = (store w)(resource_key env opts (g, v, p) \<mapsto> b)"
    and "same_content (merge_patch old (update_body opts)) b"
    and rv: "resource_version b = Some rv" and "rv \<notin> used w" "used w' = insert rv (used w)"
    by (auto simp: resource_key_def)
  moreover have "json_wf b" using versions_used [of w' "resource_key env opts (g, v, p)" b] st by simp
  ultimately show thesis using that c r version_through_response [OF b _ rv] by blast
qed

lemma createResource_resolved:
  assumes "createResource env opts w = (Resolved r, w')" and "jprop opts ''resourceId'' = Some (JStr n)"
    and "\<not> truthy (jprop opts ''namespaceId'')"
  obtains c kind b rv where "coords env (str_of (jprop opts ''resourceGroup'')) (str_of (jprop opts ''resourceType'')) = Some c"
    and "store w (resource_key env opts c) = None"
    and "store w' = (store w)(resource_key env opts c \<mapsto> b)" and "same_content (create_body (fst c) (fst (snd c)) kind opts) b"
    and "resource_version b = Some rv" and "rv \<notin> used w" and "used w' = insert rv (used w)"
    and "jget (Some r) [''body'', ''metadata'', ''resourceVersion''] = Some rv"
proof -
  from assms obtain g v p kind res where c: "coords env (str_of (jprop opts ''resourceGroup'')) (str_of (jprop opts ''resourceType'')) = Some (g, v, p)"
    and ct: "createNamespacedCustomObject env g v (ns_or_default env opts) p (create_body g v kind opts) w = (Resolved res, w')"
    and r: "r = transformResponse res"
    by (auto simp: createResource_def promise_iffs ns_or_default_def split: prod.splits)
  have name: "jget (Some (create_body g v kind opts)) [''metadata'', ''name''] = Some (JStr n)"
    using assms(2) by (simp add: create_body_def Let_def json_simps)
  have key: "resource_key env opts (g, v, p) = (g, v, ns_or_default env opts, p, n)"
    using assms(2) by (simp add: resource_key_def str_of_def)
  from create_resolved [OF ct name] obtain b rv where "store w (resource_key env opts (g, v, p)) = None"
    and b: "jprop res ''body'' = Some b" and st: "store w' = (store w)(resource_key env opts (g, v, p) \<mapsto> b)"
    and "same_content (create_body g v kind opts) b"
    and rv: "resource_version b = Some rv" and "rv \<notin> used w" "used w' = insert rv (used w)"
    by (auto simp: key)
  moreover have "json_wf b" using versions_used [of w' "resource_key env opts (g, v, p)" b] st by simp
  ultimately show thesis using that [of "(g, v, p)"] c r version_through_response [OF b _ rv] by auto
qed

end

section \<open>What a resource looks like after a write\<close>

lemma prop_parse_section:
  "jprop (parse_section k b) k' =
     (if k' = k then (case jprop b k of Some (JObj fs) \<Rightarrow> Some (JObj (parse_fields fs)) | x \<Rightarrow> x) else jprop b k')"
  by (auto simp: parse_section_def json_simps split: option.splits json.splits)

lemma map_of_parse_fields:
  "map_of (parse_fields fs) k = map_option (\<lambda>v. case parse_arg v of Some x \<Rightarrow> x | None \<Rightarrow> v) (map_of fs k)"
  by (simp add: parse_fields_def map_of_map comp_def)

lemma parse_resource_metadata: "jprop (parse_resource b) ''metadata'' = jprop b ''metadata''"
  by (simp add: parse_resource_def prop_parse_section)

lemma parse_resource_section:
  assumes "sec = ''spec'' \<or> sec = ''status''" and "jget (Some b) [sec, k] = Some v"
  shows "jget (Some (parse_resource b)) [sec, k] = Some (case parse_arg v of Some x \<Rightarrow> x | None \<Rightarrow> v)"
proof -
  obtain s where s: "jprop b sec = Some s" "jprop s k = Some v"
    using assms(2) by (cases "jprop b sec") auto
  then obtain fs where "s = JObj fs" by (cases s) auto
  with s assms(1) show ?thesis
    by (auto simp: parse_resource_def prop_parse_section map_of_parse_fields)
qed

lemma parse_resource_wf:
  assumes "json_wf b"
  shows "json_wf (parse_resource b)"
proof -
  have sec: "json_wf (parse_section k j)" if "json_wf j" for k j
  proof -
    have "json_wf (JObj (parse_fields fs))" if "jprop j k = Some (JObj fs)" for fs
    proof -
      from that \<open>json_wf j\<close> have "json_wf (JObj fs)" by (rule json_wf_prop [rotated])
      then show ?thesis
        by (auto simp: parse_fields_def parse_arg_def comp_def case_prod_unfold split: option.split dest: json_parse_wf)
    qed
    with that show ?thesis by (auto simp: parse_section_def intro: json_wf_jput split: option.splits json.splits)
  qed
  show ?thesis unfolding parse_resource_def using assms by (intro sec)
qed

lemma parse_arg_locked [simp]: "parse_arg (JStr ''locked'') = None" "parse_arg (JStr ''unlocked'') = None"
  by code_simp+

lemma parse_arg_stringify: "json_wf j \<Longrightarrow> parse_arg (JStr (stringify j)) = Some j"
  by (simp add: parse_arg_def parse_stringify)

lemma same_content_get:
  assumes "same_content a b" and "k \<noteq> ''metadata''"
  shows "jget (Some b) (k # ks) = jget (Some a) (k # ks)"
  using assms by (simp add: same_content_def)

lemma obj_fields: "obj kvs = JObj (fields_of (Some (obj kvs)))"
  by (simp add: obj_def)

lemma distinct_obj: "distinct (map fst kvs) \<Longrightarrow> distinct (map fst (fields_of (Some (obj kvs))))"
proof (induction kvs)
  case (Cons p kvs)
  have "set (map fst (fields_of (Some (obj kvs)))) \<subseteq> set (map fst kvs)"
    by (induction kvs) (auto simp: obj_def List.map_filter_simps split: option.splits)
  with Cons show ?case
    by (cases p; cases "snd p") (auto simp: obj_def List.map_filter_simps)
qed (simp add: obj_def List.map_filter_simps)

lemma merge_patch_get:
  assumes "distinct (map fst kvs)" and "jprop (obj kvs) k = Some v" and "v \<noteq> JNull"
  shows "jprop (merge_patch old (obj kvs)) k = Some (merge_patch (case jprop old k of None \<Rightarrow> JNull | Some u \<Rightarrow> u) v)"
proof -
  have "map_of (fields_of (Some (obj kvs))) k = Some v" using assms(2) obj_fields [of kvs] by (metis jprop.simps(1))
  moreover have "map_of (fields_of (Some old)) k = jprop old k" by (cases old) auto
  ultimately show ?thesis
    using patch_members_hit [OF distinct_obj [OF assms(1)], of k v "fields_of (Some old)"] assms(3)
    by (subst obj_fields) simp
qed

lemma merge_patch_other:
  assumes "jprop (obj kvs) k = None"
  shows "jprop (merge_patch old (obj kvs)) k = jprop old k"
proof -
  have "k \<notin> fst ` set (fields_of (Some (obj kvs)))"
    using assms by (simp add: obj_def map_of_eq_None_iff)
  moreover have "map_of (fields_of (Some old)) k = jprop old k" by (cases old) auto
  ultimately show ?thesis by (subst obj_fields) (simp add: patch_members_other)
qed

lemma json_wf_obj:
  assumes "distinct (map fst kvs)" and "\<And>k v. (k, Some v) \<in> set kvs \<Longrightarrow> json_wf v"
  shows "json_wf (obj kvs)"
proof -
  have "distinct (map fst (fields_of (Some (obj kvs))))" by (rule distinct_obj [OF assms(1)])
  moreover have "json_wf v" if "(k, v) \<in> set (fields_of (Some (obj kvs)))" for k v
    using that assms(2) by (auto simp: obj_def map_filter_def)
  ultimately show ?thesis by (subst obj_fields) auto
qed

text \<open>The spec and the status of a resource after \<open>updateResource\<close>.\<close>

lemma update_body_status_any:
  assumes "jprop opts ''status'' = Some (JObj ss)" and "distinct (map fst ss)" and "map_of ss k = Some v" and "v \<noteq> JNull"
  shows "jget (Some (merge_patch old (update_body opts))) [''status'', k] = Some (if is_object v then JStr (stringify v) else v)"
proof -
  let ?t = "\<lambda>v. if is_object v then JStr (stringify v) else v"
  have dist: "distinct (map fst (map (\<lambda>(k, v). (k, ?t v)) ss))"
    using assms(2) by (simp add: case_prod_unfold comp_def)
  have hit: "map_of (map (\<lambda>(k, v). (k, ?t v)) ss) k = Some (?t v)"
    using assms(3) by (simp add: map_of_map)
  have "jprop (update_body opts) ''status'' = Some (status_json (JObj ss))"
    using assms(1) by (simp add: update_body_def if_truthy_def json_simps)
  then have "jprop (merge_patch old (update_body opts)) ''status'' =
    Some (merge_patch (case jprop old ''status'' of None \<Rightarrow> JNull | Some u \<Rightarrow> u) (status_json (JObj ss)))"
    unfolding update_body_def by (rule merge_patch_get [rotated]) (auto simp: status_json_def)
  then show ?thesis using patch_members_hit [OF dist hit] assms(4)
    by (cases v) (auto simp: status_json_def)
qed

lemma update_body_status:
  assumes "jprop opts ''status'' = Some (JObj ss)" and "distinct (map fst ss)"
    and "map_of ss k = Some v" and "\<not> is_object v" and "v \<noteq> JNull"
  shows "jget (Some (merge_patch old (update_body opts))) [''status'', k] = Some v"
  using update_body_status_any [OF assms(1-3,5), of old] assms(4) by simp

lemma update_body_options:
  assumes "jprop opts ''options'' = Some o'" and "truthy (Some o')"
  shows "jget (Some (merge_patch old (update_body opts))) [''spec'', ''options''] = Some (JStr (stringify o'))"
proof -
  let ?s = "obj [(''options'', Some (JStr (stringify o')))]"
  have "jprop (update_body opts) ''spec'' = Some ?s"
    using assms by (simp add: update_body_def if_truthy_def json_simps)
  then have "jprop (merge_patch old (update_body opts)) ''spec'' =
    Some (merge_patch (case jprop old ''spec'' of None \<Rightarrow> JNull | Some u \<Rightarrow> u) ?s)"
    unfolding update_body_def by (rule merge_patch_get [rotated]) (auto simp: obj_def)
  then show ?thesis by (simp add: merge_patch_get json_simps)
qed

lemma update_body_version:
  assumes "jprop opts ''metadata'' = Some (JObj ms)" and "map_of ms ''resourceVersion'' = Some rv"
  shows "resource_version (update_body opts) = Some rv"
proof -
  have "jprop (jmerge (JObj ms) (obj [(''labels'', Some l)])) ''resourceVersion'' = Some rv" for l
    using assms(2) by (simp add: jmerge.simps obj_def List.map_filter_simps merge_fields_other del: merge_fields.simps)
  with assms show ?thesis
    by (auto simp: resource_version_def update_body_def if_truthy_def json_simps patch_metadata_def jmerge_opt_def
        split: option.splits)
qed

end
