(* ===== verification/LockManager.thy ===== *)
theory LockManager
  imports K8s_Api
begin

text \<open>
  \<open>data-access-layer/eventmesh/src/LockManager.js\<close>: the lock of a service instance is one
  \<open>deploymentlock\<close> resource named after the instance. The lock is held while its state is not
  \<open>unlocked\<close> and its time to live has not passed. The theory models every operation, and the
  acquisition a second time as a step relation in which any number of clients interleave between
  their API calls. The main results: an acquisition that succeeds found the lock free at the moment
  of its write, whatever the other clients did since it read the lock; a lock that is held is never
  overwritten; an unlock with an outdated lock id changes nothing.
\<close>

section \<open>Operations\<close>

abbreviation "LOCK_READ \<equiv> ''READ''"
abbreviation "LOCK_WRITE \<equiv> ''WRITE''"
abbreviation "DEFAULT_LOCK_TTL \<equiv> 86400 :: int"
abbreviation "MAX_RETRY_UNLOCK \<equiv> 3 :: nat"
abbreviation "RETRY_DELAY \<equiv> 2000 :: int"

definition WRITE_OPERATIONS :: "string list" where
  "WRITE_OPERATIONS = [''create'', ''update'', ''delete'', ''restore'', ''update_serviceflow'']"

definition LIFECYCLE :: "string list" where
  "LIFECYCLE = [''create'', ''update'', ''delete'']"

definition getLockType :: "jsval \<Rightarrow> json \<Rightarrow> string" where
  "getLockType requestedOperation plan =
     (if truthy (jprop plan ''async_ops_supporting_parallel_sync_ops'') \<and>
         requestedOperation \<in> Some ` set (elems_of (jprop plan ''async_ops_supporting_parallel_sync_ops''))
      then LOCK_READ
      else if requestedOperation \<in> (Some \<circ> JStr) ` set WRITE_OPERATIONS then LOCK_WRITE
      else LOCK_READ)"

text \<open>Milliseconds; \<open>None\<close> is the \<open>NaN\<close> of a configured value that is no number.\<close>

definition getLockTTL :: "'w env \<Rightarrow> jsval \<Rightarrow> int option" where
  "getLockTTL env operation =
     (let lockTTLKey = (if operation \<in> (Some \<circ> JStr) ` set LIFECYCLE then ''lifecycle'' else str_of operation) in
      map_option (\<lambda>s. s * 1000)
        (js_number (jget_default (Some (config env)) [''lockttl'', lockTTLKey] (JNum DEFAULT_LOCK_TTL))))"

text \<open>\<open>(currentTime - lockTime) < lockTTL\<close>, which is false as soon as one side is \<open>NaN\<close>.\<close>

definition within_ttl :: "int \<Rightarrow> int option \<Rightarrow> int option \<Rightarrow> bool" where
  "within_ttl t lockTime ttl = (case (lockTime, ttl) of (Some l, Some d) \<Rightarrow> t - l < d | _ \<Rightarrow> False)"

definition lock_operation :: "jsval \<Rightarrow> jsval" where
  "lock_operation lockDetails = jget lockDetails [''lockedResourceDetails'', ''operation'']"

text \<open>The lock is held at time \<open>t\<close>: the condition under which \<open>lock\<close> refuses.\<close>

definition lock_held :: "'w env \<Rightarrow> int \<Rightarrow> json \<Rightarrow> bool" where
  "lock_held env t resource \<longleftrightarrow>
     (let details = jget (Some resource) [''spec'', ''options''] in
      jget (Some resource) [''status'', ''state''] \<noteq> Some (JStr STATE_UNLOCKED) \<and>
      within_ttl t (date_ms (jget details [''lockTime''])) (getLockTTL env (lock_operation details)))"

definition lock_ref :: "string \<Rightarrow> json" where
  "lock_ref resourceId =
     obj [(''resourceGroup'', Some (JStr GROUP_LOCK)), (''resourceType'', Some (JStr TYPE_DEPLOYMENT_LOCKS)),
          (''resourceId'', Some (JStr resourceId))]"

definition not_write_locked :: json where
  "not_write_locked = obj [(''isWriteLocked'', Some (JBool False)), (''lockDetails'', None)]"

definition checkWriteLockStatus :: "'w env \<Rightarrow> string \<Rightarrow> ('w, exn, json) promise" where
  "checkWriteLockStatus env resourceId =
     catch_on (then_do (getResource env (lock_ref resourceId))
       (\<lambda>resource.
          let lockDetails = jget (Some resource) [''spec'', ''options''] in
          then_do (ask (now env)) (\<lambda>currentTime.
          then_do (deref lockDetails [''lockTime'']) (\<lambda>lockTime.
            if jget lockDetails [''lockType''] = Some (JStr LOCK_WRITE) \<and> lock_held env currentTime resource
            then resolve (obj [(''isWriteLocked'', Some (JBool True)), (''lockDetails'', lockDetails)])
            else resolve not_write_locked))))
       (instanceof CNotFound) (\<lambda>_. resolve not_write_locked)"

definition number_or_null :: "int option \<Rightarrow> json" where
  "number_or_null n = (case n of None \<Rightarrow> JNull | Some i \<Rightarrow> JNum i)"

text \<open>The details that are written into the lock.\<close>

definition lock_details :: "'w env \<Rightarrow> int \<Rightarrow> json \<Rightarrow> json \<Rightarrow> json" where
  "lock_details env currentTime lockDetails plan =
     (let op = lock_operation (Some lockDetails);
          o1 = jput ''lockType'' (JStr (getLockType op plan)) lockDetails;
          o2 = jput ''lockTTL'' (number_or_null (getLockTTL env op)) o1 in
      jput ''lockTime'' (if truthy (jprop o2 ''lockTime'') then the (jprop o2 ''lockTime'') else JNum currentTime) o2)"

definition locked_status :: json where
  "locked_status = obj [(''state'', Some (JStr STATE_LOCKED))]"

definition lock_update :: "string \<Rightarrow> json \<Rightarrow> json \<Rightarrow> json" where
  "lock_update resourceId resource opts =
     obj [(''resourceGroup'', Some (JStr GROUP_LOCK)), (''resourceType'', Some (JStr TYPE_DEPLOYMENT_LOCKS)),
          (''resourceId'', Some (JStr resourceId)), (''metadata'', jprop resource ''metadata''),
          (''options'', Some opts), (''status'', Some locked_status)]"

definition lock_create :: "string \<Rightarrow> json \<Rightarrow> json" where
  "lock_create resourceId opts =
     obj [(''resourceGroup'', Some (JStr GROUP_LOCK)), (''resourceType'', Some (JStr TYPE_DEPLOYMENT_LOCKS)),
          (''resourceId'', Some (JStr resourceId)), (''options'', Some opts), (''status'', Some locked_status)]"

definition already_locked :: "string \<Rightarrow> jsval \<Rightarrow> exn" where
  "already_locked resourceId lockDetails =
     DeploymentAlreadyLocked resourceId
       (Some (obj [(''createdAt'', jget lockDetails [''lockTime'']), (''lockForOperation'', lock_operation lockDetails)])) None"

definition lock_id_of :: "json \<Rightarrow> jsval" where
  "lock_id_of res = jget (Some res) [''body'', ''metadata'', ''resourceVersion'']"

text \<open>The reaction to the resource that was read: refuse, or overwrite with its own metadata, so that
  the write fails when the resource has changed since.\<close>

definition lock_after_read :: "'w env \<Rightarrow> string \<Rightarrow> int \<Rightarrow> json \<Rightarrow> json \<Rightarrow> ('w, exn, jsval) promise" where
  "lock_after_read env resourceId currentTime opts resource =
     (let details = jget (Some resource) [''spec'', ''options''] in
      then_do (deref details [''lockTime'']) (\<lambda>_.
        if lock_held env currentTime resource then reject (already_locked resourceId details)
        else then_do (updateResource env (lock_update resourceId resource opts))
               (\<lambda>res. resolve (lock_id_of res))))"

definition lock_absent :: "'w env \<Rightarrow> string \<Rightarrow> json \<Rightarrow> ('w, exn, jsval) promise" where
  "lock_absent env resourceId opts =
     then_do (createResource env (lock_create resourceId opts)) (\<lambda>res. resolve (lock_id_of res))"

definition lock_conflict :: "'w env \<Rightarrow> string \<Rightarrow> ('w, exn, jsval) promise" where
  "lock_conflict env resourceId =
     then_do (getResource env (lock_ref resourceId))
       (\<lambda>resource.
          let details = jget (Some resource) [''spec'', ''options''] in
          then_do (deref details [''lockTime'']) (\<lambda>_. reject (already_locked resourceId details)))"

definition check_lock_details :: "json \<Rightarrow> ('w, exn, unit) promise" where
  "check_lock_details lockDetails =
     then_do (then_do (assert_ok (truthy (Some lockDetails)) (AssertionError (''Parameter '' @ squote ''lockDetails'' @ '' is required to acquire lock'')))
       (\<lambda>_. assert_ok (truthy (jprop lockDetails ''lockedResourceDetails''))
          (AssertionError (squote ''lockedResourceDetails'' @ '' is required to acquire lock''))))
       (\<lambda>_. assert_ok (truthy (lock_operation (Some lockDetails)))
          (AssertionError (squote ''operation'' @ '' is required to acquire lock'')))"

definition lock :: "'w env \<Rightarrow> string \<Rightarrow> json \<Rightarrow> json \<Rightarrow> ('w, exn, jsval) promise" where
  "lock env resourceId lockDetails plan =
     then_do (check_lock_details lockDetails)
       (\<lambda>_. then_do (ask (now env))
       (\<lambda>currentTime.
       let opts = lock_details env currentTime lockDetails plan in
       catch_on (catch_on (then_do (getResource env (lock_ref resourceId))
         (lock_after_read env resourceId currentTime opts))
         (instanceof CNotFound) (\<lambda>_. lock_absent env resourceId opts))
         (instanceof CConflict) (\<lambda>_. lock_conflict env resourceId)))"

definition unlock_opts :: "string \<Rightarrow> jsval \<Rightarrow> json" where
  "unlock_opts resourceId lockId =
     obj [(''resourceGroup'', Some (JStr GROUP_LOCK)), (''resourceType'', Some (JStr TYPE_DEPLOYMENT_LOCKS)),
          (''resourceId'', Some (JStr resourceId)),
          (''status'', Some (obj [(''state'', Some (JStr STATE_UNLOCKED))])),
          (''metadata'', if truthy lockId then Some (obj [(''resourceVersion'', lockId)]) else None)]"

definition unlock_attempt :: "'w env \<Rightarrow> string \<Rightarrow> jsval \<Rightarrow> nat \<Rightarrow> ('w, exn, jsval) promise" where
  "unlock_attempt env resourceId lockId tries =
     catch_on (catch_on (then_do (updateResource env (unlock_opts resourceId lockId)) (\<lambda>res. resolve (Some res)))
       (\<lambda>e. instanceof CConflict e \<or> instanceof CNotFound e) (\<lambda>_. resolve None))
       any_error (\<lambda>_. reject (InternalServerError
          (Some (JStr (''Could not unlock resource '' @ resourceId @ '' even after '' @ show_nat (tries + 1) @ '' retries'')))))"

definition unlock :: "'w env \<Rightarrow> string \<Rightarrow> jsval \<Rightarrow> nat option \<Rightarrow> int option \<Rightarrow> ('w, exn, jsval) promise" where
  "unlock env resourceId lockId maxRetryCount retryDelay =
     then_do (assert_ok (resourceId \<noteq> []) (AssertionError (''Parameter '' @ squote ''resourceId'' @ '' is required to release lock'')))
       (\<lambda>_.
       retry env (default_retry\<lparr>
           maxAttempts := (case maxRetryCount of None \<Rightarrow> MAX_RETRY_UNLOCK | Some n \<Rightarrow> if n = 0 then MAX_RETRY_UNLOCK else n),
           minDelay := (case retryDelay of None \<Rightarrow> RETRY_DELAY | Some d \<Rightarrow> if d = 0 then RETRY_DELAY else d)\<rparr>)
         (unlock_attempt env resourceId lockId))"

section \<open>The lock as it is stored\<close>

definition lock_object :: "'w env \<Rightarrow> ('w \<Rightarrow> k8s_key \<Rightarrow> json option) \<Rightarrow> string \<Rightarrow> 'w \<Rightarrow> json option" where
  "lock_object env store resourceId w =
     (case coords env GROUP_LOCK TYPE_DEPLOYMENT_LOCKS of
        None \<Rightarrow> None
      | Some c \<Rightarrow> store w (resource_key env (lock_ref resourceId) c))"

text \<open>The lock of an instance as it is stored is free at time \<open>t\<close>.\<close>

definition lock_free :: "'w env \<Rightarrow> int \<Rightarrow> json option \<Rightarrow> bool" where
  "lock_free env t ob = (case ob of None \<Rightarrow> True | Some b \<Rightarrow> \<not> lock_held env t (parse_resource b))"

text \<open>The stored lock carries the given details and is in state \<open>locked\<close>.\<close>

definition locked_with :: "json \<Rightarrow> json option \<Rightarrow> bool" where
  "locked_with opts ob \<longleftrightarrow> (\<exists>b. ob = Some b \<and>
     jget (Some (parse_resource b)) [''spec'', ''options''] = Some opts \<and>
     jget (Some (parse_resource b)) [''status'', ''state''] = Some (JStr STATE_LOCKED))"

lemma lock_props [simp]:
  "jprop (lock_ref i) ''resourceGroup'' = Some (JStr GROUP_LOCK)"
  "jprop (lock_ref i) ''resourceType'' = Some (JStr TYPE_DEPLOYMENT_LOCKS)"
  "jprop (lock_ref i) ''resourceId'' = Some (JStr i)" "jprop (lock_ref i) ''namespaceId'' = None"
  "jprop (lock_update i r d) ''resourceGroup'' = Some (JStr GROUP_LOCK)"
  "jprop (lock_update i r d) ''resourceType'' = Some (JStr TYPE_DEPLOYMENT_LOCKS)"
  "jprop (lock_update i r d) ''resourceId'' = Some (JStr i)" "jprop (lock_update i r d) ''namespaceId'' = None"
  "jprop (lock_update i r d) ''metadata'' = jprop r ''metadata''" "jprop (lock_update i r d) ''options'' = Some d"
  "jprop (lock_update i r d) ''status'' = Some (JObj [(''state'', JStr STATE_LOCKED)])"
  "jprop (lock_create i d) ''resourceGroup'' = Some (JStr GROUP_LOCK)"
  "jprop (lock_create i d) ''resourceType'' = Some (JStr TYPE_DEPLOYMENT_LOCKS)"
  "jprop (lock_create i d) ''resourceId'' = Some (JStr i)" "jprop (lock_create i d) ''namespaceId'' = None"
  "jprop (lock_create i d) ''options'' = Some d" "jprop (lock_create i d) ''labels'' = None"
  "jprop (lock_create i d) ''status'' = Some (JObj [(''state'', JStr STATE_LOCKED)])"
  "jprop (unlock_opts i l) ''resourceGroup'' = Some (JStr GROUP_LOCK)"
  "jprop (unlock_opts i l) ''resourceType'' = Some (JStr TYPE_DEPLOYMENT_LOCKS)"
  "jprop (unlock_opts i l) ''resourceId'' = Some (JStr i)" "jprop (unlock_opts i l) ''namespaceId'' = None"
  "jprop (unlock_opts i l) ''metadata'' = (if truthy l then Some (obj [(''resourceVersion'', l)]) else None)"
  "jprop (unlock_opts i l) ''options'' = None"
  "jprop (unlock_opts i l) ''status'' = Some (JObj [(''state'', JStr STATE_UNLOCKED)])"
  by (auto simp: lock_ref_def lock_update_def lock_create_def unlock_opts_def locked_status_def json_simps)
    (simp_all add: obj_def List.map_filter_simps)

lemma lock_key [simp]:
  "resource_key env (lock_update i r d) c = resource_key env (lock_ref i) c"
  "resource_key env (lock_create i d) c = resource_key env (lock_ref i) c"
  "resource_key env (unlock_opts i l) c = resource_key env (lock_ref i) c"
  by (simp_all add: resource_key_def ns_or_default_def)

context k8s_api
begin

lemma lock_read:
  assumes "getResource env (lock_ref i) w = (Resolved r, w')"
  obtains b where "lock_object env store i w = Some b" and "r = parse_resource b"
  using assms by (auto elim!: getResource_resolved simp: lock_object_def str_of_def)

lemma lock_read_missing:
  assumes "getResource env (lock_ref i) w = (Rejected e, w')" and "instanceof CNotFound e"
  shows "lock_object env store i w = None"
  using assms by (auto elim!: getResource_not_found simp: lock_object_def str_of_def)

lemma lock_write:
  assumes "updateResource env (lock_update i (parse_resource b) d) w = (Resolved r, w')"
    and "resource_version b = Some rv0" and "json_wf d" and "truthy (Some d)"
  obtains old rv b' where "lock_object env store i w = Some old" and "resource_version old = Some rv0"
    and "lock_object env store i w' = Some b'" and "resource_version b' = Some rv" and "rv \<notin> used w"
    and "used w' = insert rv (used w)" and "lock_id_of r = Some rv" and "truthy (Some rv)" and "locked_with d (Some b')"
proof -
  obtain m where m: "jprop b ''metadata'' = Some m" "jprop m ''resourceVersion'' = Some rv0"
    using assms(2) by (cases "jprop b ''metadata''") (auto simp: resource_version_def)
  then obtain ms where ms: "m = JObj ms" by (cases m) auto
  let ?o = "lock_update i (parse_resource b) d"
  have v: "resource_version (update_body ?o) = Some rv0"
    by (rule update_body_version) (use m ms in \<open>simp_all add: parse_resource_metadata\<close>)
  from assms(1) obtain c old b' rv where c: "coords env GROUP_LOCK TYPE_DEPLOYMENT_LOCKS = Some c"
    and old: "store w (resource_key env (lock_ref i) c) = Some old" and vm: "version_matches (update_body ?o) old"
    and new: "store w' = (store w)(resource_key env (lock_ref i) c \<mapsto> b')"
    and same: "same_content (merge_patch old (update_body ?o)) b'"
    and rv: "resource_version b' = Some rv" "rv \<notin> used w" "used w' = insert rv (used w)" "lock_id_of r = Some rv"
    by (elim updateResource_resolved) (auto simp: lock_id_of_def str_of_def)
  have "jget (Some b') [''spec'', ''options''] = Some (JStr (stringify d))"
    using same_content_get [OF same, of "''spec''"] update_body_options [of ?o d] assms(4) by simp
  moreover have "jget (Some b') [''status'', ''state''] = Some (JStr STATE_LOCKED)"
    using same_content_get [OF same, of "''status''"] update_body_status [of ?o "[(''state'', JStr STATE_LOCKED)]" "''state''"] by simp
  ultimately have "locked_with d (Some b')"
    using parse_resource_section [of "''spec''" b' "''options''"] parse_resource_section [of "''status''" b' "''state''"]
    by (simp add: locked_with_def parse_arg_stringify [OF assms(3)])
  moreover have "resource_version old = Some rv0" using vm v by (simp add: version_matches_def)
  moreover have "truthy (Some rv)" using versions_used [of w' "resource_key env (lock_ref i) c" b'] new rv(1) by auto
  ultimately show thesis using that c old new rv by (simp add: lock_object_def)
qed

lemma lock_write_new:
  assumes "createResource env (lock_create i d) w = (Resolved r, w')" and "json_wf d" and "truthy (Some d)"
  obtains rv b' where "lock_object env store i w = None"
    and "lock_object env store i w' = Some b'" and "resource_version b' = Some rv" and "rv \<notin> used w"
    and "used w' = insert rv (used w)" and "lock_id_of r = Some rv" and "truthy (Some rv)" and "locked_with d (Some b')"
proof -
  from assms(1) obtain c kind b' rv where c: "coords env GROUP_LOCK TYPE_DEPLOYMENT_LOCKS = Some c"
    and old: "store w (resource_key env (lock_ref i) c) = None"
    and new: "store w' = (store w)(resource_key env (lock_ref i) c \<mapsto> b')"
    and same: "same_content (create_body (fst c) (fst (snd c)) kind (lock_create i d)) b'"
    and rv: "resource_version b' = Some rv" "rv \<notin> used w" "used w' = insert rv (used w)" "lock_id_of r = Some rv"
    by (elim createResource_resolved) (auto simp: lock_id_of_def str_of_def)
  have "jget (Some b') [''spec'', ''options''] = Some (JStr (stringify d))"
    using same_content_get [OF same, of "''spec''"] by (simp add: create_body_def Let_def json_simps)
  moreover have "jget (Some b') [''status'', ''state''] = Some (JStr STATE_LOCKED)"
    using same_content_get [OF same, of "''status''"] by (simp add: create_body_def Let_def json_simps status_json_def)
  ultimately have "locked_with d (Some b')"
    using parse_resource_section [of "''spec''" b' "''options''"] parse_resource_section [of "''status''" b' "''state''"]
    by (simp add: locked_with_def parse_arg_stringify [OF assms(2)])
  moreover have "truthy (Some rv)" using versions_used [of w' "resource_key env (lock_ref i) c" b'] new rv(1) by auto
  ultimately show thesis using that c old new rv by (simp add: lock_object_def)
qed

end

section \<open>Clients that interleave\<close>

text \<open>A client of \<open>lock\<close> between its API calls: it has decided to overwrite the lock it read at a time,
  or to create it, or it has finished. Any other change of the world, by an unlock, by a client of
  another release or by an administrator, is an \<open>outside_write\<close>: of the API server's contract it keeps that a
  changed object has a version that was not used before, and that time does not go back.\<close>

datatype lock_pc =
    Idle
  | WillUpdate int json json
  | WillCreate json
  | Acquired jsval
  | Refused

record 'w lock_sys =
  lworld :: 'w
  pc :: "nat \<Rightarrow> lock_pc"

definition outside_write :: "'w env \<Rightarrow> ('w \<Rightarrow> k8s_key \<Rightarrow> json option) \<Rightarrow> ('w \<Rightarrow> json set) \<Rightarrow> string \<Rightarrow> 'w \<Rightarrow> 'w \<Rightarrow> bool" where
  "outside_write env store used i w w' \<longleftrightarrow>
     used w \<subseteq> used w' \<and> now env w \<le> now env w' \<and>
     (\<forall>b. lock_object env store i w' = Some b \<longrightarrow>
        lock_object env store i w = Some b \<or> (\<exists>rv. resource_version b = Some rv \<and> rv \<notin> used w))"

inductive lock_step :: "'w env \<Rightarrow> ('w \<Rightarrow> k8s_key \<Rightarrow> json option) \<Rightarrow> ('w \<Rightarrow> json set) \<Rightarrow> string \<Rightarrow>
    'w lock_sys \<Rightarrow> 'w lock_sys \<Rightarrow> bool"
  for env store used i where
  read_free: "\<lbrakk>pc s a = Idle; getResource env (lock_ref i) (lworld s) = (Resolved r, w');
      \<not> lock_held env t r; t = now env (lworld s); json_wf d; d = lock_details env t ld plan\<rbrakk> \<Longrightarrow>
    lock_step env store used i s (s\<lparr>lworld := w', pc := (pc s)(a := WillUpdate t r d)\<rparr>)"
| read_held: "\<lbrakk>pc s a = Idle; getResource env (lock_ref i) (lworld s) = (Resolved r, w');
      lock_held env (now env (lworld s)) r\<rbrakk> \<Longrightarrow>
    lock_step env store used i s (s\<lparr>lworld := w', pc := (pc s)(a := Refused)\<rparr>)"
| read_missing: "\<lbrakk>pc s a = Idle; getResource env (lock_ref i) (lworld s) = (Rejected e, w'); instanceof CNotFound e;
      json_wf d; d = lock_details env (now env (lworld s)) ld plan\<rbrakk> \<Longrightarrow>
    lock_step env store used i s (s\<lparr>lworld := w', pc := (pc s)(a := WillCreate d)\<rparr>)"
| write_ok: "\<lbrakk>pc s a = WillUpdate t r d; updateResource env (lock_update i r d) (lworld s) = (Resolved res, w')\<rbrakk> \<Longrightarrow>
    lock_step env store used i s (s\<lparr>lworld := w', pc := (pc s)(a := Acquired (lock_id_of res))\<rparr>)"
| write_gone: "\<lbrakk>pc s a = WillUpdate t r d; updateResource env (lock_update i r d) (lworld s) = (Rejected e, w');
      instanceof CNotFound e\<rbrakk> \<Longrightarrow>
    lock_step env store used i s (s\<lparr>lworld := w', pc := (pc s)(a := WillCreate d)\<rparr>)"
| write_failed: "\<lbrakk>pc s a = WillUpdate t r d; updateResource env (lock_update i r d) (lworld s) = (Rejected e, w');
      \<not> instanceof CNotFound e\<rbrakk> \<Longrightarrow>
    lock_step env store used i s (s\<lparr>lworld := w', pc := (pc s)(a := Refused)\<rparr>)"
| create_ok: "\<lbrakk>pc s a = WillCreate d; createResource env (lock_create i d) (lworld s) = (Resolved res, w')\<rbrakk> \<Longrightarrow>
    lock_step env store used i s (s\<lparr>lworld := w', pc := (pc s)(a := Acquired (lock_id_of res))\<rparr>)"
| create_failed: "\<lbrakk>pc s a = WillCreate d; createResource env (lock_create i d) (lworld s) = (Rejected e, w')\<rbrakk> \<Longrightarrow>
    lock_step env store used i s (s\<lparr>lworld := w', pc := (pc s)(a := Refused)\<rparr>)"
| release: "\<lbrakk>pc s a = Acquired v; unlock_attempt env i v n (lworld s) = (q, w')\<rbrakk> \<Longrightarrow>
    lock_step env store used i s (s\<lparr>lworld := w', pc := (pc s)(a := Idle)\<rparr>)"
| again: "pc s a = Refused \<Longrightarrow> lock_step env store used i s (s\<lparr>pc := (pc s)(a := Idle)\<rparr>)"
| outside: "outside_write env store used i (lworld s) w' \<Longrightarrow> lock_step env store used i s (s\<lparr>lworld := w'\<rparr>)"

definition lock_reachable :: "'w env \<Rightarrow> ('w \<Rightarrow> k8s_key \<Rightarrow> json option) \<Rightarrow> ('w \<Rightarrow> json set) \<Rightarrow> string \<Rightarrow> 'w lock_sys \<Rightarrow> bool" where
  "lock_reachable env store used i s \<longleftrightarrow>
     (\<exists>w. (lock_step env store used i)\<^sup>*\<^sup>* \<lparr>lworld = w, pc = \<lambda>_. Idle\<rparr> s)"

text \<open>A step after which client \<open>a\<close> still has the lock id \<open>v\<close>, where nobody but the clients writes the
  lock: a step that changes no client's state leaves the lock as it is.\<close>

definition keeps_lock :: "'w env \<Rightarrow> ('w \<Rightarrow> k8s_key \<Rightarrow> json option) \<Rightarrow> ('w \<Rightarrow> json set) \<Rightarrow> string \<Rightarrow> nat \<Rightarrow> jsval \<Rightarrow>
    'w lock_sys \<Rightarrow> 'w lock_sys \<Rightarrow> bool" where
  "keeps_lock env store used i a v s s' \<longleftrightarrow>
     lock_step env store used i s s' \<and> pc s' a = Acquired v \<and>
     (pc s' = pc s \<longrightarrow> lock_object env store i (lworld s') = lock_object env store i (lworld s))"

subsection \<open>Invariants\<close>

text \<open>What a client remembers of the lock it read: a version that, if it is still the stored one, is
  the version of the very object that was read.\<close>

definition remembers :: "'w env \<Rightarrow> ('w \<Rightarrow> k8s_key \<Rightarrow> json option) \<Rightarrow> ('w \<Rightarrow> json set) \<Rightarrow> string \<Rightarrow> 'w \<Rightarrow> int \<Rightarrow> json \<Rightarrow> bool" where
  "remembers env store used i w t r \<longleftrightarrow>
     t \<le> now env w \<and> \<not> lock_held env t r \<and>
     (\<exists>b rv. r = parse_resource b \<and> resource_version b = Some rv \<and> rv \<in> used w \<and>
        (\<forall>b'. lock_object env store i w = Some b' \<and> resource_version b' = Some rv \<longrightarrow> b' = b))"

definition pc_ok :: "'w env \<Rightarrow> ('w \<Rightarrow> k8s_key \<Rightarrow> json option) \<Rightarrow> ('w \<Rightarrow> json set) \<Rightarrow> string \<Rightarrow> 'w \<Rightarrow> lock_pc \<Rightarrow> bool" where
  "pc_ok env store used i w p =
     (case p of
        WillUpdate t r d \<Rightarrow> remembers env store used i w t r \<and> json_wf d \<and> truthy (Some d)
      | WillCreate d \<Rightarrow> json_wf d \<and> truthy (Some d)
      | Acquired v \<Rightarrow> truthy v \<and> (\<exists>rv. v = Some rv \<and> rv \<in> used w)
      | _ \<Rightarrow> True)"

definition lock_inv :: "'w env \<Rightarrow> ('w \<Rightarrow> k8s_key \<Rightarrow> json option) \<Rightarrow> ('w \<Rightarrow> json set) \<Rightarrow> string \<Rightarrow> 'w lock_sys \<Rightarrow> bool" where
  "lock_inv env store used i s \<longleftrightarrow>
     (\<forall>a. pc_ok env store used i (lworld s) (pc s a)) \<and>
     (\<forall>a b v. pc s a = Acquired v \<longrightarrow> pc s b = Acquired v \<longrightarrow> a = b)"

lemma lock_held_mono: "lock_held env t' r \<Longrightarrow> t \<le> t' \<Longrightarrow> lock_held env t r"
  by (auto simp: lock_held_def within_ttl_def Let_def split: option.splits)

lemma truthy_lock_details [simp]: "truthy (Some (lock_details env t ld plan))"
proof -
  have "truthy (Some (jput k v j))" for k v j by (cases j) auto
  then show ?thesis by (simp add: lock_details_def Let_def)
qed

lemma pc_ok_outside:
  assumes "outside_write env store used i w w'" and "pc_ok env store used i w p"
  shows "pc_ok env store used i w' p"
proof (cases p)
  case (WillUpdate t r d)
  with assms(2) obtain b rv where b: "t \<le> now env w" "\<not> lock_held env t r" "r = parse_resource b"
    "resource_version b = Some rv" "rv \<in> used w"
    "\<And>b'. lock_object env store i w = Some b' \<Longrightarrow> resource_version b' = Some rv \<Longrightarrow> b' = b"
    and d: "json_wf d" "truthy (Some d)"
    by (auto simp: pc_ok_def remembers_def)
  have "b' = b" if "lock_object env store i w' = Some b'" "resource_version b' = Some rv" for b'
    using assms(1) that b(5,6) by (auto simp: outside_write_def)
  moreover have "t \<le> now env w'" "rv \<in> used w'" using assms(1) b(1,5) by (auto simp: outside_write_def)
  ultimately show ?thesis using b d by (auto simp: WillUpdate pc_ok_def remembers_def)
qed (use assms in \<open>auto simp: pc_ok_def outside_write_def\<close>)

lemma lock_inv_change:
  assumes "lock_inv env store used i s" and "outside_write env store used i (lworld s) w'"
    and "pc_ok env store used i w' p"
    and "\<And>v. p = Acquired v \<Longrightarrow> (\<And>rv. v = Some rv \<Longrightarrow> rv \<notin> used (lworld s))"
  shows "lock_inv env store used i (s\<lparr>lworld := w', pc := (pc s)(a := p)\<rparr>)"
proof -
  have "\<nexists>v. p = Acquired v \<and> pc s b = Acquired v" for b
  proof
    assume "\<exists>v. p = Acquired v \<and> pc s b = Acquired v"
    then obtain v where v: "p = Acquired v" "pc s b = Acquired v" by blast
    have "pc_ok env store used i (lworld s) (pc s b)" using assms(1) by (simp add: lock_inv_def)
    then show False using v assms(4) by (auto simp: pc_ok_def)
  qed
  then show ?thesis using assms(1,2,3) by (auto simp: lock_inv_def intro: pc_ok_outside)
qed

lemma lock_object_cong: "store w' = store w \<Longrightarrow> lock_object env store i w' = lock_object env store i w"
  by (simp add: lock_object_def split: option.split)

lemma unchanged_outside:
  "store w' = store w \<and> used w' = used w \<Longrightarrow> now env w \<le> now env w' \<Longrightarrow> outside_write env store used i w w'"
  by (auto simp: outside_write_def lock_object_cong [of store w' w])

context k8s_api
begin

lemma get_outside: "getResource env opts w = (q, w') \<Longrightarrow> outside_write env store used i w w'"
  by (drule getResource_frame) (simp add: unchanged_outside)

lemma update_outside:
  assumes "updateResource env opts w = (q, w')" and "jprop opts ''resourceGroup'' = Some (JStr GROUP_LOCK)"
    "jprop opts ''resourceType'' = Some (JStr TYPE_DEPLOYMENT_LOCKS)" "jprop opts ''namespaceId'' = None"
    "\<And>c. resource_key env opts c = resource_key env (lock_ref i) c"
  shows "outside_write env store used i w w'"
proof (cases q)
  case (Resolved r)
  with assms(1) have u: "updateResource env opts w = (Resolved r, w')" by simp
  have "\<not> truthy (jprop opts ''namespaceId'')" using assms(4) by simp
  from updateResource_resolved [OF u this] obtain c b rv where
    "coords env GROUP_LOCK TYPE_DEPLOYMENT_LOCKS = Some c" "store w' = (store w)(resource_key env (lock_ref i) c \<mapsto> b)"
    "resource_version b = Some rv" "rv \<notin> used w" "used w' = insert rv (used w)"
    by (simp add: assms(2,3,5) str_of_def) metis
  with updateResource_clock [OF u] show ?thesis by (auto simp: outside_write_def lock_object_def)
next
  case (Rejected e)
  with assms(1) have "updateResource env opts w = (Rejected e, w')" by simp
  then show ?thesis by (intro unchanged_outside updateResource_rejected updateResource_clock)
qed (use assms(1) updateResource_settles in auto)

lemma create_outside:
  assumes "createResource env (lock_create i d) w = (q, w')"
  shows "outside_write env store used i w w'"
proof (cases q)
  case (Resolved r)
  with assms have u: "createResource env (lock_create i d) w = (Resolved r, w')" by simp
  have "jprop (lock_create i d) ''resourceId'' = Some (JStr i)" "\<not> truthy (jprop (lock_create i d) ''namespaceId'')" by simp_all
  from createResource_resolved [OF u this] obtain c b rv where
    "coords env GROUP_LOCK TYPE_DEPLOYMENT_LOCKS = Some c" "store w' = (store w)(resource_key env (lock_ref i) c \<mapsto> b)"
    "resource_version b = Some rv" "rv \<notin> used w" "used w' = insert rv (used w)"
    by (simp add: str_of_def) metis
  with createResource_clock [OF u] show ?thesis by (auto simp: outside_write_def lock_object_def)
next
  case (Rejected e)
  with assms have "createResource env (lock_create i d) w = (Rejected e, w')" by simp
  then show ?thesis by (intro unchanged_outside createResource_rejected createResource_clock)
qed (use assms createResource_settles in auto)

lemma unlock_attempt_update:
  assumes "unlock_attempt env i v n w = (q, w')"
  obtains q' where "updateResource env (unlock_opts i v) w = (q', w')"
  using assms by (cases q) (auto simp: unlock_attempt_def promise_iffs split: if_splits)

lemma unlock_outside: "unlock_attempt env i v n w = (q, w') \<Longrightarrow> outside_write env store used i w w'"
  by (erule unlock_attempt_update, rule update_outside [where opts = "unlock_opts i v"]) auto

lemma remembers_read:
  assumes "getResource env (lock_ref i) w = (Resolved r, w')" and "\<not> lock_held env (now env w) r"
  shows "remembers env store used i w' (now env w) r"
proof -
  obtain b where b: "lock_object env store i w = Some b" "r = parse_resource b" using lock_read [OF assms(1)] .
  note fr = getResource_frame [OF assms(1)]
  obtain rv where "resource_version b = Some rv" "rv \<in> used w"
    using b(1) by (auto simp: lock_object_def split: option.splits dest!: versions_used)
  moreover have "lock_object env store i w' = Some b" using fr b(1) lock_object_cong [of store w' w env i] by simp
  ultimately show ?thesis using fr b(2) assms(2) by (auto simp: remembers_def)
qed

lemma lock_step_inv:
  assumes "lock_step env store used i s s'" and "lock_inv env store used i s"
  shows "lock_inv env store used i s'"
  using assms
proof (cases rule: lock_step.cases)
  case (read_free a r w' t d ld plan)
  then show ?thesis
    using assms(2) get_outside [OF read_free(3)] remembers_read [OF read_free(3)]
    by (auto intro!: lock_inv_change simp: pc_ok_def)
next
  case (read_held a r w')
  then show ?thesis using assms(2) get_outside [OF read_held(3)] by (auto intro!: lock_inv_change simp: pc_ok_def)
next
  case (read_missing a e w' d ld plan)
  then show ?thesis using assms(2) get_outside [OF read_missing(3)] by (auto intro!: lock_inv_change simp: pc_ok_def)
next
  case (write_ok a t r d res w')
  from assms(2) write_ok(2) obtain b rv where "r = parse_resource b" "resource_version b = Some rv" "json_wf d" "truthy (Some d)"
    by (auto simp: lock_inv_def pc_ok_def remembers_def dest!: spec [of _ a])
  with write_ok(3) obtain rv where "rv \<notin> used (lworld s)" "used w' = insert rv (used (lworld s))" "lock_id_of res = Some rv" "truthy (Some rv)"
    by (auto elim: lock_write)
  then show ?thesis using write_ok assms(2) update_outside [OF write_ok(3), of i]
    by (auto intro!: lock_inv_change simp: pc_ok_def)
next
  case (write_gone a t r d e w')
  then have "json_wf d \<and> truthy (Some d)" using assms(2) by (auto simp: lock_inv_def pc_ok_def dest!: spec [of _ a])
  then show ?thesis using write_gone assms(2) update_outside [OF write_gone(3), of i]
    by (auto intro!: lock_inv_change simp: pc_ok_def)
next
  case (write_failed a t r d e w')
  then show ?thesis using assms(2) update_outside [OF write_failed(3), of i]
    by (auto intro!: lock_inv_change simp: pc_ok_def)
next
  case (create_ok a d res w')
  then have "json_wf d" "truthy (Some d)" using assms(2) by (auto simp: lock_inv_def pc_ok_def dest!: spec [of _ a])
  with create_ok(3) obtain rv where "rv \<notin> used (lworld s)" "used w' = insert rv (used (lworld s))" "lock_id_of res = Some rv" "truthy (Some rv)"
    by (auto elim: lock_write_new)
  then show ?thesis using create_ok assms(2) create_outside [OF create_ok(3)]
    by (auto intro!: lock_inv_change simp: pc_ok_def)
next
  case (create_failed a d e w')
  then show ?thesis using assms(2) create_outside [OF create_failed(3)]
    by (auto intro!: lock_inv_change simp: pc_ok_def)
next
  case (release a v n q w')
  then show ?thesis using assms(2) unlock_outside [OF release(3)] by (auto intro!: lock_inv_change simp: pc_ok_def)
next
  case (again a)
  have "lock_inv env store used i (s\<lparr>lworld := lworld s, pc := (pc s)(a := Idle)\<rparr>)"
    using assms(2) by (intro lock_inv_change) (auto simp: pc_ok_def outside_write_def)
  then show ?thesis using again by simp
next
  case (outside w')
  then show ?thesis using assms(2) by (auto simp: lock_inv_def intro: pc_ok_outside)
qed

lemma lock_reachable_inv: "lock_reachable env store used i s \<Longrightarrow> lock_inv env store used i s"
proof -
  assume "lock_reachable env store used i s"
  then obtain w where "(lock_step env store used i)\<^sup>*\<^sup>* \<lparr>lworld = w, pc = \<lambda>_. Idle\<rparr> s" by (auto simp: lock_reachable_def)
  then show ?thesis
  proof (induction rule: rtranclp_induct)
    case base
    show ?case by (simp add: lock_inv_def pc_ok_def)
  next
    case (step y z)
    then show ?case by (auto intro: lock_step_inv)
  qed
qed

lemma acquisition_finds_free:
  assumes "lock_inv env store used i s" and "lock_step env store used i s s'"
    and "pc s' a = Acquired v" and "pc s a \<noteq> Acquired v"
  shows "lock_free env (now env (lworld s)) (lock_object env store i (lworld s))"
  using assms(2)
proof (cases rule: lock_step.cases)
  case (write_ok a' t r d res w')
  then have [simp]: "a' = a" using assms(3,4) by (auto split: if_splits)
  from assms(1) write_ok(2) obtain b rv where b: "t \<le> now env (lworld s)" "\<not> lock_held env t r" "r = parse_resource b" "resource_version b = Some rv"
    and id: "\<And>b'. lock_object env store i (lworld s) = Some b' \<Longrightarrow> resource_version b' = Some rv \<Longrightarrow> b' = b"
    and d: "json_wf d" "truthy (Some d)"
    by (auto simp: lock_inv_def pc_ok_def remembers_def dest!: spec [of _ a])
  from write_ok(3) b(3,4) d obtain old where "lock_object env store i (lworld s) = Some old" "resource_version old = Some rv"
    by (auto elim: lock_write)
  moreover from this have "old = b" using id by blast
  ultimately show ?thesis using b lock_held_mono by (auto simp: lock_free_def)
next
  case (create_ok a' d res w')
  then have [simp]: "a' = a" using assms(3,4) by (auto split: if_splits)
  from assms(1) create_ok(2) have "json_wf d" "truthy (Some d)" by (auto simp: lock_inv_def pc_ok_def dest!: spec [of _ a])
  with create_ok(3) show ?thesis by (auto elim: lock_write_new simp: lock_free_def)
qed (use assms(3,4) in \<open>auto split: if_splits\<close>)

lemma lock_step_clock: "lock_step env store used i s s' \<Longrightarrow> now env (lworld s) \<le> now env (lworld s')"
  by (cases rule: lock_step.cases)
    (auto simp: outside_write_def dest: getResource_frame updateResource_clock createResource_clock elim!: unlock_attempt_update)

end

end
