(* ===== verification/Reference_Server.thy ===== *)
theory Reference_Server
  imports LockManager
begin

text \<open>
  An executable API server that satisfies the contract \<open>k8s_api\<close>: the world is the log of the writes
  and the clock. The object under a key is the last one written there, and its version is the position
  of that write in the log. It shows that the contract can be met, and the witnesses of the
  properties run on it. The configuration, and the custom resource definition that every configured
  template stands for, are arguments.
\<close>

record ref_world =
  ref_log :: "(k8s_key \<times> json option) list"
  ref_clock :: int

definition with_version :: "nat \<Rightarrow> json \<Rightarrow> json" where
  "with_version n j =
     jput ''metadata'' (jput ''resourceVersion'' (JStr (show_nat n))
       (case jprop j ''metadata'' of None \<Rightarrow> JObj [] | Some m \<Rightarrow> m)) j"

fun ref_look :: "(k8s_key \<times> json option) list \<Rightarrow> k8s_key \<Rightarrow> json option" where
  "ref_look [] key = None"
| "ref_look ((k, c) # log) key =
     (if k = key then (case c of None \<Rightarrow> None | Some j \<Rightarrow> if json_wf j then Some (with_version (length log) j) else None)
      else ref_look log key)"

definition ref_store :: "ref_world \<Rightarrow> k8s_key \<Rightarrow> json option" where
  "ref_store w = ref_look (ref_log w)"

definition ref_used :: "ref_world \<Rightarrow> json set" where
  "ref_used w = (\<lambda>n. JStr (show_nat n)) ` {..<length (ref_log w)}"

definition ref_status :: "int \<Rightarrow> string \<Rightarrow> exn" where
  "ref_status code message = Exn CError (JObj [(''statusCode'', JNum code), (''message'', JStr message)])"

definition ref_response :: "json \<Rightarrow> json" where
  "ref_response b = JObj [(''statusCode'', JNum 200), (''body'', b)]"

definition ref_write :: "k8s_key \<Rightarrow> json \<Rightarrow> (ref_world, exn, json) promise" where
  "ref_write key j w =
     (if json_wf j then (Resolved (ref_response (with_version (length (ref_log w)) j)), w\<lparr>ref_log := (key, Some j) # ref_log w\<rparr>)
      else (Rejected (ref_status 422 ''invalid''), w))"

definition ref_get :: "string \<Rightarrow> string \<Rightarrow> string \<Rightarrow> string \<Rightarrow> string \<Rightarrow> (ref_world, exn, json) promise" where
  "ref_get g v ns p n w =
     (case ref_store w (g, v, ns, p, n) of
        None \<Rightarrow> (Rejected (ref_status 404 ''not found''), w)
      | Some b \<Rightarrow> (Resolved (ref_response b), w))"

definition ref_create :: "string \<Rightarrow> string \<Rightarrow> string \<Rightarrow> string \<Rightarrow> json \<Rightarrow> (ref_world, exn, json) promise" where
  "ref_create g v ns p body w =
     (case jget (Some body) [''metadata'', ''name''] of
        Some (JStr n) \<Rightarrow>
          (case ref_store w (g, v, ns, p, n) of
             None \<Rightarrow> ref_write (g, v, ns, p, n) body w
           | Some _ \<Rightarrow> (Rejected (ref_status 409 ''already exists''), w))
      | _ \<Rightarrow> (Rejected (ref_status 422 ''name is required''), w))"

definition ref_patch :: "string \<Rightarrow> string \<Rightarrow> string \<Rightarrow> string \<Rightarrow> string \<Rightarrow> json \<Rightarrow> (ref_world, exn, json) promise" where
  "ref_patch g v ns p n body w =
     (case ref_store w (g, v, ns, p, n) of
        None \<Rightarrow> (Rejected (ref_status 404 ''not found''), w)
      | Some old \<Rightarrow>
          if version_matches body old
          then ref_write (g, v, ns, p, n) (merge_patch old body) w
          else (Rejected (ref_status 409 ''the object has been modified''), w))"

definition ref_delete :: "string \<Rightarrow> string \<Rightarrow> string \<Rightarrow> string \<Rightarrow> string \<Rightarrow> (ref_world, exn, json) promise" where
  "ref_delete g v ns p n w =
     (case ref_store w (g, v, ns, p, n) of
        None \<Rightarrow> (Rejected (ref_status 404 ''not found''), w)
      | Some b \<Rightarrow> (Resolved (ref_response b), w\<lparr>ref_log := ((g, v, ns, p, n), None) # ref_log w\<rparr>))"

text \<open>The lists leave out the selectors of the query.\<close>

definition ref_list :: "(k8s_key \<Rightarrow> bool) \<Rightarrow> (ref_world, exn, json) promise" where
  "ref_list sel w =
     (Resolved (ref_response (JObj [(''items'', JArr (List.map_filter (ref_store w)
        (filter sel (remdups (map fst (ref_log w))))))])), w)"

definition ref_env :: "json \<Rightarrow> json \<Rightarrow> ref_world env" where
  "ref_env cfg crd = \<lparr>config = cfg, now = ref_clock, wait = (\<lambda>ms w. w\<lparr>ref_clock := ref_clock w + ms\<rparr>),
     yaml_safeLoad = (\<lambda>_. Some crd), lowerCase = (\<lambda>s. s), camelcaseKeys = (\<lambda>j. j), decamelizeKeysDeep = (\<lambda>j. j),
     createNamespacedCustomObject = ref_create, patchNamespacedCustomObject = ref_patch,
     getNamespacedCustomObject = ref_get, deleteNamespacedCustomObject = ref_delete,
     listNamespacedCustomObject = (\<lambda>g v ns p q. ref_list (\<lambda>(g', v', ns', p', n). (g', v', ns', p') = (g, v, ns, p))),
     listClusterCustomObject = (\<lambda>g v p q. ref_list (\<lambda>(g', v', ns', p', n). (g', v', p') = (g, v, p))),
     k8s_createNamespace = ref_create [] ''v1'' [] ''namespaces'',
     k8s_deleteNamespace = ref_delete [] ''v1'' [] ''namespaces'',
     readNamespacedSecret = (\<lambda>n ns. ref_get [] ''v1'' ns ''secrets'' n),
     createNamespacedConfigMap = (\<lambda>ns. ref_create [] ''v1'' ns ''configmaps''),
     readNamespacedConfigMap = (\<lambda>n ns. ref_get [] ''v1'' ns ''configmaps'' n),
     patchNamespacedConfigMap = (\<lambda>n ns. ref_patch [] ''v1'' ns ''configmaps'' n),
     createCustomResourceDefinition = ref_create ''apiextensions.k8s.io'' ''v1'' [] ''customresourcedefinitions'',
     readCustomResourceDefinition = ref_get ''apiextensions.k8s.io'' ''v1'' [] ''customresourcedefinitions'',
     patchCustomResourceDefinition = ref_patch ''apiextensions.k8s.io'' ''v1'' [] ''customresourcedefinitions''\<rparr>"

lemma show_nat_inj: "show_nat m = show_nat n \<longleftrightarrow> m = n"
  by (metis dec_val_show_nat)

lemma json_wf_with_version: "json_wf j \<Longrightarrow> json_wf (with_version n j)"
  by (auto simp: with_version_def intro!: json_wf_jput intro: json_wf_prop split: option.splits)

lemma version_with_version: "resource_version (with_version n j) = Some (JStr (show_nat n))"
  by (simp add: resource_version_def with_version_def json_simps)

lemma same_content_with_version: "same_content j (with_version n j)"
proof -
  have "jput ''metadata'' x j = JObj (fields_of (Some (jput ''metadata'' x j)))" for x by (cases j) auto
  then show ?thesis
    by (fastforce simp: same_content_def with_version_def json_simps split: option.splits)
qed

lemma ref_look_version:
  "ref_look log key = Some b \<Longrightarrow> json_wf b \<and> (\<exists>n < length log. resource_version b = Some (JStr (show_nat n)))"
proof (induction log)
  case (Cons e log)
  then show ?case
    by (cases e) (auto simp: json_wf_with_version version_with_version show_nat_inj split: if_splits option.splits)
qed simp

lemma ref_write_resolved:
  assumes "ref_write key j w = (Resolved res, w')"
  shows "\<exists>b rv. jprop res ''body'' = Some b \<and> ref_store w' = (ref_store w)(key \<mapsto> b) \<and> same_content j b \<and>
    resource_version b = Some rv \<and> rv \<notin> ref_used w \<and> ref_used w' = insert rv (ref_used w)"
proof -
  let ?b = "with_version (length (ref_log w)) j"
  from assms have "json_wf j" and res: "res = ref_response ?b" and w': "w' = w\<lparr>ref_log := (key, Some j) # ref_log w\<rparr>"
    by (auto simp: ref_write_def split: if_splits)
  then have "ref_store w' = (ref_store w)(key \<mapsto> ?b)" by (auto simp: ref_store_def fun_eq_iff)
  moreover have "JStr (show_nat (length (ref_log w))) \<notin> ref_used w" by (auto simp: ref_used_def show_nat_inj)
  moreover have "ref_used w' = insert (JStr (show_nat (length (ref_log w)))) (ref_used w)"
    by (auto simp: w' ref_used_def lessThan_Suc)
  ultimately show ?thesis
    by (intro exI [of _ ?b] exI [of _ "JStr (show_nat (length (ref_log w)))"] conjI)
      (simp_all add: res ref_response_def version_with_version same_content_with_version)
qed

interpretation ref: k8s_api "ref_env cfg crd" ref_store ref_used for cfg crd
proof unfold_locales
  fix w key b
  assume "ref_store w key = Some b"
  then obtain n where "json_wf b" "n < length (ref_log w)" "resource_version b = Some (JStr (show_nat n))"
    using ref_look_version [of "ref_log w" key b] by (auto simp: ref_store_def)
  then show "json_wf b \<and> (\<exists>rv. resource_version b = Some rv \<and> truthy (Some rv) \<and> rv \<in> ref_used w)"
    by (auto simp: ref_used_def)
next
  fix g v ns p n w w' res
  assume "getNamespacedCustomObject (ref_env cfg crd) g v ns p n w = (Resolved res, w')"
  then obtain b where b: "ref_store w (g, v, ns, p, n) = Some b" "res = ref_response b"
    by (auto simp: ref_env_def ref_get_def split: option.splits)
  moreover have "b \<noteq> JNull" using b(1) ref_look_version [of "ref_log w" "(g, v, ns, p, n)" b]
    by (auto simp: ref_store_def resource_version_def)
  ultimately show "\<exists>b. ref_store w (g, v, ns, p, n) = Some b \<and> jprop res ''body'' = Some b \<and> b \<noteq> JNull"
    by (simp add: ref_response_def)
next
  fix g v ns p body w res w' n
  assume "createNamespacedCustomObject (ref_env cfg crd) g v ns p body w = (Resolved res, w')"
    and "jget (Some body) [''metadata'', ''name''] = Some (JStr n)"
  then have "ref_store w (g, v, ns, p, n) = None" "ref_write (g, v, ns, p, n) body w = (Resolved res, w')"
    by (auto simp: ref_env_def ref_create_def split: option.splits)
  with ref_write_resolved show "ref_store w (g, v, ns, p, n) = None \<and> (\<exists>b rv. jprop res ''body'' = Some b \<and>
      ref_store w' = (ref_store w)((g, v, ns, p, n) \<mapsto> b) \<and> same_content body b \<and> resource_version b = Some rv \<and>
      rv \<notin> ref_used w \<and> ref_used w' = insert rv (ref_used w))" by blast
next
  fix g v ns p n body w res w'
  assume "patchNamespacedCustomObject (ref_env cfg crd) g v ns p n body w = (Resolved res, w')"
  then obtain old where "ref_store w (g, v, ns, p, n) = Some old" "version_matches body old"
    "ref_write (g, v, ns, p, n) (merge_patch old body) w = (Resolved res, w')"
    by (auto simp: ref_env_def ref_patch_def split: option.splits if_splits)
  with ref_write_resolved show "\<exists>old. ref_store w (g, v, ns, p, n) = Some old \<and> version_matches body old \<and>
      (\<exists>b rv. jprop res ''body'' = Some b \<and> ref_store w' = (ref_store w)((g, v, ns, p, n) \<mapsto> b) \<and>
         same_content (merge_patch old body) b \<and> resource_version b = Some rv \<and> rv \<notin> ref_used w \<and>
         ref_used w' = insert rv (ref_used w))" by blast
qed (auto simp: ref_env_def ref_get_def ref_create_def ref_patch_def ref_write_def
      split: option.splits if_splits json.splits)

end
