(* ===== verification/Lock_Properties.thy ===== *)
theory Lock_Properties
  imports Reference_Server
begin

text \<open>
  The properties of \<open>LockManager.js\<close>, for every environment that keeps the contract of the API server
  (\<open>k8s_api\<close>). Each hypothesis is met on the reference server by the witness that follows the property.
\<close>

definition the_resolved :: "('e, 'a) outcome \<Rightarrow> 'a" where
  "the_resolved q = (case q of Resolved x \<Rightarrow> x)"

section \<open>One acquisition without interference\<close>

lemma check_lock_details_iffs [promise_iffs]:
  "check_lock_details d w = (Resolved u, w') \<longleftrightarrow>
     truthy (Some d) \<and> truthy (jprop d ''lockedResourceDetails'') \<and> truthy (lock_operation (Some d)) \<and> w' = w"
  "check_lock_details d w = (Pending, w') \<longleftrightarrow> False"
  by (auto simp: check_lock_details_def promise_iffs)

lemma check_lock_details_rejected: "check_lock_details d w = (Rejected e, w') \<Longrightarrow> w' = w \<and> class_of e = CAssertionError"
  by (auto simp: check_lock_details_def promise_iffs class_simps)

lemma json_wf_lock_details: "json_wf ld \<Longrightarrow> json_wf (lock_details env t ld plan)"
proof -
  assume "json_wf ld"
  then have o2: "json_wf (jput ''lockTTL'' (number_or_null n) (jput ''lockType'' (JStr s) ld))" for n s
    by (intro json_wf_jput) (auto simp: number_or_null_def split: option.splits)
  have "json_wf (if truthy (jprop j k) then the (jprop j k) else JNum t)" if "json_wf j" for j k
    using that by (cases "jprop j k") (auto dest: json_wf_prop)
  with o2 show ?thesis by (simp add: lock_details_def Let_def json_wf_jput)
qed

context k8s_api
begin

lemma lock_after_read_resolved:
  assumes "lock_after_read env i t d (parse_resource b) w = (Resolved q, w')" and "json_wf d" "truthy (Some d)"
    and b: "lock_object env store i w = Some b"
  shows "\<not> lock_held env t (parse_resource b) \<and>
    (\<exists>b' rv. lock_object env store i w' = Some b' \<and> resource_version b' = Some rv \<and> rv \<notin> used w \<and>
       q = Some rv \<and> locked_with d (Some b'))"
proof -
  obtain rv0 where rv0: "resource_version b = Some rv0"
    using b by (auto simp: lock_object_def split: option.splits dest!: versions_used)
  from assms(1) obtain r where "\<not> lock_held env t (parse_resource b)"
    and u: "updateResource env (lock_update i (parse_resource b) d) w = (Resolved r, w')" and q: "q = lock_id_of r"
    by (auto simp: lock_after_read_def Let_def promise_iffs split: if_splits)
  with u rv0 assms(2,3) show ?thesis by (auto elim!: lock_write)
qed

lemma lock_absent_resolved:
  assumes "lock_absent env i d w = (Resolved q, w')" and "json_wf d" "truthy (Some d)"
  shows "lock_object env store i w = None \<and>
    (\<exists>b' rv. lock_object env store i w' = Some b' \<and> resource_version b' = Some rv \<and> rv \<notin> used w \<and>
       q = Some rv \<and> locked_with d (Some b'))"
  using assms by (auto simp: lock_absent_def promise_iffs elim!: lock_write_new)

lemma lock_after_read_rejected:
  assumes "lock_after_read env i t d r w = (Rejected e, w')" shows "store w' = store w \<and> used w' = used w"
  using assms updateResource_rejected by (auto simp: lock_after_read_def Let_def promise_iffs split: if_splits)

lemma lock_conflict_rejects: "lock_conflict env i w \<noteq> (Resolved q, w')"
  by (auto simp: lock_conflict_def Let_def promise_iffs)

lemma lock_conflict_frame: "lock_conflict env i w = (q, w') \<Longrightarrow> store w' = store w \<and> used w' = used w"
  by (cases q) (auto simp: lock_conflict_def Let_def promise_iffs dest: getResource_frame)

lemma lock_resolved:
  assumes "lock env i ld plan w = (Resolved q, w')" and "json_wf ld"
  shows "lock_free env (now env w) (lock_object env store i w) \<and>
    locked_with (lock_details env (now env w) ld plan) (lock_object env store i w') \<and>
    (\<exists>b rv. lock_object env store i w' = Some b \<and> resource_version b = Some rv \<and> rv \<notin> used w \<and> q = Some rv)"
proof -
  let ?d = "lock_details env (now env w) ld plan"
  have d: "json_wf ?d" "truthy (Some ?d)" using assms(2) by (simp_all add: json_wf_lock_details)
  from assms(1) consider (read) r w1 where "getResource env (lock_ref i) w = (Resolved r, w1)"
      "lock_after_read env i (now env w) ?d r w1 = (Resolved q, w')"
    | (miss) e w1 where "getResource env (lock_ref i) w = (Rejected e, w1)" "lock_absent env i ?d w1 = (Resolved q, w')"
      "instanceof CNotFound e"
    | (gone) r w0 e w1 where "getResource env (lock_ref i) w = (Resolved r, w0)"
      "lock_after_read env i (now env w) ?d r w0 = (Rejected e, w1)" "lock_absent env i ?d w1 = (Resolved q, w')"
    by (auto simp: lock_def Let_def promise_iffs lock_conflict_rejects)
  then show ?thesis
  proof cases
    case read
    note fr = getResource_frame [OF read(1)]
    obtain b where b: "lock_object env store i w = Some b" "r = parse_resource b" using lock_read [OF read(1)] .
    have "lock_object env store i w1 = Some b" using fr b(1) lock_object_cong [of store w1 w env i] by simp
    with lock_after_read_resolved [of i "now env w" ?d b w1 q w'] read(2) b d fr show ?thesis
      by (auto simp: lock_free_def)
  next
    case miss
    note fr = getResource_frame [OF miss(1)]
    have "lock_object env store i w = None" using lock_read_missing [OF miss(1,3)] .
    with lock_absent_resolved [OF miss(2) d] fr show ?thesis by (auto simp: lock_free_def)
  next
    case gone
    note fr = getResource_frame [OF gone(1)] lock_after_read_rejected [OF gone(2)]
    then have "lock_object env store i w1 = lock_object env store i w" using lock_object_cong [of store w1 w env i] by simp
    with lock_absent_resolved [OF gone(3) d] fr show ?thesis by (auto simp: lock_free_def)
  qed
qed

lemma lock_absent_rejected:
  "lock_absent env i d w = (Rejected e, w') \<Longrightarrow> store w' = store w \<and> used w' = used w"
  by (auto simp: lock_absent_def promise_iffs dest: createResource_rejected)

lemma lock_rejected:
  assumes "lock env i ld plan w = (Rejected e, w')"
  shows "store w' = store w \<and> used w' = used w"
  using assms
  by (auto simp: lock_def Let_def promise_iffs split: if_splits
      dest!: check_lock_details_rejected getResource_frame lock_after_read_rejected lock_absent_rejected lock_conflict_frame)

lemma lock_settles: "lock env i ld plan w \<noteq> (Pending, w')"
  using getResource_settles updateResource_settles createResource_settles
  by (auto simp: lock_def lock_after_read_def lock_absent_def lock_conflict_def Let_def promise_iffs split: if_splits)

lemma lock_held_details:
  assumes "lock_held env t r"
  shows "path_of (jget (Some r) [''spec'', ''options'']) [''lockTime''] \<noteq> None"
proof -
  from assms obtain l where "jget (jget (Some r) [''spec'', ''options'']) [''lockTime''] = Some l"
    by (fastforce simp: lock_held_def Let_def within_ttl_def split: option.splits dest: date_ms.elims)
  then show ?thesis by (cases "jget (Some r) [''spec'', ''options'']") auto
qed

lemma already_locked_class:
  "\<not> instanceof CNotFound (already_locked i d)" "\<not> instanceof CConflict (already_locked i d)"
  by (simp_all add: already_locked_def instanceof_def class_simps is_subclass_def numeral_eq_Suc)

lemma lock_held_rejects:
  assumes run: "lock env i ld plan w = (q, w')" and "json_wf ld"
    and b: "lock_object env store i w = Some b" and held: "lock_held env (now env w) (parse_resource b)"
    and ld: "truthy (jprop ld ''lockedResourceDetails'')" "truthy (lock_operation (Some ld))"
  shows "store w' = store w \<and> (\<exists>e. q = Rejected e \<and>
    ((\<exists>r w1. getResource env (lock_ref i) w = (Resolved r, w1)) \<longrightarrow>
       e = already_locked i (jget (Some (parse_resource b)) [''spec'', ''options''])))"
proof -
  let ?e = "already_locked i (jget (Some (parse_resource b)) [''spec'', ''options''])"
  obtain e where e: "q = Rejected e"
    using run lock_settles lock_resolved [of i ld plan w _ w'] assms(2) b held
    by (cases q) (auto simp: lock_free_def)
  moreover have "e = ?e" if g: "getResource env (lock_ref i) w = (Resolved r, w1)" for r w1
  proof -
    from lock_read [OF g] b have r: "r = parse_resource b" by auto
    obtain x where "path_of (jget (Some r) [''spec'', ''options'']) [''lockTime''] = Some x"
      using lock_held_details [OF held] r by auto
    then have "lock_after_read env i (now env w) d r w1 = (Rejected ?e, w1)" for d
      using held r by (simp add: lock_after_read_def deref_def promise_simps Let_def)
    then have "lock env i ld plan w = (Rejected ?e, w1)"
      using ld g truthy.simps already_locked_class [of i]
      by (cases ld) (simp_all add: lock_def check_lock_details_def assert_ok_def promise_simps Let_def)
    with run e show ?thesis by simp
  qed
  moreover have "store w' = store w" using lock_rejected run e by blast
  ultimately show ?thesis by blast
qed

text \<open>Releasing the lock: one attempt of \<open>unlock\<close>.\<close>

lemma unlock_write:
  assumes "updateResource env (unlock_opts i v) w = (Resolved r, w')"
  obtains old b' where "lock_object env store i w = Some old" and "truthy v \<Longrightarrow> resource_version old = v"
    and "lock_object env store i w' = Some b'"
    and "jget (Some (parse_resource b')) [''status'', ''state''] = Some (JStr STATE_UNLOCKED)"
proof -
  let ?o = "unlock_opts i v"
  from assms obtain c old b' where c: "coords env GROUP_LOCK TYPE_DEPLOYMENT_LOCKS = Some c"
    and old: "store w (resource_key env (lock_ref i) c) = Some old" and vm: "version_matches (update_body ?o) old"
    and new: "store w' = (store w)(resource_key env (lock_ref i) c \<mapsto> b')"
    and same: "same_content (merge_patch old (update_body ?o)) b'"
    by (elim updateResource_resolved) (auto simp: str_of_def)
  have "resource_version (update_body ?o) = v" if tv: "truthy v"
  proof -
    obtain rv where "v = Some rv" using tv by (cases v) auto
    then show ?thesis using tv update_body_version [of ?o "[(''resourceVersion'', rv)]" rv]
      by (simp add: obj_def List.map_filter_simps)
  qed
  then have "truthy v \<Longrightarrow> resource_version old = v" using vm by (auto simp: version_matches_def)
  moreover have "jget (Some b') [''status'', ''state''] = Some (JStr STATE_UNLOCKED)"
    using same_content_get [OF same, of "''status''"] update_body_status [of ?o "[(''state'', JStr STATE_UNLOCKED)]" "''state''"] by simp
  ultimately show thesis
    using that [of old b'] c old new parse_resource_section [of "''status''" b' "''state''"] by (simp add: lock_object_def)
qed

lemma unlock_attempt_stale:
  assumes "unlock_attempt env i v n w = (q, w')" and "truthy v"
    and "\<And>b. lock_object env store i w = Some b \<Longrightarrow> resource_version b \<noteq> v"
  shows "store w' = store w \<and> (q = Resolved None \<or> (\<exists>e. q = Rejected e \<and> class_of e = CInternalServerError))"
proof -
  have "updateResource env (unlock_opts i v) w \<noteq> (Resolved r, w1)" for r w1
    using assms(2,3) by (auto elim!: unlock_write)
  with assms(1) updateResource_settles show ?thesis
    by (cases q) (auto simp: unlock_attempt_def promise_iffs class_simps dest!: updateResource_rejected split: if_splits)
qed

lemma unlock_attempt_settles: "unlock_attempt env i v n w \<noteq> (Pending, w')"
  using updateResource_settles by (auto simp: unlock_attempt_def promise_iffs)

lemma unlock_settles:
  "unlock env i v m d w = (q, w') \<Longrightarrow> q \<noteq> Pending \<and>
    (\<forall>e. q = Rejected e \<longrightarrow> class_of e = CTimeout \<or> i = [] \<and> class_of e = CAssertionError)"
proof -
  assume u: "unlock env i v m d w = (q, w')"
  let ?ro = "default_retry\<lparr>
           maxAttempts := (case m of None \<Rightarrow> MAX_RETRY_UNLOCK | Some n \<Rightarrow> if n = 0 then MAX_RETRY_UNLOCK else n),
           minDelay := (case d of None \<Rightarrow> RETRY_DELAY | Some d \<Rightarrow> if d = 0 then RETRY_DELAY else d)\<rparr>"
  have "attempt (max 1 (maxAttempts ?ro)) env ?ro (unlock_attempt env i v) t 0 w1 \<noteq> (Pending, w2)" for t w1 w2
    using unlock_attempt_settles by (intro attempt_settles) auto
  moreover have "predicate ?ro = any_error" by (simp add: default_retry_def)
  ultimately show ?thesis using u
    by (cases q) (auto simp: unlock_def retry_def promise_iffs class_simps dest!: attempt_rejected)
qed

lemma unlock_attempt_done:
  assumes "unlock_attempt env i v n w = (Resolved (Some r), w')"
  shows "(\<exists>old. lock_object env store i w = Some old \<and> (truthy v \<longrightarrow> resource_version old = v)) \<and>
    (\<forall>t. lock_free env t (lock_object env store i w'))"
proof -
  from assms have "updateResource env (unlock_opts i v) w = (Resolved r, w')"
    by (auto simp: unlock_attempt_def promise_iffs split: if_splits)
  then show ?thesis by (elim unlock_write) (auto simp: lock_free_def lock_held_def Let_def)
qed

text \<open>The runs of \<open>lock\<close> are runs of the step relation.\<close>

lemma lock_after_read_steps:
  assumes run: "lock_after_read env i (now env (lworld s)) d r w1 = (q, w')"
    and g: "getResource env (lock_ref i) (lworld s) = (Resolved r, w1)" and a: "pc s a = Idle"
    and d: "d = lock_details env (now env (lworld s)) ld plan" "json_wf d"
  shows "\<exists>p. (lock_step env store used i)\<^sup>*\<^sup>* s (s\<lparr>lworld := w', pc := (pc s)(a := p)\<rparr>) \<and>
    (case q of Resolved v \<Rightarrow> p = Acquired v
     | Rejected e \<Rightarrow> if instanceof CNotFound e then p = WillCreate d else p \<in> {Idle, Refused}
     | Pending \<Rightarrow> False)"
proof (cases "lock_held env (now env (lworld s)) r")
  case True
  with lock_step.read_held [OF a g] have "lock_step env store used i s (s\<lparr>lworld := w1, pc := (pc s)(a := Refused)\<rparr>)" by blast
  moreover have "w' = w1 \<and> (\<exists>e. q = Rejected e \<and> \<not> instanceof CNotFound e)"
    using run True already_locked_class
    by (cases q) (auto simp: lock_after_read_def Let_def promise_iffs deref_def instanceof_def class_simps is_subclass_def numeral_eq_Suc
        split: option.splits if_splits)
  ultimately show ?thesis by auto
next
  case False
  let ?s1 = "s\<lparr>lworld := w1, pc := (pc s)(a := WillUpdate (now env (lworld s)) r d)\<rparr>"
  have s1: "lock_step env store used i s ?s1" using lock_step.read_free [OF a g False refl d(2,1)] .
  have out: "lock_step env store used i s (s\<lparr>lworld := w1\<rparr>)"
    by (rule lock_step.outside [OF get_outside [OF g]])
  show ?thesis
  proof (cases q)
    case (Resolved v)
    then obtain res where "updateResource env (lock_update i r d) w1 = (Resolved res, w')" "v = lock_id_of res"
      using run False by (auto simp: lock_after_read_def Let_def promise_iffs)
    then have "lock_step env store used i ?s1 (s\<lparr>lworld := w', pc := (pc s)(a := Acquired v)\<rparr>)"
      using lock_step.write_ok [of ?s1 a _ r d env i res w' store used] by simp
    with s1 show ?thesis using Resolved by (auto intro: rtranclp.rtrancl_into_rtrancl)
  next
    case (Rejected e)
    then consider (null) "w' = w1" "\<not> instanceof CNotFound e"
      | (upd) "updateResource env (lock_update i r d) w1 = (Rejected e, w')"
      using run False by (auto simp: lock_after_read_def Let_def promise_iffs deref_def instanceof_def class_simps is_subclass_def numeral_eq_Suc
          split: option.splits if_splits)
    then show ?thesis
    proof cases
      case null
      have "s\<lparr>lworld := w1, pc := (pc s)(a := Idle)\<rparr> = s\<lparr>lworld := w1\<rparr>" using a by (cases s) (auto simp: fun_upd_idem)
      with null out Rejected show ?thesis by (intro exI [of _ Idle]) auto
    next
      case upd
      then have "lock_step env store used i ?s1 (s\<lparr>lworld := w', pc := (pc s)(a := if instanceof CNotFound e then WillCreate d else Refused)\<rparr>)"
        using lock_step.write_gone [of ?s1 a _ r d env i e w' store used]
          lock_step.write_failed [of ?s1 a _ r d env i e w' store used] by simp
      then have "(lock_step env store used i)\<^sup>*\<^sup>* s (s\<lparr>lworld := w', pc := (pc s)(a := if instanceof CNotFound e then WillCreate d else Refused)\<rparr>)"
        by (rule rtranclp.rtrancl_into_rtrancl [OF r_into_rtranclp [of "lock_step env store used i", OF s1]])
      with Rejected show ?thesis by (intro exI conjI) auto
    qed
  next
    case Pending
    with run updateResource_settles show ?thesis by (auto simp: lock_after_read_def Let_def promise_iffs split: if_splits)
  qed
qed

lemma lock_absent_steps:
  assumes "lock_absent env i d w = (q, w')"
    and "(lock_step env store used i)\<^sup>*\<^sup>* s (s\<lparr>lworld := w, pc := (pc s)(a := WillCreate d)\<rparr>)"
  shows "\<exists>p. (lock_step env store used i)\<^sup>*\<^sup>* s (s\<lparr>lworld := w', pc := (pc s)(a := p)\<rparr>) \<and>
    (case q of Resolved v \<Rightarrow> p = Acquired v | _ \<Rightarrow> p = Refused)"
proof -
  let ?s1 = "s\<lparr>lworld := w, pc := (pc s)(a := WillCreate d)\<rparr>"
  from assms(1) consider (ok) res where "createResource env (lock_create i d) w = (Resolved res, w')" "q = Resolved (lock_id_of res)"
    | (failed) e where "createResource env (lock_create i d) w = (Rejected e, w')" "q = Rejected e"
    using createResource_settles by (cases q) (auto simp: lock_absent_def promise_iffs)
  then show ?thesis
  proof cases
    case ok
    with lock_step.create_ok [of ?s1 a d env i res w' store used] assms(2) show ?thesis
      by (auto intro: rtranclp.rtrancl_into_rtrancl)
  next
    case failed
    with lock_step.create_failed [of ?s1 a d env i e w' store used] assms(2) show ?thesis
      by (auto intro: rtranclp.rtrancl_into_rtrancl)
  qed
qed

lemma lock_tries_steps:
  assumes run: "catch_on (then_do (getResource env (lock_ref i)) (lock_after_read env i (now env (lworld s)) d))
      (instanceof CNotFound) (\<lambda>_. lock_absent env i d) (lworld s) = (q, w')" and a: "pc s a = Idle"
    and d: "d = lock_details env (now env (lworld s)) ld plan" "json_wf d"
  shows "\<exists>p. (lock_step env store used i)\<^sup>*\<^sup>* s (s\<lparr>lworld := w', pc := (pc s)(a := p)\<rparr>) \<and>
    (case q of Resolved v \<Rightarrow> p = Acquired v | Rejected e \<Rightarrow> p \<in> {Idle, Refused} | Pending \<Rightarrow> False)"
proof -
  have absent: ?thesis if "lock_absent env i d w1 = (q, w')"
      "(lock_step env store used i)\<^sup>*\<^sup>* s (s\<lparr>lworld := w1, pc := (pc s)(a := WillCreate d)\<rparr>)" for w1
    using lock_absent_steps [OF that] that(1) createResource_settles
    by (cases q) (auto simp: lock_absent_def promise_iffs)
  obtain g w1 where g: "getResource env (lock_ref i) (lworld s) = (g, w1)" by fastforce
  show ?thesis
  proof (cases g)
    case (Resolved r)
    obtain q1 w2 where l: "lock_after_read env i (now env (lworld s)) d r w1 = (q1, w2)" by fastforce
    from lock_after_read_steps [OF l _ a d] g Resolved obtain p where
      p: "(lock_step env store used i)\<^sup>*\<^sup>* s (s\<lparr>lworld := w2, pc := (pc s)(a := p)\<rparr>)"
      "case q1 of Resolved v \<Rightarrow> p = Acquired v | Rejected e \<Rightarrow> if instanceof CNotFound e then p = WillCreate d else p \<in> {Idle, Refused}
        | Pending \<Rightarrow> False" by auto
    show ?thesis
    proof (cases "\<exists>e. q1 = Rejected e \<and> instanceof CNotFound e")
      case True
      then have "lock_absent env i d w2 = (q, w')" using run g Resolved l by (auto simp: promise_simps)
      with True p absent show ?thesis by auto
    next
      case False
      then have "(q, w') = (q1, w2)" using run g Resolved l by (cases q1) (auto simp: promise_simps)
      with False p show ?thesis by (auto split: outcome.splits if_splits)
    qed
  next
    case (Rejected e)
    show ?thesis
    proof (cases "instanceof CNotFound e")
      case True
      then have "lock_absent env i d w1 = (q, w')" using run g Rejected by (auto simp: promise_simps)
      moreover have "lock_step env store used i s (s\<lparr>lworld := w1, pc := (pc s)(a := WillCreate d)\<rparr>)"
        using lock_step.read_missing [OF a _ True d(2,1)] g Rejected by simp
      ultimately show ?thesis using absent by blast
    next
      case False
      then have "(q, w') = (Rejected e, w1)" using run g Rejected by (auto simp: promise_simps)
      moreover have "lock_step env store used i s (s\<lparr>lworld := w1\<rparr>)" by (rule lock_step.outside [OF get_outside [OF g]])
      moreover have "s\<lparr>lworld := w1, pc := (pc s)(a := Idle)\<rparr> = s\<lparr>lworld := w1\<rparr>" using a by (cases s) (auto simp: fun_upd_idem)
      ultimately show ?thesis by (intro exI [of _ Idle]) auto
    qed
  qed (use g getResource_settles in auto)
qed

lemma lock_conflict_outside: "lock_conflict env i w = (q, w') \<Longrightarrow> outside_write env store used i w w' \<and> (\<exists>e. q = Rejected e)"
  using getResource_settles
  by (cases q) (auto simp: lock_conflict_def Let_def promise_iffs intro: get_outside)

lemma lock_steps:
  assumes run: "lock env i ld plan (lworld s) = (q, w')" and a: "pc s a = Idle" and ld: "json_wf ld"
  shows "\<exists>p. (lock_step env store used i)\<^sup>*\<^sup>* s (s\<lparr>lworld := w', pc := (pc s)(a := p)\<rparr>) \<and>
    (case q of Resolved v \<Rightarrow> p = Acquired v | Rejected e \<Rightarrow> p \<in> {Idle, Refused} | Pending \<Rightarrow> False)"
proof -
  let ?d = "lock_details env (now env (lworld s)) ld plan"
  let ?tries = "catch_on (then_do (getResource env (lock_ref i)) (lock_after_read env i (now env (lworld s)) ?d))
      (instanceof CNotFound) (\<lambda>_. lock_absent env i ?d)"
  obtain c w0 where c: "check_lock_details ld (lworld s) = (c, w0)" by fastforce
  show ?thesis
  proof (cases c)
    case (Rejected e)
    then have "w0 = lworld s" "(q, w') = (Rejected e, w0)"
      using c run check_lock_details_rejected [of ld "lworld s" e w0] by (auto simp: lock_def promise_simps)
    moreover have "s\<lparr>pc := (pc s)(a := Idle)\<rparr> = s" using a by (cases s) (auto simp: fun_upd_idem)
    ultimately show ?thesis by (intro exI [of _ Idle]) auto
  next
    case (Resolved u)
    then have w0: "w0 = lworld s" using c by (auto simp: promise_iffs)
    obtain q1 w1 where t: "?tries (lworld s) = (q1, w1)" by fastforce
    from lock_tries_steps [OF t a refl json_wf_lock_details [OF ld]] obtain p where
      p: "(lock_step env store used i)\<^sup>*\<^sup>* s (s\<lparr>lworld := w1, pc := (pc s)(a := p)\<rparr>)"
      "case q1 of Resolved v \<Rightarrow> p = Acquired v | Rejected e \<Rightarrow> p \<in> {Idle, Refused} | Pending \<Rightarrow> False" by blast
    have l: "catch_on ?tries (instanceof CConflict) (\<lambda>_. lock_conflict env i) (lworld s) = (q, w')"
      using run c Resolved w0 by (simp add: lock_def promise_simps Let_def del: scomp_apply)
    show ?thesis
    proof (cases "\<exists>e. q1 = Rejected e \<and> instanceof CConflict e")
      case True
      then have lc: "lock_conflict env i w1 = (q, w')" using l t by (auto simp: promise_simps)
      from lock_conflict_outside [OF this] have
        "lock_step env store used i (s\<lparr>lworld := w1, pc := (pc s)(a := p)\<rparr>) (s\<lparr>lworld := w', pc := (pc s)(a := p)\<rparr>)"
        using lock_step.outside [of env store used i "s\<lparr>lworld := w1, pc := (pc s)(a := p)\<rparr>" w'] by (cases s) simp
      with True p lock_conflict_outside [OF lc] show ?thesis by (auto intro: rtranclp.rtrancl_into_rtrancl)
    next
      case False
      then have "(q, w') = (q1, w1)" using l t by (cases q1) (auto simp: promise_simps)
      with p show ?thesis by auto
    qed
  qed (use c in \<open>auto simp: promise_iffs\<close>)
qed

text \<open>While a client keeps a lock that has not expired, no other client gets it.\<close>

lemma stays_locked:
  assumes "lock_inv env store used i s" and k: "keeps_lock env store used i a v s s'" and v: "pc s a = Acquired v"
    and b: "lock_object env store i (lworld s) = Some b" "resource_version b = v" "lock_held env (now env (lworld s)) (parse_resource b)"
  shows "lock_object env store i (lworld s') = Some b \<and> (\<forall>c u. pc s' c = Acquired u \<longrightarrow> pc s c = Acquired u)"
proof -
  have st: "lock_step env store used i s s'" and a': "pc s' a = Acquired v" using k by (simp_all add: keeps_lock_def)
  have "\<not> lock_free env (now env (lworld s)) (lock_object env store i (lworld s))" using b(1,3) by (simp add: lock_free_def)
  with acquisition_finds_free [OF assms(1) st] have new: "pc s' c = Acquired u \<Longrightarrow> pc s c = Acquired u" for c u by blast
  have same: "store w' = store (lworld s) \<Longrightarrow> lock_object env store i w' = Some b" for w'
    using lock_object_cong [of store w' "lworld s" env i] b(1) by simp
  from st have "lock_object env store i (lworld s') = Some b"
  proof (cases rule: lock_step.cases)
    case (write_ok c t r d res w')
    then show ?thesis using new [of c] by auto
  next
    case (create_ok c d res w')
    then show ?thesis using new [of c] by auto
  next
    case (release c u n q w')
    then have "c \<noteq> a" using a' by auto
    then have "u \<noteq> v" using assms(1) v release(2) by (auto simp: lock_inv_def)
    moreover have "truthy u" using assms(1) release(2) by (auto simp: lock_inv_def pc_ok_def dest!: spec [of _ c])
    ultimately show ?thesis using unlock_attempt_stale [OF release(3)] same b(1,2) release(1) by auto
  next
    case (outside w')
    then show ?thesis using k b(1) by (simp add: keeps_lock_def)
  qed (auto dest: getResource_frame updateResource_rejected createResource_rejected intro!: same simp: b(1))
  with new show ?thesis by blast
qed

lemma stays_locked_run:
  assumes "(keeps_lock env store used i a v)\<^sup>*\<^sup>* s s'" and "lock_inv env store used i s" and v: "pc s a = Acquired v"
    and b: "lock_object env store i (lworld s) = Some b" "resource_version b = v"
    and "lock_held env (now env (lworld s')) (parse_resource b)"
  shows "lock_object env store i (lworld s') = Some b \<and> (\<forall>c u. pc s' c = Acquired u \<longrightarrow> pc s c = Acquired u) \<and>
    lock_inv env store used i s' \<and> pc s' a = Acquired v"
  using assms(1,6)
proof (induction rule: rtranclp_induct)
  case base
  then show ?case using assms by simp
next
  case (step y z)
  have st: "lock_step env store used i y z" using step.hyps(2) by (simp add: keeps_lock_def)
  have h: "lock_held env (now env (lworld y)) (parse_resource b)" using step.prems lock_step_clock [OF st] lock_held_mono by blast
  note y = step.IH [OF h]
  show ?case using stays_locked [OF _ step.hyps(2) _ _ b(2) h] lock_step_inv [OF st] y step.hyps(2)
    by (auto simp: keeps_lock_def)
qed

end

section \<open>A concrete run on the reference server\<close>

definition demo_crd :: json where
  "demo_crd = JObj [(''spec'', JObj [(''group'', JStr GROUP_LOCK), (''version'', JStr ''v1alpha1''),
     (''names'', JObj [(''plural'', JStr TYPE_DEPLOYMENT_LOCKS), (''kind'', JStr ''DeploymentLock'')])])]"

definition demo_config :: json where
  "demo_config = JObj [(''apiserver'', JObj [(''crds'',
     JObj [(GROUP_LOCK @ ''_v1alpha1_'' @ TYPE_DEPLOYMENT_LOCKS @ ''.yaml'', JStr ''eA=='')])]), (''lockttl'', JObj [(''lifecycle'', JNum 1)])]"

abbreviation "demo_env \<equiv> ref_env demo_config demo_crd"

definition demo_details :: json where
  "demo_details = JObj [(''lockedResourceDetails'', JObj [(''operation'', JStr ''update'')])]"

definition demo_world :: "int \<Rightarrow> ref_world" where
  "demo_world t = \<lparr>ref_log = [], ref_clock = t\<rparr>"

definition demo_locked :: "int \<Rightarrow> ref_world" where
  "demo_locked t = snd (lock demo_env ''i1'' demo_details (JObj []) (demo_world t))"

abbreviation "demo_opts t \<equiv> lock_details demo_env t demo_details (JObj [])"

abbreviation "demo_idle \<equiv> \<lparr>lworld = demo_world 5, pc = \<lambda>_. Idle\<rparr>"
abbreviation "demo_res \<equiv> the_resolved (fst (createResource demo_env (lock_create ''i1'' (demo_opts 5)) (demo_world 5)))"
abbreviation "demo_will \<equiv> demo_idle\<lparr>pc := (\<lambda>_. Idle)(0 := WillCreate (demo_opts 5))\<rparr>"
abbreviation "demo_done \<equiv> \<lparr>lworld = demo_locked 5, pc = (\<lambda>_. Idle)(0 := Acquired (lock_id_of demo_res))\<rparr>"

lemma demo_missing:
  "getResource demo_env (lock_ref ''i1'') (demo_world 5) = (Rejected (NotFound (Some (JStr ''not found''))), demo_world 5)"
  by code_simp

lemma demo_create:
  "createResource demo_env (lock_create ''i1'' (demo_opts 5)) (demo_world 5) =
     (Resolved demo_res, demo_locked 5)"
  by code_simp

lemma json_wf_demo [simp]: "json_wf demo_details" "json_wf (demo_opts t)"
  by (simp_all add: demo_details_def json_wf_lock_details)

lemma now_demo [simp]: "now demo_env w = ref_clock w" "ref_clock (demo_world t) = t"
  by (simp_all add: ref_env_def demo_world_def)

lemma demo_step_1: "lock_step demo_env ref_store ref_used ''i1'' demo_idle demo_will"
proof -
  have nf: "instanceof CNotFound (NotFound (Some (JStr ''not found'')))" by code_simp
  have g: "getResource demo_env (lock_ref ''i1'') (lworld demo_idle) = (Rejected (NotFound (Some (JStr ''not found''))), demo_world 5)"
    unfolding lock_sys.select_convs by (rule demo_missing)
  have o': "demo_opts 5 = lock_details demo_env (now demo_env (lworld demo_idle)) demo_details (JObj [])"
    by (simp only: lock_sys.select_convs now_demo)
  have "lock_step demo_env ref_store ref_used ''i1'' demo_idle
      (demo_idle\<lparr>lworld := demo_world 5, pc := (pc demo_idle)(0 := WillCreate (demo_opts 5))\<rparr>)"
    by (rule lock_step.read_missing [OF _ g nf _ o']) (simp_all only: lock_sys.select_convs json_wf_demo)
  then show ?thesis by (simp only: lock_sys.select_convs lock_sys.update_convs)
qed

lemma demo_step_2: "lock_step demo_env ref_store ref_used ''i1'' demo_will demo_done"
proof -
  have c: "createResource demo_env (lock_create ''i1'' (demo_opts 5)) (lworld demo_will) = (Resolved demo_res, demo_locked 5)"
    unfolding lock_sys.select_convs lock_sys.update_convs by (rule demo_create)
  have "lock_step demo_env ref_store ref_used ''i1'' demo_will
      (demo_will\<lparr>lworld := demo_locked 5, pc := (pc demo_will)(0 := Acquired (lock_id_of demo_res))\<rparr>)"
    by (rule lock_step.create_ok [OF _ c]) (simp only: lock_sys.select_convs lock_sys.update_convs fun_upd_same)
  then show ?thesis by (simp only: lock_sys.select_convs lock_sys.update_convs fun_upd_upd)
qed

lemma demo_reachable: "lock_reachable demo_env ref_store ref_used ''i1'' demo_will"
  "lock_reachable demo_env ref_store ref_used ''i1'' demo_done"
  using demo_step_1 demo_step_2 unfolding lock_reachable_def
  by (blast intro: r_into_rtranclp rtranclp.rtrancl_into_rtrancl)+

lemma demo_lock_object:
  "map_option resource_version (lock_object demo_env ref_store ''i1'' (demo_locked 5)) = Some (lock_id_of demo_res)"
  "lock_id_of demo_res = Some (JStr ''0'')"
  by code_simp+

section \<open>Properties\<close>

text \<open>C2. Mutual exclusion under interleaving: any number of clients run \<open>LockManager.lock\<close> for one
  instance, interleaved between their API calls with each other, with releases and with arbitrary
  other writers. A step with which a client acquires the lock happens only while the stored lock is
  free at that moment, that is absent, unlocked or past its time to live.\<close>

theorem acquisition_only_when_free:
  assumes "k8s_api env store used" and "lock_reachable env store used i s"
    and "lock_step env store used i s s'" and "pc s' a = Acquired v" and "pc s a \<noteq> Acquired v"
  shows "lock_free env (now env (lworld s)) (lock_object env store i (lworld s))"
  using k8s_api.acquisition_finds_free [OF assms(1) k8s_api.lock_reachable_inv [OF assms(1,2)] assms(3-5)] .

theorem acquisition_only_when_free_witness: "lock_free demo_env 5 (lock_object demo_env ref_store ''i1'' (demo_world 5))"
  using acquisition_only_when_free [OF ref.k8s_api_axioms demo_reachable(1) demo_step_2, of 0 "lock_id_of demo_res"] by simp



text \<open>C3. The steps that the clients interleave are the steps of \<open>lock\<close> itself: a run of \<open>lock\<close> by an idle client, without
  interference, is a sequence of steps of the relation that ends in the same world. When \<open>lock\<close> resolves
  with a lock id the client has acquired with that id, when it rejects the client is refused or idle again,
  and it does one of the two.\<close>

theorem lock_runs_are_steps:
  assumes "k8s_api env store used" and "lock env i lockDetails plan (lworld s) = (q, w')" and "pc s a = Idle"
    and "json_wf lockDetails"
  shows "\<exists>p. (lock_step env store used i)\<^sup>*\<^sup>* s (s\<lparr>lworld := w', pc := (pc s)(a := p)\<rparr>) \<and>
    (case q of Resolved lockId \<Rightarrow> p = Acquired lockId | Rejected e \<Rightarrow> p \<in> {Idle, Refused} | Pending \<Rightarrow> False)"
  using k8s_api.lock_steps [OF assms] .

text \<open>C4. What \<open>lock\<close> achieves when it resolves: the lock was free when it started; afterwards the stored
  lock is in state \<open>locked\<close> with exactly the details \<open>lock\<close> computed (type, time to live and time
  included, read back through \<open>JSON.parse\<close>), and the returned lock id is the version of that object, which
  no earlier object had.\<close>

theorem lock_takes_free_lock:
  assumes "k8s_api env store used" and "lock env i lockDetails plan w = (Resolved lockId, w')" and "json_wf lockDetails"
  shows "lock_free env (now env w) (lock_object env store i w) \<and>
    locked_with (lock_details env (now env w) lockDetails plan) (lock_object env store i w') \<and>
    (\<exists>b rv. lock_object env store i w' = Some b \<and> resource_version b = Some rv \<and> rv \<notin> used w \<and> lockId = Some rv)"
  using k8s_api.lock_resolved [OF assms] .

lemma demo_lock: "lock demo_env ''i1'' demo_details (JObj []) (demo_world 5) = (Resolved (Some (JStr ''0'')), demo_locked 5)"
  by code_simp

theorem lock_takes_free_lock_witness: "locked_with (demo_opts 5) (lock_object demo_env ref_store ''i1'' (demo_locked 5))"
  using lock_takes_free_lock [OF ref.k8s_api_axioms demo_lock] by simp

theorem lock_runs_are_steps_witness:
  "(lock_step demo_env ref_store ref_used ''i1'')\<^sup>*\<^sup>* demo_idle
     (demo_idle\<lparr>lworld := demo_locked 5, pc := (pc demo_idle)(0 := Acquired (Some (JStr ''0'')))\<rparr>)"
  using lock_runs_are_steps [OF ref.k8s_api_axioms, of demo_config demo_crd "''i1''" demo_details "JObj []" demo_idle
      "Resolved (Some (JStr ''0''))" "demo_locked 5" 0] demo_lock by auto

text \<open>C5. A lock that is held is safe: \<open>lock\<close> rejects and leaves every stored object as it is. When the
  API server answers the read, the rejection is \<open>DeploymentAlreadyLocked\<close> (status 422) with the time and
  the operation of the holder.\<close>

theorem lock_refuses_held:
  assumes "k8s_api env store used" and "lock env i lockDetails plan w = (q, w')" and "json_wf lockDetails"
    and "lock_object env store i w = Some b" and "lock_held env (now env w) (parse_resource b)"
    and "truthy (jprop lockDetails ''lockedResourceDetails'')" and "truthy (lock_operation (Some lockDetails))"
  shows "store w' = store w \<and> (\<exists>e. q = Rejected e \<and>
    ((\<exists>r w1. getResource env (lock_ref i) w = (Resolved r, w1)) \<longrightarrow>
       e = already_locked i (jget (Some (parse_resource b)) [''spec'', ''options''])))"
  using k8s_api.lock_held_rejects [OF assms] .

lemma demo_held: "lock_object demo_env ref_store ''i1'' (demo_locked 5) = Some (the (lock_object demo_env ref_store ''i1'' (demo_locked 5)))"
  "lock_held demo_env 5 (parse_resource (the (lock_object demo_env ref_store ''i1'' (demo_locked 5))))"
  "now demo_env (demo_locked 5) = 5" "truthy (jprop demo_details ''lockedResourceDetails'')" "truthy (lock_operation (Some demo_details))"
  by code_simp+

theorem lock_refuses_held_witness: "\<exists>e. fst (lock demo_env ''i1'' demo_details (JObj []) (demo_locked 5)) = Rejected e"
proof -
  obtain q w' where r: "lock demo_env ''i1'' demo_details (JObj []) (demo_locked 5) = (q, w')" by fastforce
  have "lock_held demo_env (now demo_env (demo_locked 5)) (parse_resource (the (lock_object demo_env ref_store ''i1'' (demo_locked 5))))"
    using demo_held(2,3) by (simp only:)
  from lock_refuses_held [OF ref.k8s_api_axioms r json_wf_demo(1) demo_held(1) this demo_held(4,5)] r
  show ?thesis by auto
qed

text \<open>C6. An unlock with an outdated lock id is harmless: when the stored lock has another version, because
  the lock expired and someone else took it, an attempt of \<open>unlock\<close> changes nothing; it ends well or
  with an \<open>InternalServerError\<close>. The statement is about one attempt of the retry loop, in which all access of
  \<open>unlock\<close> to the API server happens.\<close>

theorem unlock_stale_harmless:
  assumes "k8s_api env store used" and "unlock_attempt env i lockId n w = (q, w')" and "truthy lockId"
    and "lock_object env store i w = Some b" and "resource_version b \<noteq> lockId"
  shows "store w' = store w \<and> (q = Resolved None \<or> (\<exists>e. q = Rejected e \<and> class_of e = CInternalServerError))"
  using k8s_api.unlock_attempt_stale [OF assms(1-3)] assms(4,5) by simp

theorem unlock_stale_harmless_witness:
  "ref_store (snd (unlock_attempt demo_env ''i1'' (Some (JStr ''7'')) 0 (demo_locked 5))) = ref_store (demo_locked 5)"
proof -
  obtain q w' where r: "unlock_attempt demo_env ''i1'' (Some (JStr ''7'')) 0 (demo_locked 5) = (q, w')" by fastforce
  have "resource_version (the (lock_object demo_env ref_store ''i1'' (demo_locked 5))) \<noteq> Some (JStr ''7'')" by code_simp
  from unlock_stale_harmless [OF ref.k8s_api_axioms r _ demo_held(1) this] r show ?thesis by simp
qed

text \<open>C7. An attempt of \<open>unlock\<close> (one round of its retry loop) that goes through releases: it found the lock with the given lock id (if one was given),
  and from then on the stored lock is free at every time.\<close>

theorem unlock_releases:
  assumes "k8s_api env store used" and "unlock_attempt env i lockId n w = (Resolved (Some r), w')"
  shows "(\<exists>old. lock_object env store i w = Some old \<and> (truthy lockId \<longrightarrow> resource_version old = lockId)) \<and>
    (\<forall>t. lock_free env t (lock_object env store i w'))"
  using k8s_api.unlock_attempt_done [OF assms] .

theorem unlock_releases_witness:
  "lock_free demo_env 6 (lock_object demo_env ref_store ''i1'' (snd (unlock_attempt demo_env ''i1'' (Some (JStr ''0'')) 0 (demo_locked 5))))"
proof -
  have "case fst (unlock_attempt demo_env ''i1'' (Some (JStr ''0'')) 0 (demo_locked 5)) of Resolved (Some _) \<Rightarrow> True | _ \<Rightarrow> False"
    by code_simp
  then obtain r where "fst (unlock_attempt demo_env ''i1'' (Some (JStr ''0'')) 0 (demo_locked 5)) = Resolved (Some r)"
    by (auto split: outcome.splits option.splits)
  then have "unlock_attempt demo_env ''i1'' (Some (JStr ''0'')) 0 (demo_locked 5) =
      (Resolved (Some r), snd (unlock_attempt demo_env ''i1'' (Some (JStr ''0'')) 0 (demo_locked 5)))" by (metis prod.collapse)
  from unlock_releases [OF ref.k8s_api_axioms this] show ?thesis by simp
qed

text \<open>C8. \<open>unlock\<close> always comes back: after at most \<open>maxRetryCount\<close> attempts (three by default) it has
  resolved, or rejected with an assertion error for an empty id or with the \<open>Timeout\<close> of the retry loop.\<close>

theorem unlock_returns:
  assumes "k8s_api env store used"
  shows "\<exists>q w'. unlock env i lockId maxRetryCount retryDelay w = (q, w') \<and> q \<noteq> Pending \<and>
    (\<forall>e. q = Rejected e \<longrightarrow> class_of e = CTimeout \<or> i = [] \<and> class_of e = CAssertionError)"
  using k8s_api.unlock_settles [OF assms] by (metis surj_pair)

theorem unlock_returns_witness: "fst (unlock demo_env ''i1'' None None None (demo_world 5)) \<noteq> Pending"
  using unlock_returns [OF ref.k8s_api_axioms, of demo_config demo_crd "''i1''" None None None "demo_world 5"] by auto

text \<open>The kind of lock an operation takes.\<close>

lemma lock_type_table:
  "getLockType op plan =
     (if op \<in> Some ` set (elems_of (jprop plan ''async_ops_supporting_parallel_sync_ops'')) then ''READ''
      else if op \<in> (Some \<circ> JStr) ` {''create'', ''update'', ''delete'', ''restore'', ''update_serviceflow''} then ''WRITE''
      else ''READ'')"
proof -
  have "elems_of v = []" if "\<not> truthy v" for v using that by (cases v rule: truthy.cases) auto
  then show ?thesis by (auto simp: getLockType_def WRITE_OPERATIONS_def)
qed

end
