(* ===== verification/BaseOperator.thy ===== *)
theory BaseOperator
  imports Lock_Properties
begin

text \<open>
  \<open>applications/operators/src/BaseOperator.js\<close>: every operator (director, docker, backup, flows, ...)
  watches its resources and handles each event with \<open>handleResource\<close>, which takes the processing lock
  of the resource, runs the operator's handler and releases the lock again. Several broker processes
  watch the same resources; the processing lock is what keeps them from handling an event twice.
  The handler is a parameter: each operator passes its own.
\<close>

abbreviation "HOLD_PROCESSING_LOCK \<equiv> ''HOLD_PROCESSING_LOCK''"
abbreviation "PROCESSING_REQUEST_BY_MANAGER_TIMEOUT \<equiv> 300000 :: int"

text \<open>\<open>JSON.parse(object.spec.options)\<close>\<close>

definition parse_options :: "json \<Rightarrow> ('w, exn, json) promise" where
  "parse_options objectBody =
     then_do (deref (Some objectBody) [''spec'', ''options'']) (\<lambda>options.
       case options of
         None \<Rightarrow> reject SyntaxError
       | Some v \<Rightarrow> (case parse_arg v of None \<Rightarrow> reject SyntaxError | Some o' \<Rightarrow> resolve o'))"

definition self_link_ref :: "json \<Rightarrow> json \<Rightarrow> json" where
  "self_link_ref objectBody metadata =
     (let details = parseResourceDetailsFromSelfLink (str_of (jget (Some objectBody) [''metadata'', ''selfLink''])) in
      obj [(''resourceGroup'', jprop details ''resourceGroup''), (''resourceType'', jprop details ''resourceType''),
           (''resourceId'', jget (Some objectBody) [''metadata'', ''name'']), (''metadata'', Some metadata)])"

definition processing_metadata :: "'w env \<Rightarrow> int \<Rightarrow> json \<Rightarrow> json" where
  "processing_metadata env t metadata =
     (let annotations = (if truthy (jprop metadata ''annotations'') then the (jprop metadata ''annotations'') else JObj []);
          a1 = (case conf env [''broker_ip''] of None \<Rightarrow> jomit [''lockedByManager''] annotations
                | Some ip \<Rightarrow> jput ''lockedByManager'' ip annotations);
          a2 = jput ''processingStartedAt'' (JNum t) a1 in
      jput ''annotations'' a2 metadata)"

definition acquireProcessingLock :: "'w env \<Rightarrow> json \<Rightarrow> ('w, exn, jsval) promise" where
  "acquireProcessingLock env changeObjectBody =
     then_do (parse_options changeObjectBody) (\<lambda>_.
     then_do (deref (Some changeObjectBody) [''metadata'', ''annotations'']) (\<lambda>_.
     then_do (ask (now env)) (\<lambda>t.
       then_do (updateResource env (self_link_ref changeObjectBody
         (processing_metadata env t (the (jprop changeObjectBody ''metadata'')))))
         (\<lambda>resource. resolve (jprop resource ''body'')))))"

definition released_metadata :: json where
  "released_metadata = obj [(''annotations'', Some (obj [(''lockedByManager'', Some (JStr [])), (''processingStartedAt'', Some (JStr []))]))]"

definition releaseProcessingLock :: "'w env \<Rightarrow> json \<Rightarrow> ('w, exn, json) promise" where
  "releaseProcessingLock env changeObjectBody =
     then_do (parse_options changeObjectBody) (\<lambda>_.
     then_do (deref (Some changeObjectBody) [''metadata'', ''name'']) (\<lambda>_.
       updateResource env (self_link_ref changeObjectBody released_metadata)))"

text \<open>The lock is taken, and was taken within the last five minutes.\<close>

definition processing_conflict :: "int \<Rightarrow> json \<Rightarrow> bool" where
  "processing_conflict t objectBody \<longleftrightarrow>
     (let lockedByManager = jget (Some objectBody) [''metadata'', ''annotations'', ''lockedByManager''];
          processingStartedAt = jget (Some objectBody) [''metadata'', ''annotations'', ''processingStartedAt''] in
      truthy lockedByManager \<and> truthy processingStartedAt \<and>
      within_ttl t (date_ms processingStartedAt) (Some PROCESSING_REQUEST_BY_MANAGER_TIMEOUT))"

text \<open>\<open>updateResource\<close> throws before it returns a promise when a required option is missing or the custom resource
  definition has no version. Such an error is not seen by a \<open>.catch\<close> on its result.\<close>

definition update_throws :: "'w env \<Rightarrow> json \<Rightarrow> ('w, exn, unit) promise" where
  "update_throws env opts =
     then_do (require_props ''update resource'' opts [''resourceGroup'', ''resourceType'', ''resourceId'']) (\<lambda>_.
     then_do (resource_coords env opts) (\<lambda>_. resolve ()))"

definition acquire_throws :: "'w env \<Rightarrow> json \<Rightarrow> ('w, exn, unit) promise" where
  "acquire_throws env changeObjectBody =
     then_do (parse_options changeObjectBody) (\<lambda>_.
     then_do (deref (Some changeObjectBody) [''metadata'', ''annotations'']) (\<lambda>_.
       update_throws env (self_link_ref changeObjectBody (the (jprop changeObjectBody ''metadata'')))))"

definition release_throws :: "'w env \<Rightarrow> json \<Rightarrow> ('w, exn, unit) promise" where
  "release_throws env changeObjectBody =
     then_do (parse_options changeObjectBody) (\<lambda>_.
     then_do (deref (Some changeObjectBody) [''metadata'', ''name'']) (\<lambda>_.
       update_throws env (self_link_ref changeObjectBody released_metadata)))"

text \<open>What becomes of \<open>_preProcessRequest\<close> and of the flag \<open>processingLockStatus.conflict\<close>: the flag is set
  (\<open>Conflicting\<close>) when another process has the lock and when the write of the lock fails; it stays unset
  when \<open>_acquireProcessingLock\<close> throws before it has a promise (\<open>Thrown\<close>).\<close>

datatype preprocessed =
    Conflicting
  | Thrown exn
  | Locked jsval

definition try_lock :: "'w env \<Rightarrow> json \<Rightarrow> ('w, exn, preprocessed) promise" where
  "try_lock env objectBody =
     catch_on (then_do (acquireProcessingLock env objectBody) (\<lambda>b. resolve (Locked b)))
       any_error (\<lambda>_. resolve Conflicting)"

definition preProcessRequest :: "'w env \<Rightarrow> json \<Rightarrow> ('w, exn, preprocessed) promise" where
  "preProcessRequest env objectBody =
     then_do (parse_options objectBody) (\<lambda>_.
     then_do (ask (now env)) (\<lambda>t.
       if processing_conflict t objectBody then resolve Conflicting
       else then_do (catch_on (then_do (acquire_throws env objectBody) (\<lambda>_. resolve None)) any_error (\<lambda>e. resolve (Some e)))
              (\<lambda>thrown. case thrown of Some e \<Rightarrow> resolve (Thrown e) | None \<Rightarrow> try_lock env objectBody)))"

definition postProcessRequest :: "'w env \<Rightarrow> json \<Rightarrow> ('w, exn, jsval) promise" where
  "postProcessRequest env objectBody =
     then_do (release_throws env objectBody) (\<lambda>_.
     catch_on (catch_on (then_do (releaseProcessingLock env objectBody) (\<lambda>r. resolve (Some r)))
       (instanceof CNotFound) (\<lambda>_. resolve None))
       any_error (\<lambda>_. resolve None))"

definition continueToHoldLock :: "'w env \<Rightarrow> json \<Rightarrow> ('w, exn, jsval) promise" where
  "continueToHoldLock env resourceBody = acquireProcessingLock env resourceBody"

text \<open>The handler's error is only logged; its result decides whether the lock is kept. Under a conflict
  neither the handler runs nor the lock is released; after an error thrown by the preprocessing the handler does not
  run either, but the lock is released all the same, and \<open>handleResource\<close> rejects when that throws, too.\<close>

definition run_handler :: "'w env \<Rightarrow> (json \<Rightarrow> ('w, exn, jsval) promise) \<Rightarrow> json \<Rightarrow> ('w, exn, jsval) promise" where
  "run_handler env handler body =
     then_do (catch_on (then_do (handler body) (\<lambda>r. resolve (r, r \<noteq> Some (JStr HOLD_PROCESSING_LOCK))))
       any_error (\<lambda>_. resolve (None, True)))
       (\<lambda>(r, releaseLock).
          if releaseLock then then_do (postProcessRequest env body) (\<lambda>_. resolve r) else resolve r)"

definition handleResource :: "'w env \<Rightarrow> (json \<Rightarrow> ('w, exn, jsval) promise) \<Rightarrow> json \<Rightarrow> ('w, exn, jsval) promise" where
  "handleResource env handler changeObject =
     then_do (deref (Some changeObject) [''object'', ''metadata'', ''name'']) (\<lambda>_.
     let changeObjectBody = the (jprop changeObject ''object'') in
     then_do (parse_options changeObjectBody) (\<lambda>_.
       then_do (preProcessRequest env changeObjectBody)
         (\<lambda>p.
            case p of
              Conflicting \<Rightarrow> resolve None
            | Thrown e \<Rightarrow> then_do (postProcessRequest env changeObjectBody) (\<lambda>_. resolve None)
            | Locked b \<Rightarrow> (case b of None \<Rightarrow> reject TypeError | Some body \<Rightarrow> run_handler env handler body))))"

end
