(* ===== verification/Operator_Properties.thy ===== *)
theory Operator_Properties
  imports BaseOperator
begin

text \<open>
  Properties of the operators' event handling: the processing lock is taken at most once per event.
\<close>

section \<open>The processing lock\<close>

text \<open>What other clients may do to the object under a key between two calls of one client.\<close>

definition evolves :: "('w \<Rightarrow> k8s_key \<Rightarrow> json option) \<Rightarrow> ('w \<Rightarrow> json set) \<Rightarrow> k8s_key \<Rightarrow> 'w \<Rightarrow> 'w \<Rightarrow> bool" where
  "evolves store used key w w' \<longleftrightarrow> used w \<subseteq> used w' \<and>
     (\<forall>b. store w' key = Some b \<longrightarrow> store w key = Some b \<or> (\<exists>rv. resource_version b = Some rv \<and> rv \<notin> used w))"

text \<open>A version that the object has lost does not come back.\<close>

lemma lost_version:
  assumes "(evolves store used key)\<^sup>*\<^sup>* w w'" and "v \<in> used w"
    and "\<And>b. store w key = Some b \<Longrightarrow> resource_version b \<noteq> Some v"
  shows "v \<in> used w' \<and> (\<forall>b. store w' key = Some b \<longrightarrow> resource_version b \<noteq> Some v)"
  using assms(1)
proof (induction rule: rtranclp_induct)
  case base
  then show ?case using assms(2,3) by simp
next
  case (step y z)
  then show ?case by (fastforce simp: evolves_def)
qed

lemma self_link_ref_props [simp]:
  "jprop (self_link_ref b m) ''namespaceId'' = None" "jprop (self_link_ref b m) ''metadata'' = Some m"
  by (simp_all add: self_link_ref_def Let_def json_simps)

definition processing_key :: "'w env \<Rightarrow> json \<Rightarrow> string \<times> string \<times> string \<Rightarrow> k8s_key" where
  "processing_key env body c = resource_key env (self_link_ref body JNull) c"

lemma self_link_ref_key [simp]: "resource_key env (self_link_ref b m) c = processing_key env b c"
  by (simp add: processing_key_def resource_key_def ns_or_default_def self_link_ref_def Let_def json_simps)

definition operator_coords :: "'w env \<Rightarrow> json \<Rightarrow> (string \<times> string \<times> string) option" where
  "operator_coords env body = coords env (str_of (jprop (self_link_ref body JNull) ''resourceGroup''))
     (str_of (jprop (self_link_ref body JNull) ''resourceType''))"

lemma self_link_ref_coords [simp]:
  "coords env (str_of (jprop (self_link_ref b m) ''resourceGroup'')) (str_of (jprop (self_link_ref b m) ''resourceType''))
     = operator_coords env b"
  by (simp add: operator_coords_def self_link_ref_def Let_def json_simps)

context k8s_api
begin

lemma acquire_update:
  assumes "acquireProcessingLock env body w = (Resolved r, w')"
  obtains t res where "updateResource env (self_link_ref body (processing_metadata env t (the (jprop body ''metadata'')))) w = (Resolved res, w')"
  using assms by (auto simp: acquireProcessingLock_def parse_options_def promise_iffs split: option.splits)

lemma acquire_takes_version:
  assumes "acquireProcessingLock env body w = (Resolved r, w')" and "resource_version body = Some rv"
  obtains c old b where "operator_coords env body = Some c" and "store w (processing_key env body c) = Some old"
    and "resource_version old = Some rv" and "store w' = (store w)(processing_key env body c \<mapsto> b)"
    and "resource_version b \<noteq> Some rv" and "rv \<in> used w'"
proof -
  obtain m where m: "jprop body ''metadata'' = Some m" "jprop m ''resourceVersion'' = Some rv"
    using assms(2) by (cases "jprop body ''metadata''") (auto simp: resource_version_def)
  from assms(1) obtain t res where
    u: "updateResource env (self_link_ref body (processing_metadata env t m)) w = (Resolved res, w')"
    using m by (auto elim: acquire_update)
  let ?o = "self_link_ref body (processing_metadata env t m)"
  obtain ms where ms: "processing_metadata env t m = JObj ms" "map_of ms ''resourceVersion'' = Some rv"
    using m(2) by (cases m) (auto simp: processing_metadata_def Let_def update_conv)
  have v: "resource_version (update_body ?o) = Some rv" by (rule update_body_version [OF _ ms(2)]) (simp add: ms(1))
  from u obtain c old b rv' where "operator_coords env body = Some c" and old: "store w (processing_key env body c) = Some old"
    and "version_matches (update_body ?o) old" "store w' = (store w)(processing_key env body c \<mapsto> b)"
    and rv': "resource_version b = Some rv'" "rv' \<notin> used w" "used w' = insert rv' (used w)"
    by (elim updateResource_resolved) auto
  moreover from this have "resource_version old = Some rv" using v by (auto simp: version_matches_def)
  moreover from this have "rv \<in> used w" using versions_used [OF old] by auto
  ultimately show thesis by (intro that [of c old b]) auto
qed

lemma acquire_once:
  assumes "acquireProcessingLock env body w = (Resolved r, w1)" and "resource_version body = Some rv"
    and "operator_coords env body = Some c" and "(evolves store used (processing_key env body c))\<^sup>*\<^sup>* w1 w2"
  shows "acquireProcessingLock env body w2 \<noteq> (Resolved r', w3)"
proof
  assume 2: "acquireProcessingLock env body w2 = (Resolved r', w3)"
  have "rv \<in> used w1" "\<And>b. store w1 (processing_key env body c) = Some b \<Longrightarrow> resource_version b \<noteq> Some rv"
    using acquire_takes_version [OF assms(1,2)] assms(3) by (metis fun_upd_same option.inject)+
  from lost_version [OF assms(4) this] have "\<And>b. store w2 (processing_key env body c) = Some b \<Longrightarrow> resource_version b \<noteq> Some rv"
    by blast
  with acquire_takes_version [OF 2 assms(2)] assms(3) show False by (metis option.inject)
qed

end

section \<open>Properties\<close>

text \<open>C14. One process per event: all broker processes receive the same watch event, with the resource
  version the object had. Once one of them has taken the processing lock with that event's object, no
  other acquisition with the same object succeeds, whatever happens to the object in between (it is
  processed, released, changed or deleted).\<close>

theorem processing_lock_once_per_event:
  assumes "k8s_api env store used" and "acquireProcessingLock env body w = (Resolved r, w1)"
    and "resource_version body = Some rv" and "operator_coords env body = Some c"
    and "(evolves store used (processing_key env body c))\<^sup>*\<^sup>* w1 w2"
  shows "acquireProcessingLock env body w2 \<noteq> (Resolved r', w3)"
  using k8s_api.acquire_once [OF assms] .

definition demo_event_body :: json where
  "demo_event_body = JObj [(''metadata'', JObj [(''name'', JStr ''d1''), (''resourceVersion'', JStr ''0''),
      (''selfLink'', JStr ''/apis/g/v1alpha1/namespaces/default/directors/d1'')]),
     (''spec'', JObj [(''options'', JStr ''{}'')])]"

definition demo_op_world :: ref_world where
  "demo_op_world = \<lparr>ref_log = [((''g'', ''v1alpha1'', ''default'', ''directors'', ''d1''),
     Some (JObj [(''metadata'', JObj [(''name'', JStr ''d1'')]), (''spec'', JObj [(''options'', JStr ''{}'')])]))], ref_clock = 10\<rparr>"

abbreviation "demo_op_env \<equiv> ref_env (JObj [(''broker_ip'', JStr ''10.0.0.1'')]) JNull"

lemma demo_acquire: "acquireProcessingLock demo_op_env demo_event_body demo_op_world =
    (Resolved (the_resolved (fst (acquireProcessingLock demo_op_env demo_event_body demo_op_world))),
     snd (acquireProcessingLock demo_op_env demo_event_body demo_op_world))"
  "resource_version demo_event_body = Some (JStr ''0'')"
  "operator_coords demo_op_env demo_event_body = Some (''g'', ''v1alpha1'', ''directors'')"
  by code_simp+

theorem processing_lock_once_per_event_witness:
  "\<nexists>r w. acquireProcessingLock demo_op_env demo_event_body
     (snd (acquireProcessingLock demo_op_env demo_event_body demo_op_world)) = (Resolved r, w)"
  using processing_lock_once_per_event [OF ref.k8s_api_axioms demo_acquire rtranclp.rtrancl_refl] by blast

end
