(* ===== verification/StatusPoller.thy ===== *)
theory StatusPoller
  imports Operator_Properties
begin

text \<open>
  The timers of the broker: \<open>applications/operators/src/BaseStatusPoller.js\<close>, the base of every status
  poller, and \<open>data-access-layer/eventmesh/src/UnlockResourcePoller.js\<close>, which releases the lock of an
  instance once the operation that holds it has finished. Both keep a map from resource names to interval
  timers. The state \<open>timers\<close> holds that map and the intervals that are running; a watch event may start
  one, a poll may clear it. The status query of a concrete poller is a parameter.
\<close>

abbreviation "POLLER_RELAXATION_TIME \<equiv> 5000 :: int"

record timers =
  pollers :: "(string \<times> nat) list"
  running :: "(nat \<times> json) list"
  next_id :: nat

definition no_timers :: timers where
  "no_timers = \<lparr>pollers = [], running = [], next_id = 1\<rparr>"

definition setInterval :: "string \<Rightarrow> json \<Rightarrow> timers \<Rightarrow> timers" where
  "setInterval resourceId object' s =
     s\<lparr>pollers := AList.update resourceId (next_id s) (pollers s),
       running := (next_id s, object') # running s, next_id := Suc (next_id s)\<rparr>"

definition clearPoller :: "string \<Rightarrow> nat option \<Rightarrow> timers \<Rightarrow> timers" where
  "clearPoller resourceId intervalId s =
     (let s1 = (case intervalId of None \<Rightarrow> s | Some n \<Rightarrow> s\<lparr>running := filter (\<lambda>(m, _). m \<noteq> n) (running s)\<rparr>) in
      s1\<lparr>pollers := AList.delete resourceId (pollers s1)\<rparr>)"

definition object_name :: "json \<Rightarrow> string" where
  "object_name object' = str_of (jget (Some object') [''metadata'', ''name''])"

section \<open>The base of the status pollers\<close>

record poller_class =
  validStateList :: "string list"
  validEventList :: "string list"
  pollInterval :: int

definition startPoller :: "poller_class \<Rightarrow> json \<Rightarrow> timers \<Rightarrow> timers" where
  "startPoller cls event s =
     (let resourceId = str_of (jget (Some event) [''object'', ''metadata'', ''name'']) in
      if jprop event ''type'' \<in> (Some \<circ> JStr) ` set (validEventList cls) \<and> map_of (pollers s) resourceId = None
      then setInterval resourceId (the (jprop event ''object'')) s
      else s)"

definition poller_lock_holder :: "json \<Rightarrow> ('w, exn, jsval \<times> jsval) promise" where
  "poller_lock_holder annotation =
     (case parse_arg annotation of
        None \<Rightarrow> reject SyntaxError
      | Some a \<Rightarrow> resolve (jprop a ''ip'', jprop a ''lockTime''))"

definition poller_metadata :: "'w env \<Rightarrow> int \<Rightarrow> json \<Rightarrow> json" where
  "poller_metadata env t metadata =
     (let annotations = (if truthy (jprop metadata ''annotations'') then the (jprop metadata ''annotations'') else JObj []) in
      jput ''annotations''
        (jput ''lockedByTaskPoller''
          (JStr (stringify (obj [(''lockTime'', Some (JNum t)), (''ip'', conf env [''broker_ip''])]))) annotations) metadata)"

definition take_poller_lock :: "'w env \<Rightarrow> json \<Rightarrow> int \<Rightarrow> ('w, exn, bool) promise" where
  "take_poller_lock env resourceBody t =
     catch_on (then_do (updateResource env (self_link_ref resourceBody (poller_metadata env t (the (jprop resourceBody ''metadata'')))))
       (\<lambda>_. resolve True))
       (instanceof CConflict) (\<lambda>_. resolve False)"

definition acquireLock :: "'w env \<Rightarrow> poller_class \<Rightarrow> json \<Rightarrow> ('w, exn, bool) promise" where
  "acquireLock env cls resourceBody =
     then_do (deref (Some resourceBody) [''metadata'', ''selfLink'']) (\<lambda>_.
     then_do (ask (now env)) (\<lambda>t.
       let pollerAnnotation = jget (Some resourceBody) [''metadata'', ''annotations'', ''lockedByTaskPoller''] in
       if truthy pollerAnnotation
       then then_do (poller_lock_holder (the pollerAnnotation)) (\<lambda>(ip, lockTime).
              if ip \<noteq> conf env [''broker_ip''] \<and>
                 within_ttl t (date_ms lockTime) (Some (pollInterval cls + POLLER_RELAXATION_TIME))
              then resolve False
              else take_poller_lock env resourceBody t)
       else take_poller_lock env resourceBody t))"

type_synonym 'w status_query = "json \<Rightarrow> nat \<Rightarrow> ('w \<times> timers, exn, jsval) promise"

definition pollStatus :: "'w env \<Rightarrow> poller_class \<Rightarrow> 'w status_query \<Rightarrow> json \<Rightarrow> nat \<Rightarrow> ('w \<times> timers, exn, jsval) promise" where
  "pollStatus env cls getStatus object' intervalId =
     catch_on (then_do (on_world (getResource env (jomit [''metadata''] (self_link_ref object' JNull))))
       (\<lambda>resourceBody.
          then_do (on_world (acquireLock env cls resourceBody)) (\<lambda>isLockAcquired.
            if isLockAcquired
            then (if jget (Some resourceBody) [''status'', ''state''] \<notin> (Some \<circ> JStr) ` set (validStateList cls)
                  then then_do (on_state (clearPoller (object_name object') (Some intervalId))) (\<lambda>_. resolve None)
                  else getStatus resourceBody intervalId)
            else resolve None)))
       any_error (\<lambda>_. then_do (on_state (clearPoller (object_name object') (Some intervalId))) (\<lambda>_. resolve None))"

section \<open>The poller that unlocks\<close>

definition FINISHED_STATES :: "string list" where
  "FINISHED_STATES = [STATE_SUCCEEDED, STATE_FAILED, STATE_DELETE_FAILED, STATE_ABORTED]"

definition unlock_and_clear :: "'w env \<Rightarrow> json \<Rightarrow> nat \<Rightarrow> ('w \<times> timers, exn, jsval) promise" where
  "unlock_and_clear env object' intervalId =
     then_do (then_do (on_world (unlock env (object_name object') (jget (Some object') [''metadata'', ''resourceVersion'']) None None))
       (\<lambda>_. on_state (clearPoller (object_name object') (Some intervalId))))
       (\<lambda>_. resolve None)"

definition unlock_poller :: "'w env \<Rightarrow> json \<Rightarrow> nat \<Rightarrow> ('w \<times> timers, exn, jsval) promise" where
  "unlock_poller env object' intervalId =
     then_do (on_world (parse_options object')) (\<lambda>lockDetails.
     then_do (on_world (deref (Some lockDetails) [''lockedResourceDetails'', ''resourceGroup''])) (\<lambda>_.
       catch_on (then_do (on_world (getResourceState env
         (jpick [''resourceGroup'', ''resourceType'', ''resourceId''] (the (jprop lockDetails ''lockedResourceDetails'')))))
         (\<lambda>resourceState.
            if resourceState \<in> (Some \<circ> JStr) ` set FINISHED_STATES then unlock_and_clear env object' intervalId
            else resolve None))
         (instanceof CNotFound) (\<lambda>_. unlock_and_clear env object' intervalId)))"

text \<open>A watch event on a lock: the timer of the lock is always cleared first; a lock that has not
  expired gets a new one.\<close>

definition unlock_startPoller :: "'w env \<Rightarrow> json \<Rightarrow> ('w \<times> timers, exn, unit) promise" where
  "unlock_startPoller env event =
     (if jprop event ''type'' = Some (JStr ''ADDED'') \<or> jprop event ''type'' = Some (JStr ''MODIFIED'')
      then then_do (on_world (deref (Some event) [''object'', ''metadata'', ''name''])) (\<lambda>_.
           let object' = the (jprop event ''object''); name = object_name object' in
           then_do (on_state (\<lambda>s. clearPoller name (map_of (pollers s) name) s)) (\<lambda>_.
           then_do (on_world (parse_options object')) (\<lambda>lockDetails.
           then_do (on_world (ask (now env))) (\<lambda>currentTime.
           then_do (on_world (deref (Some lockDetails) [''lockedResourceDetails'', ''operation''])) (\<lambda>op.
             if within_ttl currentTime (date_ms (jprop lockDetails ''lockTime'')) (getLockTTL env op)
             then on_state (setInterval name object')
             else resolve ())))))
      else resolve ())"

section \<open>The life of the timers\<close>

text \<open>The timers of one poller class: a watch event may start an interval, and a poll may clear the interval
  it was called for, with the object of that interval. A poll is asynchronous: it may get there when its interval
  has been cleared already, by another poll of the same interval, and the resource has a new one since.\<close>

inductive timer_step :: "poller_class \<Rightarrow> timers \<Rightarrow> timers \<Rightarrow> bool" for cls where
  watch_event: "jprop event ''object'' = Some ob \<Longrightarrow> timer_step cls s (startPoller cls event s)"
| poll_clears: "n < next_id s \<Longrightarrow> (\<And>ob'. (n, ob') \<in> set (running s) \<Longrightarrow> ob' = ob) \<Longrightarrow>
    timer_step cls s (clearPoller (object_name ob) (Some n) s)"

inductive_cases timer_stepE: "timer_step cls s s'"

definition timer_inv :: "timers \<Rightarrow> bool" where
  "timer_inv s \<longleftrightarrow>
     distinct (map fst (pollers s)) \<and> distinct (map fst (running s)) \<and>
     (\<forall>n ob. (n, ob) \<in> set (running s) \<longrightarrow> n < next_id s) \<and>
     (\<forall>name n. map_of (pollers s) name = Some n \<longrightarrow> (\<exists>ob. (n, ob) \<in> set (running s) \<and> object_name ob = name))"

lemma setInterval_inv:
  assumes "timer_inv s"
  shows "timer_inv (setInterval (object_name ob) ob s)"
proof -
  have "next_id s \<notin> fst ` set (running s)" using assms by (force simp: timer_inv_def)
  then show ?thesis using assms
    by (auto simp: timer_inv_def setInterval_def update_conv distinct_update less_Suc_eq split: if_splits) metis
qed

lemma clearPoller_inv:
  assumes inv: "timer_inv s" and ob: "\<And>ob'. (n, ob') \<in> set (running s) \<Longrightarrow> ob' = ob"
  shows "timer_inv (clearPoller (object_name ob) (Some n) s)"
proof -
  let ?s = "clearPoller (object_name ob) (Some n) s"
  have p: "map_of (pollers ?s) name = (if name = object_name ob then None else map_of (pollers s) name)" for name
    by (simp add: clearPoller_def Let_def delete_conv')
  have r: "(m, ob') \<in> set (running ?s) \<longleftrightarrow> (m, ob') \<in> set (running s) \<and> m \<noteq> n" for m ob'
    by (auto simp: clearPoller_def Let_def)
  have "\<exists>ob'. (m, ob') \<in> set (running ?s) \<and> object_name ob' = name" if m: "map_of (pollers ?s) name = Some m" for name m
  proof -
    from m p have "name \<noteq> object_name ob" "map_of (pollers s) name = Some m" by (auto split: if_splits)
    with inv obtain ob' where "(m, ob') \<in> set (running s)" "object_name ob' = name" unfolding timer_inv_def by metis
    moreover from this \<open>name \<noteq> object_name ob\<close> ob have "m \<noteq> n" by auto
    ultimately show ?thesis using r by auto
  qed
  moreover have "distinct (map fst (pollers ?s))" "distinct (map fst (running ?s))" "next_id ?s = next_id s"
    using inv by (simp_all add: clearPoller_def Let_def timer_inv_def distinct_delete distinct_map_filter)
  ultimately show ?thesis using inv r unfolding timer_inv_def by metis
qed

lemma timer_step_inv: "timer_step cls s s' \<Longrightarrow> timer_inv s \<Longrightarrow> timer_inv s'"
proof (induction rule: timer_step.induct)
  case (watch_event event ob s)
  have "str_of (jget (Some event) [''object'', ''metadata'', ''name'']) = object_name ob"
    using watch_event(1) by (simp add: object_name_def)
  then show ?case using watch_event setInterval_inv by (auto simp: startPoller_def Let_def)
next
  case (poll_clears n s ob)
  then show ?case by (simp add: clearPoller_inv)
qed

lemma timer_inv_init: "timer_inv no_timers"
  by (simp add: timer_inv_def no_timers_def)

text \<open>C15. A resource is not lost to polling: however watch events arrive and polls clear intervals, their own
  running one or one that has ended long ago, every resource that is registered, and for which \<open>startPoller\<close>
  therefore starts no interval, has its registered interval running, with an object of its name.\<close>

theorem registered_resource_is_polled:
  assumes "(timer_step cls)\<^sup>*\<^sup>* no_timers s" and "map_of (pollers s) name = Some n"
  shows "\<exists>ob. (n, ob) \<in> set (running s) \<and> object_name ob = name"
proof -
  from assms(1) have "timer_inv s"
    by (induction rule: rtranclp_induct) (auto simp: timer_inv_init intro: timer_step_inv)
  then show ?thesis using assms(2) by (auto simp: timer_inv_def)
qed

definition demo_class :: poller_class where
  "demo_class = \<lparr>validStateList = [''in_progress''], validEventList = [''ADDED''], pollInterval = 50000\<rparr>"

abbreviation "demo_polled \<equiv> JObj [(''metadata'', JObj [(''name'', JStr ''d1'')])]"

definition demo_watch_event :: json where
  "demo_watch_event = JObj [(''type'', JStr ''ADDED''), (''object'', demo_polled)]"

lemma demo_watch: "timer_step demo_class s (startPoller demo_class demo_watch_event s)"
  by (rule timer_step.watch_event [of _ demo_polled]) (simp add: demo_watch_event_def)

theorem registered_resource_is_polled_witness:
  "\<exists>ob. (1, ob) \<in> set (running (startPoller demo_class demo_watch_event no_timers)) \<and> object_name ob = ''d1''"
proof -
  have "(timer_step demo_class)\<^sup>*\<^sup>* no_timers (startPoller demo_class demo_watch_event no_timers)"
    by (intro r_into_rtranclp demo_watch)
  moreover have "map_of (pollers (startPoller demo_class demo_watch_event no_timers)) ''d1'' = Some 1" by code_simp
  ultimately show ?thesis using registered_resource_is_polled by blast
qed


end
