(* ===== verification/Regex.thy ===== *)
theory Regex
  imports JS_Prelude
begin

text \<open>
  The regular expressions the sources use with \<open>^...$\<close>: classes of characters, sequences, options and
  repetitions. \<open>rx_test\<close> runs one (\<open>RegExp.prototype.test\<close> on an anchored expression) by derivatives;
  \<open>rx_test_lang\<close> shows that it accepts exactly the language of the expression.
\<close>

datatype rx =
    REmpty
  | REps
  | RCls "char \<Rightarrow> bool"
  | RSeq rx rx
  | RAlt rx rx
  | RStar rx

abbreviation ROpt :: "rx \<Rightarrow> rx" where
  "ROpt r \<equiv> RAlt REps r"

fun nullable :: "rx \<Rightarrow> bool" where
  "nullable REmpty = False"
| "nullable REps = True"
| "nullable (RCls f) = False"
| "nullable (RSeq r s) = (nullable r \<and> nullable s)"
| "nullable (RAlt r s) = (nullable r \<or> nullable s)"
| "nullable (RStar r) = True"

fun deriv :: "char \<Rightarrow> rx \<Rightarrow> rx" where
  "deriv c REmpty = REmpty"
| "deriv c REps = REmpty"
| "deriv c (RCls f) = (if f c then REps else REmpty)"
| "deriv c (RSeq r s) = (if nullable r then RAlt (RSeq (deriv c r) s) (deriv c s) else RSeq (deriv c r) s)"
| "deriv c (RAlt r s) = RAlt (deriv c r) (deriv c s)"
| "deriv c (RStar r) = RSeq (deriv c r) (RStar r)"

fun rx_test :: "rx \<Rightarrow> string \<Rightarrow> bool" where
  "rx_test r [] = nullable r"
| "rx_test r (c # cs) = rx_test (deriv c r) cs"

inductive in_lang :: "rx \<Rightarrow> string \<Rightarrow> bool" where
  eps: "in_lang REps []"
| cls: "f c \<Longrightarrow> in_lang (RCls f) [c]"
| seq: "in_lang r s \<Longrightarrow> in_lang q t \<Longrightarrow> in_lang (RSeq r q) (s @ t)"
| left: "in_lang r s \<Longrightarrow> in_lang (RAlt r q) s"
| right: "in_lang q s \<Longrightarrow> in_lang (RAlt r q) s"
| stop: "in_lang (RStar r) []"
| more: "in_lang r s \<Longrightarrow> in_lang (RStar r) t \<Longrightarrow> in_lang (RStar r) (s @ t)"

inductive_simps in_lang_simps [simp]:
  "in_lang REmpty s" "in_lang REps s" "in_lang (RCls f) s" "in_lang (RAlt r q) s"

inductive_cases in_lang_seqE: "in_lang (RSeq r q) s"
inductive_cases in_lang_starE: "in_lang (RStar r) s"

lemma in_lang_seq: "in_lang (RSeq r q) s \<longleftrightarrow> (\<exists>u v. s = u @ v \<and> in_lang r u \<and> in_lang q v)"
  by (blast elim: in_lang_seqE intro: in_lang.seq)

lemma nullable_lang: "nullable r \<longleftrightarrow> in_lang r []"
  by (induction r) (auto simp: in_lang_seq intro: in_lang.intros)

lemma in_lang_star_Cons:
  "in_lang (RStar r) (c # s) \<longleftrightarrow> (\<exists>u v. s = u @ v \<and> in_lang r (c # u) \<and> in_lang (RStar r) v)"
proof
  assume "in_lang (RStar r) (c # s)"
  then show "\<exists>u v. s = u @ v \<and> in_lang r (c # u) \<and> in_lang (RStar r) v"
  proof (induction "RStar r" "c # s" rule: in_lang.induct)
    case (more u t)
    then show ?case by (cases u) auto
  qed
next
  assume "\<exists>u v. s = u @ v \<and> in_lang r (c # u) \<and> in_lang (RStar r) v"
  then show "in_lang (RStar r) (c # s)" using in_lang.more [of r "c # _"] by fastforce
qed

lemma deriv_lang: "in_lang (deriv c r) s \<longleftrightarrow> in_lang r (c # s)"
proof (induction r arbitrary: s)
  case (RSeq r q)
  have "in_lang (RSeq r q) (c # s) \<longleftrightarrow>
      (\<exists>u v. s = u @ v \<and> in_lang r (c # u) \<and> in_lang q v) \<or> in_lang r [] \<and> in_lang q (c # s)"
    by (auto simp: in_lang_seq Cons_eq_append_conv)
  then show ?case by (auto simp: in_lang_seq RSeq nullable_lang)
next
  case (RStar r)
  then show ?case by (simp add: in_lang_seq in_lang_star_Cons)
qed auto

lemma rx_test_lang: "rx_test r s \<longleftrightarrow> in_lang r s"
  by (induction s arbitrary: r) (auto simp: nullable_lang deriv_lang)

lemma in_lang_star_cls: "in_lang (RStar (RCls f)) s \<longleftrightarrow> list_all f s"
  by (induction s) (auto simp: in_lang_star_Cons intro: in_lang.stop)

end
