(* ===== verification/CommonFunctions.thy ===== *)
theory CommonFunctions
  imports ApiServer Regex
begin

text \<open>
  The pure functions of \<open>core/utils/src/commonFunctions.js\<close>: versions, names of Kubernetes objects and
  deployments, feature switches, cron expressions, the masking of secrets and the unified diff of a
  deployment manifest. The SHA-224 digest and the random
  numbers are parameters (\<open>sha224Sum\<close>, \<open>rnd\<close>), the local time of day is an argument.
\<close>

section \<open>Versions\<close>

definition isServiceFabrikOperationFinished :: "jsval \<Rightarrow> bool" where
  "isServiceFabrikOperationFinished state \<longleftrightarrow> state \<in> (Some \<circ> JStr) ` {''succeeded'', ''failed'', ''aborted''}"

text \<open>\<open>None\<close> is the \<open>NaN\<close> of a component that is no number.\<close>

definition parseVersion :: "string \<Rightarrow> int option list" where
  "parseVersion version =
     (let values = take 3 (split_on (CHR ''.'') version) in
      map parse_int (values @ replicate (3 - length values) ''0''))"

definition compare_component :: "int option \<times> int option \<Rightarrow> int" where
  "compare_component lr =
     (case lr of (Some l, Some r) \<Rightarrow> if l > r then 1 else if l < r then -1 else 0 | _ \<Rightarrow> 0)"

definition compareVersions :: "string \<Rightarrow> string \<Rightarrow> int" where
  "compareVersions left right =
     (case filter (\<lambda>c. c \<noteq> 0) (map compare_component (zip (parseVersion left) (parseVersion right))) of
        [] \<Rightarrow> 0
      | c # _ \<Rightarrow> c)"

section \<open>Names of Kubernetes objects\<close>

definition lower_alnum :: "char \<Rightarrow> bool" where
  "lower_alnum c \<longleftrightarrow> is_lower c \<or> is_digit c"

definition alnum :: "char \<Rightarrow> bool" where
  "alnum c \<longleftrightarrow> is_lower c \<or> is_upper c \<or> is_digit c"

definition dns1123LabelFmt :: rx where
  "dns1123LabelFmt =
     RSeq (RCls lower_alnum) (ROpt (RSeq (RStar (RCls (\<lambda>c. c = CHR ''-'' \<or> lower_alnum c))) (RCls lower_alnum)))"

definition dns1123SubdomainFmt :: rx where
  "dns1123SubdomainFmt = RSeq dns1123LabelFmt (RStar (RSeq (RCls (\<lambda>c. c = CHR ''.'')) dns1123LabelFmt))"

definition isValidKubernetesName :: "string \<Rightarrow> bool" where
  "isValidKubernetesName str =
     (if length str \<le> 0 \<or> 253 < length str then False else rx_test dns1123SubdomainFmt str)"

definition getKubernetesName :: "(string \<Rightarrow> string) \<Rightarrow> string \<Rightarrow> string" where
  "getKubernetesName sha224Sum i = (if isValidKubernetesName i then i else sha224Sum i)"

definition labelValueFmt :: rx where
  "labelValueFmt =
     ROpt (RSeq (ROpt (RSeq (RCls alnum) (RStar (RCls (\<lambda>c. c = CHR ''-'' \<or> alnum c \<or> c = CHR ''_'' \<or> c = CHR ''.'')))))
       (RCls alnum))"

definition isValidKubernetesLabelValue :: "string \<Rightarrow> bool" where
  "isValidKubernetesLabelValue value = (if 63 < length value then False else rx_test labelValueFmt value)"

section \<open>Deployment names\<close>

abbreviation "SERVICE_FABRIK_PREFIX \<equiv> ''service-fabrik''"
abbreviation "NETWORK_SEGMENT_LENGTH \<equiv> 4 :: nat"

definition lower_hex :: "char \<Rightarrow> bool" where
  "lower_hex c \<longleftrightarrow> is_digit c \<or> 97 \<le> chr_code c \<and> chr_code c \<le> 102"

fun rx_times :: "nat \<Rightarrow> rx \<Rightarrow> rx" where
  "rx_times 0 r = REps"
| "rx_times (Suc n) r = RSeq r (rx_times n r)"

definition uuidFmt :: rx where
  "uuidFmt = RSeq (rx_times 8 (RCls lower_hex))
     (RSeq (rx_times 3 (RSeq (RCls (\<lambda>c. c = CHR ''-'')) (rx_times 4 (RCls lower_hex))))
       (RSeq (RCls (\<lambda>c. c = CHR ''-'')) (rx_times 12 (RCls lower_hex))))"

definition subnet_prefix :: "string option \<Rightarrow> string" where
  "subnet_prefix service_subnet =
     SERVICE_FABRIK_PREFIX @ (case service_subnet of None \<Rightarrow> [] | Some s \<Rightarrow> if s = [] then [] else ''_'' @ s)"

text \<open>The match of \<open>deploymentNameRegExp(subnet)\<close> with its three groups: the parts have fixed lengths. A
  subnet stands for itself in the expression.\<close>

definition deployment_name_match :: "string option \<Rightarrow> string \<Rightarrow> (string \<times> string \<times> string) option" where
  "deployment_name_match service_subnet name =
     (let p = subnet_prefix service_subnet;
          rest = drop (length p) name;
          digits = take NETWORK_SEGMENT_LENGTH (drop 1 rest);
          guid = drop (NETWORK_SEGMENT_LENGTH + 2) rest in
      if is_prefix p name \<and> take 1 rest = ''-'' \<and> length digits = NETWORK_SEGMENT_LENGTH \<and> list_all is_digit digits \<and>
         take 1 (drop (NETWORK_SEGMENT_LENGTH + 1) rest) = ''-'' \<and> rx_test uuidFmt guid
      then Some (p, digits, guid) else None)"

definition parseServiceInstanceIdFromDeployment :: "string \<Rightarrow> string" where
  "parseServiceInstanceIdFromDeployment deploymentName =
     (case deployment_name_match None deploymentName of
        Some (_, _, guid) \<Rightarrow> guid
      | None \<Rightarrow> deploymentName)"

definition taskIdRegExp :: rx where
  "taskIdRegExp =
     (let word = (\<lambda>c. is_digit c \<or> is_lower c \<or> c = CHR ''-'') in
      RSeq (RCls word) (RSeq (RStar (RCls word)) (RSeq (RCls (\<lambda>c. c = CHR ''_''))
        (RSeq (RCls is_digit) (RStar (RCls is_digit))))))"

section \<open>Switches\<close>

definition isServiceFabrikOperation :: "json \<Rightarrow> bool" where
  "isServiceFabrikOperation params \<longleftrightarrow> jget (jprop params ''parameters'') [''service-fabrik-operation''] \<noteq> None"

definition isDBConfigured :: "json \<Rightarrow> bool" where
  "isDBConfigured cfg \<longleftrightarrow>
     jget (Some cfg) [''mongodb'', ''url''] \<noteq> None \<or> jget (Some cfg) [''mongodb'', ''provision'', ''plan_id''] \<noteq> None"

definition jobTypeList :: "json \<Rightarrow> string list" where
  "jobTypeList cfg =
     (case jget (Some cfg) [''scheduler'', ''job_types''] of
        None \<Rightarrow> []
      | Some t \<Rightarrow> split_on (CHR '','') (filter (\<lambda>c. \<not> is_space c) (to_js_string t)))"

definition isFeatureEnabled :: "json \<Rightarrow> string \<Rightarrow> exn + bool" where
  "isFeatureEnabled cfg name =
     (if name = ''ServiceInstanceAutoUpdate''
      then Inr (truthy (Some (jget_default (Some cfg) [''feature'', ''ServiceInstanceAutoUpdate''] (JBool False))) \<and>
                isDBConfigured cfg \<and> name \<in> set (jobTypeList cfg))
      else if name = ''ScheduledBackup'' \<or> name = ''ScheduledOobDeploymentBackup''
      then Inr (isDBConfigured cfg \<and> name \<in> set (jobTypeList cfg))
      else Inl (Exn CError (JObj [(''message'', JStr (''Unknown feature : '' @ name))])))"

definition verifyFeatureSupport :: "json \<Rightarrow> string \<Rightarrow> exn + unit" where
  "verifyFeatureSupport plan feature =
     (case path_of (Some plan) [''manager'', ''settings'', ''agent'', ''supported_features''] of
        None \<Rightarrow> Inl TypeError
      | Some fs \<Rightarrow> if JStr feature \<in> set (elems_of fs) then Inr ()
                  else Inl (NotImplemented (Some (JStr (''Feature '' @ squote feature @ '' not supported'')))))"

definition find_plan :: "json list \<Rightarrow> string \<Rightarrow> jsval" where
  "find_plan plans plan_id = find (\<lambda>p. jprop p ''id'' = Some (JStr plan_id)) plans"

definition isRestorePossible :: "json list \<Rightarrow> string \<Rightarrow> json \<Rightarrow> exn + bool" where
  "isRestorePossible service_plans plan_id plan =
     (let settings = jget (Some plan) [''manager'', ''settings''];
          predecessors = elems_of (or_else (jget settings [''restore_predecessors''])
                           (or_else (jget settings [''update_predecessors'']) (Some (JArr [])))) in
      case find_plan service_plans plan_id of
        None \<Rightarrow> Inl TypeError
      | Some previousPlan \<Rightarrow> Inr (plan = previousPlan \<or> JStr plan_id \<in> set predecessors))"

definition getPlatformFromContext :: "jsval \<Rightarrow> jsval" where
  "getPlatformFromContext context' =
     (if jget context' [''platform''] = Some (JStr ''sapcp'') then jget context' [''origin''] else jget context' [''platform''])"

section \<open>Diffs of manifests\<close>

definition BOSH_DEPLOYMENT_MANIFEST_SECTIONS :: "string list" where
  "BOSH_DEPLOYMENT_MANIFEST_SECTIONS =
     [''features'', ''releases'', ''stemcells'', ''update'', ''instance_groups'', ''addons'', ''properties'', ''variables'', ''tags'']"

definition diff_line :: "string \<times> string \<Rightarrow> string" where
  "diff_line l = (case l of (value', type') \<Rightarrow>
     (if type' = ''added'' then ''+'' else if type' = ''removed'' then ''-'' else '' '') @ value')"

text \<open>The flag says whether the current section is shown.\<close>

definition section_shown :: "bool \<Rightarrow> bool \<Rightarrow> string \<Rightarrow> bool" where
  "section_shown ignoreTags valid value' =
     (if js_includes value' ''tags:'' \<and> ignoreTags then False
      else if \<not> valid \<and> list_ex (\<lambda>sec. js_includes value' sec) BOSH_DEPLOYMENT_MANIFEST_SECTIONS then True
      else valid)"

fun unify_from :: "bool \<Rightarrow> bool \<Rightarrow> (string \<times> string) list \<Rightarrow> string list" where
  "unify_from ignoreTags valid [] = []"
| "unify_from ignoreTags valid ((value', type') # ls) =
     (let valid' = section_shown ignoreTags valid value' in
      if valid' then diff_line (value', type') # unify_from ignoreTags valid' ls else unify_from ignoreTags valid' ls)"

definition unifyDiffResult :: "(string \<times> string) list \<Rightarrow> bool \<Rightarrow> string list" where
  "unifyDiffResult diff ignoreTags = unify_from ignoreTags True diff"

text \<open>The name of a top-level section, \<open>/^([a-z]\w+):/\<close>.\<close>

definition is_word :: "char \<Rightarrow> bool" where
  "is_word c \<longleftrightarrow> alnum c \<or> c = CHR ''_''"

definition section_name :: "string \<Rightarrow> string option" where
  "section_name line =
     (let w = takeWhile is_word line; r = dropWhile is_word line in
      if 2 \<le> length w \<and> is_lower (hd w) \<and> r \<noteq> [] \<and> hd r = CHR '':'' then Some w else None)"

definition forbidden_sections :: "(string \<times> string) list \<Rightarrow> string list" where
  "forbidden_sections diff =
     filter (\<lambda>sec. sec \<notin> {''update'', ''releases'', ''tags'', ''addons''}) (List.map_filter (section_name \<circ> fst) diff)"

fun find_index_from :: "nat \<Rightarrow> ('a \<Rightarrow> bool) \<Rightarrow> 'a list \<Rightarrow> nat option" where
  "find_index_from n f [] = None"
| "find_index_from n f (x # xs) = (if f x then Some n else find_index_from (Suc n) f xs)"

definition index_from :: "('a \<Rightarrow> bool) \<Rightarrow> nat \<Rightarrow> 'a list \<Rightarrow> nat option" where
  "index_from f k xs = find_index_from k f (drop k xs)"

definition is_jobs_line :: "string \<Rightarrow> bool" where
  "is_jobs_line l = is_prefix ''  jobs'' l"

definition is_jobs_level_line :: "string \<Rightarrow> bool" where
  "is_jobs_level_line l \<longleftrightarrow> is_prefix ''  '' l \<and> drop 2 l \<noteq> [] \<and> is_lower (hd (drop 2 l))"

definition is_job_name_line :: "string \<Rightarrow> bool" where
  "is_job_name_line l \<longleftrightarrow> is_prefix ''  - name'' l \<or> is_prefix ''    name'' l"

text \<open>\<open>_.slice(diff, start, end)\<close> with the \<open>-1\<close> of an index that was not found counted from the end.\<close>

definition job_slice :: "(string \<times> string) list \<Rightarrow> (string \<times> string) list" where
  "job_slice diff =
     (let start = index_from (is_jobs_line \<circ> fst) 0 diff;
          stop = index_from (is_jobs_level_line \<circ> fst) (case start of None \<Rightarrow> 0 | Some n \<Rightarrow> Suc n) diff;
          from' = (case start of None \<Rightarrow> length diff - 1 | Some n \<Rightarrow> n);
          to' = (case stop of None \<Rightarrow> length diff - 1 | Some n \<Rightarrow> n) in
      take (to' - from') (drop from' diff))"

definition findRemovedJob :: "(string \<times> string) list \<Rightarrow> (string \<times> string) option" where
  "findRemovedJob diff = find (\<lambda>(l, k). is_job_name_line l \<and> js_includes k ''removed'') (job_slice diff)"

definition hasChangesInForbiddenSections :: "(string \<times> string) list \<Rightarrow> exn + bool" where
  "hasChangesInForbiddenSections diff =
     (let forbidden = forbidden_sections diff in
      if forbidden \<noteq> [] \<and> ''director_uuid'' \<notin> set forbidden
      then (let boshLinks = filter (\<lambda>(l, _). js_includes l ''consumes'') diff;
                sectionsDiff = filter (\<lambda>(l, _). js_includes l ''instances'' \<or> js_includes l ''persistent_disk_type'') diff;
                removedJobName = findRemovedJob diff in
            if (boshLinks = [] \<and> sectionsDiff \<noteq> []) \<or> removedJobName \<noteq> None
            then Inl (Forbidden (Some (JStr (''Automatic update not possible. '' @
              (if sectionsDiff \<noteq> []
               then ''Detected changes in forbidden sections:'' @ js_join '','' (map (\<lambda>(l, k). l @ '','' @ k) sectionsDiff)
               else ''Job definition removed: '' @ fst (the removedJobName))))))
            else Inr False)
      else Inr False)"

section \<open>Cron expressions\<close>

text \<open>\<open>Math.floor(Math.random() * factor) + min\<close>: \<open>rnd factor\<close> is the random part.\<close>

definition getRandomInt :: "(int \<Rightarrow> int) \<Rightarrow> int \<Rightarrow> int \<Rightarrow> int" where
  "getRandomInt rnd mn mx = rnd (if mx - mn = 1 then 2 else mx - mn) + mn"

definition cron_parts :: "string \<Rightarrow> string list" where
  "cron_parts interval =
     filter (\<lambda>p. p \<noteq> []) (split_on (CHR '' '') (map (\<lambda>c. if is_space c then CHR '' '' else c) (js_trim interval)))"

definition isCronSafe :: "string \<Rightarrow> bool" where
  "isCronSafe interval =
     (let parts = cron_parts interval in
      if length parts < 5 \<or> 6 < length parts then False else list_ex (\<lambda>p. p \<noteq> ''*'') parts)"

function hours_up :: "nat \<Rightarrow> nat \<Rightarrow> nat list" where
  "hours_up every h = (if 0 < every \<and> h + every < 24 then (h + every) # hours_up every (h + every) else [])"
  by pat_completeness auto
termination
  by (relation "measure (\<lambda>(every, h). 24 - h)") auto

declare hours_up.simps [simp del]

function hours_down :: "nat \<Rightarrow> nat \<Rightarrow> nat list" where
  "hours_down every h = (if 0 < every \<and> every \<le> h then (h - every) # hours_down every (h - every) else [])"
  by pat_completeness auto
termination
  by (relation "measure snd") auto

declare hours_down.simps [simp del]

definition HOURS_MESSAGE :: string where
  "HOURS_MESSAGE = ''Input hours can be any number between 1 to 24 only''"

definition getRandomCronForEveryDayAtXHoursInterval :: "(int \<Rightarrow> int) \<Rightarrow> nat \<Rightarrow> exn + string" where
  "getRandomCronForEveryDayAtXHoursInterval rnd everyXHours =
     (if 0 < everyXHours \<and> everyXHours \<le> 24
      then (let mn = getRandomInt rnd 0 59; nthHour = nat (getRandomInt rnd 0 (int everyXHours - 1)) in
            Inr (show_int mn @ '' '' @ js_join '','' (map show_nat (nthHour # hours_up everyXHours nthHour)) @ '' * * *''))
      else Inl (AssertionError HOURS_MESSAGE))"

definition interval_hours :: "nat \<Rightarrow> nat \<Rightarrow> nat list" where
  "interval_hours everyXhrs hr =
     (let hs = hr # hours_up everyXhrs hr @ hours_down everyXhrs hr in
      sort (if 24 mod everyXhrs \<noteq> 0 \<and> 0 \<notin> set hs then hs @ [0] else hs))"

text \<open>\<open>hr\<close> and \<open>mn\<close> are the local time \<open>afterXminute\<close> minutes from now.\<close>

definition getCronWithIntervalAndAfterXminute :: "nat \<Rightarrow> nat \<Rightarrow> string \<Rightarrow> exn + string" where
  "getCronWithIntervalAndAfterXminute hr mn interval =
     (if interval = ''daily'' then Inr (show_nat mn @ '' '' @ show_nat hr @ '' * * *'')
      else if js_includes interval ''hours'' then
        (let ds = takeWhile is_digit interval in
         if ds = [] then Inl TypeError
         else let everyXhrs = dec_val ds in
              if \<not> (0 < everyXhrs \<and> everyXhrs \<le> 24) then Inl (AssertionError HOURS_MESSAGE)
              else if everyXhrs = 24 then Inr (show_nat mn @ '' '' @ show_nat hr @ '' * * *'')
              else Inr (show_nat mn @ '' '' @ js_join '','' (map show_nat (interval_hours everyXhrs hr)) @ '' * * *''))
      else Inl (AssertionError (''interval should '' @ squote ''daily'' @ '' or in '' @ squote ''x hours'' @ '' format'')))"

definition num_opt :: "json \<Rightarrow> string \<Rightarrow> int \<Rightarrow> int" where
  "num_opt options k d = (case jget_default (Some options) [k] (JNum d) of JNum n \<Rightarrow> n | _ \<Rightarrow> d)"

fun range_from :: "nat \<Rightarrow> int \<Rightarrow> int \<Rightarrow> int \<Rightarrow> int list" where
  "range_from 0 a b d = []"
| "range_from (Suc n) a b d = (if a < b then a # range_from n (a + d) b d else [])"

definition getRandomCronForOnceEveryXDaysWeekly :: "(int \<Rightarrow> int) \<Rightarrow> json \<Rightarrow> exn + string" where
  "getRandomCronForOnceEveryXDaysWeekly rnd options =
     (let dayInterval = num_opt options ''day_interval'' 0;
          hr = getRandomInt rnd (num_opt options ''start_after_hr'' 0) (num_opt options ''start_before_hr'' 23);
          mn = getRandomInt rnd (num_opt options ''start_after_min'' 0) (num_opt options ''start_before_min'' 59);
          startAfterWeekday = num_opt options ''start_after_weekday'' 0;
          startBeforeWeekday = num_opt options ''start_before_weekday'' 7;
          day = getRandomInt rnd startAfterWeekday startBeforeWeekday in
      if \<not> (0 \<le> startAfterWeekday \<and> startAfterWeekday \<le> 6) then Inl (AssertionError ''Start day should be between 0-6'')
      else if \<not> startAfterWeekday < startBeforeWeekday
      then Inl (AssertionError ''start_before_weekday should be greater than start_after_weekday'')
      else Inr (show_int mn @ '' '' @ show_int hr @ '' * * '' @
        (if dayInterval = 0 \<or> 4 \<le> dayInterval then show_int day
         else js_join '','' (map show_int
                (range_from (nat (startBeforeWeekday - startAfterWeekday)) startAfterWeekday startBeforeWeekday dayInterval)))))"

section \<open>Secrets\<close>

definition SENSITIVE_FIELD_NAMES :: "string list" where
  "SENSITIVE_FIELD_NAMES = [''password'', ''psswd'', ''pwd'', ''passwd'', ''uri'', ''url'']"

text \<open>\<open>_.forEach\<close> walks an object with a \<open>length\<close> that lodash takes for the length of an array by its indices: it
  visits the fields \<open>0\<close>, \<open>1\<close> and so on, and no other.\<close>

definition array_length :: "fields \<Rightarrow> nat option" where
  "array_length fs =
     (case map_of fs ''length'' of
        Some (JNum n) \<Rightarrow> if 0 \<le> n \<and> n \<le> 9007199254740991 then Some (nat n) else None
      | _ \<Rightarrow> None)"

definition is_index :: "nat \<Rightarrow> string \<Rightarrow> bool" where
  "is_index n k \<longleftrightarrow> list_all is_digit k \<and> show_nat (dec_val k) = k \<and> dec_val k < n"

text \<open>Whether the loop over the fields gets to a field, and whether it sees the field's name: an index is a number
  to it.\<close>

definition visits :: "fields \<Rightarrow> string \<Rightarrow> bool" where
  "visits fs k = (case array_length fs of None \<Rightarrow> True | Some n \<Rightarrow> is_index n k)"

definition masks :: "fields \<Rightarrow> string \<Rightarrow> bool" where
  "masks fs k \<longleftrightarrow> array_length fs = None \<and> k \<in> set SENSITIVE_FIELD_NAMES"

text \<open>\<open>depth\<close> is the number of levels that are still entered: the source stops below level four. The
  masking in place is the masked value here.\<close>

fun mask_at :: "nat \<Rightarrow> json \<Rightarrow> json" where
  "mask_at 0 target = target"
| "mask_at (Suc depth) (JObj fs) =
     JObj (map (\<lambda>(k, v). (k, case v of
        JObj _ \<Rightarrow> if visits fs k then mask_at depth v else v
      | JArr _ \<Rightarrow> if visits fs k then mask_at depth v else v
      | JStr _ \<Rightarrow> if masks fs k then JStr ''*******'' else v
      | _ \<Rightarrow> v)) fs)"
| "mask_at (Suc depth) (JArr xs) = JArr (map (mask_at depth) xs)"
| "mask_at (Suc depth) target = target"

definition maskSensitiveInfo :: "json \<Rightarrow> json" where
  "maskSensitiveInfo target = mask_at 5 target"

section \<open>Errors of the director\<close>

definition err_description :: "json \<Rightarrow> string" where
  "err_description err =
     (let response = jget_default (Some err) [''error''] (JObj []) in
      to_js_string (jget_default (Some response) [''description''] (JStr [])))"

definition includes_after_start :: "string \<Rightarrow> string \<Rightarrow> bool" where
  "includes_after_start s sub = (case index_of sub s of None \<Rightarrow> False | Some n \<Rightarrow> 0 < n)"

definition deploymentStaggered :: "json \<Rightarrow> bool" where
  "deploymentStaggered err \<longleftrightarrow>
     includes_after_start (err_description err) FABRIK_OPERATION_STAGGERED \<and>
     includes_after_start (err_description err) FABRIK_OPERATION_COUNT_EXCEEDED"

definition deploymentLocked :: "json \<Rightarrow> bool" where
  "deploymentLocked err \<longleftrightarrow>
     includes_after_start (err_description err) OPERATION_TYPE_LOCK \<and>
     Some (JNum HTTP_UNPROCESSABLE_ENTITY) \<in>
       {jprop err ''status'', jprop err ''statusCode'', jget (Some (jget_default (Some err) [''error''] (JObj []))) [''status'']}"

definition buildErrorJson :: "exn \<Rightarrow> jsval \<Rightarrow> json" where
  "buildErrorJson err message =
     obj [(''code'', err_prop err ''code''), (''status'', err_prop err ''status''),
          (''message'', if truthy message then message else Some (JStr (message_of err)))]"

definition getDefaultErrorMsg :: "exn \<Rightarrow> string" where
  "getDefaultErrorMsg err =
     ''Service Broker Error, status code: '' @ str_of (or_else (err_prop err ''code'') (Some (JNum HTTP_INTERNAL_SERVER_ERROR)))
     @ '', error code: '' @ str_of (or_else (err_prop err ''statusCode'') (Some (JNum BROKER_DEFAULT)))
     @ '', message: '' @ message_of err"

section \<open>Credentials of the agent\<close>

definition agent_job :: "json \<Rightarrow> bool" where
  "agent_job job = js_includes (str_of (jprop job ''name'')) ''broker-agent''"

definition job_creds :: "json \<Rightarrow> exn + jsval" where
  "job_creds instanceGroup =
     (case find agent_job (elems_of (jprop instanceGroup ''jobs'')) of
        None \<Rightarrow> Inr None
      | Some job \<Rightarrow>
          (case path_of (Some job) [''properties'', ''username''] of
             None \<Rightarrow> Inl TypeError
           | Some u \<Rightarrow> Inr (Some (obj [(''username'', u), (''password'', jget (Some job) [''properties'', ''password''])]))))"

fun first_creds :: "json list \<Rightarrow> exn + jsval" where
  "first_creds [] = Inr None"
| "first_creds (g # gs) =
     (case job_creds g of
        Inl e \<Rightarrow> Inl e
      | Inr (Some c) \<Rightarrow> Inr (Some c)
      | Inr None \<Rightarrow> first_creds gs)"

definition getBrokerAgentCredsFromManifest :: "json \<Rightarrow> exn + jsval" where
  "getBrokerAgentCredsFromManifest manifest = first_creds (elems_of (jprop manifest ''instance_groups''))"

end
