(* ===== verification/CommonFunctions_Properties.thy ===== *)
theory CommonFunctions_Properties
  imports CommonFunctions
begin

text \<open>
  What the pure functions of \<open>commonFunctions.js\<close> compute: the languages of the name formats, the order of
  versions, the masking of secrets and the hours of a cron expression.
\<close>

section \<open>What the name formats accept\<close>

definition dns_label :: "string \<Rightarrow> bool" where
  "dns_label s \<longleftrightarrow> s \<noteq> [] \<and> lower_alnum (hd s) \<and> lower_alnum (last s) \<and> list_all (\<lambda>c. c = CHR ''-'' \<or> lower_alnum c) s"

lemma framed_lang:
  assumes "\<And>c. f c \<Longrightarrow> g c"
  shows "in_lang (RSeq (RCls f) (ROpt (RSeq (RStar (RCls g)) (RCls f)))) s \<longleftrightarrow>
    s \<noteq> [] \<and> f (hd s) \<and> f (last s) \<and> list_all g s"
proof
  assume "in_lang (RSeq (RCls f) (ROpt (RSeq (RStar (RCls g)) (RCls f)))) s"
  then show "s \<noteq> [] \<and> f (hd s) \<and> f (last s) \<and> list_all g s"
    using assms by (auto simp: in_lang_seq in_lang_star_cls)
next
  assume s: "s \<noteq> [] \<and> f (hd s) \<and> f (last s) \<and> list_all g s"
  show "in_lang (RSeq (RCls f) (ROpt (RSeq (RStar (RCls g)) (RCls f)))) s"
  proof (cases "tl s")
    case Nil
    then show ?thesis using s by (cases s) (auto simp: in_lang_seq)
  next
    case (Cons c cs)
    then have "s = [hd s] @ butlast (tl s) @ [last s]" using s by (cases s) auto
    moreover have "list_all g (butlast (tl s))" using s by (cases s) (auto simp: list_all_iff dest: in_set_butlastD)
    ultimately show ?thesis using s in_lang_star_cls [of g "butlast (tl s)"] unfolding in_lang_seq in_lang_simps in_lang_seq
      by (intro exI [of _ "[hd s]"] exI [of _ "butlast (tl s) @ [last s]"]) auto
  qed
qed

lemma dns_label_lang: "in_lang dns1123LabelFmt s \<longleftrightarrow> dns_label s"
  by (simp add: dns1123LabelFmt_def framed_lang dns_label_def)

lemma dns_label_no_dot: "dns_label s \<Longrightarrow> CHR ''.'' \<notin> set s"
proof -
  have "\<not> (CHR ''.'' = CHR ''-'' \<or> lower_alnum (CHR ''.''))" by code_simp
  then show "dns_label s \<Longrightarrow> CHR ''.'' \<notin> set s" unfolding dns_label_def list_all_iff by blast
qed

lemma dotted_lang:
  "in_lang (RStar (RSeq (RCls (\<lambda>c. c = CHR ''.'')) dns1123LabelFmt)) s \<longleftrightarrow>
     s = [] \<or> hd s = CHR ''.'' \<and> list_all dns_label (split_on (CHR ''.'') (tl s))"
  (is "in_lang ?r s \<longleftrightarrow> ?P s")
proof
  assume "in_lang ?r s"
  then show "?P s"
  proof (induction ?r s rule: in_lang.induct)
    case (more u t)
    then obtain l where l: "u = CHR ''.'' # l" "dns_label l" by (auto simp: in_lang_seq dns_label_lang)
    show ?case
    proof (cases t)
      case Nil
      then show ?thesis using l dns_label_no_dot [OF l(2)] by (simp add: split_on_single)
    next
      case (Cons c t')
      then show ?thesis using more l dns_label_no_dot [OF l(2)] by (auto simp: split_on_append)
    qed
  qed simp
next
  show "?P s \<Longrightarrow> in_lang ?r s"
  proof (induction "length s" arbitrary: s rule: less_induct)
    case less
    show ?case
    proof (cases "s = []")
      case False
      then obtain t where s: "s = CHR ''.'' # t" using less.prems by (cases s) auto
      let ?p = "takeWhile (\<lambda>c. c \<noteq> CHR ''.'') t" and ?q = "dropWhile (\<lambda>c. c \<noteq> CHR ''.'') t"
      have np: "CHR ''.'' \<notin> set ?p" using set_takeWhileD by fastforce
      have t: "t = ?p @ ?q" by simp
      have "dns_label ?p \<and> ?P ?q"
      proof (cases ?q)
        case Nil
        then have "?p = t" using t by (metis append_Nil2)
        then have "CHR ''.'' \<notin> set t" using np by metis
        then have "dns_label t" using less.prems s by (simp add: split_on_single)
        then show ?thesis using \<open>?p = t\<close> Nil by metis
      next
        case (Cons c q)
        then have [simp]: "c = CHR ''.''" using hd_dropWhile [of "\<lambda>c. c \<noteq> CHR ''.''" t] by force
        have "split_on (CHR ''.'') t = ?p # split_on (CHR ''.'') q"
          using split_on_append [OF np, of q] t Cons by simp
        then show ?thesis using less.prems s Cons by simp
      qed
      moreover have "length ?q < length s" using s length_dropWhile_le [of "\<lambda>c. c \<noteq> CHR ''.''" t] by simp
      ultimately have "in_lang ?r ?q" "in_lang (RSeq (RCls (\<lambda>c. c = CHR ''.'')) dns1123LabelFmt) (CHR ''.'' # ?p)"
        using less.hyps by (auto simp: in_lang_seq dns_label_lang)
      then have "in_lang ?r ((CHR ''.'' # ?p) @ ?q)" by (intro in_lang.more)
      then show ?thesis by (simp add: s)
    qed (auto intro: in_lang.stop)
  qed
qed

lemma subdomain_lang: "in_lang dns1123SubdomainFmt s \<longleftrightarrow> list_all dns_label (split_on (CHR ''.'') s)"
proof -
  have "in_lang dns1123SubdomainFmt s \<longleftrightarrow> in_lang (RStar (RSeq (RCls (\<lambda>c. c = CHR ''.'')) dns1123LabelFmt)) (CHR ''.'' # s)"
    unfolding dns1123SubdomainFmt_def by (auto simp: in_lang_seq in_lang_star_Cons)
  then show ?thesis by (simp add: dotted_lang)
qed

lemma valid_name_iff:
  "isValidKubernetesName str \<longleftrightarrow>
     0 < length str \<and> length str \<le> 253 \<and> list_all dns_label (split_on (CHR ''.'') str)"
  by (auto simp: isValidKubernetesName_def rx_test_lang subdomain_lang)

text \<open>C21. \<open>isValidKubernetesName\<close>, whose regular expression is matched by derivatives, accepts exactly the
  RFC 1123 subdomains: between 1 and 253 characters, in labels separated by dots, each label not empty, of
  lower-case letters, digits and hyphens, with no hyphen at either end.\<close>

theorem kubernetes_name_format:
  "isValidKubernetesName str \<longleftrightarrow>
     0 < length str \<and> length str \<le> 253 \<and> list_all dns_label (split_on (CHR ''.'') str)"
  by (rule valid_name_iff)

text \<open>C22. Whatever identifier the platform sends, \<open>getKubernetesName\<close> gives a name that Kubernetes accepts:
  the identifier itself or its SHA-224 digest, which is 56 lower-case hexadecimal digits.\<close>

theorem getKubernetesName_valid:
  assumes "length (sha224Sum i) = 56" and "list_all lower_hex (sha224Sum i)"
  shows "isValidKubernetesName (getKubernetesName sha224Sum i)"
proof -
  let ?h = "sha224Sum i"
  have hx: "lower_hex c \<Longrightarrow> lower_alnum c" "lower_hex c \<Longrightarrow> c \<noteq> CHR ''.''" for c
    by (auto simp: lower_hex_def lower_alnum_def is_lower_def is_digit_def)
  have "?h \<noteq> []" using assms(1) by auto
  then have "dns_label ?h" "CHR ''.'' \<notin> set ?h" using assms(2) hx by (auto simp: dns_label_def list_all_iff)
  then have "isValidKubernetesName ?h" using assms(1) unfolding valid_name_iff by (simp add: split_on_single)
  then show ?thesis by (simp add: getKubernetesName_def)
qed

theorem getKubernetesName_valid_witness:
  "isValidKubernetesName (getKubernetesName (\<lambda>_. replicate 56 (CHR ''a'')) ''My_Instance'')"
proof (rule getKubernetesName_valid)
  show "length (replicate 56 (CHR ''a'')) = 56" by simp
  show "list_all lower_hex (replicate 56 (CHR ''a''))" by (simp add: list_all_iff lower_hex_def is_digit_def)
qed

lemma seq_opt:
  "in_lang (RSeq (ROpt r) q) s \<longleftrightarrow> in_lang q s \<or> in_lang (RSeq r q) s"
  "in_lang (RSeq q (ROpt r)) s \<longleftrightarrow> in_lang q s \<or> in_lang (RSeq q r) s"
  unfolding in_lang_seq in_lang_simps by (metis append_Nil append_Nil2)+

lemma seq_assoc: "in_lang (RSeq (RSeq r q) p) s \<longleftrightarrow> in_lang (RSeq r (RSeq q p)) s"
  unfolding in_lang_seq by (metis append.assoc)

text \<open>C23. \<open>isValidKubernetesLabelValue\<close> accepts exactly the values of at most 63 characters that are empty or
  begin and end with a letter or digit and hold only letters, digits, hyphens, underscores and dots.\<close>

theorem label_value_format:
  "isValidKubernetesLabelValue v \<longleftrightarrow> length v \<le> 63 \<and>
     (v = [] \<or> alnum (hd v) \<and> alnum (last v) \<and> list_all (\<lambda>c. c = CHR ''-'' \<or> alnum c \<or> c = CHR ''_'' \<or> c = CHR ''.'') v)"
proof -
  let ?g = "\<lambda>c. c = CHR ''-'' \<or> alnum c \<or> c = CHR ''_'' \<or> c = CHR ''.''"
  have "in_lang (RSeq (ROpt (RSeq (RCls alnum) (RStar (RCls ?g)))) (RCls alnum)) v \<longleftrightarrow>
      in_lang (RSeq (RCls alnum) (ROpt (RSeq (RStar (RCls ?g)) (RCls alnum)))) v"
    by (simp only: seq_opt seq_assoc)
  then show ?thesis
    using framed_lang [of alnum ?g v] by (auto simp: isValidKubernetesLabelValue_def rx_test_lang labelValueFmt_def)
qed

section \<open>Comparing versions\<close>

lemma length_parseVersion: "length (parseVersion v) = 3"
  by (simp add: parseVersion_def Let_def)

lemma parseVersion_parts:
  obtains a b c where "parseVersion v = [a, b, c]"
  using length_parseVersion [of v] by (auto simp: length_Suc_conv eval_nat_numeral)

text \<open>The text of a version with the given numbers, and the three numbers that count.\<close>

definition dotted :: "nat list \<Rightarrow> string" where
  "dotted ns = js_join ''.'' (map show_nat ns)"

definition version_key :: "nat list \<Rightarrow> nat \<times> nat \<times> nat" where
  "version_key ns = (let ps = ns @ [0, 0, 0] in (ps ! 0, ps ! 1, ps ! 2))"

definition version_before :: "nat \<times> nat \<times> nat \<Rightarrow> nat \<times> nat \<times> nat \<Rightarrow> bool" where
  "version_before x y = (case (x, y) of ((a, b, c), (d, e, f)) \<Rightarrow> a < d \<or> a = d \<and> (b < e \<or> b = e \<and> c < f))"

lemma parseVersion_dotted:
  assumes "ns \<noteq> []" and "version_key ns = (a, b, c)"
  shows "parseVersion (dotted ns) = map (Some \<circ> int) [a, b, c]"
proof -
  have "list_all (\<lambda>p. CHR ''.'' \<notin> set p) (map show_nat ns)"
    using show_nat_digits by (fastforce simp: list_all_iff is_digit_def)
  with assms(1) have sp: "split_on (CHR ''.'') (dotted ns) = map show_nat ns" by (simp add: dotted_def split_on_join)
  have p: "parse_int (show_nat n) = Some (int n)" for n
    using parse_digits [of "show_nat n"] show_nat_digits [of n] by (simp add: list_all_iff)
  moreover have "parse_int ''0'' = Some 0" by code_simp
  moreover have "parseVersion (dotted ns) = map parse_int (take 3 (map show_nat ns) @ replicate (3 - length ns) ''0'')"
    by (simp add: parseVersion_def sp Let_def)
  ultimately show ?thesis using assms
    by (cases ns; cases "tl ns"; cases "tl (tl ns)") (auto simp: version_key_def eval_nat_numeral)
qed



lemma compareVersions_antisym: "compareVersions right left = - compareVersions left right"
proof -
  obtain a b c d e f where "parseVersion left = [a, b, c]" "parseVersion right = [d, e, f]"
    using parseVersion_parts by metis
  then show ?thesis by (auto simp: compareVersions_def compare_component_def split: option.splits)
qed

section \<open>Masking\<close>

text \<open>A string under a sensitive name within the given number of levels that is not masked. Objects that lodash
  takes for arrays are left through their indices only.\<close>

fun leaks :: "nat \<Rightarrow> json \<Rightarrow> bool" where
  "leaks 0 j = False"
| "leaks (Suc d) (JObj fs) = list_ex (\<lambda>(k, v). visits fs k \<and> (leaks d v \<or>
     array_length fs = None \<and> k \<in> set SENSITIVE_FIELD_NAMES \<and> (\<exists>s. v = JStr s \<and> s \<noteq> ''*******''))) fs"
| "leaks (Suc d) (JArr xs) = list_ex (leaks d) xs"
| "leaks (Suc d) _ = False"

lemma leaks_primitive [simp]: "leaks d (JStr s) = False" "leaks d JNull = False" "leaks d (JBool b) = False" "leaks d (JNum n) = False"
  by (cases d; simp)+

lemma mask_primitive [simp]: "mask_at d (JStr s) = JStr s" "mask_at d JNull = JNull" "mask_at d (JBool b) = JBool b" "mask_at d (JNum n) = JNum n"
  by (cases d; simp)+

lemma mask_shape [simp]: "mask_at d (JObj fs) \<noteq> JStr s" "mask_at d (JArr xs) \<noteq> JStr s"
  by (cases d; simp)+

definition mask_field :: "fields \<Rightarrow> nat \<Rightarrow> string \<Rightarrow> json \<Rightarrow> json" where
  "mask_field fs d k v = (case v of
        JObj _ \<Rightarrow> if visits fs k then mask_at d v else v
      | JArr _ \<Rightarrow> if visits fs k then mask_at d v else v
      | JStr _ \<Rightarrow> if masks fs k then JStr ''*******'' else v
      | _ \<Rightarrow> v)"

lemma mask_at_obj: "mask_at (Suc d) (JObj fs) = JObj (map (\<lambda>(k, v). (k, mask_field fs d k v)) fs)"
  by (simp add: mask_field_def)

text \<open>Masking keeps the length of an object, so it is walked in the same way afterwards.\<close>

lemma mask_at_num [simp]: "mask_at d v = JNum n \<longleftrightarrow> v = JNum n"
  by (cases d; cases v) auto

lemma mask_field_num: "mask_field fs d k v = JNum n \<longleftrightarrow> v = JNum n"
  by (cases v) (auto simp: mask_field_def)

lemma array_length_Some:
  "array_length fs = Some m \<longleftrightarrow> (\<exists>n. map_of fs ''length'' = Some (JNum n) \<and> 0 \<le> n \<and> n \<le> 9007199254740991 \<and> m = nat n)"
  by (auto simp: array_length_def split: option.splits json.splits if_splits)

lemma map_of_masked: "map_of (map (\<lambda>(k, v). (k, mask_field fs d k v)) gs) l = map_option (mask_field fs d l) (map_of gs l)"
  by (induction gs) auto

lemma array_length_masked: "array_length (map (\<lambda>(k, v). (k, mask_field fs d k v)) gs) = array_length gs"
proof -
  have "map_of (map (\<lambda>(k, v). (k, mask_field fs d k v)) gs) ''length'' = Some (JNum n) \<longleftrightarrow> map_of gs ''length'' = Some (JNum n)" for n
    by (cases "map_of gs ''length''") (simp_all add: map_of_masked mask_field_num)
  then have "array_length (map (\<lambda>(k, v). (k, mask_field fs d k v)) gs) = Some m \<longleftrightarrow> array_length gs = Some m" for m
    by (simp add: array_length_Some)
  then show ?thesis by (metis option.exhaust)
qed

lemma visits_masked: "visits (map (\<lambda>(k, v). (k, mask_field fs d k v)) gs) = visits gs"
  "masks (map (\<lambda>(k, v). (k, mask_field fs d k v)) gs) = masks gs"
  by (auto simp: visits_def masks_def fun_eq_iff array_length_masked)

lemma mask_no_leak: "\<not> leaks d (mask_at d j)"
proof (induction d arbitrary: j)
  case (Suc d)
  show ?case
  proof (cases j)
    case (JObj fs)
    have "\<not> (visits fs k \<and> (leaks d (mask_field fs d k v) \<or>
        array_length fs = None \<and> k \<in> set SENSITIVE_FIELD_NAMES \<and> (\<exists>s. mask_field fs d k v = JStr s \<and> s \<noteq> ''*******'')))" for k v
      using Suc.IH [of v] by (cases v) (auto simp: mask_field_def masks_def)
    then show ?thesis unfolding JObj mask_at_obj leaks.simps list_ex_iff visits_masked array_length_masked by auto
  next
    case (JArr xs)
    then show ?thesis using Suc by (auto simp: list_ex_iff)
  qed simp_all
qed simp

lemma mask_idem: "mask_at d (mask_at d j) = mask_at d j"
proof (induction d arbitrary: j)
  case (Suc d)
  have f: "mask_field fs d k (mask_field fs d k v) = mask_field fs d k v" for fs k v
    using Suc.IH [of v] by (cases v) (auto simp: mask_field_def split: json.splits)
  have "mask_field gs d = mask_field fs d" if "visits gs = visits fs" "masks gs = masks fs" for fs gs
    using that by (simp add: mask_field_def fun_eq_iff)
  note g = this [OF visits_masked]
  show ?case
  proof (cases j)
    case (JObj fs)
    then show ?thesis by (simp only: mask_at_obj g) (auto simp: f)
  qed (use Suc.IH in auto)
qed simp

text \<open>C24. What \<open>maskSensitiveInfo\<close> returns holds no readable string under a sensitive field name (password,
  uri and the like) in the first five levels of what it walks through, and masking again changes nothing. What it
  does not walk through are the named fields of an object with a numeric field \<open>length\<close> (an integer from 0 to
  \<open>2 ^ 53 - 1\<close>), which \<open>_.forEach\<close> takes for an array: such an object is masked only below its indices, and its
  own strings stay readable, which is the second half of the statement.\<close>

theorem masked_info_does_not_leak:
  "\<not> leaks 5 (maskSensitiveInfo target) \<and> maskSensitiveInfo (maskSensitiveInfo target) = maskSensitiveInfo target \<and>
   (array_length fs \<noteq> None \<and> map_of fs k = Some (JStr s) \<longrightarrow> jprop (maskSensitiveInfo (JObj fs)) k = Some (JStr s))"
proof -
  have "jprop (maskSensitiveInfo (JObj fs)) k = map_option (mask_field fs 4 k) (map_of fs k)"
  proof -
    have five: "(5 :: nat) = Suc 4" by simp
    show ?thesis unfolding maskSensitiveInfo_def five mask_at_obj by (simp add: map_of_masked)
  qed
  then show ?thesis by (auto simp: maskSensitiveInfo_def mask_no_leak mask_idem mask_field_def masks_def)
qed

theorem masked_info_does_not_leak_witness:
  "\<not> leaks 5 (maskSensitiveInfo (JObj [(''password'', JStr ''x'')])) \<and>
   jprop (maskSensitiveInfo (JObj [(''password'', JStr ''x''), (''length'', JNum 1)])) ''password'' = Some (JStr ''x'')"
  using masked_info_does_not_leak [of "JObj [(''password'', JStr ''x'')]" "[(''password'', JStr ''x''), (''length'', JNum 1)]" "''password''" "''x''"]
  by (simp add: array_length_def)

section \<open>Hours of a cron expression\<close>

lemma hours_up_set:
  assumes "0 < every" and "h < 24"
  shows "set (hours_up every h) = {x. h < x \<and> x < 24 \<and> x mod every = h mod every}"
  using assms
proof (induction every h rule: hours_up.induct)
  case (1 every h)
  show ?case
  proof (cases "h + every < 24")
    case True
    have "h < x \<and> x mod every = h mod every \<longleftrightarrow> x = h + every \<or> h + every < x \<and> x mod every = h mod every" for x
    proof -
      have "h + every \<le> x" if "h < x" "x mod every = h mod every"
      proof -
        from that(2) have "every dvd x - h" using that(1) by (simp add: mod_eq_dvd_iff_nat)
        then show ?thesis using that(1) dvd_imp_le [of every "x - h"] by linarith
      qed
      then show ?thesis using "1.prems"(1) by auto
    qed
    then show ?thesis using 1 True by (subst hours_up.simps) auto
  next
    case False
    have "\<not> (h < x \<and> x < 24 \<and> x mod every = h mod every)" for x
    proof
      assume x: "h < x \<and> x < 24 \<and> x mod every = h mod every"
      then have "every dvd x - h" using mod_eq_dvd_iff_nat [of h x every] by simp
      then show False using x False dvd_imp_le [of every "x - h"] by linarith
    qed
    then show ?thesis using False by (subst hours_up.simps) auto
  qed
qed

lemma hours_down_set:
  assumes "0 < every"
  shows "set (hours_down every h) = {x. x < h \<and> x mod every = h mod every}"
  using assms
proof (induction every h rule: hours_down.induct)
  case (1 every h)
  have low: "x + every \<le> h" if "x < h" "x mod every = h mod every" for x
  proof -
    have "every dvd h - x" using that by (metis mod_eq_dvd_iff_nat less_imp_le)
    then show ?thesis using that(1) dvd_imp_le [of every "h - x"] by linarith
  qed
  show ?case
  proof (cases "every \<le> h")
    case True
    have "x < h \<and> x mod every = h mod every \<longleftrightarrow> x = h - every \<or> x < h - every \<and> x mod every = h mod every" for x
      using low [of x] "1.prems" True by (auto simp: le_mod_geq) 
    then show ?thesis using 1 True by (subst hours_down.simps) (auto simp: le_mod_geq)
  next
    case False
    then show ?thesis using low by (subst hours_down.simps) fastforce
  qed
qed

text \<open>C25. The hours of the cron expression for ``every x hours'' are in order, and are exactly the hours of the
  day that are congruent to the starting hour modulo x, with midnight added when x does not divide 24: the
  two loops around the starting hour miss none and leave the day at neither end.\<close>

theorem interval_hours_spec:
  assumes "0 < every" and "every \<le> 24" and "hr < 24"
  shows "set (interval_hours every hr) =
      {x. x < 24 \<and> x mod every = hr mod every} \<union> (if 24 mod every \<noteq> 0 then {0} else {}) \<and>
    sorted (interval_hours every hr)"
proof -
  have "insert hr (set (hours_up every hr) \<union> set (hours_down every hr)) = {x. x < 24 \<and> x mod every = hr mod every}"
    unfolding hours_up_set [OF assms(1,3)] hours_down_set [OF assms(1)] using assms(3) by (auto simp: not_less_iff_gr_or_eq)
  then have hs: "set (hr # hours_up every hr @ hours_down every hr) = {x. x < 24 \<and> x mod every = hr mod every}" by simp
  define L where "L = hr # hours_up every hr @ hours_down every hr"
  have I: "interval_hours every hr = sort (if 24 mod every \<noteq> 0 \<and> 0 \<notin> set L then L @ [0] else L)"
    unfolding interval_hours_def Let_def L_def by (rule refl)
  have S: "set L = {x. x < 24 \<and> x mod every = hr mod every}" unfolding L_def by (rule hs)
  have "set (interval_hours every hr) = set L \<union> (if 24 mod every \<noteq> 0 then {0} else {})"
    unfolding I set_sort by (cases "24 mod every \<noteq> 0"; cases "0 \<in> set L") auto
  then show ?thesis unfolding S I by (simp only: sorted_sort simp_thms)
qed

theorem interval_hours_spec_witness:
  "set (interval_hours 7 9) = {x. x < 24 \<and> x mod 7 = 2} \<union> {0} \<and> sorted (interval_hours 7 9)"
  using interval_hours_spec [of 7 9] by simp

end
