(* ===== verification/Catalog.thy ===== *)
theory Catalog
  imports CommonFunctions_Properties
begin

text \<open>
  The catalog of services and plans: \<open>core/models/src\<close> (\<open>Plan.js\<close>, \<open>Service.js\<close>, \<open>catalog.js\<close>) and
  the functions of \<open>data-access-layer/eventmesh/src/utils/index.js\<close> that publish it to the API server and
  load it from there. A plan is its object with the defaults filled in; the link from a plan to its service
  is the pair that \<open>getPlan\<close> returns. The catalog is the list of its services: the list of all plans is
  computed from it.
\<close>

section \<open>Plans and services\<close>

text \<open>\<open>_.defaults(o, d)\<close>: the properties of \<open>d\<close> that \<open>o\<close> does not have.\<close>

definition jdefaults :: "json \<Rightarrow> fields \<Rightarrow> json" where
  "jdefaults j ds = (let fs = fields_of (Some j) in JObj (fs @ filter (\<lambda>(k, _). map_of fs k = None) ds))"

record service =
  sv_options :: json
  sv_plans :: "json list"

type_synonym catalog = "service list"

definition new_Plan :: "json \<Rightarrow> json" where
  "new_Plan options = jdefaults options
     [(''free'', JBool True), (''credentials'', JObj []), (''syslog_drain_port'', JNull),
      (''syslog_drain_protocol'', JStr ''syslog'')]"

definition new_Service :: "json \<Rightarrow> service" where
  "new_Service options =
     \<lparr>sv_options = jdefaults (jomit [''plans''] options)
        [(''bindable'', JBool True), (''subnet'', JNull), (''tags'', JArr []), (''metadata'', JNull),
         (''requires'', JArr []), (''plan_updateable'', JBool True), (''application_access_ports'', JNull),
         (''service_tags'', JObj [])],
      sv_plans = map new_Plan (elems_of (jprop options ''plans''))\<rparr>"

definition plan_manager :: "json \<Rightarrow> string list \<Rightarrow> jsval" where
  "plan_manager plan path = jget (Some plan) (''manager'' # path)"

definition stemcell :: "json \<Rightarrow> json \<Rightarrow> exn + json" where
  "stemcell cfg plan =
     (case path_of (Some plan) [''manager'', ''settings''] of
        None \<Rightarrow> Inl TypeError
      | Some settings \<Rightarrow>
          let primary = filter (\<lambda>d. truthy (jprop d ''primary'') \<and> truthy (jprop d ''support_create''))
                          (elems_of (jprop cfg ''directors''));
              base = jdefaults (jget_default settings [''stemcell''] (JObj []))
                       (fields_of (case primary of [] \<Rightarrow> None | d # _ \<Rightarrow> jget (Some d) [''infrastructure'', ''stemcell''])) in
          Inr (jput ''version'' (JStr (str_of (jprop base ''version''))) base))"

definition release_key :: "json \<Rightarrow> string" where
  "release_key release = str_of (jprop release ''name'') @ ''/'' @ str_of (jprop release ''version'')"

fun insert_release :: "json \<Rightarrow> json list \<Rightarrow> json list" where
  "insert_release x [] = [x]"
| "insert_release x (y # ys) = (if str_less (release_key y) (release_key x) then y # insert_release x ys else x # y # ys)"

definition releases :: "json \<Rightarrow> exn + json list" where
  "releases plan =
     (case path_of (Some plan) [''manager'', ''settings''] of
        None \<Rightarrow> Inl TypeError
      | Some settings \<Rightarrow>
          Inr (foldr insert_release (map (jpick [''name'', ''version'']) (elems_of (jget settings [''releases'']))) []))"

definition supportedFeatures :: "json \<Rightarrow> jsval" where
  "supportedFeatures plan = plan_manager plan [''settings'', ''agent'', ''supported_features'']"

definition updatePredecessors :: "json \<Rightarrow> jsval" where
  "updatePredecessors plan = plan_manager plan [''settings'', ''update_predecessors'']"

definition plan_resourceGroup :: "json \<Rightarrow> jsval" where
  "plan_resourceGroup plan = plan_manager plan [''resource_mappings'', ''resource_group'']"

definition plan_resourceType :: "json \<Rightarrow> jsval" where
  "plan_resourceType plan = plan_manager plan [''resource_mappings'', ''resource_type'']"

definition bindResourceGroup :: "json \<Rightarrow> jsval" where
  "bindResourceGroup plan = plan_manager plan [''resource_mappings'', ''bind'', ''resource_group'']"

definition bindResourceType :: "json \<Rightarrow> jsval" where
  "bindResourceType plan = plan_manager plan [''resource_mappings'', ''bind'', ''resource_type'']"

definition restoreResourceGroup :: "json \<Rightarrow> jsval" where
  "restoreResourceGroup plan =
     or_else (plan_manager plan [''resource_mappings'', ''restore'', ''resource_group'']) (Some (JStr GROUP_BACKUP))"

definition restoreResourceType :: "json \<Rightarrow> jsval" where
  "restoreResourceType plan =
     or_else (plan_manager plan [''resource_mappings'', ''restore'', ''resource_type'']) (Some (JStr ''defaultrestores''))"

definition PLAN_KEYS :: "string list" where
  "PLAN_KEYS = [''id'', ''name'', ''description'', ''metadata'', ''maintenance_info'', ''schemas'', ''free'',
     ''maximum_polling_duration'']"

definition SERVICE_KEYS :: "string list" where
  "SERVICE_KEYS = [''id'', ''name'', ''description'', ''bindable'', ''subnet'', ''tags'', ''metadata'', ''requires'',
     ''plan_updateable'', ''instances_retrievable'', ''bindings_retrievable'', ''dashboard_client'',
     ''application_access_ports'', ''service_tags'']"

text \<open>\<open>_.pick\<close> with the keys in the order they are listed.\<close>

definition pick_in_order :: "string list \<Rightarrow> json \<Rightarrow> json" where
  "pick_in_order ks j = obj (map (\<lambda>k. (k, jprop j k)) ks)"

text \<open>The predecessors and features are added to a metadata object; there is nothing to add them to otherwise.\<close>

definition with_features :: "json \<Rightarrow> json \<Rightarrow> json" where
  "with_features plan metadata =
     (case metadata of
        JObj _ \<Rightarrow>
          JObj (fields_of (Some (jomit [''update_predecessors'', ''supported_features''] metadata)) @
            fields_of (Some (obj [(''update_predecessors'', updatePredecessors plan), (''supported_features'', supportedFeatures plan)])))
      | _ \<Rightarrow> metadata)"

definition plan_toJSON :: "json \<Rightarrow> json" where
  "plan_toJSON plan =
     (let j = pick_in_order PLAN_KEYS plan in
      case jprop j ''metadata'' of None \<Rightarrow> j | Some m \<Rightarrow> jput ''metadata'' (with_features plan m) j)"

text \<open>A service or a plan without a name makes \<open>toJSON\<close> fail.\<close>

definition has_name :: "json \<Rightarrow> bool" where
  "has_name j = (case jprop j ''name'' of Some (JStr _) \<Rightarrow> True | _ \<Rightarrow> False)"

definition is_internal :: "json \<Rightarrow> bool" where
  "is_internal j = js_includes (str_of (jprop j ''name'')) ''-fabrik-internal''"

definition service_json :: "service \<Rightarrow> json" where
  "service_json sv =
     jput ''plans'' (JArr (map plan_toJSON (filter (\<lambda>p. \<not> is_internal p) (sv_plans sv)))) (pick_in_order SERVICE_KEYS (sv_options sv))"

definition service_toJSON :: "service \<Rightarrow> exn + json" where
  "service_toJSON sv = (if list_all has_name (sv_plans sv) then Inr (service_json sv) else Inl TypeError)"

section \<open>The catalog\<close>

definition load_catalog :: "json list \<Rightarrow> catalog" where
  "load_catalog services = map new_Service services"

definition all_plans :: "catalog \<Rightarrow> (service \<times> json) list" where
  "all_plans cat = concat (map (\<lambda>sv. map (Pair sv) (sv_plans sv)) cat)"

definition getPlan :: "catalog \<Rightarrow> jsval \<Rightarrow> exn + service \<times> json" where
  "getPlan cat i =
     (case find (\<lambda>(_, p). jprop p ''id'' = i) (all_plans cat) of
        None \<Rightarrow> Inl (ServicePlanNotFound (str_of i))
      | Some sp \<Rightarrow> Inr sp)"

definition getService :: "catalog \<Rightarrow> jsval \<Rightarrow> exn + service" where
  "getService cat i =
     (case find (\<lambda>sv. jprop (sv_options sv) ''id'' = i) cat of
        None \<Rightarrow> Inl (ServiceNotFound (str_of i))
      | Some sv \<Rightarrow> Inr sv)"

definition getServiceName :: "catalog \<Rightarrow> jsval \<Rightarrow> exn + jsval" where
  "getServiceName cat i = map_sum id (\<lambda>sv. jprop (sv_options sv) ''name'') (getService cat i)"

definition public_services :: "catalog \<Rightarrow> exn + service list" where
  "public_services cat =
     (if list_all (\<lambda>sv. has_name (sv_options sv)) cat then Inr (filter (\<lambda>sv. \<not> is_internal (sv_options sv)) cat)
      else Inl TypeError)"

fun sequence_sum :: "('e + 'a) list \<Rightarrow> 'e + 'a list" where
  "sequence_sum [] = Inr []"
| "sequence_sum (x # xs) =
     (case x of Inl e \<Rightarrow> Inl e | Inr y \<Rightarrow> (case sequence_sum xs of Inl e \<Rightarrow> Inl e | Inr ys \<Rightarrow> Inr (y # ys)))"

definition catalog_toJSON :: "catalog \<Rightarrow> exn + json" where
  "catalog_toJSON cat =
     (case public_services cat of
        Inl e \<Rightarrow> Inl e
      | Inr svs \<Rightarrow> map_sum id (\<lambda>js. JObj [(''services'', JArr js)]) (sequence_sum (map service_toJSON svs)))"

text \<open>The plans of the service are the full objects here, not their JSON form.\<close>

definition getPlanSKUFromPlanGUID :: "catalog \<Rightarrow> jsval \<Rightarrow> jsval \<Rightarrow> exn + jsval" where
  "getPlanSKUFromPlanGUID cat serviceGuid planGuid =
     (case public_services cat of
        Inl e \<Rightarrow> Inl e
      | Inr svs \<Rightarrow>
          (case filter (\<lambda>sv. jprop (sv_options sv) ''id'' = serviceGuid) svs of
             [] \<Rightarrow> Inl TypeError
           | sv # _ \<Rightarrow>
               (case List.map_filter (\<lambda>p. if jprop p ''id'' = planGuid then jprop p ''sku_name'' else None) (sv_plans sv) of
                  [] \<Rightarrow> Inr None
                | s # _ \<Rightarrow> Inr (Some s))))"

definition supports_platform :: "string \<Rightarrow> json \<Rightarrow> bool" where
  "supports_platform platform j \<longleftrightarrow>
     (case jget_default (Some j) [''supported_platform''] (JArr [JStr ''cf'', JStr ''sm'']) of
        JStr s \<Rightarrow> js_includes s platform
      | JObj fs \<Rightarrow> JStr platform \<in> snd ` set fs
      | v \<Rightarrow> JStr platform \<in> set (elems_of (Some v)))"

definition getCatalogForPlatform :: "catalog \<Rightarrow> string \<Rightarrow> catalog" where
  "getCatalogForPlatform cat platform =
     filter (\<lambda>sv. supports_platform platform (sv_options sv))
       (map (\<lambda>sv. sv\<lparr>sv_plans := filter (supports_platform platform) (sv_plans sv)\<rparr>) cat)"

section \<open>The catalog on the API server\<close>

definition namespace_opts :: "'w env \<Rightarrow> fields" where
  "namespace_opts env =
     (if truthy (conf env [''sf_namespace''])
      then [(''namespaceId'', the (conf env [''sf_namespace'']))]
      else [(''allNamespaces'', JBool True)])"

definition getAllServices :: "'w env \<Rightarrow> ('w, exn, json list) promise" where
  "getAllServices env =
     then_do (getResources env
         (JObj ([(''resourceGroup'', JStr GROUP_INTEROPERATOR), (''resourceType'', JStr TYPE_SERVICES)] @ namespace_opts env)))
       (\<lambda>serviceList. resolve (map (\<lambda>s. decamelizeKeysDeep env (case jprop s ''spec'' of None \<Rightarrow> JNull | Some x \<Rightarrow> x)) serviceList))"

definition getAllPlansForService :: "'w env \<Rightarrow> jsval \<Rightarrow> ('w, exn, json list) promise" where
  "getAllPlansForService env serviceId =
     then_do (getResources env
         (JObj ([(''resourceGroup'', JStr GROUP_INTEROPERATOR), (''resourceType'', JStr TYPE_PLANS),
                 (''query'', obj [(''labelSelector'', Some (JStr (''serviceId='' @ str_of serviceId)))])] @ namespace_opts env)))
       (\<lambda>planList. resolve (map (\<lambda>p. case jprop p ''spec'' of None \<Rightarrow> JNull | Some x \<Rightarrow> x) planList))"

text \<open>One service after the other (\<open>Promise.each\<close>).\<close>

fun with_plans :: "'w env \<Rightarrow> json list \<Rightarrow> ('w, exn, json list) promise" where
  "with_plans env [] = resolve []"
| "with_plans env (s # ss) =
     then_do (getAllPlansForService env (jprop s ''id'')) (\<lambda>plans.
     then_do (with_plans env ss) (\<lambda>rest. resolve (jput ''plans'' (JArr plans) s # rest)))"

definition loadCatalogFromAPIServer :: "'w env \<Rightarrow> ('w, exn, catalog) promise" where
  "loadCatalogFromAPIServer env =
     then_do (then_do (getAllServices env) (with_plans env)) (\<lambda>services. resolve (load_catalog services))"

text \<open>\<open>Promise.all\<close> and \<open>Promise.map\<close>: every call is issued, in order; the first that is rejected decides.\<close>

fun promise_all :: "('w, exn, 'a) promise list \<Rightarrow> ('w, exn, 'a list) promise" where
  "promise_all [] w = (Resolved [], w)"
| "promise_all (p # ps) w =
     (case p w of (r, w1) \<Rightarrow> (case promise_all ps w1 of (rs, w2) \<Rightarrow>
        ((case r of
            Resolved x \<Rightarrow> (case rs of Resolved xs \<Rightarrow> Resolved (x # xs) | Rejected e \<Rightarrow> Rejected e | Pending \<Rightarrow> Pending)
          | Rejected e \<Rightarrow> Rejected e
          | Pending \<Rightarrow> (case rs of Rejected e \<Rightarrow> Rejected e | _ \<Rightarrow> Pending)), w2)))"

definition registerSFEventsCrd :: "'w env \<Rightarrow> ('w, exn, jsval list) promise" where
  "registerSFEventsCrd env = promise_all [registerCrds env ''instance.servicefabrik.io'' ''sfevents'']"

abbreviation "WAIT_IN_MS_BEFORE_STARTUP \<equiv> 1000 :: int"

fun waitWhileCRDsAreRegistered :: "nat \<Rightarrow> 'w env \<Rightarrow> ('w, exn, jsval list) promise" where
  "waitWhileCRDsAreRegistered 0 env = pending"
| "waitWhileCRDsAreRegistered (Suc fuel) env =
     catch_on (promise_all [getCustomResourceDefinition env (TYPE_SERVICES @ ''.'' @ GROUP_INTEROPERATOR),
                            getCustomResourceDefinition env (TYPE_PLANS @ ''.'' @ GROUP_INTEROPERATOR)])
       (instanceof CNotFound)
       (\<lambda>_. then_do (delay env WAIT_IN_MS_BEFORE_STARTUP) (\<lambda>_. waitWhileCRDsAreRegistered fuel env))"

definition assert_field :: "string \<Rightarrow> json \<Rightarrow> string \<Rightarrow> exn + unit" where
  "assert_field what j k =
     (if truthy (jprop j k) then Inr () else Inl (AssertionError (what @ ''.'' @ k @ '' is required to generate plan crd'')))"

fun assert_fields :: "string \<Rightarrow> json \<Rightarrow> string list \<Rightarrow> exn + unit" where
  "assert_fields what j [] = Inr ()"
| "assert_fields what j (k # ks) = (case assert_field what j k of Inl e \<Rightarrow> Inl e | Inr _ \<Rightarrow> assert_fields what j ks)"

definition crd_metadata :: "jsval \<Rightarrow> jsval \<Rightarrow> json" where
  "crd_metadata name serviceId =
     obj [(''name'', name),
          (''labels'', Some (obj [(''controller-tools.k8s.io'', Some (JStr ''1.0'')), (''serviceId'', serviceId)]))]"

definition getServiceCrdFromConfig :: "json \<Rightarrow> exn + json" where
  "getServiceCrdFromConfig service =
     map_sum id (\<lambda>_.
       obj [(''apiVersion'', Some (JStr ''osb.servicefabrik.io/v1alpha1'')), (''kind'', Some (JStr ''SFService'')),
            (''metadata'', Some (crd_metadata (jprop service ''id'') (jprop service ''id''))),
            (''spec'', Some (obj [
               (''name'', jprop service ''name''), (''id'', jprop service ''id''), (''bindable'', jprop service ''bindable''),
               (''description'', jprop service ''description''), (''metadata'', jprop service ''metadata''),
               (''tags'', jprop service ''tags''), (''dashboardClient'', jprop service ''dashboard_client''),
               (''planUpdateable'', jprop service ''plan_updateable'')]))])
       (assert_fields ''service'' service [''name'', ''id'', ''description'', ''bindable''])"

definition getPlanCrdFromConfig :: "json \<Rightarrow> json \<Rightarrow> exn + json" where
  "getPlanCrdFromConfig plan service =
     map_sum id (\<lambda>_.
       obj [(''apiVersion'', Some (JStr ''osb.servicefabrik.io/v1alpha1'')), (''kind'', Some (JStr ''SFPlan'')),
            (''metadata'', Some (crd_metadata (jprop plan ''id'') (jprop service ''id''))),
            (''spec'', Some (obj [
               (''name'', jprop plan ''name''), (''id'', jprop plan ''id''), (''serviceId'', jprop service ''id''),
               (''description'', jprop plan ''description''),
               (''free'', Some (JBool (truthy (jprop plan ''free'') \<or> truthy (jprop service ''free'')))),
               (''bindable'', or_else (jprop plan ''bindable'') (or_else (jprop service ''bindable'') (Some (JBool False)))),
               (''planUpdatable'', Some (JBool (truthy (jprop plan ''bindable'')))),
               (''templates'', or_else (jprop plan ''templates'') (Some (JArr []))),
               (''metadata'', jprop plan ''metadata''), (''manager'', jprop plan ''manager''),
               (''context'', jprop plan ''context'')]))])
       (assert_fields ''plan'' plan [''name'', ''id'', ''description''])"

definition of_sum :: "exn + 'a \<Rightarrow> ('w, exn, 'a) promise" where
  "of_sum s = (case s of Inl e \<Rightarrow> reject e | Inr x \<Rightarrow> resolve x)"

definition push_crd :: "'w env \<Rightarrow> exn + json \<Rightarrow> ('w, exn, json) promise" where
  "push_crd env crd = then_do (of_sum crd) (createOrUpdateServicePlan env)"

text \<open>A service and its plans: the call for the service is issued first, and every plan waits for it. A
  service whose definition is not complete throws before any call; the failure of the call for a service
  without plans is not observed.\<close>

definition settled :: "(exn, 'a) outcome \<Rightarrow> ('w, exn, 'a) promise" where
  "settled r w = (r, w)"

definition push_plans :: "'w env \<Rightarrow> json \<Rightarrow> (exn, json) outcome \<Rightarrow> ('w, exn, json list) promise" where
  "push_plans env service servicePromise =
     promise_all (map (\<lambda>plan. then_do (push_crd env (getPlanCrdFromConfig plan service)) (\<lambda>_. settled servicePromise))
       (elems_of (jprop service ''plans'')))"

definition push_service :: "'w env \<Rightarrow> json \<Rightarrow> ('w, exn, json list) promise" where
  "push_service env service =
     then_do (of_sum (getServiceCrdFromConfig service)) (\<lambda>crd.
       scomp (createOrUpdateServicePlan env crd) (push_plans env service))"

definition pushServicePlanToApiServer :: "'w env \<Rightarrow> ('w, exn, json list list) promise" where
  "pushServicePlanToApiServer env =
     promise_all (map (push_service env) (elems_of (Some (jget_default (Some (config env)) [''services''] (JArr [])))))"

lemma of_sum_iffs [promise_iffs]:
  "of_sum s w = (Resolved x, w') \<longleftrightarrow> s = Inr x \<and> w' = w"
  "of_sum s w = (Rejected e, w') \<longleftrightarrow> s = Inl e \<and> w' = w"
  "of_sum s w = (Pending, w') \<longleftrightarrow> False"
  by (auto simp: of_sum_def promise_iffs split: sum.splits)

lemma map_sum_Inr_iff: "map_sum f g x = Inr y \<longleftrightarrow> (\<exists>z. x = Inr z \<and> y = g z)"
  by (cases x) auto

end
