(* ===== verification/HttpClient.thy ===== *)
theory HttpClient
  imports Catalog
begin

text \<open>
  \<open>core/utils/src/HttpClient.js\<close>: requests to other services. The exchange itself is axios, a parameter
  \<open>send\<close>: it resolves with the response (\<open>status\<close>, \<open>statusText\<close>, \<open>headers\<close>, \<open>data\<close>) whatever its status, and
  rejects when there is none; that axios rejects a response which \<open>validateStatus\<close> does not accept is
  written out in \<open>invoke\<close>. Of the circuit breaker the choice of the command is modelled, the breaker
  itself is a library.
\<close>

definition set_prop :: "string \<Rightarrow> json \<Rightarrow> exn \<Rightarrow> exn" where
  "set_prop k v e = Exn (class_of e) (jput k v (props_of e))"

definition http_error_message :: "json \<Rightarrow> jsval \<Rightarrow> string" where
  "http_error_message res expectedStatusCode =
     (let message = ''Got HTTP Status Code '' @ str_of (jprop res ''status'') @ '' expected '' @ str_of expectedStatusCode;
          detail = or_else (jget (Some res) [''data'', ''message'']) (jget (Some res) [''data'', ''description'']) in
      if truthy (jprop res ''data'') \<and> truthy detail then message @ ''. '' @ str_of detail
      else if truthy (jprop res ''statusText'') then message @ ''. '' @ str_of (jprop res ''statusText'')
      else message)"

definition http_error_class :: "jsval \<Rightarrow> jsval \<Rightarrow> exn" where
  "http_error_class status message =
     (if status = Some (JNum HTTP_BAD_REQUEST) then BadRequest message
      else if status = Some (JNum HTTP_NOT_FOUND) then NotFound message
      else if status = Some (JNum HTTP_CONFLICT) then Conflict message
      else if status = Some (JNum HTTP_UNPROCESSABLE_ENTITY) then UnprocessableEntity message []
      else InternalServerError message)"

text \<open>The error that \<open>enhanceError\<close> throws.\<close>

definition enhanceError :: "json \<Rightarrow> jsval \<Rightarrow> exn" where
  "enhanceError res expectedStatusCode =
     (let err = http_error_class (jprop res ''status'') (Some (JStr (http_error_message res expectedStatusCode))) in
      case jprop res ''data'' of
        Some (JObj d) \<Rightarrow> set_prop ''error'' (JObj d) err
      | Some (JArr d) \<Rightarrow> set_prop ''error'' (JArr d) err
      | Some (JStr s) \<Rightarrow>
          (case json_parse s of
             Some e \<Rightarrow> set_prop ''error'' e err
           | None \<Rightarrow> set_prop ''message'' (JStr (message_of err @ ''. '' @ s)) err)
      | _ \<Rightarrow> err)"

definition validateStatus :: "jsval \<Rightarrow> jsval \<Rightarrow> bool" where
  "validateStatus expectedStatusCode status =
     (if truthy expectedStatusCode then map_option to_js_string status = map_option to_js_string expectedStatusCode
      else (case status of Some (JNum n) \<Rightarrow> 200 \<le> n \<and> n < 300 | _ \<Rightarrow> False))"

definition http_result :: "json \<Rightarrow> json" where
  "http_result res =
     obj [(''statusCode'', jprop res ''status''), (''statusMessage'', jprop res ''statusText''),
          (''headers'', jprop res ''headers''), (''body'', jprop res ''data'')]"

type_synonym 'w http = "json \<Rightarrow> ('w, exn, json) promise"

definition invoke :: "'w http \<Rightarrow> json \<Rightarrow> jsval \<Rightarrow> ('w, exn, json) promise" where
  "invoke send options expectedStatusCode =
     (let expected = or_else expectedStatusCode (jprop options ''expectedStatusCode'') in
      then_do (catch_on (send options) any_error (\<lambda>err. reject (InternalServerError (err_prop err ''message''))))
        (\<lambda>res. if validateStatus expected (jprop res ''status'') then resolve (http_result res)
               else reject (enhanceError res expected)))"

text \<open>The command for a request: the keys of the commands that were built for the base URL, \<open>BASE_CMD\<close>
  among them. \<open>None\<close> in the map is the \<open>-1\<close> of a base URL without a configuration.\<close>

definition getCommand :: "(string \<times> string list option) list \<Rightarrow> string \<Rightarrow> string \<Rightarrow> string \<Rightarrow> string \<Rightarrow> string option" where
  "getCommand commandMap baseURL httpMethod path url =
     (case map_of commandMap baseURL of
        Some (Some keys) \<Rightarrow>
          let command = (\<lambda>k. if k \<in> set keys then Some k else None) in
          if baseURL @ ''_'' @ httpMethod @ ''_'' @ path @ ''_circuit'' \<in> set keys
          then command (url @ ''_'' @ httpMethod @ ''_circuit'')
          else if baseURL @ ''_'' @ httpMethod @ ''_circuit'' \<in> set keys
          then Some (baseURL @ ''_'' @ httpMethod @ ''_circuit'')
          else command ''BASE_CMD''
      | _ \<Rightarrow> None)"

lemma invoke_iffs [promise_iffs]:
  "invoke send options expected w = (Resolved r, w') \<longleftrightarrow>
     (\<exists>res. send options w = (Resolved res, w') \<and> r = http_result res \<and>
        validateStatus (or_else expected (jprop options ''expectedStatusCode'')) (jprop res ''status''))"
  by (auto simp: invoke_def Let_def promise_iffs)

lemma class_http_error:
  "class_of (enhanceError res expected) =
     (if jprop res ''status'' = Some (JNum 400) then CBadRequest
      else if jprop res ''status'' = Some (JNum 404) then CNotFound
      else if jprop res ''status'' = Some (JNum 409) then CConflict
      else if jprop res ''status'' = Some (JNum 422) then CUnprocessableEntity
      else CInternalServerError)"
proof -
  have "class_of (set_prop k v e) = class_of e" for k v e by (simp add: set_prop_def)
  then have "class_of (enhanceError res expected) =
      class_of (http_error_class (jprop res ''status'') (Some (JStr (http_error_message res expected))))"
    by (auto simp: enhanceError_def Let_def split: option.splits json.splits)
  then show ?thesis by (simp add: http_error_class_def class_simps)
qed

end
