(* ===== verification/Broker.thy ===== *)
theory Broker
  imports HttpClient
begin

text \<open>
  The Open Service Broker API: the handlers of
  \<open>applications/osb-broker/src/api-controllers/ServiceBrokerApiController.js\<close>. A handler is a promise of
  the reply it sends. What the handlers take from elsewhere is in the record \<open>broker\<close>: the environment of
  the API server client, the catalog, the SHA-224 digest, lodash's template and the fuel of the polling
  loops. A handler that answers and leaves work running behind has that work in its reply.
\<close>

section \<open>Requests and replies\<close>

record request =
  params :: json
  query :: json
  body :: json
  headers :: json
  http_method :: string
  user :: jsval
  serviceFlow :: "(string \<times> string) option"

datatype 'w reply =
    Send int json
  | SendAndRun int json "('w, exn, json) promise"
  | NoReply

fun reply_status :: "'w reply \<Rightarrow> int option" where
  "reply_status (Send c b) = Some c"
| "reply_status (SendAndRun c b p) = Some c"
| "reply_status NoReply = None"

fun reply_body :: "'w reply \<Rightarrow> jsval" where
  "reply_body (Send c b) = Some b"
| "reply_body (SendAndRun c b p) = Some b"
| "reply_body NoReply = None"

record 'w broker =
  api :: "'w env"
  catalog :: catalog
  sha224Sum :: "string \<Rightarrow> string"
  template :: "string \<Rightarrow> json \<Rightarrow> exn + string"
  poll_fuel :: nat

abbreviation "FINALIZER_BROKER \<equiv> ''broker.servicefabrik.io''"
abbreviation "REQUEST_IDENTITY \<equiv> ''x-broker-api-request-identity''"
abbreviation "NAMESPACE_LABEL_KEY \<equiv> ''OWNER_INTEROPERATOR_NAMESPACE''"
abbreviation "LASTOPERATION_LABEL_KEY \<equiv> ''interoperator.servicefabrik.io/lastoperation''"
abbreviation "SF_BROKER_API_VERSION_MIN \<equiv> ''2.12''"
abbreviation "OPERATION_IN_PROGRESS \<equiv> ''in progress''"
abbreviation "OSB_SYNC_OPERATION_TIMEOUT_IN_SEC \<equiv> 50 :: int"
abbreviation "TYPE_SERIAL_SERVICE_FLOW \<equiv> ''serialserviceflows''"

definition param :: "request \<Rightarrow> string \<Rightarrow> string" where
  "param req k = str_of (jprop (params req) k)"

definition request_identity :: "request \<Rightarrow> json" where
  "request_identity req = jget_default (Some (headers req)) [REQUEST_IDENTITY] (JStr ''Absent'')"

definition k8s_name :: "'w broker \<Rightarrow> request \<Rightarrow> string \<Rightarrow> string" where
  "k8s_name br req k = getKubernetesName (sha224Sum br) (param req k)"

text \<open>\<open>resourceGroup\<close>, \<open>resourceType\<close>, \<open>resourceId\<close> and the given members, as the calls of the client take them.\<close>

definition osb_opts :: "string \<Rightarrow> string \<Rightarrow> string \<Rightarrow> (string \<times> jsval) list \<Rightarrow> request \<Rightarrow> json" where
  "osb_opts resourceGroup resourceType resourceId extra req =
     obj ([(''resourceGroup'', Some (JStr resourceGroup)), (''resourceType'', Some (JStr resourceType)),
           (''resourceId'', Some (JStr resourceId))] @ extra @ [(''requestIdentity'', Some (request_identity req))])"

definition state_of :: "string \<Rightarrow> json" where
  "state_of s = obj [(''state'', Some (JStr s))]"

definition operation_token :: "(string \<times> jsval) list \<Rightarrow> json" where
  "operation_token kvs = JStr (encodeBase64 (obj kvs))"

definition removeFinalizersFromOSBResource :: "'w broker \<Rightarrow> string \<Rightarrow> string \<Rightarrow> string \<Rightarrow> request \<Rightarrow> ('w, exn, json) promise" where
  "removeFinalizersFromOSBResource br resourceType resourceId namespaceId req =
     removeFinalizers (api br)
       (osb_opts GROUP_INTEROPERATOR resourceType resourceId
         [(''namespaceId'', Some (JStr namespaceId)), (''finalizer'', Some (JStr FINALIZER_BROKER))] req)"

definition apiVersion :: "request \<Rightarrow> ('w, exn, 'w reply) promise" where
  "apiVersion req =
     (let version = to_js_string (jget_default (Some (headers req)) [''x-broker-api-version''] (JStr ''1.0'')) in
      if 0 \<le> compareVersions version SF_BROKER_API_VERSION_MIN then reject ContinueWithNext
      else reject (PreconditionFailed (Some (JStr (''At least Broker API version '' @ SF_BROKER_API_VERSION_MIN @ '' is required.'')))))"

definition getCatalog :: "'w broker \<Rightarrow> request \<Rightarrow> ('w, exn, 'w reply) promise" where
  "getCatalog br req =
     then_do (assert_ok (truthy (jprop (params req) ''platform'')) (AssertionError ''Platform is must while fetching catalog'')) (\<lambda>_.
     then_do (if truthy (conf (api br) [''apiserver'', ''isServiceDefinitionAvailableOnApiserver''])
              then loadCatalogFromAPIServer (api br) else resolve (catalog br)) (\<lambda>cat.
     then_do (of_sum (catalog_toJSON (getCatalogForPlatform cat (param req ''platform'')))) (\<lambda>servicePlans.
       resolve (Send HTTP_OK servicePlans))))"

section \<open>Dashboards\<close>

text \<open>\<open>encodeURI\<close>: all but the letters, the digits and the reserved and unreserved marks is written as the
  percent-encoded bytes of its UTF-8 form.\<close>

definition uri_unescaped :: "char \<Rightarrow> bool" where
  "uri_unescaped c \<longleftrightarrow> alnum c \<or> c \<in> set '';,/?:@&=+$-_.!~*()#'' \<or> c = CHR 39"

definition hex_upper :: "nat \<Rightarrow> char" where
  "hex_upper n = (if n < 10 then char_of (48 + n) else char_of (55 + n))"

definition encodeURI :: "string \<Rightarrow> string" where
  "encodeURI s = concat (map (\<lambda>c. if uri_unescaped c then [c]
     else concat (map (\<lambda>b. [CHR ''%'', hex_upper (b div 16), hex_upper (b mod 16)]) (utf8_encode [c]))) s)"

fun rx_word :: "string \<Rightarrow> rx" where
  "rx_word [] = REps"
| "rx_word (c # cs) = RSeq (RCls (\<lambda>d. d = c)) (rx_word cs)"

definition rx_plus :: "rx \<Rightarrow> rx" where
  "rx_plus r = RSeq r (RStar r)"

text \<open>The expression \<open>REGEX_PATTERN.URL\<close> has no anchors.\<close>

definition url_pattern :: rx where
  "url_pattern =
     RSeq (RAlt (rx_word ''ftp'') (RAlt (rx_word ''http'') (rx_word ''https'')))
       (RSeq (rx_word ''://'')
         (RSeq (ROpt (RSeq (rx_plus (RCls is_word)) (RSeq (ROpt (rx_word '':'')) (RSeq (RStar (RCls is_word)) (rx_word ''@'')))))
           (RSeq (rx_plus (RCls (\<lambda>c. \<not> is_space c)))
             (RSeq (ROpt (RSeq (rx_word '':'') (rx_plus (RCls is_digit))))
               (ROpt (RAlt (rx_word ''/'')
                 (RSeq (rx_word ''/'') (RCls (\<lambda>c. is_word c \<or> c \<in> set ''#!:.?+=&%@!-/'')))))))))"

definition is_url :: "string \<Rightarrow> bool" where
  "is_url s = rx_test (RSeq (RStar (RCls (\<lambda>_. True))) (RSeq url_pattern (RStar (RCls (\<lambda>_. True))))) s"

text \<open>\<open>url.format\<close> of an object with \<open>protocol\<close>, \<open>host\<close>, \<open>slashes\<close> and \<open>pathname\<close>.\<close>

definition formatUrl :: "string \<Rightarrow> string \<Rightarrow> string \<Rightarrow> string" where
  "formatUrl protocol host pathname =
     protocol @ (if ends_with protocol '':'' then [] else '':'') @ ''//'' @ host @
     (if is_prefix ''/'' pathname then [] else ''/'') @
     concat (map (\<lambda>c. if c = CHR ''?'' then ''%3F'' else if c = CHR ''#'' then ''%23'' else [c]) pathname)"

text \<open>The plan of a context is its object; a template sees the context with the plan in it.\<close>

definition getDashboardUrl :: "'w broker \<Rightarrow> json \<Rightarrow> exn + jsval" where
  "getDashboardUrl br context =
     (case jget (Some context) [''plan'', ''manager'', ''settings'', ''dashboard_url_template''] of
        Some t \<Rightarrow>
          (case utf8_decode (b64_decode (to_js_string t)) of
             None \<Rightarrow> Inl SyntaxError
           | Some urlTemplate \<Rightarrow>
               (case template br urlTemplate context of
                  Inl e \<Rightarrow> Inl e
                | Inr text' \<Rightarrow>
                    (let dashboardUrl = encodeURI text' in
                     if is_url dashboardUrl then Inr (Some (JStr dashboardUrl))
                     else Inl (UnprocessableEntity (Some (JStr
                       (''Unable to generate valid dashboard URL with the template '' @ squote urlTemplate))) []))))
      | None \<Rightarrow>
          (case (conf (api br) [''external'', ''protocol''], conf (api br) [''external'', ''host'']) of
             (Some protocol, Some host) \<Rightarrow>
               (case path_of (Some context) [''plan'', ''manager'', ''name''] of
                  None \<Rightarrow> Inl TypeError
                | Some name \<Rightarrow> Inr (Some (JStr (formatUrl (to_js_string protocol) (to_js_string host)
                    (''manage/dashboards/'' @ str_of name @ ''/instances/'' @ str_of (jprop context ''instance_id''))))))
           | _ \<Rightarrow> Inr (Some JNull)))"

definition plan_context :: "request \<Rightarrow> json \<Rightarrow> json" where
  "plan_context req plan = jput ''plan'' plan (jmerge (jmerge (JObj []) (params req)) (body req))"

definition scheduled_instance :: "'w broker \<Rightarrow> request \<Rightarrow> json \<Rightarrow> ('w, exn, json) promise" where
  "scheduled_instance br req context =
     (if jget (Some context) [''plan'', ''manager'', ''settings'', ''dashboard_url_template''] \<noteq> None
      then waitTillInstanceIsScheduled (poll_fuel br) (api br) (k8s_name br req ''instance_id'') None
      else resolve (JObj []))"

section \<open>Labels\<close>

text \<open>\<open>_.trim\<close> of a value: the text of it, and nothing for \<open>undefined\<close> and \<open>null\<close>.\<close>

definition trim_value :: "jsval \<Rightarrow> string" where
  "trim_value v = (case v of None \<Rightarrow> [] | Some JNull \<Rightarrow> [] | Some j \<Rightarrow> js_trim (to_js_string j))"

definition CONTEXT_LABELS :: "string list" where
  "CONTEXT_LABELS = [''platform'', ''organization_guid'', ''space_guid'', ''origin'', ''subaccount_id'']"

definition namespace_label :: "'w env \<Rightarrow> (string \<times> string) list" where
  "namespace_label env =
     (if truthy (conf env [''sf_namespace'']) then [(NAMESPACE_LABEL_KEY, trim_value (conf env [''sf_namespace'']))] else [])"

definition instance_labels :: "'w env \<Rightarrow> request \<Rightarrow> (string \<times> string) list" where
  "instance_labels env req =
     (let ps = body req; context = jprop ps ''context'' in
      [(''plan_id'', trim_value (jprop ps ''plan_id'')), (''service_id'', trim_value (jprop ps ''service_id''))] @
      List.map_filter (\<lambda>k. map_option (\<lambda>v. (k, trim_value (Some v))) (jget context [k])) CONTEXT_LABELS @
      namespace_label env @
      (if truthy (jprop (params req) ''region'') then [(''region'', param req ''region'')] else []))"

fun check_labels :: "(string \<times> string) list \<Rightarrow> exn + unit" where
  "check_labels [] = Inr ()"
| "check_labels ((k, v) # kvs) =
     (if isValidKubernetesLabelValue v then check_labels kvs
      else Inl (BadRequest (Some (JStr (''Parameter '' @ k @ '' value '' @ [CHR 34] @ v @ [CHR 34] @ '' must be a valid label value'')))))"

definition labels_json :: "(string \<times> string) list \<Rightarrow> json" where
  "labels_json kvs = JObj (map (\<lambda>(k, v). (k, JStr v)) kvs)"

section \<open>Service instances\<close>

definition is_async :: "string \<Rightarrow> json \<Rightarrow> exn + bool" where
  "is_async k plan = (case path_of (Some plan) [''manager'', k] of None \<Rightarrow> Inl TypeError | Some v \<Rightarrow> Inr (truthy v))"

definition instance_status_opts :: "'w broker \<Rightarrow> request \<Rightarrow> string \<Rightarrow> int \<Rightarrow> json" where
  "instance_status_opts br req start_state t =
     (let i = k8s_name br req ''instance_id'' in
      osb_opts GROUP_INTEROPERATOR TYPE_SERVICEINSTANCES i
        [(''namespaceId'', Some (JStr (getNamespaceId (api br) i))), (''start_state'', Some (JStr start_state)),
         (''started_at'', Some (JNum t))] req)"

text \<open>The wait for the end of a synchronous operation.\<close>

definition wait_for_instance :: "'w broker \<Rightarrow> request \<Rightarrow> string \<Rightarrow> ('w, exn, json) promise" where
  "wait_for_instance br req start_state =
     then_do (ask (now (api br))) (\<lambda>t.
       getOSBResourceOperationStatus (poll_fuel br) (api br) (instance_status_opts br req start_state t))"

definition create_instance_opts :: "'w broker \<Rightarrow> request \<Rightarrow> json" where
  "create_instance_opts br req =
     osb_opts GROUP_INTEROPERATOR TYPE_SERVICEINSTANCES (k8s_name br req ''instance_id'')
       [(''metadata'', Some (obj [(''finalizers'', Some (JArr [JStr FINALIZER_BROKER]))])),
        (''labels'', Some (labels_json (instance_labels (api br) req))),
        (''spec'', Some (case jprop (params req) ''instance_id'' of None \<Rightarrow> body req | Some i \<Rightarrow> jput ''instance_id'' i (body req))),
        (''status'', Some (state_of STATE_IN_QUEUE))] req"

definition put_done :: "'w broker \<Rightarrow> json \<Rightarrow> json \<Rightarrow> bool \<Rightarrow> ('w, exn, 'w reply) promise" where
  "put_done br context sfserviceinstance async =
     then_do (of_sum (getDashboardUrl br (jput ''instance'' sfserviceinstance context))) (\<lambda>dashboardUrl.
       let dashboard = (if truthy dashboardUrl then [(''dashboard_url'', dashboardUrl)] else []) in
       if async
       then resolve (Send HTTP_ACCEPTED (obj (dashboard @ [(''operation'', Some (operation_token [(''type'', Some (JStr ''create''))]))])))
       else resolve (Send HTTP_CREATED (obj dashboard)))"

definition putInstance :: "'w broker \<Rightarrow> request \<Rightarrow> ('w, exn, 'w reply) promise" where
  "putInstance br req =
     then_do (of_sum (getPlan (catalog br) (jprop (body req) ''plan_id''))) (\<lambda>(_, plan).
     then_do (of_sum (check_labels (instance_labels (api br) req))) (\<lambda>_.
       let context = plan_context req plan in
       catch_on
         (then_do (createNamespace (api br) (getNamespaceId (api br) (k8s_name br req ''instance_id''))) (\<lambda>_.
          then_do (createOSBResource (api br) (create_instance_opts br req)) (\<lambda>_.
          then_do (of_sum (is_async ''async'' plan)) (\<lambda>async.
          then_do (if async then resolve JNull else wait_for_instance br req STATE_IN_QUEUE) (\<lambda>_.
          then_do (scheduled_instance br req context) (\<lambda>sfserviceinstance.
            put_done br context sfserviceinstance async))))))
         (instanceof CConflict) (\<lambda>_. resolve (Send HTTP_CONFLICT (JObj [])))))"

definition isUpdatePossible :: "service \<Rightarrow> json \<Rightarrow> jsval \<Rightarrow> exn + bool" where
  "isUpdatePossible sv plan previousPlanId =
     (case find (\<lambda>p. jprop p ''id'' = previousPlanId) (sv_plans sv) of
        None \<Rightarrow> Inl TypeError
      | Some previousPlan \<Rightarrow>
          if plan = previousPlan then Inr True
          else (case path_of (Some plan) [''manager'', ''settings'', ''update_predecessors''] of
                  None \<Rightarrow> Inl TypeError
                | Some ps \<Rightarrow> Inr (previousPlanId \<in> Some ` set (elems_of ps))))"

definition patch_labels :: "request \<Rightarrow> (string \<times> string) list" where
  "patch_labels req = (if truthy (jprop (params req) ''region'') then [(''region'', param req ''region'')] else [])"

text \<open>The status that is polled after an update: with a service flow it is the resource of type
  \<open>serialserviceflows\<close> that has the name of the instance.\<close>

definition update_status_opts :: "'w broker \<Rightarrow> request \<Rightarrow> int \<Rightarrow> json" where
  "update_status_opts br req t =
     (let opts = instance_status_opts br req STATE_UPDATE t in
      case serviceFlow req of
        None \<Rightarrow> opts
      | Some _ \<Rightarrow> jomit [''namespaceId'']
          (jput ''resourceType'' (JStr TYPE_SERIAL_SERVICE_FLOW) (jput ''resourceGroup'' (JStr GROUP_SERVICE_FLOW) opts)))"

definition start_update :: "'w broker \<Rightarrow> request \<Rightarrow> ('w, exn, json) promise" where
  "start_update br req =
     (case serviceFlow req of
        Some (flow_id, flow_name) \<Rightarrow>
          then_do (assert_ok (flow_id \<noteq> []) (AssertionError ''Service Flow Id is mandatory and must be set in BaseController'')) (\<lambda>_.
            createResource (api br)
              (osb_opts GROUP_SERVICE_FLOW TYPE_SERIAL_SERVICE_FLOW (getKubernetesName (sha224Sum br) flow_id)
                [(''options'', Some (obj [(''serviceflow_name'', Some (JStr flow_name)),
                    (''instance_id'', jprop (params req) ''instance_id''), (''operation_params'', Some (body req)),
                    (''user'', user req)])),
                 (''status'', Some (obj [(''state'', Some (JStr STATE_IN_QUEUE)), (''response'', Some (JObj []))]))] req))
      | None \<Rightarrow>
          patchOSBResource (api br)
            (osb_opts GROUP_INTEROPERATOR TYPE_SERVICEINSTANCES (k8s_name br req ''instance_id'')
              [(''labels'', if patch_labels req = [] then None else Some (labels_json (patch_labels req))),
               (''spec'', Some (case jprop (params req) ''instance_id'' of None \<Rightarrow> body req | Some i \<Rightarrow> jput ''instance_id'' i (body req))),
               (''status'', Some (obj [(''state'', Some (JStr STATE_UPDATE)), (''description'', Some (JStr []))]))] req))"

definition update_operation :: "request \<Rightarrow> json" where
  "update_operation req =
     operation_token ([(''type'', Some (JStr ''update''))] @
       (case serviceFlow req of
          None \<Rightarrow> []
        | Some (flow_id, flow_name) \<Rightarrow>
            [(''serviceflow_name'', Some (JStr flow_name)), (''serviceflow_id'', Some (JStr flow_id))]))"

definition patch_done :: "'w broker \<Rightarrow> request \<Rightarrow> json \<Rightarrow> json \<Rightarrow> bool \<Rightarrow> ('w, exn, 'w reply) promise" where
  "patch_done br req context sfserviceinstance async =
     then_do (of_sum (getDashboardUrl br (jput ''instance'' sfserviceinstance context))) (\<lambda>dashboardUrl.
       if async
       then resolve (Send HTTP_ACCEPTED (obj [(''dashboard_url'', dashboardUrl), (''operation'', Some (update_operation req))]))
       else resolve (Send HTTP_OK (obj [(''dashboard_url'', dashboardUrl)])))"

definition patchInstance :: "'w broker \<Rightarrow> request \<Rightarrow> ('w, exn, 'w reply) promise" where
  "patchInstance br req =
     then_do (of_sum (getPlan (catalog br) (jprop (body req) ''plan_id''))) (\<lambda>(sv, plan).
     then_do (of_sum (check_labels (patch_labels req))) (\<lambda>_.
     then_do (ask (now (api br))) (\<lambda>started_at.
     then_do (deref (Some (body req)) [''previous_values'', ''plan_id'']) (\<lambda>previousPlanId.
     then_do (of_sum (isUpdatePossible sv plan previousPlanId)) (\<lambda>possible.
     then_do (assert_ok possible (BadRequest (Some (JStr (''Update to plan '' @ squote (str_of (jprop plan ''name'')) @ '' is not possible''))))) (\<lambda>_.
     then_do (start_update br req) (\<lambda>_.
     then_do (of_sum (is_async ''async'' plan)) (\<lambda>async.
     then_do (if async then resolve JNull
              else getOSBResourceOperationStatus (poll_fuel br) (api br) (update_status_opts br req started_at)) (\<lambda>_.
     then_do (scheduled_instance br req (plan_context req plan)) (\<lambda>sfserviceinstance.
       patch_done br req (plan_context req plan) sfserviceinstance async))))))))))"

definition delete_done :: "'w broker \<Rightarrow> string \<Rightarrow> string \<Rightarrow> string \<Rightarrow> request \<Rightarrow> bool \<Rightarrow> ('w, exn, 'w reply) promise" where
  "delete_done br resourceType resourceId namespaceId req async =
     (if async
      then resolve (Send HTTP_ACCEPTED (obj [(''operation'', Some (operation_token [(''type'', Some (JStr ''delete''))]))]))
      else then_do (removeFinalizersFromOSBResource br resourceType resourceId namespaceId req)
             (\<lambda>_. resolve (Send HTTP_OK (JObj []))))"

definition deleteInstance :: "'w broker \<Rightarrow> request \<Rightarrow> ('w, exn, 'w reply) promise" where
  "deleteInstance br req =
     (let i = k8s_name br req ''instance_id'' in
      then_do (of_sum (getPlan (catalog br) (jprop (query req) ''plan_id''))) (\<lambda>(_, plan).
      catch_on
        (then_do (deleteResource (api br) (osb_opts GROUP_INTEROPERATOR TYPE_SERVICEINSTANCES i [] req)) (\<lambda>_.
         then_do (patchOSBResource (api br)
             (osb_opts GROUP_INTEROPERATOR TYPE_SERVICEINSTANCES i
               [(''status'', Some (obj [(''state'', Some (JStr STATE_DELETE)), (''description'', Some (JStr []))]))] req)) (\<lambda>_.
         then_do (of_sum (is_async ''async'' plan)) (\<lambda>async.
         then_do (if async then resolve JNull else wait_for_instance br req STATE_DELETE) (\<lambda>_.
           delete_done br TYPE_SERVICEINSTANCES i (getNamespaceId (api br) i) req async)))))
        (instanceof CNotFound) (\<lambda>_. resolve (Send HTTP_GONE (JObj [])))))"

section \<open>Last operations\<close>

definition decode_operation :: "request \<Rightarrow> exn + json" where
  "decode_operation req =
     (case jprop (query req) ''operation'' of
        None \<Rightarrow> Inr (JObj [])
      | Some t \<Rightarrow> (case decodeBase64 (to_js_string t) of None \<Rightarrow> Inl SyntaxError | Some j \<Rightarrow> Inr j))"

definition shown_state :: "jsval \<Rightarrow> jsval" where
  "shown_state st =
     (if st \<in> (Some \<circ> JStr) ` {STATE_IN_PROGRESS, STATE_IN_QUEUE, STATE_DELETE} then Some (JStr OPERATION_IN_PROGRESS) else st)"

definition not_false :: "jsval \<Rightarrow> json" where
  "not_false v = JBool (\<not> (v = Some (JStr ''false'') \<or> v = Some (JBool False)))"

definition last_operation_body :: "json \<Rightarrow> jsval \<Rightarrow> json" where
  "last_operation_body operation result =
     (let type' = jprop operation ''type'';
          st = shown_state (jget result [''state'']);
          failed = (st = Some (JStr STATE_FAILED)) in
      obj ([(''state'', st), (''description'', jget result [''description''])] @
        (if type' = Some (JStr ''update'') \<and> failed
         then [(''instance_usable'', Some (not_false (jget result [''instanceUsable'']))),
               (''update_repeatable'', Some (not_false (jget result [''updateRepeatable''])))] else []) @
        (if type' = Some (JStr ''delete'') \<and> failed
         then [(''instance_usable'', Some (not_false (jget result [''instanceUsable''])))] else [])))"

text \<open>The answer once the body is known: the finalizer goes when a deletion has succeeded.\<close>

definition last_operation_done :: "'w broker \<Rightarrow> request \<Rightarrow> json \<Rightarrow> string \<Rightarrow> string \<Rightarrow> string \<Rightarrow> string \<Rightarrow> json \<Rightarrow> ('w, exn, 'w reply) promise" where
  "last_operation_done br req operation resourceGroup resourceType resourceId namespaceId b =
     then_do (if jprop operation ''type'' = Some (JStr ''delete'') \<and> jprop b ''state'' = Some (JStr STATE_SUCCEEDED) \<and>
                 resourceGroup = GROUP_INTEROPERATOR
              then removeFinalizersFromOSBResource br resourceType resourceId namespaceId req else resolve JNull)
       (\<lambda>_. resolve (Send HTTP_OK b))"

definition last_operation_not_found :: "string \<Rightarrow> json \<Rightarrow> exn \<Rightarrow> ('w, exn, 'w reply) promise" where
  "last_operation_not_found guid operation err =
     (if jprop operation ''type'' = Some (JStr ''delete'') then resolve (Send HTTP_GONE (JObj []))
      else resolve (Send HTTP_OK (obj [(''state'', Some (JStr STATE_FAILED)),
        (''description'', Some (JStr (squote guid @ '' failed because '' @ [CHR 34] @ message_of err @ [CHR 34])))])))"

definition getLastInstanceOperation :: "'w broker \<Rightarrow> request \<Rightarrow> ('w, exn, 'w reply) promise" where
  "getLastInstanceOperation br req =
     then_do (of_sum (decode_operation req)) (\<lambda>operation.
     then_do (deref (Some operation) [''serviceflow_id'']) (\<lambda>flow_id.
       let flow = truthy flow_id;
           resourceGroup = (if flow then GROUP_SERVICE_FLOW else GROUP_INTEROPERATOR);
           resourceType = (if flow then TYPE_SERIAL_SERVICE_FLOW else TYPE_SERVICEINSTANCES);
           resourceId = getKubernetesName (sha224Sum br) (if flow then str_of flow_id else param req ''instance_id'');
           namespaceId = getNamespaceId (api br) resourceId in
       catch_on
         (then_do (getLastOperation (api br)
              (osb_opts resourceGroup resourceType resourceId
                [(''namespaceId'', if flow then None else Some (JStr namespaceId))] req)) (\<lambda>result.
            last_operation_done br req operation resourceGroup resourceType resourceId namespaceId
              (last_operation_body operation result)))
         (instanceof CNotFound) (last_operation_not_found (param req ''instance_id'') operation)))"

definition binding_operation_body :: "jsval \<Rightarrow> json" where
  "binding_operation_body result =
     obj [(''state'', shown_state (jget result [''state''])), (''description'', jget result [''description''])]"

definition getLastBindingOperation :: "'w broker \<Rightarrow> request \<Rightarrow> ('w, exn, 'w reply) promise" where
  "getLastBindingOperation br req =
     then_do (of_sum (decode_operation req)) (\<lambda>operation.
       let namespaceId = getNamespaceId (api br) (param req ''instance_id'');
           resourceId = k8s_name br req ''binding_id'' in
       catch_on
         (then_do (getLastOperation (api br)
              (osb_opts GROUP_INTEROPERATOR TYPE_SERVICEBINDINGS resourceId [(''namespaceId'', Some (JStr namespaceId))] req)) (\<lambda>result.
            last_operation_done br req operation GROUP_INTEROPERATOR TYPE_SERVICEBINDINGS resourceId namespaceId
              (binding_operation_body result)))
         (instanceof CNotFound) (last_operation_not_found (param req ''binding_id'') operation))"

section \<open>Service bindings\<close>

definition binding_params :: "'w broker \<Rightarrow> request \<Rightarrow> json \<Rightarrow> json" where
  "binding_params br req source =
     jput ''instance_id'' (JStr (k8s_name br req ''instance_id''))
       ((case jprop (params req) ''binding_id'' of None \<Rightarrow> id | Some i \<Rightarrow> jput ''id'' i)
         (jput ''binding_id'' (JStr (k8s_name br req ''binding_id'')) source))"

definition binding_namespace :: "'w broker \<Rightarrow> request \<Rightarrow> string" where
  "binding_namespace br req = getNamespaceId (api br) (k8s_name br req ''instance_id'')"

definition binding_opts :: "'w broker \<Rightarrow> request \<Rightarrow> (string \<times> jsval) list \<Rightarrow> json" where
  "binding_opts br req extra =
     osb_opts GROUP_INTEROPERATOR TYPE_SERVICEBINDINGS (k8s_name br req ''binding_id'') extra req"

definition binding_labels :: "'w broker \<Rightarrow> request \<Rightarrow> (string \<times> string) list" where
  "binding_labels br req = (''instance_guid'', js_trim (k8s_name br req ''instance_id'')) # namespace_label (api br)"

definition binding_status_opts :: "'w broker \<Rightarrow> request \<Rightarrow> string \<Rightarrow> int \<Rightarrow> json" where
  "binding_status_opts br req start_state t =
     binding_opts br req
       [(''namespaceId'', Some (JStr (binding_namespace br req))), (''start_state'', Some (JStr start_state)),
        (''started_at'', Some (JNum t)), (''timeout_in_sec'', Some (JNum OSB_SYNC_OPERATION_TIMEOUT_IN_SEC))]"

definition wait_for_binding :: "'w broker \<Rightarrow> request \<Rightarrow> string \<Rightarrow> ('w, exn, json) promise" where
  "wait_for_binding br req start_state =
     then_do (ask (now (api br))) (\<lambda>t.
       getOSBResourceOperationStatus (poll_fuel br) (api br) (binding_status_opts br req start_state t))"

definition text_or_empty :: "jsval \<Rightarrow> string" where
  "text_or_empty v = (if truthy v then str_of v else [])"

text \<open>The response of the binding, base64 in the secret.\<close>

definition secret_response :: "'w env \<Rightarrow> jsval \<Rightarrow> string \<Rightarrow> ('w, exn, json) promise" where
  "secret_response env secretName namespaceId =
     then_do (getSecret env (text_or_empty secretName) namespaceId) (\<lambda>secret.
     then_do (deref secret [''data'', ''response'']) (\<lambda>response.
       case decodeBase64 (str_of response) of None \<Rightarrow> reject SyntaxError | Some j \<Rightarrow> resolve j))"

definition bind_done :: "'w env \<Rightarrow> json \<Rightarrow> jsval \<Rightarrow> 'w reply" where
  "bind_done env response st =
     (if st = Some (JStr STATE_FAILED) then Send HTTP_INTERNAL_SERVER_ERROR response
      else Send HTTP_CREATED
        (if jget_default (Some (config env)) [''sendBindingMetadata''] (JBool True) = JBool False
         then jomit [''metadata''] response else response))"

text \<open>The work left behind when a synchronous binding has timed out: the binding is deleted.\<close>

definition orphan_binding :: "'w broker \<Rightarrow> request \<Rightarrow> ('w, exn, json) promise" where
  "orphan_binding br req =
     (let ns = [(''namespaceId'', Some (JStr (binding_namespace br req)))] in
      catch_on
        (then_do (deleteResource (api br) (binding_opts br req ns)) (\<lambda>_.
         then_do (updateOSBResource (api br) (binding_opts br req (ns @ [(''status'', Some (state_of STATE_DELETE))]))) (\<lambda>_.
         then_do (ask (now (api br))) (\<lambda>t.
         then_do (getResourceOperationStatus (poll_fuel br) (api br) (binding_status_opts br req STATE_DELETE t)) (\<lambda>_.
           removeFinalizersFromOSBResource br TYPE_SERVICEBINDINGS (k8s_name br req ''binding_id'') (binding_namespace br req) req)))))
        any_error (\<lambda>_. resolve JNull))"

definition create_binding_opts :: "'w broker \<Rightarrow> request \<Rightarrow> json" where
  "create_binding_opts br req =
     binding_opts br req
       [(''metadata'', Some (obj [(''finalizers'', Some (JArr [JStr FINALIZER_BROKER]))])),
        (''labels'', Some (labels_json (binding_labels br req))),
        (''spec'', Some (binding_params br req (body req))),
        (''status'', Some (state_of STATE_IN_QUEUE))]"

definition bind_reply :: "'w broker \<Rightarrow> request \<Rightarrow> bool \<Rightarrow> json \<Rightarrow> ('w, exn, 'w reply) promise" where
  "bind_reply br req async operationStatus =
     (if async
      then resolve (Send HTTP_ACCEPTED (obj [(''operation'', Some (operation_token [(''type'', Some (JStr ''create''))]))]))
      else then_do (secret_response (api br) (jget (Some operationStatus) [''response'', ''secretRef'']) (binding_namespace br req))
             (\<lambda>response. resolve (bind_done (api br) response (jprop operationStatus ''state''))))"

definition putBinding :: "'w broker \<Rightarrow> request \<Rightarrow> ('w, exn, 'w reply) promise" where
  "putBinding br req =
     then_do (of_sum (getPlan (catalog br) (jprop (body req) ''plan_id''))) (\<lambda>(_, plan).
     then_do (of_sum (check_labels (binding_labels br req))) (\<lambda>_.
       catch_on (catch_on
         (then_do (createOSBResource (api br) (create_binding_opts br req)) (\<lambda>_.
          then_do (of_sum (is_async ''asyncBinding'' plan)) (\<lambda>async.
          then_do (if async then resolve JNull else wait_for_binding br req STATE_IN_QUEUE) (\<lambda>operationStatus.
            bind_reply br req async operationStatus))))
         (instanceof CConflict) (\<lambda>_. resolve (Send HTTP_CONFLICT (JObj []))))
         (instanceof CTimeout) (\<lambda>_. resolve (SendAndRun HTTP_TOO_MANY_REQUESTS (JObj []) (orphan_binding br req)))))"

definition deleteBinding :: "'w broker \<Rightarrow> request \<Rightarrow> ('w, exn, 'w reply) promise" where
  "deleteBinding br req =
     (let ns = [(''namespaceId'', Some (JStr (binding_namespace br req)))] in
      then_do (of_sum (getPlan (catalog br) (jprop (query req) ''plan_id''))) (\<lambda>(_, plan).
      catch_on (catch_on
        (then_do (deleteResource (api br) (binding_opts br req ns)) (\<lambda>_.
         then_do (updateOSBResource (api br) (binding_opts br req (ns @ [(''status'', Some (state_of STATE_DELETE))]))) (\<lambda>_.
         then_do (of_sum (is_async ''asyncBinding'' plan)) (\<lambda>async.
         then_do (if async then resolve JNull else wait_for_binding br req STATE_DELETE) (\<lambda>_.
           delete_done br TYPE_SERVICEBINDINGS (k8s_name br req ''binding_id'') (binding_namespace br req) req async)))))
        (instanceof CNotFound) (\<lambda>_. resolve (Send HTTP_GONE (JObj []))))
        (instanceof CTimeout) (\<lambda>_. resolve (Send HTTP_TOO_MANY_REQUESTS (JObj [])))))"

section \<open>Fetching\<close>

definition concurrency_error :: "string \<Rightarrow> exn" where
  "concurrency_error message = UnprocessableEntity (Some (JStr message)) ''ConcurrencyError''"

text \<open>The state of an instance that is not to be shown, as the error it is answered with.\<close>

definition fetch_refusal :: "json \<Rightarrow> exn option" where
  "fetch_refusal resource =
     (let st = jget (Some resource) [''status'', ''state''];
          lastOperation = jget_default (Some resource) [''metadata'', ''labels'', LASTOPERATION_LABEL_KEY] (JStr []) in
      if st = Some (JStr STATE_IN_QUEUE) then Some (NotFound (Some (JStr ''Service Instance not found'')))
      else if st = Some (JStr STATE_UPDATE)
      then Some (concurrency_error ''Service Instance is being updated and therefore cannot be fetched at this time'')
      else if st = Some (JStr STATE_DELETE)
      then Some (concurrency_error ''Service Instance is being deleted and therefore cannot be fetched at this time'')
      else if st = Some (JStr OPERATION_IN_PROGRESS) \<or> st = Some (JStr STATE_IN_PROGRESS) then
        (if lastOperation = JStr STATE_IN_QUEUE then Some (NotFound (Some (JStr ''Service Instance not found'')))
         else if lastOperation = JStr STATE_UPDATE
         then Some (concurrency_error ''Service Instance updation is in progress and therefore cannot be fetched at this time'')
         else if lastOperation = JStr STATE_DELETE
         then Some (concurrency_error ''Service Instance deletion is in progress and therefore cannot be fetched at this time'')
         else Some (concurrency_error (''Service Instance cannot be fetched:lastOperation: '' @ to_js_string lastOperation)))
      else None)"

text \<open>The parameters a plan lets be fetched; names in the list are names of members.\<close>

definition fetched_parameters :: "json \<Rightarrow> json \<Rightarrow> jsval" where
  "fetched_parameters plan resource =
     (let ps = jget (Some resource) [''spec'', ''parameters''];
          allowed = jget (Some plan) [''metadata'', ''retrievableParametersList''] in
      if is_empty allowed then ps
      else (case allowed of
              Some (JArr ks) \<Rightarrow> Some (jpick (map to_js_string ks) (case ps of None \<Rightarrow> JObj [] | Some p \<Rightarrow> p))
            | _ \<Rightarrow> None))"

definition fetched_instance :: "'w broker \<Rightarrow> request \<Rightarrow> json \<Rightarrow> exn + json" where
  "fetched_instance br req resource =
     (case getPlan (catalog br) (jget (Some resource) [''spec'', ''planId'']) of
        Inl e \<Rightarrow> Inl e
      | Inr (_, plan) \<Rightarrow>
          map_sum id (\<lambda>dashboardUrl.
            obj ((if truthy dashboardUrl then [(''dashboard_url'', dashboardUrl)] else []) @
              [(''service_id'', jget (Some resource) [''spec'', ''serviceId'']),
               (''plan_id'', jget (Some resource) [''spec'', ''planId'']),
               (''metadata'', jget (Some resource) [''spec'', ''metadata'']),
               (''parameters'', fetched_parameters plan resource)]))
            (getDashboardUrl br (obj [(''plan'', Some plan), (''instance_id'', jprop (params req) ''instance_id'')])))"

text \<open>An instance in another state is not answered at all.\<close>

definition fetch_instance :: "'w broker \<Rightarrow> request \<Rightarrow> json \<Rightarrow> ('w, exn, 'w reply) promise" where
  "fetch_instance br req resource =
     then_do (of_sum (getService (catalog br) (jget (Some resource) [''spec'', ''serviceId'']))) (\<lambda>sv.
       if \<not> truthy (jprop (sv_options sv) ''instances_retrievable'')
       then reject (BadRequest (Some (JStr ''Service does not support instance retrieval'')))
       else case fetch_refusal resource of
              Some e \<Rightarrow> reject e
            | None \<Rightarrow>
                if jget (Some resource) [''status'', ''state''] \<in> (Some \<circ> JStr) ` {STATE_SUCCEEDED, STATE_FAILED}
                then then_do (of_sum (fetched_instance br req resource)) (\<lambda>b. resolve (Send HTTP_OK b))
                else resolve NoReply)"

definition getServiceInstance :: "'w broker \<Rightarrow> request \<Rightarrow> ('w, exn, 'w reply) promise" where
  "getServiceInstance br req =
     catch_on (catch_on (catch_on
       (then_do (getResource (api br)
            (osb_opts GROUP_INTEROPERATOR TYPE_SERVICEINSTANCES (k8s_name br req ''instance_id'') [] req))
          (fetch_instance br req))
       (instanceof CBadRequest) (\<lambda>_. resolve (Send HTTP_BAD_REQUEST (JObj []))))
       (instanceof CNotFound) (\<lambda>_. resolve (Send HTTP_NOT_FOUND (JObj []))))
       (instanceof CUnprocessableEntity) (\<lambda>err. resolve (Send HTTP_UNPROCESSABLE_ENTITY
          (obj [(''error'', err_prop err ''reason''), (''description'', Some (JStr (message_of err)))])))"

text \<open>The resource of a binding is looked up under the identifiers of the request as they are.\<close>

definition fetch_binding :: "'w broker \<Rightarrow> request \<Rightarrow> json \<Rightarrow> ('w, exn, 'w reply) promise" where
  "fetch_binding br req resource =
     then_do (of_sum (getService (catalog br) (jget (Some resource) [''spec'', ''serviceId'']))) (\<lambda>sv.
       if \<not> truthy (jprop (sv_options sv) ''bindings_retrievable'')
       then reject (BadRequest (Some (JStr ''Service does not support binding retrieval'')))
       else then_do (of_sum (getPlan (catalog br) (jget (Some resource) [''spec'', ''planId'']))) (\<lambda>(_, plan).
         let bindable = (case jprop plan ''bindable'' of
                           Some b \<Rightarrow> Some b
                         | None \<Rightarrow> Some (jget_default (Some (sv_options sv)) [''bindable''] (JBool False))) in
         if \<not> truthy bindable then reject (BadRequest (Some (JStr ''Service plan is not bindable'')))
         else if jget (Some resource) [''status'', ''state''] = Some (JStr STATE_SUCCEEDED)
         then then_do (secret_response (api br) (jget (Some resource) [''status'', ''response'', ''secretRef''])
                         (getNamespaceId (api br) (param req ''instance_id'')))
                (\<lambda>response. resolve (Send HTTP_OK
                   (jmerge (obj [(''parameters'', jget (Some resource) [''spec'', ''parameters''])]) response)))
         else reject (NotFound (Some (JStr (''Service binding not found with status '' @
                str_of (jget (Some resource) [''status'', ''state''])))))))"

definition getServiceBinding :: "'w broker \<Rightarrow> request \<Rightarrow> ('w, exn, 'w reply) promise" where
  "getServiceBinding br req =
     catch_on (catch_on
       (then_do (getResource (api br)
            (osb_opts GROUP_INTEROPERATOR TYPE_SERVICEBINDINGS (param req ''binding_id'')
              [(''namespaceId'', Some (JStr (getNamespaceId (api br) (param req ''instance_id''))))] req))
          (fetch_binding br req))
       (instanceof CBadRequest) (\<lambda>_. resolve (Send HTTP_BAD_REQUEST (JObj []))))
       (instanceof CNotFound) (\<lambda>_. resolve (Send HTTP_NOT_FOUND (JObj [])))"

end
