(* ===== verification/Broker_Routes.thy ===== *)
theory Broker_Routes
  imports Broker LockManager
begin

text \<open>
  The way of a request to its handler: the middleware of \<open>osb-broker/src/api-controllers/middleware\<close> and
  \<open>express-commons/src/middleware\<close>, the wrappers of \<open>core/controllers/src\<close> (\<open>BaseController.handler\<close> and
  \<open>FabrikBaseController.handleWithResourceLocking\<close>, which takes the lock of the instance around a handler),
  the choice of a service flow, and the routes of \<open>routes/broker/v2.js\<close>. A middleware is a promise of the
  request it passes on; its rejection is the error it throws or gives to \<open>next\<close>. Ajv, the quota service
  behind axios and the random identifiers are parameters (\<open>gateway\<close>).
\<close>

record 'w gateway =
  broker_of :: "'w broker"
  ajv :: "string list \<Rightarrow> json \<Rightarrow> json \<Rightarrow> exn + (string \<times> string) list"
  axios :: "'w http"
  uuidV4 :: "('w, exn, string) promise"
  in_pod :: bool

type_synonym 'w middleware = "request \<Rightarrow> ('w, exn, request) promise"

definition plan_id_of :: "request \<Rightarrow> jsval" where
  "plan_id_of req = or_else (jprop (body req) ''plan_id'') (jprop (query req) ''plan_id'')"

definition getPlanFromRequest :: "'w broker \<Rightarrow> request \<Rightarrow> exn + service \<times> json" where
  "getPlanFromRequest br req = getPlan (catalog br) (plan_id_of req)"

section \<open>Validation\<close>

definition validateCreateRequest :: "'w middleware" where
  "validateCreateRequest req =
     (if \<not> truthy (jprop (body req) ''space_guid'') \<or> \<not> truthy (jprop (body req) ''organization_guid'')
      then reject (BadRequest (Some (JStr ''This request is missing mandatory organization guid and/or space guid.'')))
      else resolve req)"

definition validateMaintenanceInfoInRequest :: "'w broker \<Rightarrow> 'w middleware" where
  "validateMaintenanceInfoInRequest br req =
     (let v = jget_default (Some (body req)) [''maintenance_info'', ''version''] (JStr []) in
      if v = JStr [] then resolve req
      else then_do (of_sum (getPlanFromRequest br req)) (\<lambda>(_, plan).
        if \<not> is_empty (jprop plan ''maintenance_info'') \<and>
           Some (to_js_string v) \<noteq> map_option to_js_string (jget (Some plan) [''maintenance_info'', ''version''])
        then reject (UnprocessableEntity (Some (JStr ''The maintenance information for the requested Service Plan has changed.''))
               ''MaintenanceInfoConflict'')
        else resolve req))"

definition isPlanDeprecated :: "'w broker \<Rightarrow> 'w middleware" where
  "isPlanDeprecated br req =
     then_do (of_sum (getPlan (catalog br) (jprop (body req) ''plan_id''))) (\<lambda>(_, plan).
       if jget_default (Some plan) [''metadata'', ''state''] (JStr ''active'') = JStr ''deprecated''
       then reject (Forbidden (Some (JStr ''Service instance with the requested plan cannot be created as it is deprecated.'')))
       else resolve req)"

definition accepts_incomplete :: "request \<Rightarrow> bool" where
  "accepts_incomplete req \<longleftrightarrow> jget_default (Some (query req)) [''accepts_incomplete''] (JStr ''false'') = JStr ''true''"

definition validateInstanceRequest :: "'w broker \<Rightarrow> 'w middleware" where
  "validateInstanceRequest br req =
     then_do (of_sum (getPlanFromRequest br req)) (\<lambda>(_, plan).
     then_do (of_sum (is_async ''async'' plan)) (\<lambda>async.
       if async \<and> \<not> accepts_incomplete req
       then reject (UnprocessableEntity (Some (JStr ''This request requires client support for asynchronous service operations.'')) ''AsyncRequired'')
       else resolve req))"

definition validateBindingRequest :: "'w broker \<Rightarrow> 'w middleware" where
  "validateBindingRequest br req =
     then_do (of_sum (getPlanFromRequest br req)) (\<lambda>(_, plan).
     then_do (of_sum (is_async ''asyncBinding'' plan)) (\<lambda>async.
       if async \<and> \<not> accepts_incomplete req
       then reject (UnprocessableEntity (Some (JStr ''This Service Instance requires client support for asynchronous binding operations.'')) ''AsyncRequired'')
       else resolve req))"

definition validateLastOperationRequest :: "'w middleware" where
  "validateLastOperationRequest req =
     (if is_empty (jprop (query req) ''operation'')
      then reject (BadRequest (Some (JStr ''This request is missing mandatory operation parameter.'')))
      else resolve req)"

definition meta_schemas :: "string \<Rightarrow> string list" where
  "meta_schemas schemaVersion =
     (if js_includes schemaVersion ''draft-06'' then [''draft-06'']
      else if js_includes schemaVersion ''draft-04'' then [''draft-04'']
      else if \<not> js_includes schemaVersion ''draft-07'' then [''draft-06'', ''draft-04'']
      else [])"

definition validateSchemaForRequest :: "'w gateway \<Rightarrow> string \<Rightarrow> string \<Rightarrow> 'w middleware" where
  "validateSchemaForRequest gw target operation' req =
     then_do (of_sum (getPlanFromRequest (broker_of gw) req)) (\<lambda>(_, plan).
       let schema = jget (Some plan) [''schemas'', target, operation', ''parameters''] in
       if truthy schema
       then then_do (of_sum (ajv gw (meta_schemas (text_or_empty (jget schema [''$schema'']))) (the schema)
                              (jget_default (Some (body req)) [''parameters''] (JObj [])))) (\<lambda>errors.
              if errors = [] then resolve req
              else reject (InvalidServiceParameters (Some (JStr (''Failed to validate service parameters, reason: '' @
                     js_join '', '' (map (\<lambda>(dataPath, message). dataPath @ '' '' @ message) errors))))))
       else resolve req)"

definition BUSY_STATES :: "string list" where
  "BUSY_STATES = [STATE_IN_QUEUE, STATE_IN_PROGRESS, OPERATION_IN_PROGRESS, STATE_UPDATE, STATE_DELETE]"

definition BUSY_BINDING_STATES :: "string list" where
  "BUSY_BINDING_STATES = [STATE_IN_QUEUE, OPERATION_IN_PROGRESS, STATE_IN_PROGRESS, STATE_DELETE]"

definition in_states :: "string list \<Rightarrow> json \<Rightarrow> bool" where
  "in_states states resource \<longleftrightarrow> jget (Some resource) [''status'', ''state''] \<in> (Some \<circ> JStr) ` set states"

definition another_operation :: exn where
  "another_operation = concurrency_error ''Another operation for this Service Instance is in progress.''"

definition instance_ref :: "'w broker \<Rightarrow> request \<Rightarrow> json" where
  "instance_ref br req =
     obj [(''resourceGroup'', Some (JStr GROUP_INTEROPERATOR)), (''resourceType'', Some (JStr TYPE_SERVICEINSTANCES)),
          (''resourceId'', Some (JStr (k8s_name br req ''instance_id'')))]"

definition validateConcurrentOperations :: "'w broker \<Rightarrow> 'w middleware" where
  "validateConcurrentOperations br req =
     (if conf (api br) [''allowConcurrentOperations''] = Some (JBool True) then resolve req
      else then_do (getResource (api br) (instance_ref br req)) (\<lambda>resource.
        if in_states BUSY_STATES resource then reject another_operation else resolve req))"

definition validateConcurrentBindingOperations :: "'w broker \<Rightarrow> 'w middleware" where
  "validateConcurrentBindingOperations br req =
     (if conf (api br) [''allowConcurrentBindingOperations''] = Some (JBool True) then resolve req
      else then_do (getResources (api br)
             (obj [(''resourceGroup'', Some (JStr GROUP_INTEROPERATOR)), (''resourceType'', Some (JStr TYPE_SERVICEBINDINGS)),
                   (''namespaceId'', Some (JStr (binding_namespace br req))),
                   (''query'', Some (obj [(''labelSelector'', Some (JStr (''instance_guid='' @ k8s_name br req ''instance_id'')))]))]))
           (\<lambda>resourcesList.
             if list_ex (in_states BUSY_BINDING_STATES) resourcesList then reject another_operation else resolve req))"

definition is_director_plan :: "json \<Rightarrow> exn + bool" where
  "is_director_plan plan =
     (case path_of (Some plan) [''manager'', ''name''] of None \<Rightarrow> Inl TypeError | Some n \<Rightarrow> Inr (n = Some (JStr ''director'')))"

definition checkBlockingOperationInProgress :: "'w broker \<Rightarrow> 'w middleware" where
  "checkBlockingOperationInProgress br req =
     then_do (of_sum (getPlanFromRequest br req)) (\<lambda>(_, plan).
     then_do (of_sum (is_director_plan plan)) (\<lambda>director.
       if director
       then then_do (checkWriteLockStatus (api br) (param req ''instance_id'')) (\<lambda>writeLockStatus.
              if truthy (jprop writeLockStatus ''isWriteLocked'')
              then then_do (deref (Some writeLockStatus) [''lockDetails'', ''lockedResourceDetails'', ''operation'']) (\<lambda>op.
                     reject (DeploymentAlreadyLocked (param req ''instance_id'') None
                       (Some (JStr (''Resource '' @ param req ''instance_id'' @ '' is write locked for '' @ str_of op @ '' at '' @
                          str_of (jget (Some writeLockStatus) [''lockDetails'', ''lockTime'']))))))
              else resolve req)
       else resolve req))"

definition minApiVersion :: "string \<Rightarrow> 'w middleware" where
  "minApiVersion minVersion req =
     (let version = to_js_string (jget_default (Some (headers req)) [''x-broker-api-version''] (JStr ''1.0'')) in
      if compareVersions version minVersion < 0
      then reject (PreconditionFailed (Some (JStr (''At least Broker API version '' @ minVersion @ '' is required.''))))
      else resolve req)"

text \<open>An error while the instance is read is only logged.\<close>

definition injectPlanInRequest :: "'w broker \<Rightarrow> 'w middleware" where
  "injectPlanInRequest br req =
     (if \<not> is_empty (plan_id_of req) then resolve req
      else catch_on
        (then_do (getResource (api br) (instance_ref br req)) (\<lambda>resource.
          case jget (Some resource) [''spec'', ''planId''] of
            None \<Rightarrow> resolve (req\<lparr>body := jomit [''plan_id''] (body req)\<rparr>)
          | Some p \<Rightarrow> resolve (req\<lparr>body := jput ''plan_id'' p (body req)\<rparr>)))
        any_error (\<lambda>_. resolve req))"

section \<open>Quotas\<close>

abbreviation "QUOTA_INVALID \<equiv> 1 :: int"
abbreviation "QUOTA_NOT_ENTITLED \<equiv> 2 :: int"

definition supportsInstanceBasedQuota :: "'w broker \<Rightarrow> jsval \<Rightarrow> exn + bool" where
  "supportsInstanceBasedQuota br service_id =
     map_sum id (\<lambda>sv. jget_default (Some (sv_options sv)) [''quota_check_type''] (JStr ''instance'') = JStr ''instance'')
       (getService (catalog br) service_id)"

definition quota_url :: "'w env \<Rightarrow> json \<Rightarrow> string" where
  "quota_url env options =
     str_of (conf env [''quota_app'', ''quota_endpoint'']) @ ''/'' @ str_of (jprop options ''subaccountId'') @ ''/quota''"

definition quota_answer :: "json \<Rightarrow> ('w, exn, jsval \<times> jsval) promise" where
  "quota_answer res =
     then_do (deref (Some res) [''body'', ''quotaValidStatus'']) (\<lambda>st. resolve (st, jget (Some res) [''body'', ''message'']))"

definition getQuotaValidStatus :: "'w gateway \<Rightarrow> json \<Rightarrow> ('w, exn, jsval \<times> jsval) promise" where
  "getQuotaValidStatus gw options =
     then_do (invoke (axios gw)
         (obj [(''url'', Some (JStr (quota_url (api (broker_of gw)) options))), (''method'', Some (JStr ''GET'')),
               (''params'', jprop options ''queryParams''), (''responseType'', Some (JStr ''json''))])
         (Some (JNum HTTP_OK))) quota_answer"

definition putCompositeQuotaInfo :: "'w gateway \<Rightarrow> json \<Rightarrow> ('w, exn, jsval \<times> jsval) promise" where
  "putCompositeQuotaInfo gw options =
     then_do (invoke (axios gw)
         (obj [(''url'', Some (JStr (quota_url (api (broker_of gw)) options))), (''method'', Some (JStr ''PUT'')),
               (''data'', jprop options ''data''), (''responseType'', Some (JStr ''json''))])
         (Some (JNum HTTP_OK))) quota_answer"

definition checkQuotaValidity :: "'w gateway \<Rightarrow> json \<Rightarrow> bool \<Rightarrow> ('w, exn, jsval \<times> jsval) promise" where
  "checkQuotaValidity gw options instanceBasedQuota =
     (if instanceBasedQuota then getQuotaValidStatus gw options else putCompositeQuotaInfo gw options)"

definition quota_org :: "request \<Rightarrow> exn + jsval" where
  "quota_org req =
     (if truthy (jprop (body req) ''organization_guid'') then Inr (jprop (body req) ''organization_guid'')
      else case path_of (Some (body req)) [''context'', ''organization_guid''] of
             None \<Rightarrow> Inl TypeError
           | Some g \<Rightarrow> Inr (or_else g (jget (Some (body req)) [''previous_values'', ''organization_id''])))"

definition quota_options :: "'w gateway \<Rightarrow> request \<Rightarrow> jsval \<Rightarrow> jsval \<Rightarrow> bool \<Rightarrow> json" where
  "quota_options gw req orgId subaccountId instanceBasedQuota =
     obj [(''subaccountId'', subaccountId),
          (''queryParams'', Some (obj [
             (''planId'', jprop (body req) ''plan_id''),
             (''previousPlanId'', jget (Some (body req)) [''previous_values'', ''plan_id'']),
             (''useAPIServerForConsumedQuotaCheck'', Some (JBool (in_pod gw))),
             (''orgId'', orgId), (''reqMethod'', Some (JStr (http_method req))),
             (''instanceId'', jprop (params req) ''instance_id''), (''region'', jprop (params req) ''region'')])),
          (''data'', if instanceBasedQuota then None
             else Some (case jprop (params req) ''instance_id'' of None \<Rightarrow> body req | Some i \<Rightarrow> jput ''instance_id'' i (body req)))]"

definition checkQuota :: "'w gateway \<Rightarrow> 'w middleware" where
  "checkQuota gw req =
     (let br = broker_of gw in
      if \<not> truthy (conf (api br) [''quota'', ''enabled'']) \<or> isServiceFabrikOperation (body req) then resolve req
      else then_do (of_sum (quota_org req)) (\<lambda>orgId.
        let subaccountId = jget (Some (body req)) [''context'', ''subaccount_id''] in
        if orgId = None \<and> subaccountId = None
        then reject (BadRequest (Some (JStr ''organization_id and subaccountId are undefined'')))
        else then_do (of_sum (supportsInstanceBasedQuota br (jprop (body req) ''service_id''))) (\<lambda>instanceBased.
          then_do (checkQuotaValidity gw (quota_options gw req orgId subaccountId instanceBased) instanceBased) (\<lambda>(quotaValid, message).
          then_do (of_sum (getPlanFromRequest br req)) (\<lambda>_.
            if quotaValid = Some (JNum QUOTA_NOT_ENTITLED)
            then reject (Forbidden (or_else message (Some (JStr ''Not entitled to create service instance''))))
            else if quotaValid = Some (JNum QUOTA_INVALID)
            then reject (Forbidden (or_else message (Some (JStr ''Quota is not sufficient for this request''))))
            else resolve req)))))"

section \<open>Service flows\<close>

definition checkForMultiAz :: "json \<Rightarrow> string option" where
  "checkForMultiAz ps =
     (case jget (Some ps) [''parameters'', ''multi_az''] of
        None \<Rightarrow> None
      | Some v \<Rightarrow> if v = JBool True \<or> v = JStr ''true'' then Some ''upgrade_to_multi_az'' else Some ''downgrade_to_single_az'')"

definition checkForBluePrint :: "json \<Rightarrow> string option" where
  "checkForBluePrint ps =
     (case jget (Some ps) [''parameters'', ''multi_az_bp''] of None \<Rightarrow> None | Some _ \<Rightarrow> Some ''blueprint_serviceflow'')"

fun first_flow :: "(json \<Rightarrow> string option) list \<Rightarrow> json \<Rightarrow> string option" where
  "first_flow [] ps = None"
| "first_flow (c # cs) ps = (case c ps of Some f \<Rightarrow> Some f | None \<Rightarrow> first_flow cs ps)"

definition getServiceFlow :: "json \<Rightarrow> string option" where
  "getServiceFlow ps = first_flow [checkForMultiAz, checkForBluePrint] ps"

section \<open>The wrappers of the handlers\<close>

text \<open>What became of a request: the reply that was sent, if any, and whether \<open>next\<close> was called.\<close>

datatype next_call = NotCalled | NextCalled | NextFailed exn

record 'w answer =
  sent :: "'w reply option"
  passed :: next_call

definition pass_on :: "exn \<Rightarrow> next_call" where
  "pass_on err = (if instanceof CContinueWithNext err then NextCalled else NextFailed err)"

definition handler :: "(request \<Rightarrow> ('w, exn, 'w reply) promise) \<Rightarrow> request \<Rightarrow> ('w, exn, 'w answer) promise" where
  "handler fn req =
     catch_on (then_do (fn req) (\<lambda>r. resolve \<lparr>sent = Some r, passed = NotCalled\<rparr>))
       any_error (\<lambda>err. resolve \<lparr>sent = None, passed = pass_on err\<rparr>)"

definition getLockResourceDetails :: "request \<Rightarrow> string \<Rightarrow> string option \<Rightarrow> jsval" where
  "getLockResourceDetails req operationType serviceFlowId =
     (if operationType \<in> set LIFECYCLE
      then Some (case serviceFlowId of
          Some flow \<Rightarrow> obj [(''resourceGroup'', Some (JStr GROUP_SERVICE_FLOW)),
            (''resourceType'', Some (JStr TYPE_SERIAL_SERVICE_FLOW)), (''resourceId'', Some (JStr flow)),
            (''operation'', Some (JStr (operationType @ ''_serviceflow'')))]
        | None \<Rightarrow> obj [(''resourceGroup'', Some (JStr GROUP_INTEROPERATOR)),
            (''resourceType'', Some (JStr TYPE_SERVICEINSTANCES)), (''resourceId'', jprop (params req) ''instance_id''),
            (''operation'', Some (JStr operationType))])
      else None)"

definition lockResource :: "'w broker \<Rightarrow> request \<Rightarrow> string \<Rightarrow> string option \<Rightarrow> ('w, exn, jsval) promise" where
  "lockResource br req operationType serviceFlowId =
     then_do (of_sum (getPlanFromRequest br req)) (\<lambda>(_, plan).
     then_do (of_sum (is_director_plan plan)) (\<lambda>director.
       if director
       then lock (api br) (param req ''instance_id'')
              (obj [(''lockedResourceDetails'', getLockResourceDetails req operationType serviceFlowId)]) plan
       else resolve None))"

text \<open>After a reply: the lock stays with the operation that was started, unless the reply says that there is none.\<close>

definition nothing_started :: "string \<Rightarrow> 'w reply \<Rightarrow> bool" where
  "nothing_started operationType r \<longleftrightarrow>
     operationType = ''create'' \<and> reply_status r = Some HTTP_CONFLICT \<or>
     operationType = ''delete'' \<and> reply_status r = Some HTTP_GONE"

definition unlock_after_reply :: "'w broker \<Rightarrow> request \<Rightarrow> string \<Rightarrow> jsval \<Rightarrow> 'w reply \<Rightarrow> ('w, exn, 'w answer) promise" where
  "unlock_after_reply br req operationType lockId r =
     then_do (of_sum (getPlanFromRequest br req)) (\<lambda>(_, plan).
     then_do (of_sum (is_director_plan plan)) (\<lambda>director.
       if director \<and> nothing_started operationType r
       then catch_on (then_do (unlock (api br) (param req ''instance_id'') lockId None None)
                        (\<lambda>_. resolve \<lparr>sent = Some r, passed = NotCalled\<rparr>))
              any_error (\<lambda>unlockErr. resolve \<lparr>sent = Some r, passed = NextFailed unlockErr\<rparr>)
       else resolve \<lparr>sent = Some r, passed = NotCalled\<rparr>))"

definition unlock_after_error :: "'w broker \<Rightarrow> request \<Rightarrow> jsval \<Rightarrow> exn \<Rightarrow> ('w, exn, 'w answer) promise" where
  "unlock_after_error br req lockId err =
     then_do (of_sum (getPlanFromRequest br req)) (\<lambda>(_, plan).
     then_do (of_sum (is_director_plan plan)) (\<lambda>director.
       if director
       then catch_on (then_do (unlock (api br) (param req ''instance_id'') lockId None None)
                        (\<lambda>_. resolve \<lparr>sent = None, passed = pass_on err\<rparr>))
              any_error (\<lambda>unlockErr. resolve \<lparr>sent = None, passed = NextFailed unlockErr\<rparr>)
       else resolve \<lparr>sent = None, passed = pass_on err\<rparr>))"

definition chosen_flow :: "'w gateway \<Rightarrow> request \<Rightarrow> string \<Rightarrow> ('w, exn, (string \<times> string) option) promise" where
  "chosen_flow gw req operationType =
     (if operationType = ''update''
      then (case getServiceFlow (body req) of
              Some flow_name \<Rightarrow> then_do (uuidV4 gw) (\<lambda>flow_id. resolve (Some (flow_id, flow_name)))
            | None \<Rightarrow> resolve None)
      else resolve None)"

text \<open>The handler runs with the lock held. A failure before the lock is held goes to \<open>next\<close>.\<close>

definition run_locked :: "'w broker \<Rightarrow> (request \<Rightarrow> ('w, exn, 'w reply) promise) \<Rightarrow> string \<Rightarrow> request \<Rightarrow> jsval \<Rightarrow> ('w, exn, 'w answer) promise" where
  "run_locked br fn operationType req lockId =
     scomp (fn req) (\<lambda>r. case r of
         Resolved rep \<Rightarrow> unlock_after_reply br req operationType lockId rep
       | Rejected err \<Rightarrow> unlock_after_error br req lockId err
       | Pending \<Rightarrow> pending)"

definition handleWithResourceLocking :: "'w gateway \<Rightarrow> (request \<Rightarrow> ('w, exn, 'w reply) promise) \<Rightarrow> string \<Rightarrow> request \<Rightarrow> ('w, exn, 'w answer) promise" where
  "handleWithResourceLocking gw fn operationType req =
     scomp (then_do (chosen_flow gw req operationType) (\<lambda>flow.
            then_do (lockResource (broker_of gw) req operationType (map_option fst flow)) (\<lambda>lockId. resolve (flow, lockId))))
       (\<lambda>locked. case locked of
          Resolved (flow, lockId) \<Rightarrow>
            run_locked (broker_of gw) fn operationType (if flow = None then req else req\<lparr>serviceFlow := flow\<rparr>) lockId
        | Rejected err \<Rightarrow> resolve \<lparr>sent = None, passed = NextFailed err\<rparr>
        | Pending \<Rightarrow> pending)"

section \<open>Routes\<close>

text \<open>An error ends the chain: the error handler of the router answers it.\<close>

fun run_chain :: "'w middleware list \<Rightarrow> (request \<Rightarrow> ('w, exn, 'w answer) promise) \<Rightarrow> request \<Rightarrow> ('w, exn, 'w answer) promise" where
  "run_chain [] h req = h req"
| "run_chain (m # ms) h req =
     scomp (m req) (\<lambda>r. case r of
         Resolved req' \<Rightarrow> run_chain ms h req'
       | Rejected err \<Rightarrow> resolve \<lparr>sent = None, passed = NextFailed err\<rparr>
       | Pending \<Rightarrow> pending)"

definition error_reply :: "exn \<Rightarrow> 'w reply" where
  "error_reply err =
     (let status = (case err_prop err ''status'' of None \<Rightarrow> JNum 500 | Some s \<Rightarrow> s) in
      Send (case status of JNum n \<Rightarrow> n | _ \<Rightarrow> 500)
        (obj [(''status'', Some status), (''error'', err_prop err ''reason''), (''description'', Some (JStr (message_of err)))]))"

text \<open>The reply the client gets: of the handler, or of the error handler in its JSON form (in production);
  a request that is passed on without an error ends in the router's \<open>notFound\<close>.\<close>

definition notFound_route :: "string \<Rightarrow> exn" where
  "notFound_route path = NotFound (Some (JStr (''Unable to find any resource matching the requested path '' @ squote path)))"

definition final_reply :: "string \<Rightarrow> 'w answer \<Rightarrow> 'w reply" where
  "final_reply path a =
     (case sent a of
        Some r \<Rightarrow> r
      | None \<Rightarrow> (case passed a of
                  NextFailed err \<Rightarrow> error_reply err
                | NextCalled \<Rightarrow> error_reply (notFound_route path)
                | NotCalled \<Rightarrow> NoReply))"

definition methodNotAllowed :: "string list \<Rightarrow> request \<Rightarrow> ('w, exn, 'w answer) promise" where
  "methodNotAllowed allow req =
     resolve \<lparr>sent = None, passed = NextFailed (MethodNotAllowed (http_method req) (Some (JArr (map JStr allow))))\<rparr>"

definition basicAuth :: "string \<Rightarrow> string \<Rightarrow> jsval \<Rightarrow> jsval \<Rightarrow> 'w middleware" where
  "basicAuth username password auth_name auth_pass req =
     (if auth_name = Some (JStr username) \<and> auth_pass = Some (JStr password)
      then resolve (req\<lparr>user := Some (jput ''name'' (JStr username) (case user req of None \<Rightarrow> JObj [] | Some u \<Rightarrow> u))\<rparr>)
      else reject (Unauthorized None))"

definition instance_route :: "'w gateway \<Rightarrow> request \<Rightarrow> ('w, exn, 'w answer) promise" where
  "instance_route gw req =
     (let br = broker_of gw in
      if http_method req = ''PUT'' then
        run_chain [isPlanDeprecated br, checkQuota gw, validateInstanceRequest br, validateCreateRequest,
                   validateSchemaForRequest gw ''service_instance'' ''create'', validateMaintenanceInfoInRequest br]
          (handleWithResourceLocking gw (putInstance br) ''create'') req
      else if http_method req = ''PATCH'' then
        run_chain [injectPlanInRequest br, checkQuota gw, validateInstanceRequest br,
                   validateSchemaForRequest gw ''service_instance'' ''update'', validateMaintenanceInfoInRequest br,
                   validateConcurrentOperations br, validateConcurrentBindingOperations br]
          (handleWithResourceLocking gw (patchInstance br) ''update'') req
      else if http_method req = ''DELETE'' then
        run_chain [validateInstanceRequest br, validateConcurrentOperations br, validateConcurrentBindingOperations br]
          (handleWithResourceLocking gw (deleteInstance br) ''delete'') req
      else if http_method req = ''GET'' then
        run_chain [minApiVersion ''2.14''] (handler (getServiceInstance br)) req
      else methodNotAllowed [''PUT'', ''PATCH'', ''DELETE'', ''GET''] req)"

definition last_operation_route :: "'w gateway \<Rightarrow> request \<Rightarrow> ('w, exn, 'w answer) promise" where
  "last_operation_route gw req =
     (if http_method req = ''GET''
      then run_chain [validateLastOperationRequest] (handler (getLastInstanceOperation (broker_of gw))) req
      else methodNotAllowed [''GET''] req)"

definition binding_route :: "'w gateway \<Rightarrow> request \<Rightarrow> ('w, exn, 'w answer) promise" where
  "binding_route gw req =
     (let br = broker_of gw in
      if http_method req = ''PUT'' then
        run_chain [validateBindingRequest br, checkBlockingOperationInProgress br,
                   validateSchemaForRequest gw ''service_binding'' ''create'', validateConcurrentOperations br,
                   validateConcurrentBindingOperations br]
          (handler (putBinding br)) req
      else if http_method req = ''DELETE'' then
        run_chain [validateBindingRequest br, checkBlockingOperationInProgress br, validateConcurrentOperations br,
                   validateConcurrentBindingOperations br]
          (handler (deleteBinding br)) req
      else if http_method req = ''GET'' then
        run_chain [minApiVersion ''2.14''] (handler (getServiceBinding br)) req
      else methodNotAllowed [''PUT'', ''DELETE'', ''GET''] req)"

definition binding_operation_route :: "'w gateway \<Rightarrow> request \<Rightarrow> ('w, exn, 'w answer) promise" where
  "binding_operation_route gw req =
     (if http_method req = ''GET''
      then run_chain [validateLastOperationRequest] (handler (getLastBindingOperation (broker_of gw))) req
      else methodNotAllowed [''GET''] req)"

definition catalog_route :: "'w gateway \<Rightarrow> request \<Rightarrow> ('w, exn, 'w answer) promise" where
  "catalog_route gw req =
     (if http_method req = ''GET'' then handler (getCatalog (broker_of gw)) req else methodNotAllowed [''GET''] req)"

end
