(* ===== verification/Osb_Client.thy ===== *)
theory Osb_Client
  imports Broker_Routes Reference_Server Lock_Properties
begin

text \<open>
  What the client promises to the broker, under the contract of the API server: the polling loops come to
  an end, and what the creation of a resource of the interoperator leaves in the store.
\<close>

context k8s_api
begin

section \<open>Polling ends\<close>

lemma delay_clock: "delay env ms w = (r, w') \<Longrightarrow> 0 \<le> ms \<Longrightarrow> now env w + ms \<le> now env w'"
  using wait_clock by (cases r) (auto simp: promise_iffs)

lemma osb_poll_settles:
  assumes "timeout_ms opts + started_at opts - now env w < 200 * int fuel" and "0 < fuel"
  shows "getOSBResourceOperationStatus fuel env opts w \<noteq> (Pending, w')"
  using assms
proof (induction fuel arbitrary: w w')
  case (Suc fuel)
  have "getOSBResourceOperationStatus fuel env opts w2 \<noteq> (Pending, w3)"
    if "getResource env o' (wait env 200 w) = (Resolved r, w2)" and "\<not> timeout_ms opts < now env w2 - started_at opts" for o' r w2 w3
  proof -
    have "now env w + 200 \<le> now env w2"
      using wait_clock [of 200 w] getResource_frame [OF that(1)] by simp
    with that(2) Suc.prems(1) have "timeout_ms opts + started_at opts - now env w2 < 200 * int fuel" "0 < fuel"
      by (auto intro: Nat.gr0I)
    then show ?thesis by (rule Suc.IH)
  qed
  then show ?case
    by (auto simp: promise_iffs Let_def getResource_settles split: if_splits)
qed simp

lemma poll_settles:
  assumes "timeout_ms opts + started_at opts - now env w < 200 * int fuel" and "0 < fuel"
  shows "getResourceOperationStatus fuel env opts w \<noteq> (Pending, w')"
  using assms
proof (induction fuel arbitrary: w w')
  case (Suc fuel)
  have "getResourceOperationStatus fuel env opts w2 \<noteq> (Pending, w3)"
    if "getResource env o' (wait env 200 w) = (Resolved r, w2)" and "\<not> timeout_ms opts < now env w2 - started_at opts" for o' r w2 w3
  proof -
    have "now env w + 200 \<le> now env w2"
      using wait_clock [of 200 w] getResource_frame [OF that(1)] by simp
    with that(2) Suc.prems(1) have "timeout_ms opts + started_at opts - now env w2 < 200 * int fuel" "0 < fuel"
      by (auto intro: Nat.gr0I)
    then show ?thesis by (rule Suc.IH)
  qed
  then show ?case
    by (auto simp: promise_iffs Let_def getResource_settles split: if_splits)
qed simp

lemma schedule_poll_settles:
  assumes "limit * 1000 + start - now env w < 100 * int fuel" and "0 < fuel"
  shows "checkInstanceScheduleStatus fuel env i start limit w \<noteq> (Pending, w')"
  using assms
proof (induction fuel arbitrary: w w')
  case (Suc fuel)
  have "checkInstanceScheduleStatus fuel env i start limit w2 \<noteq> (Pending, w3)"
    if "getResource env o' (wait env 100 w) = (Resolved r, w2)" and "\<not> limit * 1000 < now env (wait env 100 w) - start" for o' r w2 w3
  proof -
    have "now env w + 100 \<le> now env (wait env 100 w)" "now env (wait env 100 w) \<le> now env w2"
      using wait_clock [of 100 w] getResource_frame [OF that(1)] by simp_all
    with that(2) Suc.prems(1) have "limit * 1000 + start - now env w2 < 100 * int fuel" "0 < fuel"
      by (auto intro: Nat.gr0I)
    then show ?thesis by (rule Suc.IH)
  qed
  then show ?case
    by (auto simp: promise_iffs Let_def getResource_settles split: if_splits)
qed simp

lemma wait_till_scheduled_settles:
  assumes "501 \<le> fuel"
  shows "waitTillInstanceIsScheduled fuel env i None w \<noteq> (Pending, w')"
  using assms schedule_poll_settles [of 50 "now env w" w fuel i w'] by (auto simp: waitTillInstanceIsScheduled_def promise_iffs)

section \<open>Creating a resource of the interoperator\<close>

lemma createOSB_settles: "createOSBResource env opts w \<noteq> (Pending, w')"
  using create_settles by (auto simp: createOSBResource_def promise_iffs Let_def split: prod.splits)

lemma createOSB_rejected: "createOSBResource env opts w = (Rejected e, w') \<Longrightarrow> store w' = store w \<and> used w' = used w"
  by (auto simp: createOSBResource_def promise_iffs Let_def dest: create_rejected require_props_Rejected split: prod.splits)

lemma createOSB_resolved:
  assumes "createOSBResource env opts w = (Resolved r, w')" and n: "jprop opts ''resourceId'' = Some (JStr n)"
    and "jprop opts ''metadata'' = Some (JObj ms)" and "truthy (jprop opts ''status'')"
  obtains g v p b where "coords env (str_of (jprop opts ''resourceGroup'')) (str_of (jprop opts ''resourceType'')) = Some (g, v, p)"
    and "store w (g, v, osb_namespace env opts, p, n) = None"
    and "store w' = (store w)((g, v, osb_namespace env opts, p, n) \<mapsto> b)"
    and "jprop b ''spec'' = map_option (camelcaseKeys env) (jprop opts ''spec'')"
    and "jprop b ''status'' = jprop opts ''status''"
proof -
  let ?name = "obj [(''name'', Some (JStr n))]"
  from assms(1) obtain g v p body res where
    c: "coords env (str_of (jprop opts ''resourceGroup'')) (str_of (jprop opts ''resourceType'')) = Some (g, v, p)"
    and cr: "createNamespacedCustomObject env g v (osb_namespace env opts) p body w = (Resolved res, w')"
    and sp: "jprop body ''spec'' = map_option (camelcaseKeys env) (jprop opts ''spec'')"
    and st: "jprop body ''status'' = jprop opts ''status''"
    and nm: "jget (jprop body ''metadata'') [''name''] = jget (Some (jmerge (JObj ms) ?name)) [''name'']"
    using assms(2,3,4)
    by (auto simp: createOSBResource_def promise_iffs Let_def json_simps jmerge_opt_def split: prod.splits option.splits)
  have "jget (Some body) [''metadata'', ''name''] = Some (JStr n)"
    using nm by (cases "map_of ms ''name''")
      (auto simp: obj_def List.map_filter_simps jmerge.simps update_conv split: json.splits option.splits)
  from create_resolved [OF cr this] show thesis using that c sp st by (auto simp: same_content_def)
qed

end

end
