(* ===== verification/Broker_Facts.thy ===== *)
theory Broker_Facts
  imports Osb_Client
begin

text \<open>
  The broker over an API server: the locale \<open>broker_api\<close> is the contract its handlers rely on, the contract
  of the API server for the broker's environment, where the creation of a namespace changes no object inside a
  namespace. It holds with and without \<open>enable_namespaced_separation\<close>. Its lemmas say what the handlers do to
  the stored instances; the broker of the reference server interprets it.
\<close>

text \<open>The stored instance a request is about.\<close>

definition instance_object :: "'w broker \<Rightarrow> ('w \<Rightarrow> k8s_key \<Rightarrow> json option) \<Rightarrow> request \<Rightarrow> 'w \<Rightarrow> json option" where
  "instance_object br store req w =
     (case coords (api br) GROUP_INTEROPERATOR TYPE_SERVICEINSTANCES of
        None \<Rightarrow> None
      | Some (g, v, p) \<Rightarrow> (let n = k8s_name br req ''instance_id'' in store w (g, v, getNamespaceId (api br) n, p, n)))"

text \<open>The objects that live in a namespace: all but the namespaces themselves.\<close>

definition namespaced :: "(k8s_key \<Rightarrow> json option) \<Rightarrow> k8s_key \<Rightarrow> json option" where
  "namespaced st key = (case key of (g, v, ns, p, n) \<Rightarrow> if ns = [] then None else st key)"

lemma namespacedD: "namespaced st' = namespaced st \<Longrightarrow> ns \<noteq> [] \<Longrightarrow> st' (g, v, ns, p, n) = st (g, v, ns, p, n)"
  by (drule fun_cong [of _ _ "(g, v, ns, p, n)"]) (simp add: namespaced_def)

definition has_template :: "json \<Rightarrow> bool" where
  "has_template plan \<longleftrightarrow> plan_manager plan [''settings'', ''dashboard_url_template''] \<noteq> None"

lemma scheduled_no_template:
  "\<not> has_template plan \<Longrightarrow> scheduled_instance br req (plan_context req plan) = resolve (JObj [])"
  by (simp add: scheduled_instance_def has_template_def plan_context_def plan_manager_def json_simps)

lemma create_instance_opts_props:
  "jprop (create_instance_opts br req) ''resourceGroup'' = Some (JStr GROUP_INTEROPERATOR)"
  "jprop (create_instance_opts br req) ''resourceType'' = Some (JStr TYPE_SERVICEINSTANCES)"
  "jprop (create_instance_opts br req) ''resourceId'' = Some (JStr (k8s_name br req ''instance_id''))"
  "jprop (create_instance_opts br req) ''status'' = Some (state_of STATE_IN_QUEUE)"
  "jprop (create_instance_opts br req) ''metadata'' = Some (JObj [(''finalizers'', JArr [JStr FINALIZER_BROKER])])"
  "jprop (create_instance_opts br req) ''spec'' =
     Some (case jprop (params req) ''instance_id'' of None \<Rightarrow> body req | Some i \<Rightarrow> jput ''instance_id'' i (body req))"
  by (simp_all add: create_instance_opts_def osb_opts_def json_simps) (simp add: obj_def List.map_filter_simps)

lemma osb_namespace_instance:
  "osb_namespace env (create_instance_opts br req) = getNamespaceId env (k8s_name br req ''instance_id'')"
  by (simp add: osb_namespace_def create_instance_opts_props str_of_def)

lemma truthy_state_of [simp]: "truthy (Some (state_of s))" "jprop (state_of s) ''state'' = Some (JStr s)"
  by (simp_all add: state_of_def json_simps) (simp add: obj_def List.map_filter_simps)

section \<open>Chains of middleware\<close>

lemma run_chain_iff [promise_iffs]:
  "run_chain (m # ms) h req w = (Resolved a, w') \<longleftrightarrow>
     (\<exists>req' w1. m req w = (Resolved req', w1) \<and> run_chain ms h req' w1 = (Resolved a, w')) \<or>
     (\<exists>e. m req w = (Rejected e, w') \<and> a = \<lparr>sent = None, passed = NextFailed e\<rparr>)"
  by (cases "m req w"; cases "fst (m req w)") (auto simp: promise_simps)

declare run_chain.simps(2) [simp del]

definition turned_away :: "'w answer \<Rightarrow> bool" where
  "turned_away a \<longleftrightarrow> sent a = None \<and> (\<exists>e. passed a = NextFailed e)"

text \<open>A middleware that comes back and leaves the store and the path of the request as they are.\<close>

definition harmless :: "('w \<Rightarrow> k8s_key \<Rightarrow> json option) \<Rightarrow> 'w middleware \<Rightarrow> bool" where
  "harmless store m \<longleftrightarrow> (\<forall>req w r w1. m req w = (r, w1) \<longrightarrow>
     store w1 = store w \<and> r \<noteq> Pending \<and> (\<forall>req'. r = Resolved req' \<longrightarrow> params req' = params req))"

text \<open>A middleware that lets no request with these parameters pass while the store is as given.\<close>

definition blocks :: "('w \<Rightarrow> k8s_key \<Rightarrow> json option) \<Rightarrow> 'w middleware \<Rightarrow> json \<Rightarrow> (k8s_key \<Rightarrow> json option) \<Rightarrow> bool" where
  "blocks store m ps st \<longleftrightarrow> (\<forall>req w r w1. params req = ps \<longrightarrow> store w = st \<longrightarrow> m req w = (r, w1) \<longrightarrow>
     store w1 = st \<and> (\<exists>e. r = Rejected e))"

lemma blocksD:
  "blocks store m (params req) (store w) \<Longrightarrow> m req w = (r, w1) \<Longrightarrow> store w1 = store w \<and> (\<exists>e. r = Rejected e)"
  unfolding blocks_def by blast

lemma harmlessD:
  "harmless store m \<Longrightarrow> m req w = (Resolved req', w1) \<Longrightarrow> store w1 = store w \<and> params req' = params req"
  "harmless store m \<Longrightarrow> m req w = (Rejected e, w1) \<Longrightarrow> store w1 = store w"
  "harmless store m \<Longrightarrow> m req w \<noteq> (Pending, w1)"
  unfolding harmless_def by blast+

lemma run_chain_steps:
  "m req w = (Resolved req', w1) \<Longrightarrow> run_chain (m # ms) h req w = run_chain ms h req' w1"
  "m req w = (Rejected e, w1) \<Longrightarrow> run_chain (m # ms) h req w = (Resolved \<lparr>sent = None, passed = NextFailed e\<rparr>, w1)"
  by (simp_all add: run_chain.simps(2) promise_simps)

lemma blocked_chain:
  assumes "list_all (harmless store) ms" and "blocks store m (params req) (store w)"
  shows "\<exists>a w'. run_chain (ms @ m # rest) h req w = (Resolved a, w') \<and> turned_away a \<and> store w' = store w"
  using assms
proof (induction ms arbitrary: req w)
  case Nil
  obtain r w1 where r: "m req w = (r, w1)" by fastforce
  from blocksD [OF Nil.prems(2) r] obtain e where "r = Rejected e" "store w1 = store w" by blast
  then show ?case using r by (simp add: run_chain_steps turned_away_def)
next
  case (Cons m0 ms)
  have h: "harmless store m0" "list_all (harmless store) ms" using Cons.prems(1) by simp_all
  obtain r w1 where r: "m0 req w = (r, w1)" by fastforce
  then show ?case
  proof (cases r)
    case (Resolved req')
    then have "store w1 = store w" "params req' = params req" using harmlessD(1) [OF h(1)] r by auto
    then show ?thesis using Cons.IH [OF h(2), of req' w1] Cons.prems(2) r Resolved by (simp add: run_chain_steps)
  next
    case (Rejected e)
    then show ?thesis using harmlessD(2) [OF h(1)] r by (simp add: run_chain_steps turned_away_def)
  qed (use harmlessD(3) [OF h(1)] in simp)
qed

lemma harmlessI:
  assumes "\<And>req w req' w1. m req w = (Resolved req', w1) \<Longrightarrow> store w1 = store w \<and> params req' = params req"
    and "\<And>req w e w1. m req w = (Rejected e, w1) \<Longrightarrow> store w1 = store w"
    and "\<And>req w w1. m req w \<noteq> (Pending, w1)"
  shows "harmless store m"
  unfolding harmless_def
proof (intro allI impI)
  fix req w r w1
  assume "m req w = (r, w1)"
  then show "store w1 = store w \<and> r \<noteq> Pending \<and> (\<forall>req'. r = Resolved req' \<longrightarrow> params req' = params req)"
    using assms by (cases r) auto
qed

lemma harmless_checks:
  "harmless store (validateInstanceRequest br)" "harmless store (validateBindingRequest br)"
  "harmless store (validateMaintenanceInfoInRequest br)" "harmless store (validateSchemaForRequest gw t op)"
  "harmless store (isPlanDeprecated br)" "harmless store validateCreateRequest" "harmless store (minApiVersion v)"
  by (rule harmlessI; auto simp: promise_iffs Let_def validateInstanceRequest_def validateBindingRequest_def
      validateMaintenanceInfoInRequest_def validateSchemaForRequest_def isPlanDeprecated_def validateCreateRequest_def
      minApiVersion_def split: if_splits prod.splits)+

text \<open>Every request to the quota service ends, and it does not touch the objects of the API server.\<close>

definition quota_service_apart :: "'w gateway \<Rightarrow> ('w \<Rightarrow> k8s_key \<Rightarrow> json option) \<Rightarrow> bool" where
  "quota_service_apart gw store \<longleftrightarrow>
     (\<forall>opts w r w1. axios gw opts w = (r, w1) \<longrightarrow> r \<noteq> Pending \<and> store w1 = store w)"

lemma harmless_quota: "quota_service_apart gw store \<Longrightarrow> harmless store (checkQuota gw)"
proof -
  assume ax: "quota_service_apart gw store"
  then have sends: "axios gw o' w = (r, w1) \<Longrightarrow> store w1 = store w \<and> r \<noteq> Pending" for o' w r w1
    by (auto simp: quota_service_apart_def)
  have inv: "store w1 = store w \<and> r \<noteq> Pending" if "invoke (axios gw) o' st w = (r, w1)" for o' st w r w1
    using that by (cases r) (auto simp: invoke_def promise_iffs Let_def dest: sends split: if_splits)
  then have pend: "invoke (axios gw) o' st w \<noteq> (Pending, w1)" for o' st w w1 by blast
  have "store w1 = store w \<and> r \<noteq> Pending" if "checkQuotaValidity gw o' b w = (r, w1)" for o' b w r w1
    using that by (cases r) (auto simp: checkQuotaValidity_def getQuotaValidStatus_def putCompositeQuotaInfo_def quota_answer_def
        promise_iffs pend dest: inv sends split: if_splits)
  then show ?thesis
    by (intro harmlessI) (fastforce simp: checkQuota_def promise_iffs Let_def split: if_splits prod.splits)+
qed

section \<open>The contract of the handlers\<close>

locale broker_api = k8s_api "api br" store used
  for br :: "'w broker" and store :: "'w \<Rightarrow> k8s_key \<Rightarrow> json option" and used :: "'w \<Rightarrow> json set" +
  assumes new_namespace: "k8s_createNamespace (api br) spec w = (r, w') \<Longrightarrow>
    r \<noteq> Pending \<and> namespaced (store w') = namespaced (store w)"
begin

lemma createNamespace_frame:
  assumes "createNamespace (api br) n w = (r, w')"
  shows "r \<noteq> Pending" and "namespaced (store w') = namespaced (store w)"
    and "\<not> truthy (conf (api br) [''apiserver'', ''enable_namespaced_separation'']) \<Longrightarrow> w' = w"
  using assms new_namespace by (cases r; fastforce simp: createNamespace_def promise_iffs split: if_splits)+

lemma createNamespace_resolved: "createNamespace (api br) n w = (Resolved x, w') \<Longrightarrow> n \<noteq> []"
  by (auto simp: createNamespace_def promise_iffs)

lemma instance_object_cong:
  assumes "createNamespace (api br) (getNamespaceId (api br) (k8s_name br req ''instance_id'')) w = (Resolved x, w')"
  shows "instance_object br store req w' = instance_object br store req w"
  using namespacedD [OF createNamespace_frame(2) [OF assms] createNamespace_resolved [OF assms]]
  by (simp add: instance_object_def Let_def split: option.split)

lemma create_instance_resolved:
  assumes "createOSBResource (api br) (create_instance_opts br req) w = (Resolved r, w')"
  shows "instance_object br store req w = None \<and> (\<exists>b. instance_object br store req w' = Some b \<and>
    jget (Some b) [''status'', ''state''] = Some (JStr STATE_IN_QUEUE) \<and>
    jprop b ''spec'' = map_option (camelcaseKeys (api br)) (jprop (create_instance_opts br req) ''spec''))"
proof (rule createOSB_resolved [OF assms create_instance_opts_props(3,5)])
  show "truthy (jprop (create_instance_opts br req) ''status'')" by (simp add: create_instance_opts_props)
qed (simp add: create_instance_opts_props osb_namespace_instance str_of_def instance_object_def Let_def)

text \<open>A \<open>PUT\<close> that is not answered with a conflict: after the namespace is there, the instance is created, and the
  rest of the run reads only.\<close>

lemma put_instance_created:
  assumes "putInstance br req w = (Resolved r, w')" and "reply_status r \<noteq> Some HTTP_CONFLICT"
  obtains sv plan w1 b where "getPlan (catalog br) (jprop (body req) ''plan_id'') = Inr (sv, plan)"
    and "instance_object br store req w = None" and "instance_object br store req w1 = Some b"
    and "jget (Some b) [''status'', ''state''] = Some (JStr STATE_IN_QUEUE)"
    and "jprop b ''spec'' = map_option (camelcaseKeys (api br)) (jprop (create_instance_opts br req) ''spec'')"
    and "reply_status r = Some HTTP_ACCEPTED \<Longrightarrow> \<not> has_template plan \<Longrightarrow> w' = w1"
proof -
  let ?n = "getNamespaceId (api br) (k8s_name br req ''instance_id'')"
  from assms obtain sv plan x w0 res w1 async y w2 sfi w3 where
    pl: "getPlan (catalog br) (jprop (body req) ''plan_id'') = Inr (sv, plan)"
    and n: "createNamespace (api br) ?n w = (Resolved x, w0)"
    and c: "createOSBResource (api br) (create_instance_opts br req) w0 = (Resolved res, w1)"
    and wt: "(if async then resolve JNull else wait_for_instance br req STATE_IN_QUEUE) w1 = (Resolved y, w2)"
    and sch: "scheduled_instance br req (plan_context req plan) w2 = (Resolved sfi, w3)"
    and pd: "put_done br (plan_context req plan) sfi async w3 = (Resolved r, w')"
    by (auto simp: putInstance_def promise_iffs Let_def simp del: scomp_apply split: prod.splits)
  have "w' = w3" "reply_status r = Some HTTP_ACCEPTED \<Longrightarrow> async"
    using pd by (auto simp: put_done_def promise_iffs Let_def split: if_splits)
  then have e: "reply_status r = Some HTTP_ACCEPTED \<Longrightarrow> \<not> has_template plan \<Longrightarrow> w' = w1"
    using wt sch by (auto simp: scheduled_no_template promise_iffs)
  from create_instance_resolved [OF c] instance_object_cong [OF n] pl e that show thesis by auto
qed

lemma create_existing:
  assumes old: "instance_object br store req w = Some b"
    and run: "then_do (createNamespace (api br) (getNamespaceId (api br) (k8s_name br req ''instance_id'')))
      (\<lambda>_. then_do (createOSBResource (api br) (create_instance_opts br req)) k) w = (q, w')"
  obtains e r w0 where "q = Rejected e" and "store w' = store w0"
    and "createNamespace (api br) (getNamespaceId (api br) (k8s_name br req ''instance_id'')) w = (r, w0)"
proof -
  let ?n = "getNamespaceId (api br) (k8s_name br req ''instance_id'')"
  obtain r w0 where n: "createNamespace (api br) ?n w = (r, w0)" by (cases "createNamespace (api br) ?n w")
  obtain r1 w1 where c: "createOSBResource (api br) (create_instance_opts br req) w0 = (r1, w1)"
    by (cases "createOSBResource (api br) (create_instance_opts br req) w0")
  show thesis
  proof (cases r)
    case (Resolved x)
    have "r1 \<noteq> Resolved y" for y
      using create_instance_resolved [of req w0 y w1] instance_object_cong [of req w x w0] old c n Resolved by auto
    moreover have "r1 \<noteq> Pending" using createOSB_settles c by auto
    ultimately obtain e where e: "r1 = Rejected e" by (cases r1) auto
    then show thesis using that [of e w0 r] run n c Resolved createOSB_rejected [of _ w0 e w1] by (simp add: promise_simps)
  next
    case (Rejected e)
    then show thesis using that [of e w0 r] run n by (simp add: promise_simps)
  qed (use createNamespace_frame(1) [OF n] in simp)
qed

lemma put_instance_exists:
  assumes old: "instance_object br store req w = Some b" and run: "putInstance br req w = (q, w')"
  shows "namespaced (store w') = namespaced (store w)"
    and "\<not> truthy (conf (api br) [''apiserver'', ''enable_namespaced_separation'']) \<Longrightarrow> store w' = store w"
    and "q = Resolved (Send HTTP_CONFLICT (JObj [])) \<or> (\<exists>e. q = Rejected e)"
proof -
  let ?n = "getNamespaceId (api br) (k8s_name br req ''instance_id'')"
  have "(w' = w \<or> (\<exists>r w0. createNamespace (api br) ?n w = (r, w0) \<and> store w' = store w0)) \<and>
      (q = Resolved (Send HTTP_CONFLICT (JObj [])) \<or> (\<exists>e. q = Rejected e))"
  proof (cases "\<exists>sv plan. getPlan (catalog br) (jprop (body req) ''plan_id'') = Inr (sv, plan) \<and> check_labels (instance_labels (api br) req) = Inr ()")
    case True
    then obtain sv plan where pl: "getPlan (catalog br) (jprop (body req) ''plan_id'') = Inr (sv, plan)"
      "check_labels (instance_labels (api br) req) = Inr ()" by blast
    define k where "k = (\<lambda>_ :: json. then_do (of_sum (is_async ''async'' plan)) (\<lambda>async.
          then_do (if async then resolve JNull else wait_for_instance br req STATE_IN_QUEUE) (\<lambda>_.
          then_do (scheduled_instance br req (plan_context req plan)) (\<lambda>sfserviceinstance.
            put_done br (plan_context req plan) sfserviceinstance async))))"
    let ?p = "then_do (createNamespace (api br) ?n) (\<lambda>_. then_do (createOSBResource (api br) (create_instance_opts br req)) k)"
    have run': "catch_on ?p (instanceof CConflict) (\<lambda>_. resolve (Send HTTP_CONFLICT (JObj []))) w = (q, w')"
      using run pl unfolding putInstance_def k_def by (simp add: Let_def of_sum_def promise_simps)
    obtain q1 w1 where p: "?p w = (q1, w1)" by (cases "?p w")
    from create_existing [OF old p] obtain e r w0 where "q1 = Rejected e" "store w1 = store w0"
      "createNamespace (api br) ?n w = (r, w0)" .
    then show ?thesis using run' p by (cases "instanceof CConflict e") (auto simp: promise_simps)
  next
    case False
    then have "w' = w \<and> (\<exists>e. q = Rejected e)" using run
      by (cases "getPlan (catalog br) (jprop (body req) ''plan_id'')"; cases "check_labels (instance_labels (api br) req)")
        (auto simp: putInstance_def of_sum_def promise_simps)
    then show ?thesis by blast
  qed
  then show "namespaced (store w') = namespaced (store w)"
    and "\<not> truthy (conf (api br) [''apiserver'', ''enable_namespaced_separation'']) \<Longrightarrow> store w' = store w"
    and "q = Resolved (Send HTTP_CONFLICT (JObj [])) \<or> (\<exists>e. q = Rejected e)"
    using createNamespace_frame(2,3) by metis+
qed

lemma put_instance_conflict:
  assumes "getPlan (catalog br) (jprop (body req) ''plan_id'') = Inr (sv, plan)"
    and "check_labels (instance_labels (api br) req) = Inr ()"
    and "then_do (createNamespace (api br) (getNamespaceId (api br) (k8s_name br req ''instance_id'')))
           (\<lambda>_. createOSBResource (api br) (create_instance_opts br req)) w = (Rejected e, w1)"
    and "instanceof CConflict e"
  shows "putInstance br req w = (Resolved (Send HTTP_CONFLICT (JObj [])), w1)"
  using assms by (auto simp: putInstance_def promise_iffs Let_def)

lemma put_instance_settles:
  assumes "876 \<le> poll_fuel br"
  shows "putInstance br req w \<noteq> (Pending, w')"
proof -
  have "wait_for_instance br req st w1 \<noteq> (Pending, w2)" for st w1 w2
    using assms osb_poll_settles [of "instance_status_opts br req st (now (api br) w1)" w1 "poll_fuel br"]
    by (auto simp: wait_for_instance_def promise_iffs instance_status_opts_def osb_opts_def json_simps timeout_ms_def
        started_at_def jget_default_def Let_def)
  moreover have "scheduled_instance br req c w1 \<noteq> (Pending, w2)" for c w1 w2
    using assms wait_till_scheduled_settles by (simp add: scheduled_instance_def promise_iffs)
  ultimately show ?thesis
    by (auto simp: putInstance_def promise_iffs Let_def put_done_def createOSB_settles
        dest: createNamespace_frame(1) split: if_splits)
qed

lemma harmless_reads: "harmless store (injectPlanInRequest br)" "harmless store (checkBlockingOperationInProgress br)"
proof -
  show "harmless store (injectPlanInRequest br)"
    by (rule harmlessI; auto simp: injectPlanInRequest_def promise_iffs getResource_settles dest: getResource_frame split: if_splits option.splits)
  have "checkWriteLockStatus (api br) i w = (r, w1) \<Longrightarrow> store w1 = store w \<and> r \<noteq> Pending" for i w r w1
    by (cases r) (auto simp: checkWriteLockStatus_def promise_iffs Let_def getResource_settles dest: getResource_frame split: if_splits option.splits)
  then show "harmless store (checkBlockingOperationInProgress br)"
    by (intro harmlessI) (fastforce simp: checkBlockingOperationInProgress_def promise_iffs split: if_splits prod.splits)+
qed

lemma busy_blocks:
  assumes "conf (api br) [''allowConcurrentOperations''] \<noteq> Some (JBool True)"
    and "instance_object br store req w = Some b" and "in_states BUSY_STATES (parse_resource b)"
  shows "blocks store (validateConcurrentOperations br) (params req) (store w)"
  unfolding blocks_def
proof (intro allI impI)
  fix req' w1 q w2
  assume ps: "params req' = params req" and st: "store w1 = store w"
    and m: "validateConcurrentOperations br req' w1 = (q, w2)"
  have "in_states BUSY_STATES r" if "getResource (api br) (instance_ref br req') w1 = (Resolved r, w3)" for r w3
  proof -
    note got = that
    have n: "k8s_name br req' ''instance_id'' = k8s_name br req ''instance_id''" using ps by (simp add: k8s_name_def param_def)
    obtain c b' where "coords (api br) (str_of (jprop (instance_ref br req') ''resourceGroup'')) (str_of (jprop (instance_ref br req') ''resourceType'')) = Some c"
      and "store w1 (resource_key (api br) (instance_ref br req') c) = Some b'" and r: "r = parse_resource b'"
      by (rule getResource_resolved [OF got])
    then have "instance_object br store req w = Some b'"
      using st by (cases c) (simp add: instance_object_def instance_ref_def resource_key_def json_simps ns_or_default_def str_of_def n Let_def)
    then show ?thesis using r assms(2,3) by simp
  qed
  then show "store w2 = store w \<and> (\<exists>e. q = Rejected e)"
    using m assms(1) st
    by (cases q) (auto simp: validateConcurrentOperations_def promise_iffs getResource_settles dest: getResource_frame split: if_splits)
qed

lemma busy_chain:
  assumes "conf (api br) [''allowConcurrentOperations''] \<noteq> Some (JBool True)"
    and "instance_object br store req w = Some b" and "in_states BUSY_STATES (parse_resource b)"
    and "list_all (harmless store) ms"
  shows "\<exists>a w'. run_chain (ms @ validateConcurrentOperations br # rest) h req w = (Resolved a, w') \<and>
    turned_away a \<and> store w' = store w"
  using blocked_chain [OF assms(4) busy_blocks [OF assms(1-3)]] .

lemma busy_instance_route:
  assumes "broker_of gw = br" and "quota_service_apart gw store"
    and busy: "conf (api br) [''allowConcurrentOperations''] \<noteq> Some (JBool True)"
      "instance_object br store req w = Some b" "in_states BUSY_STATES (parse_resource b)"
    and "http_method req = ''PATCH'' \<or> http_method req = ''DELETE''"
  shows "\<exists>a w'. instance_route gw req w = (Resolved a, w') \<and> turned_away a \<and> store w' = store w"
proof (cases "http_method req = ''PATCH''")
  case True
  have "list_all (harmless store) [injectPlanInRequest br, checkQuota gw, validateInstanceRequest br,
      validateSchemaForRequest gw ''service_instance'' ''update'', validateMaintenanceInfoInRequest br]"
    using assms(1,2) by (simp add: harmless_quota harmless_reads harmless_checks)
  from busy_chain [OF busy this] show ?thesis using assms(1) True by (simp add: instance_route_def Let_def)
next
  case False
  have "list_all (harmless store) [validateInstanceRequest br]" by (simp add: harmless_checks)
  from busy_chain [OF busy this] show ?thesis using assms(1,6) False by (simp add: instance_route_def Let_def)
qed

lemma busy_binding_route:
  assumes "broker_of gw = br"
    and busy: "conf (api br) [''allowConcurrentOperations''] \<noteq> Some (JBool True)"
      "instance_object br store req w = Some b" "in_states BUSY_STATES (parse_resource b)"
    and "http_method req = ''PUT'' \<or> http_method req = ''DELETE''"
  shows "\<exists>a w'. binding_route gw req w = (Resolved a, w') \<and> turned_away a \<and> store w' = store w"
proof (cases "http_method req = ''PUT''")
  case True
  have "list_all (harmless store) [validateBindingRequest br, checkBlockingOperationInProgress br,
      validateSchemaForRequest gw ''service_binding'' ''create'']"
    by (simp add: harmless_reads harmless_checks)
  from busy_chain [OF busy this] show ?thesis using assms(1) True by (simp add: binding_route_def Let_def)
next
  case False
  have "list_all (harmless store) [validateBindingRequest br, checkBlockingOperationInProgress br]"
    by (simp add: harmless_reads harmless_checks)
  from busy_chain [OF busy this] show ?thesis using assms(1,5) False by (simp add: binding_route_def Let_def)
qed

text \<open>The lock of an instance around a handler.\<close>

lemma locked_handler:
  assumes "broker_of gw = br" and "chosen_flow gw req op w = (Resolved flow, w)"
    and "getPlanFromRequest br req = Inr (sv, plan)" and "is_director_plan plan = Inr True"
    and "op \<in> set LIFECYCLE" and i: "jprop (params req) ''instance_id'' = Some (JStr i)"
    and "lock_object (api br) store i w = Some b" and "lock_held (api br) (now (api br) w) (parse_resource b)"
    and "handleWithResourceLocking gw fn op req w = (Resolved a, w')"
  shows "turned_away a \<and> store w' = store w"
proof -
  let ?d = "obj [(''lockedResourceDetails'', getLockResourceDetails req op (map_option fst flow))]"
  have d: "json_wf ?d" "truthy (jprop ?d ''lockedResourceDetails'')" "truthy (lock_operation (Some ?d))"
    using assms(5) i
    by (auto simp: getLockResourceDetails_def lock_operation_def obj_def List.map_filter_simps LIFECYCLE_def split: option.splits)
  obtain q w1 where l: "lock (api br) i ?d plan w = (q, w1)" by fastforce
  from lock_held_rejects [OF l d(1) assms(7,8) d(2,3)] obtain e where e: "q = Rejected e" "store w1 = store w" by blast
  have "lockResource br req op (map_option fst flow) w = (Rejected e, w1)"
    using l e assms(3,4) i by (auto simp: lockResource_def promise_iffs param_def str_of_def)
  then have "handleWithResourceLocking gw fn op req w = (Resolved \<lparr>sent = None, passed = NextFailed e\<rparr>, w1)"
    using assms(1,2) by (simp add: handleWithResourceLocking_def promise_simps)
  then show ?thesis using assms(9) e by (auto simp: turned_away_def)
qed

end

end
