(* ===== verification/Broker_Properties.thy ===== *)
theory Broker_Properties
  imports Broker_Facts
begin

text \<open>
  Properties of the broker: what the handlers and routes guarantee to the platform, each with a run of the
  broker on the reference server as its witness.
\<close>

section \<open>A broker on the reference server\<close>

definition osb_crd :: json where
  "osb_crd = JObj [(''spec'', JObj [(''group'', JStr GROUP_INTEROPERATOR), (''version'', JStr ''v1alpha1''),
     (''names'', JObj [(''plural'', JStr TYPE_SERVICEINSTANCES), (''kind'', JStr ''SFServiceInstance'')])])]"

definition osb_config :: json where
  "osb_config = JObj [(''apiserver'', JObj [(''crds'',
     JObj [(GROUP_INTEROPERATOR @ ''_v1alpha1_'' @ TYPE_SERVICEINSTANCES @ ''.yaml'', JStr ''eA=='')])])]"

definition demo_catalog :: catalog where
  "demo_catalog = load_catalog [JObj [(''id'', JStr ''s1''), (''name'', JStr ''blueprint''), (''plans'', JArr [
     JObj [(''id'', JStr ''p1''), (''name'', JStr ''small''), (''manager'', JObj [(''name'', JStr ''docker''), (''async'', JBool True)])],
     JObj [(''id'', JStr ''p2''), (''name'', JStr ''large''), (''manager'', JObj [(''name'', JStr ''director''),
       (''settings'', JObj [(''update_predecessors'', JArr [JStr ''p1''])])])]])]]"

definition demo_broker :: "ref_world broker" where
  "demo_broker = \<lparr>api = ref_env osb_config osb_crd, catalog = demo_catalog, sha224Sum = (\<lambda>s. s),
     template = (\<lambda>t c. Inr t), poll_fuel = 876\<rparr>"

definition demo_gateway :: "ref_world gateway" where
  "demo_gateway = \<lparr>broker_of = demo_broker, ajv = (\<lambda>ms s v. Inr []), axios = (\<lambda>o'. reject TypeError),
     uuidV4 = resolve ''f1'', in_pod = True\<rparr>"

definition demo_request :: "string \<Rightarrow> request" where
  "demo_request m = \<lparr>params = JObj [(''instance_id'', JStr ''i1''), (''binding_id'', JStr ''b1'')],
     query = JObj [(''accepts_incomplete'', JStr ''true''), (''plan_id'', JStr ''p1'')],
     body = JObj [(''plan_id'', JStr ''p1''), (''service_id'', JStr ''s1'')], headers = JObj [], http_method = m,
     user = None, serviceFlow = None\<rparr>"

abbreviation "demo_start \<equiv> \<lparr>ref_log = [], ref_clock = 0\<rparr>"

abbreviation "demo_put \<equiv> putInstance demo_broker (demo_request ''PUT'') demo_start"

definition demo_created :: ref_world where
  "demo_created = snd demo_put"

lemma ref_broker_api:
  assumes "api br = ref_env cfg crd" shows "broker_api br ref_store ref_used"
proof (rule broker_api.intro)
  show "k8s_api (api br) ref_store ref_used" unfolding assms by (rule ref.k8s_api_axioms)
  have "namespaced (ref_store (w\<lparr>ref_log := ((g, v, [], p, n), e) # ref_log w\<rparr>)) = namespaced (ref_store w)" for w g v p n e
    by (auto simp: namespaced_def ref_store_def fun_eq_iff)
  then show "broker_api_axioms br ref_store"
    by unfold_locales (auto simp: assms ref_env_def ref_create_def ref_write_def split: option.splits if_splits json.splits)
qed

interpretation demo: broker_api demo_broker ref_store ref_used
  by (rule ref_broker_api) (simp add: demo_broker_def)

lemma demo_put_reply: "demo_put = (Resolved (the_resolved (fst demo_put)), demo_created)"
  "reply_status (the_resolved (fst demo_put)) = Some HTTP_ACCEPTED"
proof -
  have "case fst demo_put of Resolved _ \<Rightarrow> True | _ \<Rightarrow> False" by code_simp
  then show "demo_put = (Resolved (the_resolved (fst demo_put)), demo_created)"
    by (cases demo_put) (auto simp: demo_created_def the_resolved_def split: outcome.splits)
  show "reply_status (the_resolved (fst demo_put)) = Some HTTP_ACCEPTED" by code_simp
qed

lemma demo_plan:
  "getPlan (catalog demo_broker) (jprop (body (demo_request ''PUT'')) ''plan_id'') = Inr (hd demo_catalog, hd (sv_plans (hd demo_catalog)))"
  "\<not> has_template (hd (sv_plans (hd demo_catalog)))"
  by code_simp+

lemma demo_instance:
  "instance_object demo_broker ref_store (demo_request m) demo_created =
     Some (the (instance_object demo_broker ref_store (demo_request ''PUT'') demo_created))"
  "in_states BUSY_STATES (parse_resource (the (instance_object demo_broker ref_store (demo_request ''PUT'') demo_created)))"
proof -
  have n: "k8s_name demo_broker (demo_request m) ''instance_id'' = getKubernetesName (sha224Sum demo_broker) ''i1''" for m
    by (simp add: k8s_name_def param_def demo_request_def str_of_def)
  have "instance_object demo_broker ref_store (demo_request m) demo_created = instance_object demo_broker ref_store (demo_request ''PUT'') demo_created"
    by (simp only: instance_object_def n)
  moreover have "instance_object demo_broker ref_store (demo_request ''PUT'') demo_created =
     Some (the (instance_object demo_broker ref_store (demo_request ''PUT'') demo_created))" by code_simp
  ultimately show "instance_object demo_broker ref_store (demo_request m) demo_created =
     Some (the (instance_object demo_broker ref_store (demo_request ''PUT'') demo_created))" by simp
  show "in_states BUSY_STATES (parse_resource (the (instance_object demo_broker ref_store (demo_request ''PUT'') demo_created)))"
    by code_simp
qed

text \<open>A broker over the reference server that has the lock of an instance.\<close>

definition lock_broker :: "ref_world broker" where
  "lock_broker = \<lparr>api = demo_env, catalog = demo_catalog, sha224Sum = (\<lambda>s. s), template = (\<lambda>t c. Inr t), poll_fuel = 876\<rparr>"

definition lock_gateway :: "ref_world gateway" where
  "lock_gateway = \<lparr>broker_of = lock_broker, ajv = (\<lambda>ms s v. Inr []), axios = (\<lambda>o'. reject TypeError),
     uuidV4 = resolve ''f1'', in_pod = True\<rparr>"

definition lock_request :: request where
  "lock_request = (demo_request ''DELETE'')\<lparr>body := JObj [], query := JObj [(''plan_id'', JStr ''p2'')]\<rparr>"

interpretation locked_demo: broker_api lock_broker ref_store ref_used
  by (rule ref_broker_api) (simp add: lock_broker_def)

section \<open>Creating an instance\<close>



text \<open>C12. A \<open>PUT\<close> for an instance that exists never overwrites it, however the run ends: no object in a namespace changes
  (without \<open>enable_namespaced_separation\<close> no object at all), the run comes back, and its only answer is 409; it may
  fail instead, as it does for an unknown plan, a label that is not valid or an API server that is not
  reachable. Where the plan is known, the labels are valid and the API server turns the creation of the namespace or of
  the instance down as a conflict, the answer is the 409.\<close>

theorem existing_instance_is_kept:
  assumes "broker_api br store used" and "instance_object br store req w = Some b" and "putInstance br req w = (q, w')"
  shows "namespaced (store w') = namespaced (store w) \<and>
    (\<not> truthy (conf (api br) [''apiserver'', ''enable_namespaced_separation'']) \<longrightarrow> store w' = store w) \<and>
    (q = Resolved (Send HTTP_CONFLICT (JObj [])) \<or> (\<exists>e. q = Rejected e)) \<and>
    ((\<exists>sv plan e w1. getPlan (catalog br) (jprop (body req) ''plan_id'') = Inr (sv, plan) \<and>
        check_labels (instance_labels (api br) req) = Inr () \<and> instanceof CConflict e \<and>
        then_do (createNamespace (api br) (getNamespaceId (api br) (k8s_name br req ''instance_id'')))
          (\<lambda>_. createOSBResource (api br) (create_instance_opts br req)) w = (Rejected e, w1)) \<longrightarrow>
     q = Resolved (Send HTTP_CONFLICT (JObj [])))"
proof (intro conjI impI; (elim exE conjE)?)
  fix sv plan e w1
  assume "getPlan (catalog br) (jprop (body req) ''plan_id'') = Inr (sv, plan)"
    and "check_labels (instance_labels (api br) req) = Inr ()" and "instanceof CConflict e"
    and "then_do (createNamespace (api br) (getNamespaceId (api br) (k8s_name br req ''instance_id'')))
          (\<lambda>_. createOSBResource (api br) (create_instance_opts br req)) w = (Rejected e, w1)"
  then have "putInstance br req w = (Resolved (Send HTTP_CONFLICT (JObj [])), w1)"
    by (intro broker_api.put_instance_conflict [OF assms(1)])
  with assms(3) show "q = Resolved (Send HTTP_CONFLICT (JObj []))" by simp
qed (use broker_api.put_instance_exists [OF assms] in blast)+

theorem existing_instance_is_kept_witness:
  "fst (putInstance demo_broker (demo_request ''PUT'') demo_created) = Resolved (Send HTTP_CONFLICT (JObj [])) \<and>
   ref_store (snd (putInstance demo_broker (demo_request ''PUT'') demo_created)) = ref_store demo_created"
proof -
  have "case fst (putInstance demo_broker (demo_request ''PUT'') demo_created) of Resolved _ \<Rightarrow> True | _ \<Rightarrow> False" by code_simp
  then obtain r w' where r: "putInstance demo_broker (demo_request ''PUT'') demo_created = (Resolved r, w')"
    by (cases "putInstance demo_broker (demo_request ''PUT'') demo_created") (auto split: outcome.splits)
  have "\<not> truthy (conf (api demo_broker) [''apiserver'', ''enable_namespaced_separation''])" by code_simp
  then show ?thesis using existing_instance_is_kept [OF demo.broker_api_axioms demo_instance(1) r] r by simp
qed

text \<open>C13. A \<open>PUT\<close> always comes back, whatever the API server answers, as long as each single call to it ends and the
  clock goes on while a timer runs: the polls of a synchronous operation end
  after 175 seconds and those for the dashboard after 50, so that 876 rounds of polling are enough.\<close>

theorem put_instance_returns:
  assumes "broker_api br store used" and "876 \<le> poll_fuel br"
  shows "fst (putInstance br req w) \<noteq> Pending"
  using broker_api.put_instance_settles [OF assms] by (metis prod.collapse)

theorem put_instance_returns_witness: "fst demo_put \<noteq> Pending"
proof (rule put_instance_returns [OF demo.broker_api_axioms])
  show "876 \<le> poll_fuel demo_broker" by (simp add: demo_broker_def)
qed

section \<open>One operation at a time\<close>

text \<open>C9. An instance with an operation under way is left alone where concurrent operations are not allowed
  (\<open>allowConcurrentOperations\<close> not \<open>true\<close>; where it is, the check is switched off): while its state is one of the
  busy ones, every update or deletion of the instance and every creation or deletion of a binding comes back, is turned
  away with an error before the handler, and no stored object changes. The quota service, which an update asks, is
  taken to answer every request and to leave the objects of the API server alone.\<close>

theorem busy_instance_is_left_alone:
  assumes "broker_api (broker_of gw) store used" and "quota_service_apart gw store"
    and "conf (api (broker_of gw)) [''allowConcurrentOperations''] \<noteq> Some (JBool True)"
    and "instance_object (broker_of gw) store req w = Some b" and "in_states BUSY_STATES (parse_resource b)"
    and "route = instance_route \<and> http_method req \<in> {''PATCH'', ''DELETE''} \<or>
         route = binding_route \<and> http_method req \<in> {''PUT'', ''DELETE''}"
  shows "\<exists>a w'. route gw req w = (Resolved a, w') \<and> turned_away a \<and> store w' = store w"
  using assms(6) broker_api.busy_instance_route [OF assms(1) refl assms(2-5)] broker_api.busy_binding_route [OF assms(1) refl assms(3-5)]
  by fastforce

theorem busy_instance_is_left_alone_witness:
  "\<exists>a w'. instance_route demo_gateway (demo_request ''DELETE'') demo_created = (Resolved a, w') \<and> turned_away a \<and>
     ref_store w' = ref_store demo_created"
proof -
  have br: "broker_of demo_gateway = demo_broker" by (simp add: demo_gateway_def)
  have h1: "broker_api (broker_of demo_gateway) ref_store ref_used" unfolding br by (rule demo.broker_api_axioms)
  have q: "quota_service_apart demo_gateway ref_store"
    by (simp add: quota_service_apart_def demo_gateway_def promise_simps)
  have h2: "conf (api (broker_of demo_gateway)) [''allowConcurrentOperations''] \<noteq> Some (JBool True)" by code_simp
  have h3: "instance_object (broker_of demo_gateway) ref_store (demo_request ''DELETE'') demo_created =
     Some (the (instance_object demo_broker ref_store (demo_request ''PUT'') demo_created))" unfolding br by (rule demo_instance(1))
  show ?thesis
    by (rule busy_instance_is_left_alone [OF h1 q h2 h3 demo_instance(2)]) (simp add: demo_request_def)
qed

text \<open>C10. The lock around a handler: while another operation holds the lock of an instance of a director plan, a
  create, update or delete request is turned away, its handler (whatever it is) is not run, and no stored object
  changes.\<close>

theorem locked_instance_is_left_alone:
  assumes "broker_api (broker_of gw) store used" and "chosen_flow gw req op w = (Resolved flow, w)"
    and "getPlanFromRequest (broker_of gw) req = Inr (sv, plan)" and "is_director_plan plan = Inr True"
    and "op \<in> set LIFECYCLE" and "jprop (params req) ''instance_id'' = Some (JStr i)"
    and "lock_object (api (broker_of gw)) store i w = Some b"
    and "lock_held (api (broker_of gw)) (now (api (broker_of gw)) w) (parse_resource b)"
    and "handleWithResourceLocking gw fn op req w = (Resolved a, w')"
  shows "turned_away a \<and> store w' = store w"
  using broker_api.locked_handler [OF assms(1) refl assms(2-9)] .

theorem locked_instance_is_left_alone_witness:
  "\<exists>a. fst (handleWithResourceLocking lock_gateway (\<lambda>_. resolve NoReply) ''delete'' lock_request (demo_locked 5)) = Resolved a \<and> turned_away a"
proof -
  have br: "broker_of lock_gateway = lock_broker" by (simp add: lock_gateway_def)
  let ?h = "handleWithResourceLocking lock_gateway (\<lambda>_. resolve NoReply) ''delete'' lock_request (demo_locked 5)"
  have "case fst ?h of Resolved _ \<Rightarrow> True | _ \<Rightarrow> False" by code_simp
  then obtain a w' where a: "?h = (Resolved a, w')" by (cases ?h) (auto split: outcome.splits)
  have h1: "broker_api (broker_of lock_gateway) ref_store ref_used" unfolding br by (rule locked_demo.broker_api_axioms)
  have h2: "chosen_flow lock_gateway lock_request ''delete'' (demo_locked 5) = (Resolved None, demo_locked 5)"
    by (simp add: chosen_flow_def promise_simps)
  have h3: "getPlanFromRequest (broker_of lock_gateway) lock_request = Inr (hd demo_catalog, last (sv_plans (hd demo_catalog)))"
    "is_director_plan (last (sv_plans (hd demo_catalog))) = Inr True" "''delete'' \<in> set LIFECYCLE"
    "jprop (params lock_request) ''instance_id'' = Some (JStr ''i1'')" by code_simp+
  have api: "api (broker_of lock_gateway) = demo_env" by (simp add: lock_gateway_def lock_broker_def)
  have h4: "lock_object (api (broker_of lock_gateway)) ref_store ''i1'' (demo_locked 5) =
      Some (the (lock_object demo_env ref_store ''i1'' (demo_locked 5)))"
    "lock_held (api (broker_of lock_gateway)) (now (api (broker_of lock_gateway)) (demo_locked 5))
      (parse_resource (the (lock_object demo_env ref_store ''i1'' (demo_locked 5))))"
    unfolding api demo_held(3) using demo_held(1,2) by simp_all
  from locked_instance_is_left_alone [OF h1 h2 h3 h4 a] a show ?thesis by (metis fst_conv)
qed

end
