(* ===== verification/Broker_Answers.thy ===== *)
theory Broker_Answers
  imports Broker_Properties
begin

text \<open>
  Properties of the answers of the broker: operation tokens, the states it shows, updates between plans,
  what is fetched, and what the catalog reveals.
\<close>

section \<open>Operation tokens\<close>

lemma json_wf_token:
  "json_wf (obj ([(''type'', Some (JStr t))] @ (case f of None \<Rightarrow> [] | Some (i, n) \<Rightarrow>
     [(''serviceflow_name'', Some (JStr n)), (''serviceflow_id'', Some (JStr i))])))"
  by (auto simp: obj_def List.map_filter_simps split: option.splits)

text \<open>C17. The operation token that an update hands to the platform is the key to its own progress: polled with it,
  \<open>getLastInstanceOperation\<close> finds type \<open>update\<close> and the identifier of the service flow that the update started,
  and so reads the resource that \<open>start_update\<close> created.\<close>

theorem update_token_roundtrip:
  assumes "jprop (query poll) ''operation'' = Some (update_operation req)"
  shows "\<exists>operation. decode_operation poll = Inr operation \<and> jprop operation ''type'' = Some (JStr ''update'') \<and>
    jprop operation ''serviceflow_id'' = map_option (JStr \<circ> fst) (serviceFlow req)"
proof -
  let ?o = "obj ([(''type'', Some (JStr ''update''))] @ (case serviceFlow req of None \<Rightarrow> [] | Some (i, n) \<Rightarrow>
     [(''serviceflow_name'', Some (JStr n)), (''serviceflow_id'', Some (JStr i))]))"
  have "decode_operation poll = Inr ?o"
    using assms decode_encode [OF json_wf_token [of "''update''" "serviceFlow req"]]
    by (simp add: decode_operation_def update_operation_def operation_token_def)
  then show ?thesis by (auto simp: json_simps split: option.splits)
qed

theorem update_token_roundtrip_witness:
  "\<exists>operation. decode_operation ((demo_request ''GET'')\<lparr>query := JObj [(''operation'',
       update_operation ((demo_request ''PATCH'')\<lparr>serviceFlow := Some (''f1'', ''upgrade_to_multi_az'')\<rparr>))]\<rparr>) = Inr operation \<and>
     jprop operation ''serviceflow_id'' = Some (JStr ''f1'')"
  using update_token_roundtrip [of "(demo_request ''GET'')\<lparr>query := JObj [(''operation'',
       update_operation ((demo_request ''PATCH'')\<lparr>serviceFlow := Some (''f1'', ''upgrade_to_multi_az'')\<rparr>))]\<rparr>"
      "(demo_request ''PATCH'')\<lparr>serviceFlow := Some (''f1'', ''upgrade_to_multi_az'')\<rparr>"] by auto

section \<open>Updates between plans\<close>

text \<open>C18. An update goes through only between plans of one service that are the same or related: the plan exists,
  the previous plan is a plan of its service, and it is the plan itself or one of its update predecessors.\<close>

theorem update_needs_predecessor:
  assumes "patchInstance br req w = (Resolved r, w')"
  shows "\<exists>sv plan previous. getPlan (catalog br) (jprop (body req) ''plan_id'') = Inr (sv, plan) \<and>
    previous \<in> set (sv_plans sv) \<and> jprop previous ''id'' = jget (Some (body req)) [''previous_values'', ''plan_id''] \<and>
    (previous = plan \<or> jprop previous ''id'' \<in> Some ` set (elems_of (updatePredecessors plan)))"
proof -
  from assms obtain sv plan p where pl: "getPlan (catalog br) (jprop (body req) ''plan_id'') = Inr (sv, plan)"
    and p: "path_of (Some (body req)) [''previous_values'', ''plan_id''] = Some p"
    and up: "isUpdatePossible sv plan p = Inr True"
    by (auto simp: patchInstance_def promise_iffs split: prod.splits)
  have j: "jget (Some (body req)) [''previous_values'', ''plan_id''] = p" by (rule path_of_jget [OF p])
  have pre: "path_of (Some plan) [''manager'', ''settings'', ''update_predecessors''] = Some ps \<Longrightarrow> ps = updatePredecessors plan" for ps
    unfolding updatePredecessors_def plan_manager_def by (drule path_of_jget) (rule sym)
  obtain previous where f: "find (\<lambda>q. jprop q ''id'' = p) (sv_plans sv) = Some previous"
    and rel: "previous = plan \<or> p \<in> Some ` set (elems_of (updatePredecessors plan))"
    using up by (auto simp: isUpdatePossible_def simp del: path_of.simps dest!: pre split: option.splits if_splits)
  have "previous \<in> set (sv_plans sv)" "jprop previous ''id'' = p" using f by (auto simp: find_Some_iff)
  with pl j rel show ?thesis
    by (intro exI [of _ sv] exI [of _ plan] exI [of _ previous] conjI) (simp_all del: jget.simps)
qed

definition demo_patch :: request where
  "demo_patch = (demo_request ''PATCH'')\<lparr>body := JObj [(''plan_id'', JStr ''p2''), (''previous_values'', JObj [(''plan_id'', JStr ''p1'')])]\<rparr>"

definition patch_broker :: "ref_world broker" where
  "patch_broker = demo_broker\<lparr>catalog := map (sv_plans_update (map (jset [''manager'', ''async''] (JBool True)))) demo_catalog\<rparr>"

theorem update_needs_predecessor_witness:
  "\<exists>sv plan previous. getPlan (catalog patch_broker) (Some (JStr ''p2'')) = Inr (sv, plan) \<and>
    previous \<in> set (sv_plans sv) \<and> jprop previous ''id'' = Some (JStr ''p1'') \<and>
    (previous = plan \<or> jprop previous ''id'' \<in> Some ` set (elems_of (updatePredecessors plan)))"
proof -
  have "case fst (patchInstance patch_broker demo_patch demo_created) of Resolved _ \<Rightarrow> True | _ \<Rightarrow> False" by code_simp
  then obtain r w' where "patchInstance patch_broker demo_patch demo_created = (Resolved r, w')"
    by (cases "patchInstance patch_broker demo_patch demo_created") (auto split: outcome.splits)
  from update_needs_predecessor [OF this] show ?thesis by (simp add: demo_patch_def)
qed

section \<open>Labels\<close>

lemma check_labels_iff: "check_labels kvs = Inr u \<longleftrightarrow> list_all (\<lambda>(k, v). isValidKubernetesLabelValue v) kvs"
  by (induction kvs rule: check_labels.induct) auto

text \<open>C19. No instance is created with a label that the API server would not take: when \<open>putInstance\<close> answers at all,
  every label it derives from the request, the context, the namespace and the region is a valid label value.\<close>

theorem created_labels_are_valid:
  assumes "putInstance br req w = (Resolved r, w')"
  shows "list_all (\<lambda>(k, v). isValidKubernetesLabelValue v) (instance_labels (api br) req)"
  using assms by (auto simp: putInstance_def promise_iffs check_labels_iff)

theorem created_labels_are_valid_witness:
  "list_all (\<lambda>(k, v). isValidKubernetesLabelValue v) (instance_labels (api demo_broker) (demo_request ''PUT''))"
  by (rule created_labels_are_valid [OF demo_put_reply(1)])

section \<open>The catalog\<close>

lemma prop_pick_in_order: "jprop (pick_in_order ks j) k = (if k \<in> set ks then jprop j k else None)"
  by (induction ks) (auto simp: pick_in_order_def json_simps)

lemma internal_plan_toJSON: "is_internal (plan_toJSON p) = is_internal p"
  by (auto simp: is_internal_def plan_toJSON_def Let_def json_simps prop_pick_in_order PLAN_KEYS_def split: option.splits)

lemma internal_service_json: "is_internal (service_json sv) = is_internal (sv_options sv)"
  by (simp add: is_internal_def service_json_def json_simps prop_pick_in_order SERVICE_KEYS_def)

lemma sequence_sum_map: "sequence_sum (map f xs) = Inr ys \<Longrightarrow> y \<in> set ys \<Longrightarrow> \<exists>x \<in> set xs. f x = Inr y"
  by (induction xs arbitrary: ys) (auto split: sum.splits)

text \<open>C20. What a platform sees of the catalog: of every service only its public form, no service and no plan whose
  name marks it as internal to the fabrik, and none that does not support the platform.\<close>

theorem catalog_hides_internal:
  assumes "catalog_toJSON (getCatalogForPlatform cat platform) = Inr j" and "s \<in> set (elems_of (jprop j ''services''))"
  shows "\<not> is_internal s \<and> (\<forall>p \<in> set (elems_of (jprop s ''plans'')). \<not> is_internal p) \<and>
    (\<exists>sv \<in> set cat. supports_platform platform (sv_options sv) \<and>
       (\<forall>p \<in> set (elems_of (jprop s ''plans'')). \<exists>q \<in> set (sv_plans sv). p = plan_toJSON q \<and> supports_platform platform q))"
proof -
  from assms(1) obtain svs js where svs: "public_services (getCatalogForPlatform cat platform) = Inr svs"
    and js: "sequence_sum (map service_toJSON svs) = Inr js" "j = JObj [(''services'', JArr js)]"
    by (auto simp: catalog_toJSON_def map_sum_Inr_iff split: sum.splits)
  then have "s \<in> set js" using assms(2) by simp
  from sequence_sum_map [OF js(1) this] obtain sv' where sv': "sv' \<in> set svs" "s = service_json sv'"
    by (auto simp: service_toJSON_def split: if_splits)
  then have "\<not> is_internal (sv_options sv')" "sv' \<in> set (getCatalogForPlatform cat platform)"
    using svs by (auto simp: public_services_def split: if_splits)
  moreover from this(2) obtain sv where "sv \<in> set cat" "supports_platform platform (sv_options sv)"
    "sv_options sv' = sv_options sv" "sv_plans sv' = filter (supports_platform platform) (sv_plans sv)"
    by (auto simp: getCatalogForPlatform_def)
  moreover have "elems_of (jprop s ''plans'') = map plan_toJSON (filter (\<lambda>p. \<not> is_internal p) (sv_plans sv'))"
    by (simp add: sv'(2) service_json_def json_simps)
  ultimately show ?thesis by (auto simp: sv'(2) internal_service_json internal_plan_toJSON)
qed

theorem catalog_hides_internal_witness:
  "\<not> is_internal (service_json (hd demo_catalog))"
proof -
  have "catalog_toJSON (getCatalogForPlatform demo_catalog ''cf'') = Inr (JObj [(''services'', JArr [service_json (hd demo_catalog)])])"
    by code_simp
  from catalog_hides_internal [OF this, of "service_json (hd demo_catalog)"] show ?thesis by simp
qed

end
