(* ===== verification/Spec2Isabelle.thy ===== *)
theory Spec2Isabelle
  imports StatusPoller Operator_Properties CommonFunctions_Properties Broker_Answers
begin

text \<open>
  \<^bold>\<open>Service Fabrik Broker: a verification development.\<close>

  The program is an Open Service Broker. A platform (Cloud Foundry or Kubernetes) asks it over HTTP to
  create, update and delete service instances and bindings. The broker keeps no state of its own: it writes
  what is asked for into custom resources of a Kubernetes API server, and operators, possibly in several
  processes, watch these resources and carry the requests out. The hard parts are therefore shared state
  without transactions, optimistic locking by resource versions, locks that expire, loops that poll, and
  the mapping of errors to answers.

  \<^bold>\<open>How the sources are modelled.\<close> All paths are below \<open>src/broker\<close>. A value is a \<open>json\<close>, a value that may be
  \<open>undefined\<close> a \<open>jsval = json option\<close>. An asynchronous function is a promise, a function from a world to an
  outcome (\<open>Resolved\<close>, \<open>Rejected\<close> with an error of the classes of \<open>errors.js\<close>, or \<open>Pending\<close>) and the next world;
  \<open>then_do\<close>, \<open>catch_on\<close>, \<open>tap_do\<close> and \<open>finally_do\<close> chain promises the way bluebird does. The world is a type variable:
  what the sources take from outside (the clock, timers, the Kubernetes client, axios, ajv, digests, random
  identifiers, the configuration) are fields of the records \<open>env\<close>, \<open>broker\<close> and \<open>gateway\<close>. Logging is left out.

  \<^bold>\<open>The theories.\<close>
  \<^item> \<open>JS_Prelude\<close>: strings, values, lodash access and promises, with the rule collections \<open>json_simps\<close>,
    \<open>promise_simps\<close> and \<open>promise_iffs\<close> that the component proofs use. \<open>JSON_Text\<close>: \<open>JSON.stringify\<close>, \<open>JSON.parse\<close>,
    UTF-8 and base64 with their round trips. \<open>Regex\<close>: regular expressions by derivatives.
  \<^item> \<open>Errors\<close> (\<open>core/utils/src/errors.js\<close>), \<open>Retry\<close> (\<open>RetryOperation.js\<close>), \<open>CommonFunctions\<close> and
    \<open>CommonFunctions_Properties\<close> (\<open>commonFunctions.js\<close>), \<open>HttpClient\<close> (\<open>HttpClient.js\<close>).
  \<^item> \<open>ApiServer\<close> (\<open>data-access-layer/eventmesh/src/ApiServerClient.js\<close>): the client of the API server. \<open>K8s_Api\<close>: the
    locale \<open>k8s_api\<close>, the documented contract of the server, and what each client operation does under it.
    \<open>Reference_Server\<close>: a small executable server; the interpretation \<open>ref\<close> shows that it keeps the contract,
    and the witnesses run on it. \<open>Osb_Client\<close>: the operations on instances and bindings under the contract.
  \<^item> \<open>LockManager\<close>, \<open>Lock_Properties\<close> (\<open>LockManager.js\<close>): the deployment lock, alone and as a step relation of
    any number of interleaved clients.
  \<^item> \<open>BaseOperator\<close>, \<open>Operator_Properties\<close> (\<open>applications/operators/src/BaseOperator.js\<close>): the processing lock
    and the handling of watch events. \<open>StatusPoller\<close> (\<open>BaseStatusPoller.js\<close>, \<open>UnlockResourcePoller.js\<close>).
  \<^item> \<open>Catalog\<close> (\<open>core/models/src\<close>, \<open>eventmesh/src/utils/index.js\<close>), \<open>Broker\<close>
    (\<open>osb-broker/src/api-controllers/ServiceBrokerApiController.js\<close>), \<open>Broker_Routes\<close> (its middleware and routes,
    \<open>core/controllers/src\<close>, \<open>core/express-commons/src/middleware\<close>, \<open>ServiceFlowMapper.js\<close>). \<open>Broker_Facts\<close> has the locale
    \<open>broker_api\<close>, the contract of the API server for a broker (\<open>k8s_api\<close>, and that the creation of a namespace
    leaves the objects inside namespaces alone), interpreted on the reference server in
    \<open>Broker_Properties\<close>; \<open>Broker_Properties\<close> and \<open>Broker_Answers\<close> hold the properties.

  \<^bold>\<open>What is shown.\<close>
  \<^item> Locks: while one of the interleaved clients keeps the lock of an instance and it has not expired, no other client gets
    it; the runs of \<open>lock\<close> are runs of the interleaved steps; a held lock is refused and left alone; an outdated
    unlock is harmless; an unlock returns (\<open>Lock_Properties\<close>). One process at most handles an event
    (\<open>Operator_Properties\<close>). A registered resource is polled; a late poll can make it be polled twice (\<open>StatusPoller\<close>).
  \<^item> The broker: requests on busy or locked instances change nothing, an accepted instance is queued exactly as
    requested, an existing one is kept, handlers return, operation tokens, updates, labels and the catalog are as
    promised, with or without a namespace per instance (\<open>Broker_Properties\<close>, \<open>Broker_Answers\<close>).
  \<^item> The pure functions compute what they mean to: name formats, versions, masking, cron hours.

  \<^bold>\<open>Bounds and fuel.\<close> The polling loops of the client take fuel, one unit per round. The broker waits 175 s with a
  round every 200 ms for an operation and 50 s with a round every 100 ms for the scheduling, so that 876 and
  501 rounds reach the time-out; \<open>put_instance_returns\<close> shows that 876 is enough. \<open>retry\<close> takes its own
  \<open>maxAttempts\<close> as fuel. Class chains of errors have depth at most 6, masking stops at depth 5 as in the source.

  \<^bold>\<open>Not modelled.\<close> Watch streams and their registration (events of the runtime), the connection set-up, the HTTP
  server and the assets of its pages, logging and event logging, the data base, the infrastructure clients
  (cloud providers, docker, CF and UAA), the BOSH director client and the services behind the operators,
  backup and restore, the demultiplexing of container logs, the scheduler, and the admin and extension APIs. The Go code of the interoperator
  is another program.
\<close>

end
